(* ===== verification/Prelude.thy ===== *)
theory Prelude
  imports Main "HOL-Library.Char_ord" "HOL-Library.List_Lexorder" "HOL-Library.Product_Lexorder"
begin

text \<open>
  What every component shares: the exceptions of the adapter as one datatype, results as
  sums with the exception on the left, the sequencing of fallible steps, the traversal of a
  list by a fallible step, and the interface locales that several components provide (a
  transaction, a keyed table with upsert, and a cell with a revision that is written by compare-and-set).

  Exception messages are not modelled; the class and, for Meridian errors, the error code are.
\<close>

named_theorems result_simps \<open>characterisations of successful fallible computations\<close>

section \<open>Exceptions and results\<close>

datatype error_code =
    ADAPTER_FAILURE | ADAPTER_CONTRACT | CAPABILITY_FINGERPRINT | CONFIG_INVALID
  | CONFIG_SECRET_REFERENCE | DEADLINE_EXCEEDED | IDEMPOTENCY_CONFLICT | OPERATION_INVALID
  | OPERATION_RESULT_LIMIT | PHYSICAL_FINGERPRINT | RUNTIME_CLOSED | RUNTIME_STATE
  | TRANSACTION_STATE

datatype meridian_class =
    AuthenticationError | AuthorizationError | CompatibilityError | ConfigurationError
  | ConflictError | ConstraintError | LifecycleError | MeridianTimeoutError | TransactionError
  | TransientError | UnavailableError | ValidationError

datatype commit_state = KNOWN_NOT_COMMITTED | UNKNOWN_COMMIT | KNOWN_COMMITTED

text \<open>
  \<open>DriverError\<close> is an exception of the database driver with its optional SQLSTATE,
  \<open>PoolTimeout\<close> the pool's acquisition timeout, \<open>OtherException\<close> any exception outside
  these classes.
\<close>

datatype py_error =
    ValueError | TypeError | KeyError | RuntimeError | AttributeError
  | MeridianError meridian_class error_code
  | CommitOutcomeError commit_state
  | LeaseLostError | CheckpointConflict | NotFoundError
  | RegistryRevisionConflict | SchemaVersionConflict | IncompatibleSchema | ResourceNotFound
  | DriverError "string option"
  | PoolTimeout
  | OtherException

type_synonym 'a result = "py_error + 'a"

abbreviation deadline_error :: py_error where
  "deadline_error \<equiv> MeridianError MeridianTimeoutError DEADLINE_EXCEEDED"

text \<open>\<open>and_then\<close> runs a step after a fallible one; \<open>ensure\<close> is a guard that raises.\<close>

definition and_then :: "'e + 'a \<Rightarrow> ('a \<Rightarrow> 'e + 'b) \<Rightarrow> 'e + 'b" where
  "and_then m f = (case m of Inl e \<Rightarrow> Inl e | Inr x \<Rightarrow> f x)"

definition ensure :: "bool \<Rightarrow> 'e \<Rightarrow> 'e + unit" where
  "ensure b e = (if b then Inr () else Inl e)"

lemma and_then_Inr [simp]: "and_then (Inr x) f = f x"
  and and_then_Inl [simp]: "and_then (Inl e) f = Inl e"
  by (simp_all add: and_then_def)

lemma ensure_True [simp]: "ensure True e = Inr ()"
  and ensure_False [simp]: "ensure False e = Inl e"
  by (simp_all add: ensure_def)

lemma and_then_success [result_simps]:
  "and_then m f = Inr y \<longleftrightarrow> (\<exists>x. m = Inr x \<and> f x = Inr y)"
  by (cases m) simp_all

lemma and_then_failure [result_simps]:
  "and_then m f = Inl e \<longleftrightarrow> m = Inl e \<or> (\<exists>x. m = Inr x \<and> f x = Inl e)"
  by (cases m) auto

lemma ensure_success [result_simps]: "ensure b e = Inr u \<longleftrightarrow> b"
  by (simp add: ensure_def)

lemma ensure_failure [result_simps]: "ensure b e = Inl e' \<longleftrightarrow> \<not> b \<and> e' = e"
  by (auto simp: ensure_def)

lemma and_then_cong [fundef_cong]:
  "m = m' \<Longrightarrow> (\<And>x. m' = Inr x \<Longrightarrow> f x = g x) \<Longrightarrow> and_then m f = and_then m' g"
  by (cases m') auto

text \<open>A comprehension whose body may raise: the first failure stops it.\<close>

fun traverse :: "('a \<Rightarrow> 'e + 'b) \<Rightarrow> 'a list \<Rightarrow> 'e + 'b list" where
  "traverse f [] = Inr []"
| "traverse f (x # xs) = and_then (f x) (\<lambda>y. and_then (traverse f xs) (\<lambda>ys. Inr (y # ys)))"

lemma traverse_cong [fundef_cong]:
  "xs = ys \<Longrightarrow> (\<And>x. x \<in> set ys \<Longrightarrow> f x = g x) \<Longrightarrow> traverse f xs = traverse g ys"
  by (induction xs arbitrary: ys) auto

lemma traverse_success:
  "traverse f xs = Inr ys \<longleftrightarrow> list_all2 (\<lambda>x y. f x = Inr y) xs ys"
proof (induction xs arbitrary: ys)
  case Nil
  then show ?case by auto
next
  case (Cons x xs)
  then show ?case by (cases ys) (auto simp: result_simps)
qed

lemma traverse_length: "traverse f xs = Inr ys \<Longrightarrow> length ys = length xs"
  by (auto simp: traverse_success dest: list_all2_lengthD)

lemma traverse_all:
  assumes "traverse f xs = Inr ys" and "\<And>x y. x \<in> set xs \<Longrightarrow> f x = Inr y \<Longrightarrow> P y"
  shows "\<forall>y \<in> set ys. P y"
  using assms
proof (induction xs arbitrary: ys)
  case (Cons x xs)
  then obtain y ys' where y: "f x = Inr y" "traverse f xs = Inr ys'" "ys = y # ys'"
    by (auto simp: result_simps)
  from y(1) have "P y" using Cons.prems(2) [of x] by simp
  moreover from y(2) have "\<forall>z \<in> set ys'. P z"
    using Cons.prems(2) by (intro Cons.IH) auto
  ultimately show ?case using y(3) by simp
qed simp

lemma traverse_each: "traverse f xs = Inr ys \<Longrightarrow> x \<in> set xs \<Longrightarrow> \<exists>y \<in> set ys. f x = Inr y"
  by (induction xs arbitrary: ys) (auto simp: result_simps)

lemma traverse_Inr_map: "(\<And>x. x \<in> set xs \<Longrightarrow> f x = Inr (g x)) \<Longrightarrow> traverse f xs = Inr (map g xs)"
  by (induction xs) auto

definition starts_with :: "string \<Rightarrow> string \<Rightarrow> bool" where
  "starts_with p s = (take (length p) s = p)"

lemma starts_with_append [simp]: "starts_with p (p @ s)"
  by (simp add: starts_with_def)

section \<open>A transaction\<close>

text \<open>
  What every component that writes several rows promises: a failure leaves the state as it was. An invariant
  then only has to be shown for the runs that succeed.
\<close>

locale transactional =
  fixes run :: "'s \<Rightarrow> ('e + 'r) \<times> 's"
  assumes rolls_back: "run s = (Inl e, s') \<Longrightarrow> s' = s"
begin

lemma failed_keeps: "fst (run s) = Inl e \<Longrightarrow> snd (run s) = s"
  using rolls_back by (cases "run s") auto

lemma preserves: "P s \<Longrightarrow> (\<And>r s'. run s = (Inr r, s') \<Longrightarrow> P s') \<Longrightarrow> P (snd (run s))"
proof (cases "fst (run s)")
  case (Inl e)
  then show "P s \<Longrightarrow> P (snd (run s))" using failed_keeps by simp
next
  case (Inr r)
  then show "(\<And>r s'. run s = (Inr r, s') \<Longrightarrow> P s') \<Longrightarrow> P (snd (run s))" by (metis prod.collapse)
qed

end

section \<open>A keyed table with upsert\<close>

text \<open>
  The shape of every metadata table the adapter keeps (outbox state, checkpoints, schema
  registry, evidence replay): one row per key, and a write that touches one key only.
\<close>

locale keyed_table =
  fixes lookup_row :: "'t \<Rightarrow> 'k \<Rightarrow> 'r option"
    and store_row :: "'k \<Rightarrow> 'r \<Rightarrow> 't \<Rightarrow> 't"
  assumes lookup_store: "lookup_row (store_row k r t) k' = (if k' = k then Some r else lookup_row t k')"
begin

lemma lookup_stored: "lookup_row (store_row k r t) k = Some r"
  by (simp add: lookup_store)

lemma lookup_other: "k' \<noteq> k \<Longrightarrow> lookup_row (store_row k r t) k' = lookup_row t k'"
  by (simp add: lookup_store)

lemma store_keeps:
  "(\<And>x. lookup_row t k' = Some x \<Longrightarrow> P x) \<Longrightarrow> P r \<Longrightarrow>
   lookup_row (store_row k r t) k' = Some x \<Longrightarrow> P x"
  by (auto simp: lookup_store split: if_splits)

end

section \<open>A cell with a revision, written by compare-and-set\<close>

text \<open>
  The contract shared by the outbox checkpoint and by the schema registry. A write with an
  expected revision fails unless the revision is the expected one; a successful write either
  changes nothing or installs a new content under the next revision.
\<close>

locale cas_cell =
  fixes revision_of :: "'s \<Rightarrow> int"
    and expected_of :: "'q \<Rightarrow> int option"
    and cas_write :: "'q \<Rightarrow> 's \<Rightarrow> 'e + 's"
  assumes write_step: "cas_write q s = Inr s' \<Longrightarrow> s' = s \<or> revision_of s' = revision_of s + 1"
    and write_expected: "expected_of q = Some n \<Longrightarrow> cas_write q s = Inr s' \<Longrightarrow> n = revision_of s"
begin

text \<open>Running requests in sequence; a failed request leaves the cell as it was.\<close>

fun run :: "'q list \<Rightarrow> 's \<Rightarrow> 's" where
  "run [] s = s"
| "run (q # qs) s = (case cas_write q s of Inl e \<Rightarrow> run qs s | Inr s' \<Rightarrow> run qs s')"

lemma write_mono: "cas_write q s = Inr s' \<Longrightarrow> revision_of s \<le> revision_of s'"
  using write_step by fastforce

lemma run_mono: "revision_of s \<le> revision_of (run qs s)"
proof (induction qs arbitrary: s)
  case (Cons q qs)
  then show ?case
    by (auto split: sum.splits intro: order_trans [OF write_mono])
qed simp

lemma run_bounded: "revision_of (run qs s) \<le> revision_of s + int (length qs)"
proof (induction qs arbitrary: s)
  case (Cons q qs)
  show ?case
  proof (cases "cas_write q s")
    case (Inl e)
    then show ?thesis using Cons [of s] by simp
  next
    case (Inr s')
    then show ?thesis using Cons [of s'] write_step [OF Inr] by auto
  qed
qed simp

text \<open>
  No lost update: once a request that expected revision n has changed the cell, every later
  request that expects n fails, whatever ran in between.
\<close>

lemma no_lost_update:
  assumes first: "expected_of q = Some n" "cas_write q s = Inr s'" "s' \<noteq> s"
    and second: "expected_of q' = Some n"
  shows "\<exists>e. cas_write q' (run qs s') = Inl e"
proof (cases "cas_write q' (run qs s')")
  case (Inr t)
  from second Inr have "n = revision_of (run qs s')" by (rule write_expected)
  moreover from first(1,2) have "n = revision_of s" by (rule write_expected)
  moreover from first(2,3) have "revision_of s' = revision_of s + 1"
    using write_step by blast
  ultimately show ?thesis using run_mono [of s' qs] by simp
qed simp

end

end
