(* ===== verification/PyValue.thy ===== *)
theory PyValue
  imports Complex_Main Prelude
begin

text \<open>
  The Python values that cross the adapter's boundary (binding settings, operation inputs, rows),
  as one datatype, with the dictionary operations of the code on association lists: a dictionary
  keeps its insertion order and has one entry per key. Strings are lists of characters (the code's
  patterns only use ASCII). Floats are exact rationals or one of the three special values;
  \<open>POther\<close> is any other object, by a number that identifies it.
\<close>

datatype pyfloat = Finite rat | PosInf | NegInf | NotANumber

datatype pyval =
    PNone
  | PBool bool
  | PInt int
  | PFloat pyfloat
  | PDecimal pyfloat
  | PStr string
  | PBytes "nat list"
  | PSeq "pyval list"
  | PMap "(pyval \<times> pyval) list"
  | POther nat

section \<open>Dictionaries\<close>

type_synonym 'v dict = "(string \<times> 'v) list"

definition keys :: "('k \<times> 'v) list \<Rightarrow> 'k list" where
  "keys d = map fst d"

definition dict_wf :: "('k \<times> 'v) list \<Rightarrow> bool" where
  "dict_wf d \<longleftrightarrow> distinct (keys d)"

definition dict_get :: "'k \<Rightarrow> 'v \<Rightarrow> ('k \<times> 'v) list \<Rightarrow> 'v" where
  "dict_get k v0 d = (case map_of d k of Some v \<Rightarrow> v | None \<Rightarrow> v0)"

definition dict_item :: "'k \<Rightarrow> ('k \<times> 'v) list \<Rightarrow> 'v result" where
  "dict_item k d = (case map_of d k of Some v \<Rightarrow> Inr v | None \<Rightarrow> Inl KeyError)"

fun dict_set :: "'k \<Rightarrow> 'v \<Rightarrow> ('k \<times> 'v) list \<Rightarrow> ('k \<times> 'v) list" where
  "dict_set k v [] = [(k, v)]"
| "dict_set k v ((k', v') # d) = (if k' = k then (k, v) # d else (k', v') # dict_set k v d)"

lemma map_of_dict_set [simp]: "map_of (dict_set k v d) = (map_of d)(k \<mapsto> v)"
  by (induction k v d rule: dict_set.induct) auto

lemma keys_dict_set: "set (keys (dict_set k v d)) = insert k (set (keys d))"
  by (induction k v d rule: dict_set.induct) (auto simp: keys_def)

lemma keys_dict_set_new: "k \<notin> set (keys d) \<Longrightarrow> keys (dict_set k v d) = keys d @ [k]"
  by (induction k v d rule: dict_set.induct) (auto simp: keys_def)

lemma keys_dict_set_old: "k \<in> set (keys d) \<Longrightarrow> keys (dict_set k v d) = keys d"
  by (induction k v d rule: dict_set.induct) (auto simp: keys_def)

lemma dict_wf_set: "dict_wf d \<Longrightarrow> dict_wf (dict_set k v d)"
  by (cases "k \<in> set (keys d)") (auto simp: dict_wf_def keys_dict_set_new keys_dict_set_old)

lemma map_of_keys: "(map_of d k = None) = (k \<notin> set (keys d))"
  by (simp add: map_of_eq_None_iff keys_def)

lemma map_of_some_key: "map_of d k = Some v \<Longrightarrow> k \<in> set (keys d)"
  using map_of_keys [of d k] by auto

lemma dict_item_success [result_simps]: "dict_item k d = Inr v \<longleftrightarrow> map_of d k = Some v"
  by (auto simp: dict_item_def split: option.splits)

section \<open>Type tests\<close>

fun is_str :: "pyval \<Rightarrow> bool" where
  "is_str (PStr _) = True" | "is_str _ = False"

fun is_mapping :: "pyval \<Rightarrow> bool" where
  "is_mapping (PMap _) = True" | "is_mapping _ = False"

text \<open>\<open>isinstance(value, Sequence)\<close> holds for lists, tuples, strings and bytes.\<close>

fun is_sequence :: "pyval \<Rightarrow> bool" where
  "is_sequence (PSeq _) = True" | "is_sequence (PStr _) = True" | "is_sequence (PBytes _) = True"
| "is_sequence _ = False"

fun str_keys :: "(pyval \<times> pyval) list \<Rightarrow> pyval dict option" where
  "str_keys [] = Some []"
| "str_keys ((PStr k, v) # d) = map_option (\<lambda>d'. (k, v) # d') (str_keys d)"
| "str_keys (_ # d) = None"

section \<open>Decimal text of a number\<close>

definition digit_char :: "nat \<Rightarrow> char" where
  "digit_char n = ''0123456789'' ! n"

function nat_text :: "nat \<Rightarrow> string" where
  "nat_text n = (if n < 10 then [digit_char n] else nat_text (n div 10) @ [digit_char (n mod 10)])"
  by pat_completeness auto
termination by (relation "measure id") auto

declare nat_text.simps [simp del]

lemma digit_char_inj: "a < 10 \<Longrightarrow> b < 10 \<Longrightarrow> digit_char a = digit_char b \<Longrightarrow> a = b"
  unfolding digit_char_def
  using nth_eq_iff_index_eq [of "''0123456789''" a b] by simp

lemma nat_text_nonempty [simp]: "nat_text n \<noteq> []"
  by (subst nat_text.simps) simp

lemma nat_text_inject [simp]: "nat_text a = nat_text b \<longleftrightarrow> a = b"
proof (induction a arbitrary: b rule: nat_text.induct)
  case (1 a)
  show ?case
  proof (cases "a < 10"; cases "b < 10")
    assume c: "\<not> a < 10" "\<not> b < 10"
    have "nat_text a = nat_text b \<longleftrightarrow>
        nat_text (a div 10) = nat_text (b div 10) \<and> digit_char (a mod 10) = digit_char (b mod 10)"
      using c by (subst (1 2) nat_text.simps) simp
    also have "\<dots> \<longleftrightarrow> a div 10 = b div 10 \<and> a mod 10 = b mod 10"
      using 1 [OF c(1)] digit_char_inj [of "a mod 10" "b mod 10"] by auto
    also have "\<dots> \<longleftrightarrow> a = b" by (metis div_mult_mod_eq)
    finally show ?thesis .
  qed (use digit_char_inj [of a b] nat_text.simps [of a] nat_text.simps [of b]
      nat_text_nonempty [of "a div 10"] nat_text_nonempty [of "b div 10"] in \<open>auto simp del: nat_text_nonempty\<close>)
qed

section \<open>Equality of JSON values\<close>

text \<open>Python's \<open>==\<close> on JSON values: booleans are numbers, and the order of a dictionary does not matter.\<close>

fun number_of :: "pyval \<Rightarrow> rat option" where
  "number_of (PBool b) = Some (if b then 1 else 0)"
| "number_of (PInt n) = Some (of_int n)"
| "number_of (PFloat (Finite q)) = Some q"
| "number_of (PDecimal (Finite q)) = Some q"
| "number_of _ = None"

lemma size_snd_less: "p \<in> set d \<Longrightarrow> size (snd p) < Suc (size_list (size_prod size size) d)"
  by (induction d) auto

lemma size_elem_less: "(x :: pyval) \<in> set xs \<Longrightarrow> size x < Suc (size_list size xs)"
  by (induction xs) auto

function (sequential) py_eq :: "pyval \<Rightarrow> pyval \<Rightarrow> bool" where
  "py_eq (PMap m) y =
     (case y of PMap n \<Rightarrow> length m = length n \<and>
        list_all (\<lambda>p. list_ex (\<lambda>q. fst p = fst q \<and> py_eq (snd p) (snd q)) n) m
      | _ \<Rightarrow> False)"
| "py_eq (PSeq xs) y =
     (case y of PSeq ys \<Rightarrow> length xs = length ys \<and> list_all (\<lambda>p. py_eq (fst p) (snd p)) (zip xs ys)
      | _ \<Rightarrow> False)"
| "py_eq x y =
     (case number_of x of
        Some q \<Rightarrow> number_of y = Some q
      | None \<Rightarrow> x = y \<and> x \<noteq> PFloat NotANumber \<and> x \<noteq> PDecimal NotANumber)"
  by pat_completeness auto
termination
  by (relation "measure (\<lambda>(x, y). size x)")
    (auto dest: size_snd_less size_elem_less set_zip_leftD)



fun nan_free :: "pyval \<Rightarrow> bool" where
  "nan_free (PMap d) = list_all (\<lambda>p. nan_free (snd p)) d"
| "nan_free (PSeq xs) = list_all nan_free xs"
| "nan_free x = (x \<noteq> PFloat NotANumber \<and> x \<noteq> PDecimal NotANumber)"

lemma py_eq_refl: "nan_free v \<Longrightarrow> py_eq v v"
proof (induction v rule: nan_free.induct)
  case (1 d)
  then have "list_ex (\<lambda>q. fst p = fst q \<and> py_eq (snd p) (snd q)) d" if "p \<in> set d" for p
    using that by (cases p) (auto simp: list_ex_iff list_all_iff intro!: bexI [of _ p])
  then show ?case by (simp add: list_all_iff)
next
  case (2 xs)
  then show ?case by (auto simp: list_all_iff in_set_zip)
qed (simp_all split: option.split)

end
