(* ===== verification/Settings.thy ===== *)
theory Settings
  imports PyValue
begin

text \<open>
  The closed binding settings of \<open>_settings.py\<close>: the parsers of fields, indexes, relations,
  resource layouts, the read-compatibility proof and the whole binding, with every check in the
  order of the code, and what an accepted layout and binding guarantee.

  \<open>ResourceRef\<close>, \<open>SchemaRef\<close>, \<open>CapabilityRequirement\<close> and \<open>ResourceDefinition\<close> belong to
  the Meridian core package: a reference is its catalog and its canonical text, and parsing one is
  the parameter \<open>parse_ref\<close>. Where the code casts a value to a string without a test
  (\<open>profile\<close>, the entries of \<open>identity\<close> and of index fields, collections) a later membership
  test rejects anything else; the model rejects it where it is read.
\<close>

section \<open>Lexical classes and closed objects\<close>

definition ident_start :: string where
  "ident_start = ''abcdefghijklmnopqrstuvwxyz_''"

definition ident_rest :: string where
  "ident_rest = ident_start @ ''0123456789''"

definition is_identifier :: "string \<Rightarrow> bool" where
  "is_identifier s =
     (case s of [] \<Rightarrow> False
      | c # cs \<Rightarrow> c \<in> set ident_start \<and> list_all (\<lambda>c. c \<in> set ident_rest) cs \<and> length cs \<le> 62)"

definition hex_digits :: string where
  "hex_digits = ''0123456789abcdef''"

definition is_fingerprint :: "string \<Rightarrow> bool" where
  "is_fingerprint s \<longleftrightarrow>
     take 7 s = ''sha256:'' \<and> length s = 71 \<and> list_all (\<lambda>c. c \<in> set hex_digits) (drop 7 s)"

fun identifier_of :: "pyval \<Rightarrow> string result" where
  "identifier_of (PStr s) = (if is_identifier s then Inr s else Inl ValueError)"
| "identifier_of _ = Inl ValueError"

fun fingerprint_of :: "pyval \<Rightarrow> string result" where
  "fingerprint_of (PStr s) = (if is_fingerprint s then Inr s else Inl ValueError)"
| "fingerprint_of _ = Inl ValueError"

fun as_mapping :: "pyval \<Rightarrow> pyval dict result" where
  "as_mapping (PMap d) = (case str_keys d of Some d' \<Rightarrow> Inr d' | None \<Rightarrow> Inl TypeError)"
| "as_mapping _ = Inl TypeError"

fun as_sequence :: "pyval \<Rightarrow> pyval list result" where
  "as_sequence (PSeq xs) = Inr xs"
| "as_sequence _ = Inl TypeError"

definition closed_object :: "string list \<Rightarrow> string list \<Rightarrow> pyval \<Rightarrow> pyval dict result" where
  "closed_object required optional v =
     and_then (as_mapping v) (\<lambda>d.
     and_then (ensure (set required \<subseteq> set (keys d) \<and> set (keys d) \<subseteq> set required \<union> set optional)
                ValueError) (\<lambda>_. Inr d))"

fun as_string :: "pyval \<Rightarrow> string result" where
  "as_string (PStr s) = Inr s"
| "as_string _ = Inl ValueError"

fun as_bool :: "pyval \<Rightarrow> bool result" where
  "as_bool (PBool b) = Inr b"
| "as_bool _ = Inl TypeError"

text \<open>An optional integer: absent or \<open>None\<close>, or an integer that is not a boolean.\<close>

fun as_optional_int :: "pyval \<Rightarrow> int option result" where
  "as_optional_int PNone = Inr None"
| "as_optional_int (PInt n) = Inr (Some n)"
| "as_optional_int _ = Inl TypeError"

definition strings_of :: "pyval \<Rightarrow> string list result" where
  "strings_of v = and_then (as_sequence v) (traverse as_string)"

lemma identifier_ok: "identifier_of v = Inr s \<Longrightarrow> is_identifier s"
  by (cases v) (auto split: if_splits)

lemma fingerprint_ok: "fingerprint_of v = Inr s \<Longrightarrow> is_fingerprint s"
  by (cases v) (auto split: if_splits)

section \<open>Fields\<close>

datatype logical_type =
    LBoolean | LBytes | LDate | LDecimal | LDuration | LEnum | LFloat64 | LInt8 | LInt16 | LInt32
  | LInt64 | LJson | LObjectRef | LRecordRef | LString | LUtcTimestamp | LUuid | LWgs84Point

definition logical_types :: "(string \<times> logical_type) list" where
  "logical_types =
     [(''boolean'', LBoolean), (''bytes'', LBytes), (''date'', LDate), (''decimal'', LDecimal),
      (''duration'', LDuration), (''enum'', LEnum), (''float64'', LFloat64), (''int8'', LInt8),
      (''int16'', LInt16), (''int32'', LInt32), (''int64'', LInt64), (''json'', LJson),
      (''objectRef'', LObjectRef), (''recordRef'', LRecordRef), (''string'', LString),
      (''utcTimestamp'', LUtcTimestamp), (''uuid'', LUuid), (''wgs84Point'', LWgs84Point)]"

datatype cardinality = One | Many

record field_layout =
  f_name :: string
  f_column :: string
  f_type :: logical_type
  f_nullable :: bool
  f_mutable :: bool
  f_cardinality :: cardinality
  f_precision :: "int option"
  f_scale :: "int option"

fun parse_logical_type :: "pyval \<Rightarrow> logical_type result" where
  "parse_logical_type (PStr s) =
     (case map_of logical_types s of Some t \<Rightarrow> Inr t | None \<Rightarrow> Inl ValueError)"
| "parse_logical_type _ = Inl ValueError"

fun parse_cardinality :: "pyval \<Rightarrow> cardinality result" where
  "parse_cardinality (PStr s) =
     (if s = ''one'' then Inr One else if s = ''many'' then Inr Many else Inl ValueError)"
| "parse_cardinality (PSeq _) = Inl TypeError"
| "parse_cardinality (PMap _) = Inl TypeError"
| "parse_cardinality _ = Inl ValueError"

definition decimal_ok :: "logical_type \<Rightarrow> int option \<Rightarrow> int option \<Rightarrow> bool" where
  "decimal_ok t precision scale =
     (if t = LDecimal
      then (case (precision, scale) of
              (Some p, Some s) \<Rightarrow> 1 \<le> p \<and> p \<le> 1000 \<and> 0 \<le> s \<and> s \<le> p
            | _ \<Rightarrow> False)
      else precision = None \<and> scale = None)"

definition field_from_mapping :: "pyval \<Rightarrow> field_layout result" where
  "field_from_mapping v =
     and_then (closed_object [''name'', ''column'', ''logicalType'', ''nullable'', ''mutable'']
                 [''cardinality'', ''precision'', ''scale''] v) (\<lambda>item.
     and_then (dict_item ''name'' item) (\<lambda>name_v.
     and_then (dict_item ''logicalType'' item) (\<lambda>type_v.
     and_then (as_string name_v) (\<lambda>name.
     and_then (ensure (name \<noteq> []) ValueError) (\<lambda>_.
     and_then (parse_logical_type type_v) (\<lambda>t.
     and_then (and_then (dict_item ''nullable'' item) as_bool) (\<lambda>nullable.
     and_then (and_then (dict_item ''mutable'' item) as_bool) (\<lambda>mutable.
     and_then (parse_cardinality (dict_get ''cardinality'' (PStr ''one'') item)) (\<lambda>card.
     and_then (as_optional_int (dict_get ''precision'' PNone item)) (\<lambda>precision.
     and_then (as_optional_int (dict_get ''scale'' PNone item)) (\<lambda>scale.
     and_then (ensure (decimal_ok t precision scale) ValueError) (\<lambda>_.
     and_then (and_then (dict_item ''column'' item) identifier_of) (\<lambda>column.
       Inr \<lparr>f_name = name, f_column = column, f_type = t, f_nullable = nullable,
            f_mutable = mutable, f_cardinality = card, f_precision = precision,
            f_scale = scale\<rparr>)))))))))))))"

definition field_wf :: "field_layout \<Rightarrow> bool" where
  "field_wf f \<longleftrightarrow> f_name f \<noteq> [] \<and> is_identifier (f_column f) \<and>
     decimal_ok (f_type f) (f_precision f) (f_scale f)"

lemma field_from_mapping_wf: "field_from_mapping v = Inr f \<Longrightarrow> field_wf f"
  by (auto simp: field_from_mapping_def field_wf_def result_simps identifier_ok)

section \<open>Indexes and relations\<close>

datatype index_kind = Btree | Hash | FullText | Geospatial | RelationEndpoint | TimeSeries

definition index_kinds :: "(string \<times> index_kind) list" where
  "index_kinds =
     [(''btree'', Btree), (''hash'', Hash), (''full-text'', FullText), (''geospatial'', Geospatial),
      (''relation-endpoint'', RelationEndpoint), (''time-series'', TimeSeries)]"

record index_layout =
  i_name :: string
  i_kind :: index_kind
  i_fields :: "string list"
  i_unique :: bool

fun parse_index_kind :: "pyval \<Rightarrow> index_kind result" where
  "parse_index_kind (PStr s) =
     (case map_of index_kinds s of Some k \<Rightarrow> Inr k | None \<Rightarrow> Inl ValueError)"
| "parse_index_kind (PSeq _) = Inl TypeError"
| "parse_index_kind (PMap _) = Inl TypeError"
| "parse_index_kind _ = Inl ValueError"

definition index_from_mapping :: "pyval \<Rightarrow> index_layout result" where
  "index_from_mapping v =
     and_then (closed_object [''name'', ''kind'', ''fields'', ''unique''] [] v) (\<lambda>item.
     and_then (and_then (dict_item ''kind'' item) parse_index_kind) (\<lambda>kind.
     and_then (and_then (dict_item ''fields'' item) strings_of) (\<lambda>fields.
     and_then (ensure (fields \<noteq> [] \<and> distinct fields \<and> [] \<notin> set fields) ValueError) (\<lambda>_.
     and_then (and_then (dict_item ''unique'' item) as_bool) (\<lambda>unique.
     and_then (ensure (\<not> (unique \<and> kind \<noteq> Btree)) ValueError) (\<lambda>_.
     and_then (and_then (dict_item ''name'' item) identifier_of) (\<lambda>name.
       Inr \<lparr>i_name = name, i_kind = kind, i_fields = fields, i_unique = unique\<rparr>)))))))"

definition index_wf :: "index_layout \<Rightarrow> bool" where
  "index_wf i \<longleftrightarrow> is_identifier (i_name i) \<and> i_fields i \<noteq> [] \<and> distinct (i_fields i) \<and>
     (i_unique i \<longrightarrow> i_kind i = Btree)"

lemma index_from_mapping_wf: "index_from_mapping v = Inr i \<Longrightarrow> index_wf i"
  by (auto simp: index_from_mapping_def index_wf_def result_simps identifier_ok)

record resource_ref =
  r_catalog :: string
  r_canonical :: string

type_synonym ref_parser = "string option \<Rightarrow> pyval \<Rightarrow> resource_ref result"

record relation_layout =
  source_field :: string
  target_field :: string
  directed :: bool
  source_collections :: "string list"
  target_collections :: "string list"

definition relation_from_mapping :: "ref_parser \<Rightarrow> pyval \<Rightarrow> relation_layout result" where
  "relation_from_mapping parse_ref v =
     and_then (closed_object [''sourceField'', ''targetField'', ''directed'', ''sourceCollections'',
                ''targetCollections''] [] v) (\<lambda>item.
     and_then (and_then (dict_item ''sourceField'' item) as_string) (\<lambda>source.
     and_then (and_then (dict_item ''targetField'' item) as_string) (\<lambda>target.
     and_then (ensure (source \<noteq> target) ValueError) (\<lambda>_.
     and_then (and_then (dict_item ''directed'' item) as_bool) (\<lambda>directed.
     and_then (and_then (dict_item ''sourceCollections'' item) strings_of) (\<lambda>raw_sources.
     and_then (and_then (dict_item ''targetCollections'' item) strings_of) (\<lambda>raw_targets.
       (let sources = sort raw_sources; targets = sort raw_targets in
        and_then (traverse (\<lambda>r. parse_ref (Some ''structured'') (PStr r)) (sources @ targets)) (\<lambda>_.
        and_then (ensure (sources \<noteq> [] \<and> targets \<noteq> [] \<and> distinct sources \<and> distinct targets)
                   ValueError) (\<lambda>_.
          Inr \<lparr>source_field = source, target_field = target, directed = directed,
               source_collections = sources, target_collections = targets\<rparr>))))))))))"

definition relation_wf :: "relation_layout \<Rightarrow> bool" where
  "relation_wf r \<longleftrightarrow> source_field r \<noteq> target_field r \<and>
     source_collections r \<noteq> [] \<and> target_collections r \<noteq> [] \<and>
     sorted (source_collections r) \<and> sorted (target_collections r) \<and>
     distinct (source_collections r) \<and> distinct (target_collections r)"

lemma relation_from_mapping_wf: "relation_from_mapping p v = Inr r \<Longrightarrow> relation_wf r"
  by (auto simp: relation_from_mapping_def relation_wf_def result_simps Let_def)

section \<open>Resource layouts\<close>

record resource_layout =
  l_ref :: resource_ref
  l_table :: string
  l_profile :: string
  l_schema_fingerprint :: string
  l_resource_fingerprint :: string
  l_fields :: "field_layout list"
  l_identity :: "string list"
  l_indexes :: "index_layout list"
  l_relation :: "relation_layout option"

definition structured_profiles :: "string list" where
  "structured_profiles =
     [''relational'', ''document'', ''key-value'', ''search'', ''geospatial'', ''time-series'', ''relation'']"

definition reserved_tables :: "string list" where
  "reserved_tables =
     [''__meridian_migrations'', ''__meridian_resources'', ''__meridian_evidence_replay'',
      ''__meridian_outbox_state'', ''__meridian_outbox_checkpoint'', ''__meridian_schema_registry'',
      ''__meridian_schema_registry_migration'']"

definition reserved_columns :: "string list" where
  "reserved_columns =
     [''__tenant'', ''__record_version'', ''__created_at'', ''__updated_at'',
      ''__source_collection'', ''__source_record_id'', ''__target_collection'',
      ''__target_record_id'']"

definition scope_prefix :: string where
  "scope_prefix = ''__scope_''"

text \<open>\<open>field_map\<close>: the fields by name.\<close>

definition field_map :: "resource_layout \<Rightarrow> (string \<times> field_layout) list" where
  "field_map l = map (\<lambda>f. (f_name f, f)) (l_fields l)"

definition field_of :: "resource_layout \<Rightarrow> string \<Rightarrow> field_layout option" where
  "field_of l n = map_of (field_map l) n"

definition field_names :: "resource_layout \<Rightarrow> string list" where
  "field_names l = map f_name (l_fields l)"

definition column_of :: "resource_layout \<Rightarrow> string \<Rightarrow> string" where
  "column_of l n = (case field_of l n of Some f \<Rightarrow> f_column f | None \<Rightarrow> [])"

definition reserved_column :: "string \<Rightarrow> bool" where
  "reserved_column c \<longleftrightarrow> c \<in> set reserved_columns \<or> starts_with scope_prefix c"

definition identity_field_ok :: "resource_layout \<Rightarrow> string \<Rightarrow> bool" where
  "identity_field_ok l n =
     (case field_of l n of
        Some f \<Rightarrow> \<not> f_nullable f \<and> \<not> f_mutable f \<and> f_cardinality f = One
      | None \<Rightarrow> False)"

definition scalar_of_type :: "resource_layout \<Rightarrow> logical_type \<Rightarrow> string list \<Rightarrow> bool" where
  "scalar_of_type l t names =
     (case names of
        [n] \<Rightarrow> (case field_of l n of Some f \<Rightarrow> f_type f = t \<and> f_cardinality f = One | None \<Rightarrow> False)
      | _ \<Rightarrow> False)"

definition endpoint_fields :: "relation_layout \<Rightarrow> string list" where
  "endpoint_fields r = [source_field r, target_field r]"

definition check_index :: "resource_layout \<Rightarrow> index_layout \<Rightarrow> unit result" where
  "check_index l i =
     and_then (ensure (set (i_fields i) \<subseteq> set (field_names l)) ValueError) (\<lambda>_.
     and_then (ensure (i_kind i = FullText \<longrightarrow> scalar_of_type l LString (i_fields i)) ValueError) (\<lambda>_.
     and_then (ensure (i_kind i = Geospatial \<longrightarrow> scalar_of_type l LWgs84Point (i_fields i)) ValueError) (\<lambda>_.
     and_then (ensure (i_kind i = RelationEndpoint \<longrightarrow> l_relation l \<noteq> None) ValueError) (\<lambda>_.
       ensure (i_kind i = RelationEndpoint \<longrightarrow>
                 (case (i_fields i, l_relation l) of
                    ([n], Some r) \<Rightarrow> n \<in> set (endpoint_fields r)
                  | _ \<Rightarrow> False)) ValueError))))"

definition endpoint_ok :: "resource_layout \<Rightarrow> string \<Rightarrow> bool" where
  "endpoint_ok l n =
     (case field_of l n of
        Some f \<Rightarrow> f_type f = LRecordRef \<and> f_cardinality f = One \<and> \<not> f_nullable f
      | None \<Rightarrow> False)"

definition check_registry_layout :: "resource_layout \<Rightarrow> unit result" where
  "check_registry_layout l =
     ensure (r_canonical (l_ref l) = ''structured:meridian.registry'' \<and>
             l_table l = ''__meridian_schema_registry'' \<and> l_fields l = [] \<and> l_identity l = [] \<and>
             l_indexes l = [] \<and> l_relation l = None) ValueError"

definition check_data_layout :: "resource_layout \<Rightarrow> unit result" where
  "check_data_layout l =
     and_then (ensure (distinct (field_names l) \<and> distinct (map f_column (l_fields l))) ValueError) (\<lambda>_.
     and_then (ensure (l_identity l \<noteq> [] \<and> distinct (l_identity l) \<and>
                       set (l_identity l) \<subseteq> set (field_names l)) ValueError) (\<lambda>_.
     and_then (ensure (r_catalog (l_ref l) \<in> {''structured'', ''evidence''}) ValueError) (\<lambda>_.
     and_then (ensure (l_table l \<notin> set reserved_tables) ValueError) (\<lambda>_.
     and_then (ensure (\<not> list_ex (\<lambda>f. reserved_column (f_column f)) (l_fields l)) ValueError) (\<lambda>_.
     and_then (ensure (list_all (identity_field_ok l) (l_identity l)) ValueError) (\<lambda>_.
     and_then (ensure (distinct (map i_name (l_indexes l))) ValueError) (\<lambda>_.
     and_then (traverse (check_index l) (l_indexes l)) (\<lambda>_.
     and_then (ensure (r_catalog (l_ref l) = ''structured'' \<longrightarrow>
                       l_profile l \<in> set structured_profiles) ValueError) (\<lambda>_.
     and_then (ensure (r_catalog (l_ref l) = ''evidence'' \<longrightarrow>
                       l_profile l = ''append-only-evidence'') ValueError) (\<lambda>_.
     and_then (ensure (case l_relation l of None \<Rightarrow> True
                       | Some r \<Rightarrow> set (endpoint_fields r) \<subseteq> set (field_names l)) ValueError) (\<lambda>_.
     and_then (ensure ((l_relation l = None) = (l_profile l \<noteq> ''relation'')) ValueError) (\<lambda>_.
       ensure (case l_relation l of None \<Rightarrow> True
               | Some r \<Rightarrow> list_all (endpoint_ok l) (endpoint_fields r)) ValueError))))))))))))"

text \<open>\<open>__post_init__\<close>.\<close>

definition check_layout :: "resource_layout \<Rightarrow> unit result" where
  "check_layout l =
     (if l_profile l = ''metadata-registry'' then check_registry_layout l else check_data_layout l)"

definition layout_from_mapping :: "ref_parser \<Rightarrow> pyval \<Rightarrow> resource_layout result" where
  "layout_from_mapping parse_ref v =
     and_then (closed_object [''ref'', ''table'', ''profile'', ''schemaFingerprint'',
                 ''resourceFingerprint'', ''fields'', ''identity'', ''indexes'', ''relation''] [] v) (\<lambda>item.
     and_then (and_then (and_then (dict_item ''fields'' item) as_sequence)
                 (traverse field_from_mapping)) (\<lambda>fields.
     and_then (and_then (and_then (dict_item ''indexes'' item) as_sequence)
                 (traverse index_from_mapping)) (\<lambda>indexes.
     and_then (and_then (dict_item ''identity'' item) strings_of) (\<lambda>identity.
     and_then (and_then (dict_item ''ref'' item) (parse_ref None)) (\<lambda>ref.
     and_then (and_then (dict_item ''table'' item) identifier_of) (\<lambda>table.
     and_then (and_then (dict_item ''profile'' item) as_string) (\<lambda>profile.
     and_then (and_then (dict_item ''schemaFingerprint'' item) fingerprint_of) (\<lambda>schema_fp.
     and_then (and_then (dict_item ''resourceFingerprint'' item) fingerprint_of) (\<lambda>resource_fp.
     and_then (and_then (dict_item ''relation'' item) (\<lambda>r.
                 if r = PNone then Inr None
                 else and_then (relation_from_mapping parse_ref r) (\<lambda>r. Inr (Some r)))) (\<lambda>relation.
       (let l = \<lparr>l_ref = ref, l_table = table, l_profile = profile, l_schema_fingerprint = schema_fp,
                 l_resource_fingerprint = resource_fp, l_fields = fields, l_identity = identity,
                 l_indexes = indexes, l_relation = relation\<rparr>
        in and_then (check_layout l) (\<lambda>_. Inr l))))))))))))"

text \<open>
  What an accepted data layout guarantees to the compilers: this is the precondition that the
  later theories use.
\<close>

definition layout_wf :: "resource_layout \<Rightarrow> bool" where
  "layout_wf l \<longleftrightarrow>
     distinct (field_names l) \<and> distinct (map f_column (l_fields l)) \<and>
     list_all field_wf (l_fields l) \<and> list_all index_wf (l_indexes l) \<and>
     list_all (\<lambda>f. \<not> reserved_column (f_column f)) (l_fields l) \<and>
     l_identity l \<noteq> [] \<and> distinct (l_identity l) \<and>
     list_all (identity_field_ok l) (l_identity l) \<and>
     list_all (\<lambda>i. set (i_fields i) \<subseteq> set (field_names l)) (l_indexes l) \<and>
     r_catalog (l_ref l) \<in> {''structured'', ''evidence''} \<and>
     l_table l \<notin> set reserved_tables \<and>
     (l_relation l = None) = (l_profile l \<noteq> ''relation'') \<and>
     (\<forall>r \<in> set_option (l_relation l). relation_wf r \<and> list_all (endpoint_ok l) (endpoint_fields r))"

lemma check_index_fields:
  "check_index l i = Inr u \<Longrightarrow> set (i_fields i) \<subseteq> set (field_names l)"
  by (simp add: check_index_def result_simps)

lemma check_data_layout_wf:
  assumes "check_data_layout l = Inr u" and "list_all field_wf (l_fields l)"
    and "list_all index_wf (l_indexes l)" and "\<forall>r \<in> set_option (l_relation l). relation_wf r"
  shows "layout_wf l"
proof -
  from assms(1) have guards:
    "distinct (field_names l)" "distinct (map f_column (l_fields l))" "l_identity l \<noteq> []"
    "distinct (l_identity l)" "r_catalog (l_ref l) \<in> {''structured'', ''evidence''}"
    "l_table l \<notin> set reserved_tables" "\<not> list_ex (\<lambda>f. reserved_column (f_column f)) (l_fields l)"
    "list_all (identity_field_ok l) (l_identity l)"
    "\<exists>ys. traverse (check_index l) (l_indexes l) = Inr ys"
    "(l_relation l = None) = (l_profile l \<noteq> ''relation'')"
    "case l_relation l of None \<Rightarrow> True | Some r \<Rightarrow> list_all (endpoint_ok l) (endpoint_fields r)"
    by (simp_all add: check_data_layout_def result_simps)
  have "list_all (\<lambda>i. set (i_fields i) \<subseteq> set (field_names l)) (l_indexes l)"
    using guards(9) by (auto simp: list_all_iff dest!: traverse_each check_index_fields)
  moreover have "list_all (\<lambda>f. \<not> reserved_column (f_column f)) (l_fields l)"
    using guards(7) by (simp add: list_all_iff list_ex_iff)
  moreover have "\<forall>r \<in> set_option (l_relation l). relation_wf r \<and> list_all (endpoint_ok l) (endpoint_fields r)"
    using guards(11) assms(4) by (cases "l_relation l") auto
  ultimately show ?thesis
    using guards assms(2,3) unfolding layout_wf_def by blast
qed

definition accepted_layout :: "resource_layout \<Rightarrow> bool" where
  "accepted_layout l \<longleftrightarrow>
     is_identifier (l_table l) \<and> is_fingerprint (l_schema_fingerprint l) \<and>
     is_fingerprint (l_resource_fingerprint l) \<and>
     (if l_profile l = ''metadata-registry''
      then check_registry_layout l = Inr () else layout_wf l)"

lemma layout_from_mapping_accepted:
  assumes "layout_from_mapping p v = Inr l"
  shows "accepted_layout l"
proof -
  from assms obtain fields_v indexes_v where
    f: "traverse field_from_mapping fields_v = Inr (l_fields l)" and
    i: "traverse index_from_mapping indexes_v = Inr (l_indexes l)" and
    c: "check_layout l = Inr ()" and
    r: "\<forall>r \<in> set_option (l_relation l). relation_wf r" and
    ids: "is_identifier (l_table l)" "is_fingerprint (l_schema_fingerprint l)"
      "is_fingerprint (l_resource_fingerprint l)"
    unfolding layout_from_mapping_def Let_def result_simps
    by (auto simp: identifier_ok fingerprint_ok relation_from_mapping_wf result_simps split: if_splits)
  have fw: "list_all field_wf (l_fields l)"
    using traverse_all [OF f, of field_wf] field_from_mapping_wf by (auto simp: list_all_iff)
  have iw: "list_all index_wf (l_indexes l)"
    using traverse_all [OF i, of index_wf] index_from_mapping_wf by (auto simp: list_all_iff)
  show ?thesis
    using c ids check_data_layout_wf [OF _ fw iw r] by (auto simp: accepted_layout_def check_layout_def)
qed

section \<open>Read compatibility\<close>

text \<open>
  A capability requirement and a resource definition of the core package, as far as the adapter
  reads them; the rest of each is opaque. Building a definition, comparing its canonical
  serialization with the input and fingerprinting it are parameters.
\<close>

record capability_requirement =
  cr_contract :: string
  cr_version :: string
  cr_rest :: pyval

record resource_definition =
  rd_ref :: resource_ref
  rd_profile :: string
  rd_requirements :: "capability_requirement list"
  rd_required_scope :: "string list"
  rd_rest :: pyval

record core_api =
  parse_ref :: ref_parser
  make_definition :: "pyval dict \<Rightarrow> resource_definition result"
  same_serialization :: "resource_definition \<Rightarrow> pyval dict \<Rightarrow> bool"
  definition_fingerprint :: "resource_definition \<Rightarrow> string"

record read_compatibility =
  stored_resource :: resource_definition
  reader_resource :: resource_definition

definition resource_definition_of :: "core_api \<Rightarrow> pyval \<Rightarrow> resource_definition result" where
  "resource_definition_of api v =
     and_then (closed_object [''formatVersion'', ''ref'', ''profile'', ''schema'', ''labels'',
                 ''requirements'', ''requiredScope'', ''relatedResources'', ''extensions''] [] v) (\<lambda>item.
     and_then (make_definition api item) (\<lambda>resource.
     and_then (ensure (same_serialization api resource item) ValueError) (\<lambda>_. Inr resource)))"

definition is_put :: "capability_requirement \<Rightarrow> bool" where
  "is_put c \<longleftrightarrow> cr_contract c = ''meridian.structured.put''"

text \<open>Replacing the version of the first put requirement only.\<close>

fun bump_first_put :: "capability_requirement list \<Rightarrow> capability_requirement list" where
  "bump_first_put [] = []"
| "bump_first_put (c # cs) =
     (if is_put c then c\<lparr>cr_version := ''2.0.0''\<rparr> # cs else c # bump_first_put cs)"

definition check_compatibility :: "core_api \<Rightarrow> read_compatibility \<Rightarrow> unit result" where
  "check_compatibility api rc =
     (let stored = stored_resource rc
      in and_then (ensure (r_catalog (rd_ref stored) = ''structured'' \<and>
                           rd_profile stored \<in> set structured_profiles) ValueError) (\<lambda>_.
         and_then (ensure (case find is_put (rd_requirements stored) of
                             Some put \<Rightarrow> cr_version put = ''1.0.0'' | None \<Rightarrow> False) ValueError) (\<lambda>_.
           ensure (definition_fingerprint api
                     (stored\<lparr>rd_requirements := bump_first_put (rd_requirements stored)\<rparr>)
                   = definition_fingerprint api (reader_resource rc)) ValueError)))"

definition compatibility_from_mapping :: "core_api \<Rightarrow> pyval \<Rightarrow> read_compatibility result" where
  "compatibility_from_mapping api v =
     and_then (closed_object [''storedResource'', ''readerResource''] [] v) (\<lambda>item.
     and_then (and_then (dict_item ''storedResource'' item) (resource_definition_of api)) (\<lambda>stored.
     and_then (and_then (dict_item ''readerResource'' item) (resource_definition_of api)) (\<lambda>reader.
       (let rc = \<lparr>stored_resource = stored, reader_resource = reader\<rparr>
        in and_then (check_compatibility api rc) (\<lambda>_. Inr rc)))))"

section \<open>The binding\<close>

record pg_settings =
  physical_schema :: string
  engine_profile :: string
  scope_keys :: "string list"
  resources :: "(string \<times> resource_layout) list"
  application_name :: string
  expected_standbys :: int
  require_tls :: bool
  read_compatibility :: "(string \<times> read_compatibility) list"

record binding =
  b_engine_profile :: string
  b_settings :: pyval
  b_required_physical :: pyval
  b_namespace :: pyval
  b_tls_mode :: string

definition engine_profiles :: "string list" where
  "engine_profiles = [''postgresql-postgis-local-single-primary'', ''postgresql-postgis-cluster'']"

definition ends_with :: "string \<Rightarrow> string \<Rightarrow> bool" where
  "ends_with suffix s \<longleftrightarrow> starts_with (rev suffix) (rev s)"

definition layout_key :: "resource_layout \<Rightarrow> string" where
  "layout_key l = r_canonical (l_ref l)"

definition read_only :: "pg_settings \<Rightarrow> bool" where
  "read_only s \<longleftrightarrow> read_compatibility s \<noteq> []"

definition require_writable :: "pg_settings \<Rightarrow> unit result" where
  "require_writable s = ensure (\<not> read_only s) ValueError"

fun collect_proofs ::
  "core_api \<Rightarrow> pyval list \<Rightarrow> (string \<times> read_compatibility) list \<Rightarrow>
   (string \<times> read_compatibility) list result" where
  "collect_proofs api [] acc = Inr acc"
| "collect_proofs api (v # vs) acc =
     and_then (compatibility_from_mapping api v) (\<lambda>prf.
       (let ref = r_canonical (rd_ref (reader_resource prf))
        in and_then (ensure (ref \<notin> set (keys acc)) ValueError) (\<lambda>_.
             collect_proofs api vs (acc @ [(ref, prf)]))))"

definition proof_covers ::
  "core_api \<Rightarrow> string list \<Rightarrow> (string \<times> read_compatibility) list \<Rightarrow> resource_layout \<Rightarrow> bool" where
  "proof_covers api scope proofs l =
     (case map_of proofs (layout_key l) of
        None \<Rightarrow> False
      | Some p \<Rightarrow>
          definition_fingerprint api (reader_resource p) = l_resource_fingerprint l \<and>
          rd_profile (reader_resource p) = l_profile l \<and>
          set (rd_required_scope (reader_resource p)) \<subseteq> set scope)"

definition compatibility_of ::
  "core_api \<Rightarrow> binding \<Rightarrow> string list \<Rightarrow> resource_layout list \<Rightarrow> pyval dict \<Rightarrow>
   (string \<times> read_compatibility) list result" where
  "compatibility_of api b scope layouts raw =
     (case map_of raw ''readCompatibility'' of
        None \<Rightarrow> Inr []
      | Some rc \<Rightarrow>
          and_then (fingerprint_of (b_required_physical b)) (\<lambda>_.
          and_then (closed_object [''formatVersion'', ''resources''] [] rc) (\<lambda>selected.
          and_then (dict_item ''formatVersion'' selected) (\<lambda>format.
          and_then (ensure (format = PStr ''meridian.postgresql.read-compatibility.v1'') ValueError) (\<lambda>_.
          and_then (and_then (dict_item ''resources'' selected) as_sequence) (\<lambda>entries.
          and_then (collect_proofs api entries []) (\<lambda>proofs.
          and_then (ensure (set (keys proofs) = set (map layout_key layouts)) ValueError) (\<lambda>_.
          and_then (ensure (list_all (proof_covers api scope proofs) layouts) ValueError) (\<lambda>_.
            Inr proofs)))))))))"

fun as_nonnegative :: "pyval \<Rightarrow> int result" where
  "as_nonnegative (PInt n) = (if n < 0 then Inl TypeError else Inr n)"
| "as_nonnegative _ = Inl TypeError"

definition standbys_of :: "string \<Rightarrow> pyval \<Rightarrow> int result" where
  "standbys_of profile v =
     and_then (closed_object [''expectedStandbys''] [] v) (\<lambda>topology.
     and_then (and_then (dict_item ''expectedStandbys'' topology) as_nonnegative) (\<lambda>n.
     and_then (ensure (\<not> (ends_with ''local-single-primary'' profile \<and> n \<noteq> 0)) ValueError) (\<lambda>_.
     and_then (ensure (\<not> (ends_with ''cluster'' profile \<and> n < 2)) ValueError) (\<lambda>_.
       Inr n))))"

fun application_name_of :: "pyval \<Rightarrow> string result" where
  "application_name_of (PStr s) = (if s \<noteq> [] \<and> length s \<le> 63 then Inr s else Inl ValueError)"
| "application_name_of _ = Inl ValueError"

definition from_binding :: "core_api \<Rightarrow> binding \<Rightarrow> pg_settings result" where
  "from_binding api b =
     and_then (ensure (b_engine_profile b \<in> set engine_profiles) ValueError) (\<lambda>_.
     and_then (closed_object [''formatVersion'', ''scopeKeys'', ''resources'', ''topology'']
                 [''applicationName'', ''readCompatibility''] (b_settings b)) (\<lambda>raw.
     and_then (dict_item ''formatVersion'' raw) (\<lambda>format.
     and_then (ensure (format = PStr ''meridian.postgresql.settings.v1'') ValueError) (\<lambda>_.
     and_then (and_then (and_then (dict_item ''scopeKeys'' raw) as_sequence)
                 (traverse identifier_of)) (\<lambda>raw_keys.
       (let scope = sort raw_keys in
     and_then (ensure (distinct scope) ValueError) (\<lambda>_.
     and_then (and_then (and_then (dict_item ''resources'' raw) as_sequence)
                 (traverse (layout_from_mapping (parse_ref api)))) (\<lambda>layouts.
     and_then (ensure (layouts \<noteq> [] \<and> distinct (map layout_key layouts)) ValueError) (\<lambda>_.
     and_then (ensure (distinct (map l_table layouts)) ValueError) (\<lambda>_.
     and_then (compatibility_of api b scope layouts raw) (\<lambda>proofs.
     and_then (and_then (dict_item ''topology'' raw) (standbys_of (b_engine_profile b))) (\<lambda>expected.
     and_then (application_name_of
                 (dict_get ''applicationName'' (PStr ''meridian-storage-postgresql'') raw)) (\<lambda>app.
     and_then (identifier_of (b_namespace b)) (\<lambda>namespace.
       Inr \<lparr>physical_schema = namespace, engine_profile = b_engine_profile b, scope_keys = scope,
            resources = map (\<lambda>l. (layout_key l, l)) (sort_key layout_key layouts),
            application_name = app, expected_standbys = expected,
            require_tls = (b_tls_mode b \<noteq> ''disabled''), read_compatibility = proofs\<rparr>))))))))))))))"

text \<open>\<open>layout\<close>: the physical mapping of a parsed reference.\<close>

definition layout_for :: "pg_settings \<Rightarrow> resource_ref \<Rightarrow> resource_layout result" where
  "layout_for s ref = dict_item (r_canonical ref) (resources s)"

section \<open>What an accepted binding guarantees\<close>

lemma traverse_identifiers: "traverse identifier_of vs = Inr ks \<Longrightarrow> list_all is_identifier ks"
  using traverse_all [of identifier_of vs ks is_identifier] identifier_ok by (auto simp: list_all_iff)

lemma collect_proofs_keys:
  "collect_proofs api vs acc = Inr out \<Longrightarrow> dict_wf acc \<Longrightarrow>
   dict_wf out \<and> (\<forall>p \<in> set out. p \<in> set acc \<or> check_compatibility api (snd p) = Inr ())"
proof (induction api vs acc rule: collect_proofs.induct)
  case (2 api v vs acc)
  from "2.prems"(1) obtain rc where rc: "compatibility_from_mapping api v = Inr rc"
    and new: "r_canonical (rd_ref (reader_resource rc)) \<notin> set (keys acc)"
    and rest: "collect_proofs api vs (acc @ [(r_canonical (rd_ref (reader_resource rc)), rc)]) = Inr out"
    by (auto simp: Let_def result_simps)
  have "check_compatibility api rc = Inr ()"
    using rc by (auto simp: compatibility_from_mapping_def result_simps Let_def)
  moreover have "dict_wf (acc @ [(r_canonical (rd_ref (reader_resource rc)), rc)])"
    using new "2.prems"(2) by (simp add: dict_wf_def keys_def)
  ultimately show ?case using "2.IH" [OF rc refl, of "()"] new rest by auto
qed simp

definition settings_wf :: "pg_settings \<Rightarrow> bool" where
  "settings_wf s \<longleftrightarrow>
     engine_profile s \<in> set engine_profiles \<and> is_identifier (physical_schema s) \<and>
     list_all is_identifier (scope_keys s) \<and> distinct (scope_keys s) \<and> sorted (scope_keys s) \<and>
     resources s \<noteq> [] \<and> dict_wf (resources s) \<and> sorted (keys (resources s)) \<and>
     distinct (map (\<lambda>(k, l). l_table l) (resources s)) \<and>
     list_all (\<lambda>(k, l). k = layout_key l \<and> accepted_layout l) (resources s)"

lemma from_binding_parts:
  assumes "from_binding api b = Inr s"
  obtains raw raw_keys keys0 vs layouts where
    "traverse identifier_of raw_keys = Inr keys0" "scope_keys s = sort keys0"
    "distinct (scope_keys s)" "traverse (layout_from_mapping (parse_ref api)) vs = Inr layouts"
    "layouts \<noteq> []" "distinct (map layout_key layouts)" "distinct (map l_table layouts)"
    "resources s = map (\<lambda>l. (layout_key l, l)) (sort_key layout_key layouts)"
    "compatibility_of api b (scope_keys s) layouts raw = Inr (read_compatibility s)"
    "and_then (dict_item ''topology'' raw) (standbys_of (engine_profile s)) = Inr (expected_standbys s)"
    "engine_profile s \<in> set engine_profiles" "is_identifier (physical_schema s)"
  using assms unfolding from_binding_def Let_def
  by (auto simp: result_simps identifier_ok)

lemma from_binding_wf:
  assumes "from_binding api b = Inr s"
  shows "settings_wf s"
proof -
  obtain raw raw_keys keys0 vs layouts where
    k: "traverse identifier_of raw_keys = Inr keys0" "scope_keys s = sort keys0" "distinct (scope_keys s)" and
    l: "traverse (layout_from_mapping (parse_ref api)) vs = Inr layouts" "layouts \<noteq> []"
       "distinct (map layout_key layouts)" "distinct (map l_table layouts)" and
    r: "resources s = map (\<lambda>l. (layout_key l, l)) (sort_key layout_key layouts)" and
    "compatibility_of api b (scope_keys s) layouts raw = Inr (read_compatibility s)" and
    "and_then (dict_item ''topology'' raw) (standbys_of (engine_profile s)) = Inr (expected_standbys s)" and
    e: "engine_profile s \<in> set engine_profiles" "is_identifier (physical_schema s)"
    by (rule from_binding_parts [OF assms])
  have "list_all is_identifier (scope_keys s)"
    using traverse_identifiers [OF k(1)] k(2) by (simp add: list_all_iff)
  moreover have "\<forall>l \<in> set layouts. accepted_layout l"
    using traverse_all [OF l(1), of accepted_layout] layout_from_mapping_accepted by blast
  moreover have "dict_wf (resources s) \<and> sorted (keys (resources s)) \<and>
      distinct (map (\<lambda>(k, l). l_table l) (resources s))"
    using l(3,4) by (simp add: r dict_wf_def keys_def o_def distinct_map)
  moreover have "length (resources s) = length layouts" by (simp add: r)
  then have "resources s \<noteq> []" using l(2) by auto
  ultimately show ?thesis
    using k e r by (auto simp: settings_wf_def list_all_iff)
qed

definition data_or_registry :: "resource_layout \<Rightarrow> bool" where
  "data_or_registry l \<longleftrightarrow>
     l_profile l = ''metadata-registry'' \<and> l_table l = ''__meridian_schema_registry'' \<or>
     distinct (field_names l) \<and> distinct (map f_column (l_fields l)) \<and>
     l_table l \<notin> set reserved_tables \<and>
     (\<forall>f \<in> set (l_fields l). f_column f \<notin> set reserved_columns \<and>
        \<not> starts_with scope_prefix (f_column f)) \<and>
     l_identity l \<noteq> [] \<and>
     (\<forall>n \<in> set (l_identity l). \<exists>f. field_of l n = Some f \<and>
        \<not> f_nullable f \<and> \<not> f_mutable f \<and> f_cardinality f = One)"

lemma identity_field_okD:
  "identity_field_ok l n \<Longrightarrow>
   \<exists>f. field_of l n = Some f \<and> \<not> f_nullable f \<and> \<not> f_mutable f \<and> f_cardinality f = One"
  by (auto simp: identity_field_ok_def split: option.splits)

lemma accepted_data_or_registry:
  assumes "accepted_layout l"
  shows "data_or_registry l"
proof (cases "l_profile l = ''metadata-registry''")
  case True
  with assms show ?thesis
    by (simp add: accepted_layout_def data_or_registry_def check_registry_layout_def result_simps)
next
  case False
  with assms have "layout_wf l" by (simp add: accepted_layout_def)
  then show ?thesis
    unfolding layout_wf_def data_or_registry_def list_all_iff reserved_column_def
    by (blast intro: identity_field_okD)
qed


text \<open>A sample binding, used by the witnesses of this and later theories.\<close>

definition sample_ref :: ref_parser where
  "sample_ref c v =
     (case v of PStr r \<Rightarrow> Inr \<lparr>r_catalog = takeWhile (\<lambda>c. c \<noteq> CHR '':'') r, r_canonical = r\<rparr>
      | _ \<Rightarrow> Inl ValueError)"

definition sample_api :: core_api where
  "sample_api =
     \<lparr>parse_ref = sample_ref, make_definition = (\<lambda>_. Inl TypeError),
      same_serialization = (\<lambda>_ _. False), definition_fingerprint = (\<lambda>_. [])\<rparr>"

definition sample_fingerprint :: string where
  "sample_fingerprint = ''sha256:'' @ replicate 64 (CHR ''0'')"

definition sample_field :: "string \<Rightarrow> string \<Rightarrow> bool \<Rightarrow> bool \<Rightarrow> pyval" where
  "sample_field name type nullable mutable =
     PMap [(PStr ''name'', PStr name), (PStr ''column'', PStr name), (PStr ''logicalType'', PStr type),
           (PStr ''nullable'', PBool nullable), (PStr ''mutable'', PBool mutable)]"

definition sample_resource :: pyval where
  "sample_resource =
     PMap [(PStr ''ref'', PStr ''structured:people''), (PStr ''table'', PStr ''people''),
           (PStr ''profile'', PStr ''relational''),
           (PStr ''schemaFingerprint'', PStr sample_fingerprint),
           (PStr ''resourceFingerprint'', PStr sample_fingerprint),
           (PStr ''fields'', PSeq [sample_field ''id'' ''uuid'' False False,
                                   sample_field ''nick'' ''string'' True True]),
           (PStr ''identity'', PSeq [PStr ''id'']), (PStr ''indexes'', PSeq []),
           (PStr ''relation'', PNone)]"

definition sample_binding :: binding where
  "sample_binding =
     \<lparr>b_engine_profile = ''postgresql-postgis-local-single-primary'',
      b_settings = PMap [(PStr ''formatVersion'', PStr ''meridian.postgresql.settings.v1''),
        (PStr ''scopeKeys'', PSeq [PStr ''workspace'']), (PStr ''resources'', PSeq [sample_resource]),
        (PStr ''topology'', PMap [(PStr ''expectedStandbys'', PInt 0)])],
      b_required_physical = PNone, b_namespace = PStr ''meridian'', b_tls_mode = ''disabled''\<rparr>"

definition sample_layout :: resource_layout where
  "sample_layout =
     \<lparr>l_ref = \<lparr>r_catalog = ''structured'', r_canonical = ''structured:people''\<rparr>, l_table = ''people'',
      l_profile = ''relational'', l_schema_fingerprint = sample_fingerprint,
      l_resource_fingerprint = sample_fingerprint,
      l_fields =
        [\<lparr>f_name = ''id'', f_column = ''id'', f_type = LUuid, f_nullable = False, f_mutable = False,
          f_cardinality = One, f_precision = None, f_scale = None\<rparr>,
         \<lparr>f_name = ''nick'', f_column = ''nick'', f_type = LString, f_nullable = True, f_mutable = True,
          f_cardinality = One, f_precision = None, f_scale = None\<rparr>],
      l_identity = [''id''], l_indexes = [], l_relation = None\<rparr>"

definition sample_settings :: pg_settings where
  "sample_settings =
     \<lparr>physical_schema = ''meridian'', engine_profile = ''postgresql-postgis-local-single-primary'',
      scope_keys = [''workspace''], resources = [(''structured:people'', sample_layout)],
      application_name = ''meridian-storage-postgresql'', expected_standbys = 0, require_tls = False,
      read_compatibility = []\<rparr>"

lemma sample_binding_accepted: "from_binding sample_api sample_binding = Inr sample_settings"
  by code_simp


lemma compatibility_parts:
  assumes "compatibility_of api b scope layouts raw = Inr proofs" and "proofs \<noteq> []"
  shows "dict_wf proofs \<and> set (keys proofs) = set (map layout_key layouts) \<and>
         list_all (proof_covers api scope proofs) layouts \<and>
         (\<forall>p \<in> set proofs. check_compatibility api (snd p) = Inr ())"
  using assms unfolding compatibility_of_def
  by (auto simp: result_simps dict_wf_def keys_def split: option.splits dest!: collect_proofs_keys)

lemma check_compatibility_put:
  assumes "check_compatibility api rc = Inr ()"
  shows "\<exists>put. find is_put (rd_requirements (stored_resource rc)) = Some put \<and> cr_version put = ''1.0.0'' \<and>
           r_catalog (rd_ref (stored_resource rc)) = ''structured'' \<and>
           definition_fingerprint api (reader_resource rc) = definition_fingerprint api
             ((stored_resource rc)\<lparr>rd_requirements := bump_first_put (rd_requirements (stored_resource rc))\<rparr>)"
  using assms unfolding check_compatibility_def Let_def
  by (auto simp: result_simps split: option.splits)

lemma as_nonnegative_bound: "as_nonnegative v = Inr n \<Longrightarrow> 0 \<le> n"
  by (cases v) (auto split: if_splits)

lemma standbys_of_bounds:
  "standbys_of profile v = Inr n \<Longrightarrow>
   0 \<le> n \<and> (ends_with ''local-single-primary'' profile \<longrightarrow> n = 0) \<and>
   (ends_with ''cluster'' profile \<longrightarrow> 2 \<le> n)"
  by (auto simp: standbys_of_def result_simps as_nonnegative_bound)

lemma from_binding_proofs:
  assumes "from_binding api b = Inr s" and "read_compatibility s \<noteq> []"
  shows "set (keys (read_compatibility s)) = set (keys (resources s)) \<and>
         list_all (\<lambda>(k, l). proof_covers api (scope_keys s) (read_compatibility s) l) (resources s) \<and>
         (\<forall>p \<in> set (read_compatibility s). check_compatibility api (snd p) = Inr ())"
proof -
  obtain raw raw_keys keys0 vs layouts where
    "traverse identifier_of raw_keys = Inr keys0" and "scope_keys s = sort keys0" and
    "distinct (scope_keys s)" and "traverse (layout_from_mapping (parse_ref api)) vs = Inr layouts" and
    "layouts \<noteq> []" and "distinct (map layout_key layouts)" and "distinct (map l_table layouts)" and
    r: "resources s = map (\<lambda>l. (layout_key l, l)) (sort_key layout_key layouts)" and
    c: "compatibility_of api b (scope_keys s) layouts raw = Inr (read_compatibility s)" and
    "and_then (dict_item ''topology'' raw) (standbys_of (engine_profile s)) = Inr (expected_standbys s)" and
    "engine_profile s \<in> set engine_profiles" and "is_identifier (physical_schema s)"
    by (rule from_binding_parts [OF assms(1)])
  from compatibility_parts [OF c assms(2)] show ?thesis
    by (auto simp: r keys_def list_all_iff)
qed

lemma from_binding_topology:
  assumes "from_binding api b = Inr s"
  shows "\<exists>v. standbys_of (engine_profile s) v = Inr (expected_standbys s)"
proof -
  obtain raw raw_keys keys0 vs layouts where
    "traverse identifier_of raw_keys = Inr keys0" and "scope_keys s = sort keys0" and
    "distinct (scope_keys s)" and "traverse (layout_from_mapping (parse_ref api)) vs = Inr layouts" and
    "layouts \<noteq> []" and "distinct (map layout_key layouts)" and "distinct (map l_table layouts)" and
    "resources s = map (\<lambda>l. (layout_key l, l)) (sort_key layout_key layouts)" and
    "compatibility_of api b (scope_keys s) layouts raw = Inr (read_compatibility s)" and
    t: "and_then (dict_item ''topology'' raw) (standbys_of (engine_profile s)) = Inr (expected_standbys s)" and
    "engine_profile s \<in> set engine_profiles" and "is_identifier (physical_schema s)"
    by (rule from_binding_parts [OF assms])
  from t show ?thesis by (auto simp: result_simps)
qed

text \<open>
  Topology and read compatibility of an accepted binding: the single-primary profile expects no
  standby and the cluster profile at least two; and a read-only binding carries exactly one proof
  per mapped Resource, each of which upgrades a stored structured Resource by replacing the version
  1.0.0 of its first put requirement, gives the pinned resource fingerprint and profile, and needs
  no scope that the binding does not configure.
\<close>
theorem accepted_binding_topology:
  assumes "from_binding api b = Inr s"
  shows "(ends_with ''local-single-primary'' (engine_profile s) \<longrightarrow> expected_standbys s = 0) \<and>
         (ends_with ''cluster'' (engine_profile s) \<longrightarrow> 2 \<le> expected_standbys s) \<and>
         (read_only s \<longrightarrow>
           set (keys (read_compatibility s)) = set (keys (resources s)) \<and>
           (\<forall>(k, l) \<in> set (resources s). \<exists>p put.
              map_of (read_compatibility s) k = Some p \<and>
              find is_put (rd_requirements (stored_resource p)) = Some put \<and> cr_version put = ''1.0.0'' \<and>
              l_resource_fingerprint l = definition_fingerprint api
                ((stored_resource p)\<lparr>rd_requirements := bump_first_put (rd_requirements (stored_resource p))\<rparr>) \<and>
              rd_profile (reader_resource p) = l_profile l \<and>
              set (rd_required_scope (reader_resource p)) \<subseteq> set (scope_keys s)))"
proof (intro conjI impI)
  obtain v where v: "standbys_of (engine_profile s) v = Inr (expected_standbys s)"
    using from_binding_topology [OF assms] by blast
  show "expected_standbys s = 0" if "ends_with ''local-single-primary'' (engine_profile s)"
    using standbys_of_bounds [OF v] that by blast
  show "2 \<le> expected_standbys s" if "ends_with ''cluster'' (engine_profile s)"
    using standbys_of_bounds [OF v] that by blast
next
  assume ro: "read_only s"
  note P = from_binding_proofs [OF assms ro [unfolded read_only_def]]
  show "set (keys (read_compatibility s)) = set (keys (resources s))" using P by blast
  show "\<forall>(k, l) \<in> set (resources s). \<exists>p put. map_of (read_compatibility s) k = Some p \<and>
      find is_put (rd_requirements (stored_resource p)) = Some put \<and> cr_version put = ''1.0.0'' \<and>
      l_resource_fingerprint l = definition_fingerprint api
        ((stored_resource p)\<lparr>rd_requirements := bump_first_put (rd_requirements (stored_resource p))\<rparr>) \<and>
      rd_profile (reader_resource p) = l_profile l \<and>
      set (rd_required_scope (reader_resource p)) \<subseteq> set (scope_keys s)"
  proof (intro ballI, clarify)
    fix k l assume kl: "(k, l) \<in> set (resources s)"
    then have k: "k = layout_key l" and c: "proof_covers api (scope_keys s) (read_compatibility s) l"
      using from_binding_wf [OF assms] P by (auto simp: settings_wf_def list_all_iff)
    then obtain p where p: "map_of (read_compatibility s) k = Some p"
      by (auto simp: proof_covers_def split: option.splits)
    from map_of_SomeD [OF this] P have "check_compatibility api p = Inr ()" by fastforce
    from check_compatibility_put [OF this] c k p
    show "\<exists>p put. map_of (read_compatibility s) k = Some p \<and>
        find is_put (rd_requirements (stored_resource p)) = Some put \<and> cr_version put = ''1.0.0'' \<and>
        l_resource_fingerprint l = definition_fingerprint api
          ((stored_resource p)\<lparr>rd_requirements := bump_first_put (rd_requirements (stored_resource p))\<rparr>) \<and>
        rd_profile (reader_resource p) = l_profile l \<and>
        set (rd_required_scope (reader_resource p)) \<subseteq> set (scope_keys s)"
      by (auto simp: proof_covers_def)
  qed
qed

theorem accepted_binding_topology_witness:
  "from_binding sample_api sample_binding = Inr sample_settings \<and>
   ends_with ''local-single-primary'' (engine_profile sample_settings) \<and>
   expected_standbys sample_settings = 0"
proof -
  have "ends_with ''local-single-primary'' (engine_profile sample_settings)"
    by (simp add: ends_with_def starts_with_def sample_settings_def)
  then show ?thesis
    using accepted_binding_topology [OF sample_binding_accepted] sample_binding_accepted by blast
qed

end
