(* ===== verification/SqlText.thy ===== *)
theory SqlText
  imports PyValue
begin

text \<open>
  The typed SQL of \<open>query/_sql.py\<close>. A composable of the driver is the list of its leaves: raw
  text of the adapter, a quoted identifier, a bound-parameter placeholder, a literal. Adding
  composables is appending lists; every \<open>%s\<close> of the source's text is written as the placeholder
  leaf that it renders to. A bound statement pairs a command with the values of its placeholders.
\<close>

datatype sql_token = Raw string | Ident string | Hole | Literal pyval

type_synonym sql = "sql_token list"

record 'p bound_statement =
  command :: sql
  params :: "'p list"

definition bound :: "sql \<Rightarrow> 'p list \<Rightarrow> 'p bound_statement" where
  "bound c ps = \<lparr>command = c, params = ps\<rparr>"

fun join_sql :: "sql \<Rightarrow> sql list \<Rightarrow> sql" where
  "join_sql sep [] = []"
| "join_sql sep [x] = x"
| "join_sql sep (x # y # xs) = x @ sep @ join_sql sep (y # xs)"

definition ident :: "string list \<Rightarrow> sql" where
  "ident parts = join_sql [Raw ''.''] (map (\<lambda>p. [Ident p]) parts)"

definition placeholders :: "nat \<Rightarrow> sql result" where
  "placeholders n =
     (if n < 1 then Inl ValueError else Inr (join_sql [Raw '', ''] (replicate n [Hole])))"

definition with_suffix :: "'p bound_statement \<Rightarrow> sql \<Rightarrow> 'p list \<Rightarrow> 'p bound_statement" where
  "with_suffix s suffix vs = bound (command s @ suffix) (params s @ vs)"

definition conjunction :: "'p bound_statement list \<Rightarrow> 'p bound_statement" where
  "conjunction ss =
     (if ss = [] then bound [Raw ''TRUE''] []
      else bound ([Raw ''(''] @ join_sql [Raw '') AND (''] (map command ss) @ [Raw '')''])
             (concat (map params ss)))"

definition disjunction :: "'p bound_statement list \<Rightarrow> 'p bound_statement" where
  "disjunction ss =
     (if ss = [] then bound [Raw ''FALSE''] []
      else bound ([Raw ''(''] @ join_sql [Raw '') OR (''] (map command ss) @ [Raw '')''])
             (concat (map params ss)))"

text \<open>Rendering, given how the driver quotes an identifier and a literal.\<close>

fun render_token :: "(string \<Rightarrow> string) \<Rightarrow> (pyval \<Rightarrow> string) \<Rightarrow> sql_token \<Rightarrow> string" where
  "render_token qi ql (Raw s) = s"
| "render_token qi ql (Ident s) = qi s"
| "render_token qi ql Hole = ''%s''"
| "render_token qi ql (Literal v) = ql v"

definition render :: "(string \<Rightarrow> string) \<Rightarrow> (pyval \<Rightarrow> string) \<Rightarrow> sql \<Rightarrow> string" where
  "render qi ql c = concat (map (render_token qi ql) c)"

definition rows_to_records :: "string list \<Rightarrow> 'v dict list \<Rightarrow> 'v dict list" where
  "rows_to_records internal rows = map (filter (\<lambda>(k, v). k \<notin> set internal)) rows"

section \<open>Placeholders and parameters\<close>

definition holes :: "sql \<Rightarrow> nat" where
  "holes c = length (filter (\<lambda>t. t = Hole) c)"

text \<open>The driver binds the parameters in order, one per placeholder.\<close>

definition arity_ok :: "'p bound_statement \<Rightarrow> bool" where
  "arity_ok s \<longleftrightarrow> holes (command s) = length (params s)"

text \<open>
  The driver treats a percent sign of the command as the start of a placeholder: raw text that is
  executed with parameters must not contain one.
\<close>

definition stray_percent :: "sql \<Rightarrow> bool" where
  "stray_percent c \<longleftrightarrow> (\<exists>t \<in> set c. case t of Raw s \<Rightarrow> CHR ''%'' \<in> set s | _ \<Rightarrow> False)"

lemma bound_simps [simp]: "command (bound c ps) = c" "params (bound c ps) = ps"
  by (simp_all add: bound_def)

lemma holes_simps [simp]:
  "holes [] = 0" "holes (a @ b) = holes a + holes b" "holes (Raw s # c) = holes c"
  "holes (Ident i # c) = holes c" "holes (Literal v # c) = holes c" "holes (Hole # c) = Suc (holes c)"
  by (simp_all add: holes_def)

lemma holes_join: "holes sep = 0 \<Longrightarrow> holes (join_sql sep xs) = sum_list (map holes xs)"
  by (induction sep xs rule: join_sql.induct) auto

lemma holes_ident [simp]: "holes (ident ps) = 0"
  by (simp add: ident_def holes_join o_def)

lemma stray_simps [simp]:
  "\<not> stray_percent []" "stray_percent (a @ b) \<longleftrightarrow> stray_percent a \<or> stray_percent b"
  "stray_percent (Raw s # c) \<longleftrightarrow> CHR ''%'' \<in> set s \<or> stray_percent c"
  "stray_percent (Ident i # c) = stray_percent c" "stray_percent (Literal v # c) = stray_percent c"
  "stray_percent (Hole # c) = stray_percent c"
  by (auto simp: stray_percent_def)

lemma stray_join:
  "\<not> stray_percent sep \<Longrightarrow> stray_percent (join_sql sep xs) \<longleftrightarrow> (\<exists>x \<in> set xs. stray_percent x)"
  by (induction sep xs rule: join_sql.induct) auto

lemma stray_ident [simp]: "\<not> stray_percent (ident ps)"
  by (simp add: ident_def stray_join)

lemma arity_bound [simp]: "arity_ok (bound c ps) \<longleftrightarrow> holes c = length ps"
  by (simp add: arity_ok_def)

lemma sum_arity: "(\<And>s. s \<in> set ss \<Longrightarrow> arity_ok s) \<Longrightarrow>
   sum_list (map (holes \<circ> command) ss) = length (concat (map params ss))"
  by (induction ss) (auto simp: arity_ok_def)

lemma conjunction_arity: "(\<And>s. s \<in> set ss \<Longrightarrow> arity_ok s) \<Longrightarrow> arity_ok (conjunction ss)"
  using sum_arity [of ss] by (simp add: conjunction_def holes_join)

lemma disjunction_arity: "(\<And>s. s \<in> set ss \<Longrightarrow> arity_ok s) \<Longrightarrow> arity_ok (disjunction ss)"
  using sum_arity [of ss] by (simp add: disjunction_def holes_join)

lemma conjunction_stray:
  "stray_percent (command (conjunction ss)) \<longleftrightarrow> (\<exists>s \<in> set ss. stray_percent (command s))"
  by (auto simp: conjunction_def stray_join)

lemma disjunction_stray:
  "stray_percent (command (disjunction ss)) \<longleftrightarrow> (\<exists>s \<in> set ss. stray_percent (command s))"
  by (auto simp: disjunction_def stray_join)

lemma conjunction_params: "params (conjunction ss) = concat (map params ss)"
  by (simp add: conjunction_def)

lemma with_suffix_arity:
  "arity_ok s \<Longrightarrow> holes suffix = length vs \<Longrightarrow> arity_ok (with_suffix s suffix vs)"
  by (simp add: with_suffix_def arity_ok_def)

lemma placeholders_holes: "placeholders n = Inr c \<Longrightarrow> holes c = n"
  by (auto simp: placeholders_def holes_join sum_list_replicate split: if_splits)

end
