(* ===== verification/OutboxStore.thy ===== *)
theory OutboxStore
  imports Settings SqlText
begin

text \<open>
  The outbox metadata of \<open>projection/_storage.py\<close>: the immutable intent fields, the shapes of
  the two metadata tables, the layout an outbox Resource must have, the tables' DDL, and the
  read-only verification that runs before the outbox is used.
\<close>

definition intent_fields :: "(string \<times> logical_type \<times> bool) list" where
  "intent_fields =
     [(''formatVersion'', LString, False), (''eventId'', LString, False),
      (''sourceCatalog'', LString, False), (''sourceResource'', LString, False),
      (''sourceSchema'', LString, False), (''sourceIdentity'', LJson, True),
      (''sourceVersion'', LJson, True), (''mutationKind'', LString, False),
      (''payload'', LJson, True), (''immutableReference'', LJson, True),
      (''targetLabels'', LJson, False), (''occurredAt'', LUtcTimestamp, False),
      (''operationContext'', LJson, False), (''digest'', LString, False)]"

definition state_table :: string where "state_table = ''__meridian_outbox_state''"
definition checkpoint_table :: string where "checkpoint_table = ''__meridian_outbox_checkpoint''"

definition base_shape :: "(string \<times> string \<times> bool) list" where
  "base_shape = [(''scope'', ''jsonb'', True), (''resource_ref'', ''text'', True),
                 (''projection'', ''text'', True)]"

definition shapes :: "(string \<times> (string \<times> string \<times> bool) list) list" where
  "shapes =
     [(state_table, base_shape @
        [(''event_id'', ''text'', True), (''state'', ''text'', True), (''attempt'', ''bigint'', True),
         (''owner'', ''text'', False), (''acquired_at'', ''timestamp with time zone'', False),
         (''expires_at'', ''timestamp with time zone'', False), (''failure'', ''jsonb'', False),
         (''target_fingerprint'', ''text'', False),
         (''completed_at'', ''timestamp with time zone'', False)]),
      (checkpoint_table, base_shape @
        [(''partition_key'', ''text'', True), (''revision'', ''bigint'', True),
         (''event_id'', ''text'', True), (''source_version'', ''jsonb'', False),
         (''target_fingerprint'', ''text'', True),
         (''advanced_at'', ''timestamp with time zone'', True)])]"

definition is_outbox :: "resource_layout \<Rightarrow> bool" where
  "is_outbox l \<longleftrightarrow> r_catalog (l_ref l) = ''structured'' \<and>
     list_all (\<lambda>(n, _). n \<in> set (field_names l)) intent_fields"

definition intent_field_ok :: "resource_layout \<Rightarrow> string \<times> logical_type \<times> bool \<Rightarrow> bool" where
  "intent_field_ok l spec =
     (case spec of (n, kind, nullable) \<Rightarrow>
        (case field_of l n of
           Some f \<Rightarrow> f_type f = kind \<and> f_nullable f = nullable \<and> \<not> f_mutable f \<and> f_cardinality f = One
         | None \<Rightarrow> False))"

definition validate_layout :: "resource_layout \<Rightarrow> unit result" where
  "validate_layout l =
     and_then (ensure (is_outbox l \<and> l_identity l = [''eventId'']) ValueError) (\<lambda>_.
       ensure (list_all (intent_field_ok l) intent_fields) ValueError)"

lemma validate_layout_immutable:
  assumes "validate_layout l = Inr ()" and "(n, kind, nullable) \<in> set intent_fields"
  shows "\<exists>f. field_of l n = Some f \<and> f_type f = kind \<and> \<not> f_mutable f"
  using assms by (auto simp: validate_layout_def result_simps list_all_iff intent_field_ok_def
                       split: option.splits)

section \<open>DDL\<close>

definition shape_key :: "string \<Rightarrow> string" where
  "shape_key table = (if table = state_table then ''event_id'' else ''partition_key'')"

definition shape_columns :: "string \<times> (string \<times> string \<times> bool) list \<Rightarrow> sql list" where
  "shape_columns ts =
     (case ts of (table, shape) \<Rightarrow>
        map (\<lambda>(n, kind, required).
               [Ident n, Raw ('' '' @ kind @ (if required then '' NOT NULL'' else []))]) shape @
        [[Raw (''PRIMARY KEY (scope, resource_ref, projection, '' @ shape_key table @ '')'')]] @
        (if table = state_table
         then [[Raw ''CHECK (state IN ('LEASED','COMPLETED','RETRYABLE','QUARANTINED'))''],
               [Raw ''CHECK (attempt > 0)''],
               [Raw (''CHECK ((state = 'LEASED' AND owner IS NOT NULL AND acquired_at '' @
                     ''IS NOT NULL '' @
                     ''AND expires_at IS NOT NULL AND expires_at > acquired_at) OR '' @
                     ''(state <> 'LEASED' AND owner IS NULL '' @
                     ''AND acquired_at IS NULL AND expires_at IS NULL))'')]]
         else [[Raw ''CHECK (revision > 0)'']]))"

definition outbox_migration_statements :: "string \<Rightarrow> 'p bound_statement list" where
  "outbox_migration_statements namespace =
     map (\<lambda>(table, shape).
            bound ([Raw ''CREATE TABLE IF NOT EXISTS ''] @ ident [namespace, table] @ [Raw '' (''] @
                   join_sql [Raw '', ''] (shape_columns (table, shape)) @ [Raw '')'']) [])
       shapes"

section \<open>Read-only verification\<close>

text \<open>
  What the catalog queries return for a table: its columns in order, the definition of its primary
  key, and whether the runtime identity has a privilege on it.
\<close>

record catalog_view =
  cv_columns :: "string \<Rightarrow> (string \<times> string \<times> bool) list"
  cv_primary :: "string \<Rightarrow> string option"
  cv_privilege :: "string \<Rightarrow> string \<Rightarrow> bool"

definition verify_shape :: "catalog_view \<Rightarrow> string \<Rightarrow> string \<times> (string \<times> string \<times> bool) list \<Rightarrow> unit result" where
  "verify_shape cv namespace ts =
     (case ts of (table, shape) \<Rightarrow>
        (let qualified = namespace @ ''.'' @ table in
         and_then (ensure (cv_columns cv qualified = shape) RuntimeError) (\<lambda>_.
         and_then (ensure (cv_primary cv qualified =
             Some (''PRIMARY KEY (scope, resource_ref, projection, '' @ shape_key table @ '')''))
             RuntimeError) (\<lambda>_.
         and_then (traverse (\<lambda>p. ensure (cv_privilege cv qualified p) RuntimeError)
                     [''SELECT'', ''INSERT'', ''UPDATE'']) (\<lambda>_. Inr ())))))"

definition verify_storage :: "catalog_view \<Rightarrow> string \<Rightarrow> unit result" where
  "verify_storage cv namespace = and_then (traverse (verify_shape cv namespace) shapes) (\<lambda>_. Inr ())"

end
