(* ===== verification/Outbox.thy ===== *)
theory Outbox
  imports OutboxStore
begin

text \<open>
  The durable projection outbox of \<open>projection/outbox.py\<close>. The state is the part of the
  database that the outbox reads and writes: the rows of the intent table, and the two metadata
  tables as maps from their primary keys. Each SQL statement of the class is one function on that
  state with the meaning of its text; a method composes its statements, and returns with the result
  the database after it. A method that raises rolls its transaction back.

  Between two statements of a method, other sessions may commit (\<open>READ COMMITTED\<close>): where a method
  reads in one statement and writes in a later one, it takes a function \<open>mid\<close> or \<open>others\<close> on the
  database that stands for those commits. Timestamps are integers (microseconds); text is ordered by
  character code. \<open>partition_of\<close> and \<open>bytes_of\<close> stand for \<open>OutboxDataV1.partition_key\<close> and the
  JSON size of an intent.
\<close>

section \<open>State\<close>

datatype scalar = NullS | StrS string | IntS int

record intent =
  in_scope :: "string list"
  event_id :: string
  source_catalog :: string
  source_resource :: string
  source_schema :: string
  source_identity :: scalar
  source_version :: scalar
  mutation_kind :: string
  payload :: pyval
  immutable_reference :: pyval
  target_labels :: "string list"
  occurred_at :: int
  operation_context :: pyval
  digest :: string
  format_version :: string

datatype outbox_state = PENDING | LEASED | COMPLETED | RETRYABLE | QUARANTINED

record failure =
  fail_code :: string
  fail_cause :: string
  fail_at :: int

record state_row =
  st :: outbox_state
  attempt :: int
  owner :: "string option"
  acquired_at :: "int option"
  expires_at :: "int option"
  failure_of :: "failure option"
  done_target :: "string option"
  completed_at :: "int option"

record checkpoint_row =
  revision :: int
  ck_event :: string
  ck_version :: scalar
  ck_target :: string
  advanced_at :: int

text \<open>The key of an outbox: the values of the scope columns, the Resource and the projection name.\<close>

type_synonym outbox_key = "string list \<times> string \<times> string"

record outbox_db =
  intents :: "intent list"
  states :: "outbox_key \<times> string \<rightharpoonup> state_row"
  checkpoints :: "outbox_key \<times> string \<rightharpoonup> checkpoint_row"

record outbox =
  ob_scope_values :: "string list"
  ob_resource :: string
  spec_name :: string
  spec_catalog :: string
  spec_source :: string
  spec_schema :: string
  spec_labels :: "string list"
  ob_threshold :: int
  ob_max_batch :: int
  ob_max_result_bytes :: int

definition store_state :: "outbox_key \<times> string \<Rightarrow> state_row \<Rightarrow> outbox_db \<Rightarrow> outbox_db" where
  "store_state k r db = db\<lparr>states := (states db)(k \<mapsto> r)\<rparr>"

definition store_checkpoint :: "outbox_key \<times> string \<Rightarrow> checkpoint_row \<Rightarrow> outbox_db \<Rightarrow> outbox_db" where
  "store_checkpoint k r db = db\<lparr>checkpoints := (checkpoints db)(k \<mapsto> r)\<rparr>"

interpretation outbox_rows: keyed_table states store_state
  by unfold_locales (simp add: store_state_def)

interpretation checkpoint_tab: keyed_table checkpoints store_checkpoint
  by unfold_locales (simp add: store_checkpoint_def)

lemma store_frames [simp]:
  "intents (store_state k r db) = intents db" "checkpoints (store_state k r db) = checkpoints db"
  "intents (store_checkpoint k c db) = intents db" "states (store_checkpoint k c db) = states db"
  by (simp_all add: store_state_def store_checkpoint_def)

section \<open>Construction\<close>

fun positive_int :: "pyval \<Rightarrow> int result" where
  "positive_int (PInt n) = (if n < 1 then Inl ValueError else Inr n)"
| "positive_int _ = Inl ValueError"

record projection_spec =
  ps_name :: string
  ps_catalog :: string
  ps_source :: string
  ps_schema :: string
  ps_labels :: "string list"

text \<open>
  \<open>__init__\<close>: \<open>tenant\<close> and \<open>scope\<close> come from the operation context, and \<open>max_bytes\<close> from the
  binding's client settings.
\<close>

definition new_outbox ::
  "pg_settings \<Rightarrow> ref_parser \<Rightarrow> catalog_view \<Rightarrow> string \<Rightarrow> projection_spec \<Rightarrow> string option \<Rightarrow>
   string dict \<Rightarrow> pyval \<Rightarrow> pyval \<Rightarrow> int \<Rightarrow> outbox result" where
  "new_outbox s parser cv resource spec tenant scope threshold max_batch max_bytes =
     and_then (positive_int threshold) (\<lambda>threshold.
     and_then (positive_int max_batch) (\<lambda>max_batch.
     and_then (ensure (tenant \<noteq> None \<and> tenant \<noteq> Some [] \<and> set (keys scope) = set (scope_keys s))
                ValueError) (\<lambda>_.
     and_then (ensure (list_all (\<lambda>(k, v). v \<noteq> []) scope) ValueError) (\<lambda>_.
     and_then (and_then (parser (Some ''structured'') (PStr resource)) (layout_for s)) (\<lambda>layout.
     and_then (validate_layout layout) (\<lambda>_.
     and_then (and_then (parser (Some (ps_catalog spec)) (PStr (ps_source spec))) (layout_for s)) (\<lambda>_.
     and_then (traverse (\<lambda>k. dict_item k scope) (scope_keys s)) (\<lambda>values.
     and_then (verify_storage cv (physical_schema s)) (\<lambda>_.
       Inr \<lparr>ob_scope_values = (case tenant of Some t \<Rightarrow> t | None \<Rightarrow> []) # values,
            ob_resource = layout_key layout, spec_name = ps_name spec, spec_catalog = ps_catalog spec,
            spec_source = ps_source spec, spec_schema = ps_schema spec, spec_labels = ps_labels spec,
            ob_threshold = threshold, ob_max_batch = max_batch,
            ob_max_result_bytes = max_bytes\<rparr>)))))))))"

section \<open>Selecting intents\<close>

text \<open>\<open>_selection\<close>: exact scope, source and required labels.\<close>

definition selected :: "outbox \<Rightarrow> intent \<Rightarrow> bool" where
  "selected ob i \<longleftrightarrow> in_scope i = ob_scope_values ob \<and> source_catalog i = spec_catalog ob \<and>
     source_resource i = spec_source ob \<and> source_schema i = spec_schema ob \<and>
     set (spec_labels ob) \<subseteq> set (target_labels i)"

definition key_values :: "outbox \<Rightarrow> outbox_key" where
  "key_values ob = (ob_scope_values ob, ob_resource ob, spec_name ob)"

text \<open>\<open>_join\<close>: the state row of an intent, if it has one.\<close>

definition joined_state :: "outbox \<Rightarrow> outbox_db \<Rightarrow> intent \<Rightarrow> state_row option" where
  "joined_state ob db i = states db (key_values ob, event_id i)"

definition now_of :: "int \<Rightarrow> (int \<times> bool) option \<Rightarrow> int result" where
  "now_of clock now =
     (case now of None \<Rightarrow> Inr clock | Some (t, utc) \<Rightarrow> if utc then Inr t else Inl ValueError)"

text \<open>\<open>order\<close> of the claim statement: numeric versions first and by value, then occurrence and id.\<close>

definition claim_order :: "intent \<Rightarrow> int \<times> int \<times> int \<times> string" where
  "claim_order i =
     (case source_version i of
        IntS n \<Rightarrow> (0, n, occurred_at i, event_id i)
      | _ \<Rightarrow> (1, 0, occurred_at i, event_id i))"

definition completed :: "state_row option \<Rightarrow> bool" where
  "completed r \<longleftrightarrow> (case r of Some r \<Rightarrow> st r = COMPLETED | None \<Rightarrow> False)"

definition expired :: "int \<Rightarrow> state_row \<Rightarrow> bool" where
  "expired now r \<longleftrightarrow> (case expires_at r of Some e \<Rightarrow> e \<le> now | None \<Rightarrow> False)"

definition acquirable :: "int \<Rightarrow> state_row option \<Rightarrow> bool" where
  "acquirable now r \<longleftrightarrow>
     (case r of None \<Rightarrow> True
      | Some r \<Rightarrow> st r = RETRYABLE \<or> st r = LEASED \<and> expired now r)"

definition blocks :: "outbox \<Rightarrow> outbox_db \<Rightarrow> intent \<Rightarrow> intent \<Rightarrow> bool" where
  "blocks ob db i p \<longleftrightarrow> selected ob p \<and> source_identity p = source_identity i \<and>
     claim_order p < claim_order i \<and> \<not> completed (joined_state ob db p)"

definition claimable :: "outbox \<Rightarrow> outbox_db \<Rightarrow> int \<Rightarrow> intent \<Rightarrow> bool" where
  "claimable ob db now i \<longleftrightarrow> selected ob i \<and> acquirable now (joined_state ob db i) \<and>
     \<not> list_ex (blocks ob db i) (intents db)"

text \<open>
  The SELECT of the claim: \<open>locked\<close> are the event ids whose intent row another transaction has
  locked (\<open>SKIP LOCKED\<close>).
\<close>

definition candidates ::
  "outbox \<Rightarrow> outbox_db \<Rightarrow> int \<Rightarrow> (string \<Rightarrow> bool) \<Rightarrow> nat \<Rightarrow> intent list" where
  "candidates ob db now locked limit =
     take limit (filter (\<lambda>i. \<not> locked (event_id i))
       (sort_key (\<lambda>i. (occurred_at i, event_id i)) (filter (claimable ob db now) (intents db))))"

section \<open>Claiming\<close>

record lease =
  le_owner :: string
  le_acquired :: int
  le_expires :: int
  le_attempt :: int

record outbox_record =
  rec_data :: intent
  rec_state :: outbox_state
  rec_attempts :: int
  rec_lease :: "lease option"
  rec_failure :: "failure option"
  rec_target :: "string option"
  rec_completed_at :: "int option"

definition record_of :: "intent \<Rightarrow> state_row option \<Rightarrow> outbox_record" where
  "record_of i r =
     (case r of
        None \<Rightarrow> \<lparr>rec_data = i, rec_state = PENDING, rec_attempts = 0, rec_lease = None,
                 rec_failure = None, rec_target = None, rec_completed_at = None\<rparr>
      | Some r \<Rightarrow>
          \<lparr>rec_data = i, rec_state = st r, rec_attempts = attempt r,
           rec_lease =
             (if st r = LEASED
              then (case (owner r, acquired_at r, expires_at r) of
                      (Some ow, Some a, Some e) \<Rightarrow>
                        Some \<lparr>le_owner = ow, le_acquired = a, le_expires = e, le_attempt = attempt r\<rparr>
                    | _ \<Rightarrow> None)
              else None),
           rec_failure = failure_of r, rec_target = done_target r, rec_completed_at = completed_at r\<rparr>)"

text \<open>The INSERT of the claim: it inserts a lease, or updates the row when its WHERE holds.\<close>

definition acquire ::
  "outbox \<Rightarrow> string \<Rightarrow> int \<Rightarrow> int \<Rightarrow> string \<Rightarrow> outbox_db \<Rightarrow> (state_row \<times> outbox_db) option" where
  "acquire ob own current duration e db =
     (let k = (key_values ob, e) in
      case states db k of
        None \<Rightarrow>
          (let r = \<lparr>st = LEASED, attempt = 1, owner = Some own, acquired_at = Some current,
                    expires_at = Some (current + duration), failure_of = None, done_target = None,
                    completed_at = None\<rparr>
           in Some (r, store_state k r db))
      | Some r \<Rightarrow>
          if st r = RETRYABLE \<or> st r = LEASED \<and> expired current r
          then (let r' = r\<lparr>st := LEASED, attempt := attempt r + 1, owner := Some own,
                           acquired_at := Some current, expires_at := Some (current + duration),
                           failure_of := None\<rparr>
                in Some (r', store_state k r' db))
          else None)"

text \<open>
  The loop over the selected rows. \<open>base\<close> is the database with the commits of others only: it is
  what remains when the method raises. \<open>clock e\<close> is the database time at the event's statement.
\<close>

fun claim_loop ::
  "outbox \<Rightarrow> (intent \<Rightarrow> int) \<Rightarrow> string \<Rightarrow> int \<Rightarrow> (int \<times> bool) option \<Rightarrow> (string \<Rightarrow> int) \<Rightarrow>
   (string \<Rightarrow> outbox_db \<Rightarrow> outbox_db) \<Rightarrow> int \<Rightarrow> intent list \<Rightarrow> outbox_db \<Rightarrow> outbox_db \<Rightarrow>
   outbox_record list result \<times> outbox_db" where
  "claim_loop ob bytes_of own duration now clock others bytes [] base db = (Inr [], db)"
| "claim_loop ob bytes_of own duration now clock others bytes (i # is) base db =
     (let bytes = bytes + bytes_of i; e = event_id i in
      if bytes > ob_max_result_bytes ob
      then (Inl (MeridianError ValidationError OPERATION_RESULT_LIMIT), base)
      else case now_of (clock e) now of
             Inl er \<Rightarrow> (Inl er, base)
           | Inr current \<Rightarrow>
               (let base = others e base; db = others e db;
                    (got, db) = (case acquire ob own current duration e db of
                                   Some (r, db) \<Rightarrow> ([record_of i (Some r)], db)
                                 | None \<Rightarrow> ([], db))
                in case claim_loop ob bytes_of own duration now clock others bytes is base db of
                     (Inl er, b) \<Rightarrow> (Inl er, b)
                   | (Inr rs, d) \<Rightarrow> (Inr (got @ rs), d)))"

fun claim_limit :: "outbox \<Rightarrow> pyval \<Rightarrow> nat result" where
  "claim_limit ob (PInt n) =
     (if 1 \<le> n \<and> n \<le> ob_max_batch ob then Inr (nat n) else Inl ValueError)"
| "claim_limit ob _ = Inl ValueError"

definition atomic_claim ::
  "outbox \<Rightarrow> (intent \<Rightarrow> int) \<Rightarrow> string \<Rightarrow> pyval \<Rightarrow> int \<Rightarrow> (int \<times> bool) option \<Rightarrow> int \<Rightarrow>
   (string \<Rightarrow> int) \<Rightarrow> (string \<Rightarrow> bool) \<Rightarrow> (string \<Rightarrow> outbox_db \<Rightarrow> outbox_db) \<Rightarrow> outbox_db \<Rightarrow>
   outbox_record list result \<times> outbox_db" where
  "atomic_claim ob bytes_of own limit duration now clock0 clock locked others db =
     (case and_then (ensure (own \<noteq> []) ValueError) (\<lambda>_.
           and_then (claim_limit ob limit) (\<lambda>n.
           and_then (ensure (0 < duration) ValueError) (\<lambda>_.
           and_then (now_of clock0 now) (\<lambda>current. Inr (n, current))))) of
        Inl e \<Rightarrow> (Inl e, db)
      | Inr (n, current) \<Rightarrow>
          claim_loop ob bytes_of own duration now clock others 0 (candidates ob db current locked n) db db)"

section \<open>Completing and releasing\<close>

definition load :: "outbox \<Rightarrow> outbox_db \<Rightarrow> string \<Rightarrow> (intent \<times> state_row option) result" where
  "load ob db e =
     (case find (\<lambda>i. selected ob i \<and> event_id i = e) (intents db) of
        None \<Rightarrow> Inl NotFoundError
      | Some i \<Rightarrow> Inr (i, joined_state ob db i))"

definition leased ::
  "outbox \<Rightarrow> outbox_db \<Rightarrow> string \<Rightarrow> string \<Rightarrow> int \<Rightarrow> (int \<times> bool) option \<Rightarrow>
   (intent \<times> state_row \<times> int) result" where
  "leased ob db e own clock now =
     and_then (load ob db e) (\<lambda>(i, row).
     and_then (now_of clock now) (\<lambda>current.
       (case row of
          None \<Rightarrow> Inl LeaseLostError
        | Some r \<Rightarrow>
            if st r \<noteq> LEASED \<or> owner r \<noteq> Some own \<or> expired current r
            then Inl LeaseLostError else Inr (i, r, current))))"

record checkpoint =
  cp_partition :: string
  cp_revision :: int
  cp_row :: "checkpoint_row option"

definition progress :: "checkpoint_row \<Rightarrow> string \<Rightarrow> checkpoint" where
  "progress row pk = \<lparr>cp_partition = pk, cp_revision = revision row, cp_row = Some row\<rparr>"

definition read_checkpoint :: "outbox \<Rightarrow> outbox_db \<Rightarrow> string \<Rightarrow> checkpoint" where
  "read_checkpoint ob db pk =
     (case checkpoints db (key_values ob, pk) of
        Some row \<Rightarrow> progress row pk
      | None \<Rightarrow> \<lparr>cp_partition = pk, cp_revision = 0, cp_row = None\<rparr>)"

text \<open>The checkpoint upsert: it updates only a row of the expected revision.\<close>

definition upsert_checkpoint ::
  "outbox_key \<times> string \<Rightarrow> int \<Rightarrow> checkpoint_row \<Rightarrow> outbox_db \<Rightarrow> outbox_db option" where
  "upsert_checkpoint k expected row db =
     (case checkpoints db k of
        None \<Rightarrow> Some (store_checkpoint k row db)
      | Some c \<Rightarrow> if revision c = expected then Some (store_checkpoint k row db) else None)"

text \<open>
  The final UPDATE of completion and release: guarded by the lease being held and alive at the
  statement's own time \<open>moment\<close>.
\<close>

definition end_lease ::
  "outbox_key \<times> string \<Rightarrow> string \<Rightarrow> int \<Rightarrow> (state_row \<Rightarrow> state_row) \<Rightarrow> outbox_db \<Rightarrow>
   (state_row \<times> outbox_db) option" where
  "end_lease k own moment f db =
     (case states db k of
        None \<Rightarrow> None
      | Some r \<Rightarrow>
          if st r = LEASED \<and> owner r = Some own \<and>
             (case expires_at r of Some e \<Rightarrow> e > moment | None \<Rightarrow> False)
          then (let r' = (f r)\<lparr>owner := None, acquired_at := None, expires_at := None\<rparr>
                in Some (r', store_state k r' db))
          else None)"

definition statement_time :: "int \<Rightarrow> (int \<times> bool) option \<Rightarrow> int" where
  "statement_time clock now = (case now of Some (t, _) \<Rightarrow> t | None \<Rightarrow> clock)"

definition complete ::
  "outbox \<Rightarrow> (intent \<Rightarrow> string) \<Rightarrow> string \<Rightarrow> string \<Rightarrow> scalar \<Rightarrow> string \<Rightarrow> (int \<times> bool) option \<Rightarrow>
   int \<Rightarrow> int \<Rightarrow> (outbox_db \<Rightarrow> outbox_db) \<Rightarrow> outbox_db \<Rightarrow> checkpoint result \<times> outbox_db" where
  "complete ob partition_of e own acknowledged target now clock clock' mid db =
     (if \<not> is_fingerprint target then (Inl ValueError, db)
      else case leased ob db e own clock now of
        Inl er \<Rightarrow> (Inl er, db)
      | Inr (i, _, current) \<Rightarrow>
          if acknowledged \<noteq> source_version i then (Inl CheckpointConflict, db)
          else
            (let pk = partition_of i;
                 expected = cp_revision (read_checkpoint ob db pk);
                 row = \<lparr>revision = expected + 1, ck_event = e, ck_version = source_version i,
                        ck_target = target, advanced_at = current\<rparr>;
                 base = mid db
             in case upsert_checkpoint (key_values ob, pk) expected row base of
                  None \<Rightarrow> (Inl CheckpointConflict, base)
                | Some db1 \<Rightarrow>
                    (case end_lease (key_values ob, e) own (statement_time clock' now)
                            (\<lambda>r. r\<lparr>st := COMPLETED, failure_of := None, done_target := Some target,
                                   completed_at := Some current\<rparr>) db1 of
                       None \<Rightarrow> (Inl LeaseLostError, base)
                     | Some (_, db2) \<Rightarrow> (Inr (progress row pk), db2))))"

definition release_event ::
  "outbox \<Rightarrow> string \<Rightarrow> string \<Rightarrow> string \<Rightarrow> bool \<Rightarrow> (int \<times> bool) option \<Rightarrow> int \<Rightarrow> int \<Rightarrow>
   (outbox_db \<Rightarrow> outbox_db) \<Rightarrow> outbox_db \<Rightarrow> outbox_record result \<times> outbox_db" where
  "release_event ob e own error_name retryable now clock clock' mid db =
     (case leased ob db e own clock now of
        Inl er \<Rightarrow> (Inl er, db)
      | Inr (i, r, current) \<Rightarrow>
          (let fl = \<lparr>fail_code = take 128 error_name,
                     fail_cause = ''projection failed (details redacted)'', fail_at = current\<rparr>;
               state = (if retryable \<and> attempt r < ob_threshold ob then RETRYABLE else QUARANTINED);
               base = mid db
           in case end_lease (key_values ob, e) own (statement_time clock' now)
                     (\<lambda>r. r\<lparr>st := state, failure_of := Some fl\<rparr>) base of
                None \<Rightarrow> (Inl LeaseLostError, base)
              | Some (r', db1) \<Rightarrow> (Inr (record_of i (Some r')), db1)))"

definition get_event :: "outbox \<Rightarrow> outbox_db \<Rightarrow> string \<Rightarrow> outbox_record result" where
  "get_event ob db e = and_then (load ob db e) (\<lambda>(i, row). Inr (record_of i row))"

record projection_lag =
  lag_count :: nat
  lag_oldest :: "int option"
  lag_age :: int

definition lag :: "outbox \<Rightarrow> outbox_db \<Rightarrow> int \<Rightarrow> (int \<times> bool) option \<Rightarrow> projection_lag result" where
  "lag ob db clock now =
     (let open_rows = filter (\<lambda>i. selected ob i \<and> \<not> completed (joined_state ob db i)) (intents db)
      in and_then (now_of clock now) (\<lambda>current.
           Inr (case map occurred_at open_rows of
                  [] \<Rightarrow> \<lparr>lag_count = 0, lag_oldest = None, lag_age = 0\<rparr>
                | t # ts \<Rightarrow>
                    (let oldest = fold min ts t
                     in \<lparr>lag_count = length open_rows, lag_oldest = Some oldest,
                         lag_age = max 0 (current - oldest)\<rparr>))))"

end
