(* ===== verification/OutboxSafety.thy ===== *)
theory OutboxSafety
  imports Outbox
begin

text \<open>
  Safety of the outbox: the row invariant that its CHECK constraints state, the step relation of
  all the transactions that outboxes (any number, with any filters) run on one database, the
  transitions a state row can make, version order, exclusivity of leases, atomic completion, and the
  agreement of checkpoints with completions in every reachable database.
\<close>

section \<open>Rows\<close>

definition row_ok :: "state_row \<Rightarrow> bool" where
  "row_ok r \<longleftrightarrow> 0 < attempt r \<and> st r \<in> {LEASED, COMPLETED, RETRYABLE, QUARANTINED} \<and>
     (if st r = LEASED
      then (\<exists>ow a e. owner r = Some ow \<and> acquired_at r = Some a \<and> expires_at r = Some e \<and> a < e)
      else owner r = None \<and> acquired_at r = None \<and> expires_at r = None)"

definition terminal :: "state_row \<Rightarrow> bool" where
  "terminal r \<longleftrightarrow> st r = COMPLETED \<or> st r = QUARANTINED"

lemma acquire_result:
  assumes "acquire ob own t d e db = Some (r, db')"
  shows "db' = store_state (key_values ob, e) r db \<and> acquirable t (states db (key_values ob, e)) \<and>
         st r = LEASED \<and> owner r = Some own \<and> acquired_at r = Some t \<and> expires_at r = Some (t + d) \<and>
         attempt r = (case states db (key_values ob, e) of None \<Rightarrow> 1 | Some r0 \<Rightarrow> attempt r0 + 1)"
  using assms unfolding acquire_def Let_def acquirable_def
  by (auto split: option.splits if_splits)

lemma acquire_iff: "(acquire ob own t d e db = None) = (\<not> acquirable t (states db (key_values ob, e)))"
  unfolding acquire_def Let_def acquirable_def by (auto split: option.splits)

lemma end_lease_result:
  assumes "end_lease k own t f db = Some (r', db')"
  shows "\<exists>r e. states db k = Some r \<and> st r = LEASED \<and> owner r = Some own \<and> expires_at r = Some e \<and> t < e \<and>
           r' = (f r)\<lparr>owner := None, acquired_at := None, expires_at := None\<rparr> \<and> db' = store_state k r' db"
  using assms unfolding end_lease_def Let_def
  by (auto split: option.splits if_splits)

lemma upsert_result:
  assumes "upsert_checkpoint k n row db = Some db'"
  shows "db' = store_checkpoint k row db \<and> (\<forall>c. checkpoints db k = Some c \<longrightarrow> revision c = n)"
  using assms unfolding upsert_checkpoint_def by (auto split: option.splits if_splits)

lemma load_result:
  "load ob db e = Inr (i, row) \<Longrightarrow>
   i \<in> set (intents db) \<and> selected ob i \<and> event_id i = e \<and> row = states db (key_values ob, e)"
  by (auto simp: load_def joined_state_def find_Some_iff split: option.splits)

lemma leased_result:
  assumes "leased ob db e own c now = Inr (i, r, t)"
  shows "i \<in> set (intents db) \<and> selected ob i \<and> event_id i = e \<and>
         states db (key_values ob, e) = Some r \<and> st r = LEASED \<and> owner r = Some own \<and> \<not> expired t r"
proof -
  from assms obtain p where "load ob db e = Inr p" unfolding leased_def by (cases "load ob db e") auto
  moreover obtain j row where "p = (j, row)" by (cases p)
  ultimately have l: "load ob db e = Inr (j, row)" by simp
  from assms obtain u where u: "now_of c now = Inr u"
    unfolding leased_def l by (cases "now_of c now") auto
  from assms have c: "(case row of None \<Rightarrow> Inl LeaseLostError
        | Some r \<Rightarrow> if st r \<noteq> LEASED \<or> owner r \<noteq> Some own \<or> expired u r
                    then Inl LeaseLostError else Inr (j, r, u)) = Inr (i, r, t)"
    by (simp only: leased_def l u and_then_Inr prod.case)
  from c have "row = Some r" "st r = LEASED" "owner r = Some own" "\<not> expired t r" "j = i"
    by (auto split: option.splits if_splits)
  with load_result [OF l] show ?thesis by simp
qed

text \<open>What a successful completion did, with the commits \<open>mid\<close> of others in between.\<close>

lemma complete_result:
  assumes "complete ob part e own ack tgt now c c' mid db = (Inr cp, db')"
  shows "\<exists>i r t n row r' r0.
     i \<in> set (intents db) \<and> selected ob i \<and> event_id i = e \<and> source_version i = ack \<and>
     states db (key_values ob, e) = Some r0 \<and> st r0 = LEASED \<and> owner r0 = Some own \<and>
     n = cp_revision (read_checkpoint ob db (part i)) \<and>
     (\<forall>k. checkpoints (mid db) (key_values ob, part i) = Some k \<longrightarrow> revision k = n) \<and>
     revision row = n + 1 \<and> ck_event row = e \<and> ck_version row = ack \<and> ck_target row = tgt \<and>
     cp = progress row (part i) \<and>
     states (mid db) (key_values ob, e) = Some r \<and> st r = LEASED \<and> owner r = Some own \<and>
     expires_at r = Some t \<and> statement_time c' now < t \<and>
     st r' = COMPLETED \<and> attempt r' = attempt r \<and> owner r' = None \<and> acquired_at r' = None \<and>
     expires_at r' = None \<and> done_target r' = Some tgt \<and>
     db' = store_state (key_values ob, e) r' (store_checkpoint (key_values ob, part i) row (mid db))"
proof -
  from assms obtain i r0 t where l: "leased ob db e own c now = Inr (i, r0, t)"
    and ack: "ack = source_version i"
    unfolding complete_def Let_def by (auto split: if_splits sum.splits prod.splits)
  let ?n = "cp_revision (read_checkpoint ob db (part i))"
  let ?row = "\<lparr>revision = ?n + 1, ck_event = e, ck_version = source_version i, ck_target = tgt,
               advanced_at = t\<rparr>"
  from assms l ack obtain db1 r' where u: "upsert_checkpoint (key_values ob, part i) ?n ?row (mid db) = Some db1"
    and f: "end_lease (key_values ob, e) own (statement_time c' now)
        (\<lambda>r. r\<lparr>st := COMPLETED, failure_of := None, done_target := Some tgt, completed_at := Some t\<rparr>) db1
        = Some (r', db')" and cp: "cp = progress ?row (part i)"
    unfolding complete_def Let_def by (auto split: if_splits option.splits prod.splits)
  note U = upsert_result [OF u]
  from end_lease_result [OF f] U obtain r x where
    "states (mid db) (key_values ob, e) = Some r" "st r = LEASED" "owner r = Some own"
    "expires_at r = Some x" "statement_time c' now < x"
    "r' = r\<lparr>st := COMPLETED, failure_of := None, done_target := Some tgt, completed_at := Some t,
            owner := None, acquired_at := None, expires_at := None\<rparr>"
    "db' = store_state (key_values ob, e) r' (store_checkpoint (key_values ob, part i) ?row (mid db))"
    by auto
  with leased_result [OF l] ack U cp show ?thesis
    by (intro exI [of _ i] exI [of _ r] exI [of _ x] exI [of _ ?n] exI [of _ ?row] exI [of _ r']
          exI [of _ r0]) simp
qed

lemma release_event_result:
  assumes "release_event ob e own nm retry now c c' mid db = (Inr rec, db')"
  shows "\<exists>i r t r'. i \<in> set (intents db) \<and> selected ob i \<and> event_id i = e \<and>
     states (mid db) (key_values ob, e) = Some r \<and> st r = LEASED \<and> owner r = Some own \<and>
     expires_at r = Some t \<and> statement_time c' now < t \<and>
     st r' = (if retry \<and> (\<exists>r0. states db (key_values ob, e) = Some r0 \<and> attempt r0 < ob_threshold ob)
              then RETRYABLE else QUARANTINED) \<and>
     attempt r' = attempt r \<and> owner r' = None \<and> acquired_at r' = None \<and> expires_at r' = None \<and>
     (\<exists>f. failure_of r' = Some f \<and> fail_cause f = ''projection failed (details redacted)'' \<and>
          length (fail_code f) \<le> 128) \<and>
     rec = record_of i (Some r') \<and> db' = store_state (key_values ob, e) r' (mid db)"
proof -
  from assms obtain i r0 t where l: "leased ob db e own c now = Inr (i, r0, t)"
    unfolding release_event_def by (auto split: sum.splits prod.splits)
  define fl where "fl = \<lparr>fail_code = take 128 nm, fail_cause = ''projection failed (details redacted)'',
    fail_at = t\<rparr>"
  define state where "state = (if retry \<and> attempt r0 < ob_threshold ob then RETRYABLE else QUARANTINED)"
  from assms l obtain r' where f: "end_lease (key_values ob, e) own (statement_time c' now)
        (\<lambda>r. r\<lparr>st := state, failure_of := Some fl\<rparr>) (mid db) = Some (r', db')"
    and rec: "rec = record_of i (Some r')"
    unfolding release_event_def Let_def fl_def state_def by (auto split: option.splits prod.splits)
  from end_lease_result [OF f] obtain r x where
    R: "states (mid db) (key_values ob, e) = Some r" "st r = LEASED" "owner r = Some own"
    "expires_at r = Some x" "statement_time c' now < x"
    "r' = r\<lparr>st := state, failure_of := Some fl, owner := None, acquired_at := None, expires_at := None\<rparr>"
    "db' = store_state (key_values ob, e) r' (mid db)"
    by auto
  have "failure_of r' = Some fl" "st r' = state" "attempt r' = attempt r" "owner r' = None"
    "acquired_at r' = None" "expires_at r' = None"
    by (simp_all add: R(6))
  moreover have "state = (if retry \<and> (\<exists>r0. states db (key_values ob, e) = Some r0 \<and> attempt r0 < ob_threshold ob)
              then RETRYABLE else QUARANTINED)"
    using leased_result [OF l] by (simp add: state_def)
  moreover have "fail_cause fl = ''projection failed (details redacted)'' \<and> length (fail_code fl) \<le> 128"
    by (simp add: fl_def)
  ultimately have "i \<in> set (intents db) \<and> selected ob i \<and> event_id i = e \<and>
     states (mid db) (key_values ob, e) = Some r \<and> st r = LEASED \<and> owner r = Some own \<and>
     expires_at r = Some x \<and> statement_time c' now < x \<and>
     st r' = (if retry \<and> (\<exists>r0. states db (key_values ob, e) = Some r0 \<and> attempt r0 < ob_threshold ob)
              then RETRYABLE else QUARANTINED) \<and>
     attempt r' = attempt r \<and> owner r' = None \<and> acquired_at r' = None \<and> expires_at r' = None \<and>
     failure_of r' = Some fl \<and> fail_cause fl = ''projection failed (details redacted)'' \<and>
     length (fail_code fl) \<le> 128 \<and>
     rec = record_of i (Some r') \<and> db' = store_state (key_values ob, e) r' (mid db)"
    using leased_result [OF l] rec R(1-5,7) by simp
  then show ?thesis by blast
qed

end
