(* ===== verification/OutboxSteps.thy ===== *)
theory OutboxSteps
  imports OutboxSafety
begin

text \<open>
  The outbox as a state machine: any number of outboxes on one intent table, with any filters and
  any clocks, run on one database. Every method of \<open>Outbox\<close> is shown to take the database from one
  state to another along these steps, also when other sessions commit between its statements; every
  property of a step is therefore one of the method.
\<close>

definition intent_key :: "intent \<Rightarrow> string list \<times> string" where
  "intent_key i = (in_scope i, event_id i)"

inductive outbox_step :: "string \<Rightarrow> (intent \<Rightarrow> string) \<Rightarrow> outbox_db \<Rightarrow> outbox_db \<Rightarrow> bool"
  for res part where
  append_step:
    "intent_key i \<notin> intent_key ` set (intents db) \<Longrightarrow>
     outbox_step res part db (db\<lparr>intents := intents db @ [i]\<rparr>)"
| acquire_step:
    "i \<in> set (intents db) \<Longrightarrow> selected ob i \<Longrightarrow> ob_resource ob = res \<Longrightarrow> 0 < d \<Longrightarrow>
     acquire ob own t d (event_id i) db = Some (r, db') \<Longrightarrow> outbox_step res part db db'"
| complete_step:
    "ob_resource ob = res \<Longrightarrow>
     complete ob part e own ack tgt now c c' id db = (Inr cp, db') \<Longrightarrow> outbox_step res part db db'"
| release_step:
    "ob_resource ob = res \<Longrightarrow>
     release_event ob e own nm retry now c c' id db = (Inr rec, db') \<Longrightarrow> outbox_step res part db db'"

definition empty_outbox :: outbox_db where
  "empty_outbox = \<lparr>intents = [], states = Map.empty, checkpoints = Map.empty\<rparr>"

abbreviation outbox_steps :: "string \<Rightarrow> (intent \<Rightarrow> string) \<Rightarrow> outbox_db \<Rightarrow> outbox_db \<Rightarrow> bool" where
  "outbox_steps res part \<equiv> (outbox_step res part)\<^sup>*\<^sup>*"

section \<open>What a step changes\<close>

text \<open>The transitions of one state row.\<close>

definition row_change :: "state_row option \<Rightarrow> state_row option \<Rightarrow> bool" where
  "row_change old new \<longleftrightarrow> new = old \<or>
     (\<exists>r'. new = Some r' \<and> st r' = LEASED \<and>
        (case old of
           None \<Rightarrow> attempt r' = 1
         | Some r \<Rightarrow> attempt r' = attempt r + 1 \<and>
             (st r = RETRYABLE \<or>
              st r = LEASED \<and> (\<exists>e a. expires_at r = Some e \<and> acquired_at r' = Some a \<and> e \<le> a)))) \<or>
     (\<exists>r r'. old = Some r \<and> new = Some r' \<and> st r = LEASED \<and> attempt r' = attempt r \<and>
        st r' \<in> {COMPLETED, RETRYABLE, QUARANTINED})"

lemma row_change_refl [simp]: "row_change x x"
  by (simp add: row_change_def)

lemma row_change_terminal: "row_change (Some r) new \<Longrightarrow> terminal r \<Longrightarrow> new = Some r"
  by (auto simp: row_change_def terminal_def)

lemma row_change_present: "row_change (Some r) new \<Longrightarrow> new \<noteq> None"
  by (auto simp: row_change_def)

lemma row_change_attempts: "row_change (Some r) (Some r') \<Longrightarrow> attempt r \<le> attempt r'"
  by (auto simp: row_change_def)

text \<open>
  The effect of one step: an intent is appended, or one row changes and satisfies the row invariant,
  and a checkpoint advances by one exactly when that row becomes completed.
\<close>

definition row_written ::
  "string \<Rightarrow> outbox_db \<Rightarrow> outbox_key \<Rightarrow> intent \<Rightarrow> state_row \<Rightarrow> bool" where
  "row_written res db k i r' \<longleftrightarrow>
     i \<in> set (intents db) \<and> in_scope i = fst k \<and> fst (snd k) = res \<and>
     row_change (states db (k, event_id i)) (Some r') \<and>
     \<not> (\<exists>r. states db (k, event_id i) = Some r \<and> terminal r) \<and>
     (row_ok r' \<or> (\<exists>r. states db (k, event_id i) = Some r \<and> \<not> row_ok r))"

definition recorded :: "outbox_db \<Rightarrow> outbox_key \<Rightarrow> string \<Rightarrow> int" where
  "recorded db k pk = (case checkpoints db (k, pk) of None \<Rightarrow> 0 | Some c \<Rightarrow> revision c)"

lemma read_checkpoint_recorded: "cp_revision (read_checkpoint ob db pk) = recorded db (key_values ob) pk"
  by (simp add: read_checkpoint_def recorded_def progress_def split: option.splits)

lemma acquire_written:
  assumes "i \<in> set (intents db)" "selected ob i" "0 < d"
    and "acquire ob own t d (event_id i) db = Some (r, db')"
  shows "row_written (ob_resource ob) db (key_values ob) i r \<and> st r = LEASED \<and>
         db' = store_state (key_values ob, event_id i) r db"
proof -
  note A = acquire_result [OF assms(4)]
  let ?old = "states db (key_values ob, event_id i)"
  have "row_change ?old (Some r)"
    using A by (cases ?old) (auto simp: row_change_def acquirable_def expired_def split: option.splits)
  moreover have "\<not> (\<exists>r. ?old = Some r \<and> terminal r)"
    using A by (auto simp: acquirable_def terminal_def)
  moreover have "row_ok r \<or> (\<exists>r. ?old = Some r \<and> \<not> row_ok r)"
    using A assms(3) by (cases ?old) (auto simp: row_ok_def)
  ultimately show ?thesis
    using A assms(1,2) by (simp add: row_written_def key_values_def selected_def)
qed


lemma ended_written:
  assumes "i \<in> set (intents db)" "selected ob i"
    and "states db (key_values ob, event_id i) = Some r" "st r = LEASED"
    and "st r' \<in> {COMPLETED, RETRYABLE, QUARANTINED}" "attempt r' = attempt r"
    and "owner r' = None" "acquired_at r' = None" "expires_at r' = None"
  shows "row_written (ob_resource ob) db (key_values ob) i r'"
  unfolding row_written_def
proof (intro conjI)
  show "row_change (states db (key_values ob, event_id i)) (Some r')"
    using assms by (simp add: row_change_def)
  show "\<not> (\<exists>r. states db (key_values ob, event_id i) = Some r \<and> terminal r)"
    using assms by (simp add: terminal_def)
  show "row_ok r' \<or> (\<exists>r. states db (key_values ob, event_id i) = Some r \<and> \<not> row_ok r)"
    using assms by (cases "row_ok r") (auto simp: row_ok_def)
qed (use assms in \<open>simp_all add: key_values_def selected_def\<close>)

lemma complete_written:
  assumes "complete ob part e own ack tgt now c c' id db = (Inr cp, db')"
  shows "\<exists>i r' row. row_written (ob_resource ob) db (key_values ob) i r' \<and> st r' = COMPLETED \<and>
     revision row = recorded db (key_values ob) (part i) + 1 \<and>
     db' = store_state (key_values ob, event_id i) r'
             (store_checkpoint (key_values ob, part i) row db)"
proof -
  from complete_result [OF assms] obtain i r t n row r' r0 where C:
    "i \<in> set (intents db)" "selected ob i" "event_id i = e"
    "n = cp_revision (read_checkpoint ob db (part i))" "revision row = n + 1"
    "states (id db) (key_values ob, e) = Some r" "st r = LEASED"
    "st r' = COMPLETED" "attempt r' = attempt r" "owner r' = None" "acquired_at r' = None"
    "expires_at r' = None"
    "db' = store_state (key_values ob, e) r' (store_checkpoint (key_values ob, part i) row (id db))"
    by blast
  from C have "row_written (ob_resource ob) db (key_values ob) i r'"
    by (intro ended_written [where r = r]) simp_all
  moreover have "revision row = recorded db (key_values ob) (part i) + 1"
    using C(4,5) by (simp add: read_checkpoint_recorded)
  moreover have "db' = store_state (key_values ob, event_id i) r'
             (store_checkpoint (key_values ob, part i) row db)"
    using C(3,13) by simp
  ultimately show ?thesis using C(8) by blast
qed

lemma release_written:
  assumes "release_event ob e own nm retry now c c' id db = (Inr rec, db')"
  shows "\<exists>i r'. row_written (ob_resource ob) db (key_values ob) i r' \<and>
     st r' \<in> {RETRYABLE, QUARANTINED} \<and> db' = store_state (key_values ob, event_id i) r' db"
proof -
  from release_event_result [OF assms] obtain i r t r' where C:
    "i \<in> set (intents db)" "selected ob i" "event_id i = e"
    "states (id db) (key_values ob, e) = Some r" "st r = LEASED"
    "st r' = (if retry \<and> (\<exists>r0. states db (key_values ob, e) = Some r0 \<and> attempt r0 < ob_threshold ob)
              then RETRYABLE else QUARANTINED)"
    "attempt r' = attempt r" "owner r' = None" "acquired_at r' = None" "expires_at r' = None"
    "db' = store_state (key_values ob, e) r' (id db)"
    by blast
  have "st r' \<in> {RETRYABLE, QUARANTINED}" using C(6) by simp
  moreover from C this have "row_written (ob_resource ob) db (key_values ob) i r'"
    by (intro ended_written [where r = r]) auto
  ultimately show ?thesis using C(3,11) by auto
qed

lemma outbox_step_effect:
  assumes "outbox_step res part db db'"
  obtains
    (append) i where "intent_key i \<notin> intent_key ` set (intents db)"
      "db' = db\<lparr>intents := intents db @ [i]\<rparr>"
  | (row) k i r' where "row_written res db k i r'" "st r' \<noteq> COMPLETED"
      "db' = store_state (k, event_id i) r' db"
  | (finish) k i r' row where "row_written res db k i r'" "st r' = COMPLETED"
      "revision row = recorded db k (part i) + 1"
      "db' = store_state (k, event_id i) r' (store_checkpoint (k, part i) row db)"
  using assms
proof cases
  case (append_step i)
  show ?thesis by (rule append [OF append_step(2) append_step(1)])
next
  case (acquire_step i ob d own t r)
  from acquire_written [OF acquire_step(1,2,4,5)] acquire_step(3)
  have "row_written res db (key_values ob) i r" "st r \<noteq> COMPLETED"
    "db' = store_state (key_values ob, event_id i) r db" by simp_all
  then show ?thesis by (rule row)
next
  case (complete_step ob e own ack tgt now c c' cp)
  from complete_written [OF complete_step(2)] obtain i r' row' where
    "row_written (ob_resource ob) db (key_values ob) i r'" "st r' = COMPLETED"
    "revision row' = recorded db (key_values ob) (part i) + 1"
    "db' = store_state (key_values ob, event_id i) r'
             (store_checkpoint (key_values ob, part i) row' db)" by blast
  then show ?thesis unfolding complete_step(1) by (rule finish)
next
  case release_step
  from release_written [OF release_step(2)] release_step(1) obtain ob i r' where
    "row_written res db (key_values ob) i r'" "st r' \<in> {RETRYABLE, QUARANTINED}"
    "db' = store_state (key_values ob, event_id i) r' db" by blast
  moreover from this(2) have "st r' \<noteq> COMPLETED" by auto
  ultimately show ?thesis by - (rule row)
qed

section \<open>Monotonicity\<close>

lemma step_intents: "outbox_step res part db db' \<Longrightarrow> \<exists>xs. intents db' = intents db @ xs"
  by (erule outbox_step_effect) auto

lemma step_row_change:
  assumes "outbox_step res part db db'" shows "row_change (states db k) (states db' k)"
  using assms
proof (cases rule: outbox_step_effect)
  case append
  then show ?thesis by simp
next
  case row
  then show ?thesis by (auto simp: row_written_def store_state_def)
next
  case finish
  then show ?thesis
    by (auto simp: row_written_def store_state_def store_checkpoint_def)
qed

lemma recorded_store_state [simp]: "recorded (store_state k r db) = recorded db"
  by (simp add: recorded_def fun_eq_iff)

lemma recorded_store_checkpoint [simp]:
  "recorded (store_checkpoint (k, pk) row db) k' pk' =
   (if k' = k \<and> pk' = pk then revision row else recorded db k' pk')"
  by (simp add: recorded_def store_checkpoint_def)

lemma recorded_append: "recorded (db\<lparr>intents := xs\<rparr>) = recorded db"
  by (simp add: recorded_def fun_eq_iff)

lemma step_recorded: "outbox_step res part db db' \<Longrightarrow> recorded db k pk \<le> recorded db' k pk"
  by (erule outbox_step_effect) (auto simp: recorded_append)

lemma step_checkpoint_present:
  "outbox_step res part db db' \<Longrightarrow> checkpoints db k \<noteq> None \<Longrightarrow> checkpoints db' k \<noteq> None"
  by (erule outbox_step_effect) (auto simp: store_checkpoint_def)

lemma steps_intents: "outbox_steps res part db db' \<Longrightarrow> \<exists>xs. intents db' = intents db @ xs"
  by (induction rule: rtranclp_induct) (auto dest!: step_intents)

lemma steps_intents_subset:
  "outbox_steps res part db db' \<Longrightarrow> set (intents db) \<subseteq> set (intents db')"
  by (auto dest: steps_intents)

lemma steps_terminal:
  "outbox_steps res part db db' \<Longrightarrow> states db k = Some r \<Longrightarrow> terminal r \<Longrightarrow> states db' k = Some r"
proof (induction rule: rtranclp_induct)
  case (step y z)
  then show ?case using step_row_change [of res part y z k] row_change_terminal by metis
qed simp

lemma steps_completed:
  "outbox_steps res part db db' \<Longrightarrow> completed (joined_state ob db i) \<Longrightarrow>
   completed (joined_state ob db' i)"
  by (auto simp: completed_def joined_state_def terminal_def dest: steps_terminal
      split: option.splits)

lemma steps_recorded: "outbox_steps res part db db' \<Longrightarrow> recorded db k pk \<le> recorded db' k pk"
  by (induction rule: rtranclp_induct) (auto intro: order_trans step_recorded)

lemma steps_checkpoint_present:
  "outbox_steps res part db db' \<Longrightarrow> checkpoints db k \<noteq> None \<Longrightarrow> checkpoints db' k \<noteq> None"
  by (induction rule: rtranclp_induct) (auto dest: step_checkpoint_present)

section \<open>The invariant\<close>

definition done_events :: "(intent \<Rightarrow> string) \<Rightarrow> outbox_db \<Rightarrow> outbox_key \<Rightarrow> string \<Rightarrow> string set" where
  "done_events part db k pk =
     {e. completed (states db (k, e)) \<and> (\<exists>i \<in> set (intents db). intent_key i = (fst k, e) \<and> part i = pk)}"

definition outbox_wf :: "(intent \<Rightarrow> string) \<Rightarrow> outbox_db \<Rightarrow> bool" where
  "outbox_wf part db \<longleftrightarrow>
     distinct (map intent_key (intents db)) \<and>
     (\<forall>k r. states db k = Some r \<longrightarrow> row_ok r) \<and>
     (\<forall>k e. states db (k, e) \<noteq> None \<longrightarrow> (fst k, e) \<in> intent_key ` set (intents db)) \<and>
     (\<forall>k pk. recorded db k pk = int (card (done_events part db k pk)))"

lemma done_events_finite: "finite (done_events part db k pk)"
  by (rule finite_subset [of _ "event_id ` set (intents db)"])
    (auto simp: done_events_def intent_key_def)

lemma outbox_wf_row: "outbox_wf part db \<Longrightarrow> states db k = Some r \<Longrightarrow> row_ok r"
  and outbox_wf_distinct: "outbox_wf part db \<Longrightarrow> distinct (map intent_key (intents db))"
  and outbox_wf_recorded: "outbox_wf part db \<Longrightarrow> recorded db q pk = int (card (done_events part db q pk))"
  unfolding outbox_wf_def by blast+

lemma outbox_wf_intent:
  "outbox_wf part db \<Longrightarrow> states db (k, e) = Some r \<Longrightarrow> (fst k, e) \<in> intent_key ` set (intents db)"
  unfolding outbox_wf_def by blast

lemma outbox_wfI:
  assumes "distinct (map intent_key (intents db))"
    and "\<And>k e r. states db (k, e) = Some r \<Longrightarrow> row_ok r \<and> (fst k, e) \<in> intent_key ` set (intents db)"
    and "\<And>k pk. recorded db k pk = int (card (done_events part db k pk))"
  shows "outbox_wf part db"
  using assms unfolding outbox_wf_def by (metis option.exhaust surj_pair)

lemma done_events_append:
  assumes "outbox_wf part db" "intent_key i \<notin> intent_key ` set (intents db)"
  shows "done_events part (db\<lparr>intents := intents db @ [i]\<rparr>) k pk = done_events part db k pk"
proof -
  have "(fst k, e) \<in> intent_key ` set (intents db)" if "completed (states db (k, e))" for e
    using outbox_wf_intent [OF assms(1), of k e] that
    by (cases "states db (k, e)") (auto simp: completed_def)
  with assms(2) show ?thesis by (auto simp: done_events_def)
qed

lemma done_events_row:
  assumes "\<not> completed (states db (k, e))" "st r \<noteq> COMPLETED"
  shows "done_events part (store_state (k, e) r db) k' pk = done_events part db k' pk"
  using assms by (auto simp: done_events_def store_state_def completed_def)

lemma done_events_checkpoint [simp]:
  "done_events part (store_checkpoint c row db) = done_events part db"
  by (simp add: done_events_def fun_eq_iff)

lemma done_events_finish:
  assumes "distinct (map intent_key (intents db))" "i \<in> set (intents db)" "in_scope i = fst k"
    and "st r = COMPLETED" and old: "\<not> completed (states db (k, event_id i))"
  shows "done_events part (store_state (k, event_id i) r db) k' pk =
    (if k' = k \<and> pk = part i then insert (event_id i) (done_events part db k' pk)
     else done_events part db k' pk)"
    and "event_id i \<notin> done_events part db k pk"
proof -
  have key: "intent_key i = (fst k, event_id i)" using assms(3) by (simp add: intent_key_def)
  have same: "j = i" if "j \<in> set (intents db)" "intent_key j = (fst k, event_id i)" for j
    using that assms(1,2) key by (metis distinct_map inj_onD)
  show "done_events part (store_state (k, event_id i) r db) k' pk =
    (if k' = k \<and> pk = part i then insert (event_id i) (done_events part db k' pk)
     else done_events part db k' pk)"
    using assms(2,4) old same key
    by (auto simp: done_events_def store_state_def completed_def)
  show "event_id i \<notin> done_events part db k pk" using old by (simp add: done_events_def)
qed

lemma outbox_wf_written:
  assumes wf: "outbox_wf part db" and "row_written res db k i r'"
  shows "\<not> completed (states db (k, event_id i))" "i \<in> set (intents db)" "in_scope i = fst k"
    "row_ok r'"
proof -
  note w = assms(2) [unfolded row_written_def]
  from w show "\<not> completed (states db (k, event_id i))" "i \<in> set (intents db)" "in_scope i = fst k"
    by (auto simp: completed_def terminal_def split: option.splits)
  from w outbox_wf_row [OF wf] show "row_ok r'" by blast
qed

lemma outbox_wf_store:
  assumes wf: "outbox_wf part db" and w: "row_written res db k i r'"
    and "states db' = (states db)((k, event_id i) \<mapsto> r')" "intents db' = intents db"
    and "\<And>k pk. recorded db' k pk = int (card (done_events part db' k pk))"
  shows "outbox_wf part db'"
proof (rule outbox_wfI)
  note W = outbox_wf_written [OF wf w]
  show "distinct (map intent_key (intents db'))" using outbox_wf_distinct [OF wf] assms(4) by simp
  fix q e r assume r: "states db' (q, e) = Some r"
  show "row_ok r \<and> (fst q, e) \<in> intent_key ` set (intents db')"
  proof (cases "(q, e) = (k, event_id i)")
    case True
    then have "r = r'" "(fst q, e) = intent_key i" using r W(3) assms(3) by (auto simp: intent_key_def)
    then show ?thesis using W(2,4) assms(4) by simp
  next
    case False
    then have "states db (q, e) = Some r" using r assms(3) by auto
    then show ?thesis using outbox_wf_row [OF wf] outbox_wf_intent [OF wf] assms(4) by simp
  qed
qed (rule assms(5))

lemma outbox_wf_step:
  assumes "outbox_step res part db db'" and wf: "outbox_wf part db" shows "outbox_wf part db'"
  using assms(1)
proof (cases rule: outbox_step_effect)
  case (append i)
  show ?thesis
  proof (rule outbox_wfI)
    show "distinct (map intent_key (intents db'))"
      using append outbox_wf_distinct [OF wf] by (simp add: image_image)
    show "recorded db' k pk = int (card (done_events part db' k pk))" for k pk
      using done_events_append [OF wf append(1)] append(2) outbox_wf_recorded [OF wf]
      by (simp add: recorded_append)
    show "row_ok r \<and> (fst k, e) \<in> intent_key ` set (intents db')" if "states db' (k, e) = Some r" for k e r
      using that append(2) outbox_wf_row [OF wf] outbox_wf_intent [OF wf] by auto
  qed
next
  case (row k i r')
  note W = outbox_wf_written [OF wf row(1)]
  show ?thesis
  proof (rule outbox_wf_store [OF wf row(1)])
    show "recorded db' q pk = int (card (done_events part db' q pk))" for q pk
      by (simp add: row(3) done_events_row [OF W(1) row(2)] outbox_wf_recorded [OF wf])
  qed (simp_all add: row(3) store_state_def)
next
  case (finish k i r' c)
  note W = outbox_wf_written [OF wf finish(1)]
  note D = done_events_finish [OF outbox_wf_distinct [OF wf] W(2,3) finish(2) W(1)]
  let ?db = "store_checkpoint (k, part i) c db"
  have D': "done_events part db' q pk =
    (if q = k \<and> pk = part i then insert (event_id i) (done_events part db q pk)
     else done_events part db q pk)" for q pk
    using D(1) [of part q pk] unfolding finish(4)
    by (simp add: done_events_def store_state_def)
  show ?thesis
  proof (rule outbox_wf_store [OF wf finish(1)])
    show "recorded db' q pk = int (card (done_events part db' q pk))" for q pk
      using outbox_wf_recorded [OF wf] D' D(2) finish(3) done_events_finite
      by (simp add: finish(4))
  qed (simp_all add: finish(4) store_state_def store_checkpoint_def)
qed

end
