(* ===== verification/OutboxClaims.thy ===== *)
theory OutboxClaims
  imports OutboxSteps
begin

text \<open>
  What the methods of the outbox promise: a claim leases exactly the selected rows, in version order
  and below the result limit; claim, completion and release under concurrent commits refine the step
  relation of \<open>OutboxSteps\<close>, and completion is serialisable; every reachable database satisfies the
  row invariant and has as many completed events as its checkpoints record; lag counts what is open.
\<close>

section \<open>The claim loop\<close>

lemma now_of_Some: "now_of c (Some (t, True)) = Inr t"
  by (simp add: now_of_def)

lemma claim_loop_step:
  "claim_loop ob bytes_of own d now clock others b (i # is) base db = (Inr recs, db') \<longleftrightarrow>
   b + bytes_of i \<le> ob_max_result_bytes ob \<and>
   (\<exists>t. now_of (clock (event_id i)) now = Inr t \<and>
     (case acquire ob own t d (event_id i) (others (event_id i) db) of
        Some (r, db1) \<Rightarrow>
          (\<exists>rs. recs = record_of i (Some r) # rs \<and>
             claim_loop ob bytes_of own d now clock others (b + bytes_of i) is
               (others (event_id i) base) db1 = (Inr rs, db'))
      | None \<Rightarrow>
          claim_loop ob bytes_of own d now clock others (b + bytes_of i) is
            (others (event_id i) base) (others (event_id i) db) = (Inr recs, db')))"
  by (auto simp: Let_def split: sum.splits option.splits prod.splits)

declare claim_loop.simps(2) [simp del]

text \<open>What a leased record looks like.\<close>

definition fresh_lease :: "string \<Rightarrow> int \<Rightarrow> outbox_record \<Rightarrow> bool" where
  "fresh_lease own d r \<longleftrightarrow> rec_state r = LEASED \<and>
     (\<exists>t. rec_lease r = Some \<lparr>le_owner = own, le_acquired = t, le_expires = t + d,
                              le_attempt = rec_attempts r\<rparr>)"

lemma acquire_record:
  "acquire ob own t d e db = Some (r, db') \<Longrightarrow>
   fresh_lease own d (record_of i (Some r)) \<and> rec_data (record_of i (Some r)) = i"
  by (auto dest!: acquire_result simp: record_of_def fresh_lease_def)

lemma claim_loop_records:
  "claim_loop ob bytes_of own d now clock others b is base db = (Inr recs, db') \<Longrightarrow>
   (\<forall>r \<in> set recs. fresh_lease own d r \<and> rec_data r \<in> set is) \<and>
   (is \<noteq> [] \<longrightarrow> b + sum_list (map bytes_of is) \<le> ob_max_result_bytes ob)"
proof (induction "is" arbitrary: b base db recs)
  case (Cons i "is")
  note S = Cons.prems [unfolded claim_loop_step]
  from S obtain t where
    c: "case acquire ob own t d (event_id i) (others (event_id i) db) of
        Some (r, db1) \<Rightarrow>
          (\<exists>rs. recs = record_of i (Some r) # rs \<and>
             claim_loop ob bytes_of own d now clock others (b + bytes_of i) is
               (others (event_id i) base) db1 = (Inr rs, db'))
      | None \<Rightarrow>
          claim_loop ob bytes_of own d now clock others (b + bytes_of i) is
            (others (event_id i) base) (others (event_id i) db) = (Inr recs, db')"
    and b: "b + bytes_of i \<le> ob_max_result_bytes ob" by blast
  obtain base1 db1 rs where
    l: "claim_loop ob bytes_of own d now clock others (b + bytes_of i) is base1 db1 = (Inr rs, db')"
    and r: "recs = rs \<or> (\<exists>x. recs = x # rs \<and> fresh_lease own d x \<and> rec_data x = i)"
  proof (cases "acquire ob own t d (event_id i) (others (event_id i) db)")
    case None
    with c show thesis by (intro that) auto
  next
    case (Some p)
    then obtain r x where "acquire ob own t d (event_id i) (others (event_id i) db) = Some (r, x)"
      by (cases p) simp
    note acquire_record [OF this, of i] c [unfolded this option.case prod.case]
    then show thesis using that by blast
  qed
  from Cons.IH [OF l] r b show ?case by (cases "is") (auto simp: add.assoc)
qed auto

lemma claim_loop_steps:
  assumes others: "\<And>e x. outbox_steps res part x (others e x)" and "0 < d" and res: "ob_resource ob = res"
  shows "claim_loop ob bytes_of own d now clock others b is base db = (out, db') \<Longrightarrow>
    (\<And>i. i \<in> set is \<Longrightarrow> i \<in> set (intents db) \<and> selected ob i) \<Longrightarrow>
    outbox_steps res part db0 base \<Longrightarrow> outbox_steps res part db0 db \<Longrightarrow> outbox_steps res part db0 db'"
proof (induction "is" arbitrary: b base db out)
  case (Cons i "is")
  let ?e = "event_id i" let ?db = "others ?e db" let ?base = "others ?e base"
  have base: "outbox_steps res part db0 ?base" and db: "outbox_steps res part db0 ?db"
    using Cons.prems(3,4) others by (blast intro: rtranclp_trans)+
  have ints: "j \<in> set (intents ?db) \<and> selected ob j" if "j \<in> set (i # is)" for j
    using Cons.prems(2) [OF that] steps_intents_subset [OF others, of db ?e] by blast
  show ?case
  proof (cases "b + bytes_of i > ob_max_result_bytes ob")
    case True
    then show ?thesis using Cons.prems by (simp add: claim_loop.simps(2) Let_def)
  next
    case False
    show ?thesis
    proof (cases "now_of (clock ?e) now")
      case (Inl er)
      then show ?thesis using Cons.prems False by (simp add: claim_loop.simps(2) Let_def)
    next
      case (Inr t)
      define got where "got = acquire ob own t d ?e ?db"
      define db1 where "db1 = (case got of Some (r, x) \<Rightarrow> x | None \<Rightarrow> ?db)"
      obtain o1 where l: "claim_loop ob bytes_of own d now clock others (b + bytes_of i) is ?base db1 = (o1, db')"
        using Cons.prems(1) False Inr
        by (auto simp: claim_loop.simps(2) Let_def db1_def got_def split: option.splits prod.splits sum.splits)
      have "outbox_steps res part ?db db1 \<and> intents db1 = intents ?db"
      proof (cases got)
        case (Some p)
        then obtain r x where g: "acquire ob own t d ?e ?db = Some (r, x)" "db1 = x"
          by (cases p) (auto simp: got_def db1_def)
        have "outbox_step res part ?db x"
          using ints [of i] g(1) assms(2) res by (intro acquire_step [of i]) auto
        then show ?thesis using g acquire_result [OF g(1)] by auto
      qed (simp add: db1_def)
      then have "outbox_steps res part db0 db1" "intents db1 = intents ?db"
        using db by auto
      then show ?thesis using Cons.IH [OF l] ints base by simp
    qed
  qed
qed simp

section \<open>Serialisability of completion\<close>

lemma find_append_Some: "find P xs = Some x \<Longrightarrow> find P (xs @ ys) = Some x"
  by (induction xs) auto

lemma load_later:
  assumes "load ob db e = Inr (i, row)" "outbox_steps res part db db1"
  shows "load ob db1 e = Inr (i, states db1 (key_values ob, e))"
proof -
  from steps_intents [OF assms(2)] obtain xs where "intents db1 = intents db @ xs" by blast
  with assms(1) show ?thesis
    using load_result [OF assms(1)]
    by (auto simp: load_def joined_state_def find_append_Some split: option.splits)
qed

lemma now_of_le: "now_of c now = Inr t \<Longrightarrow> c \<le> c' \<Longrightarrow> t \<le> statement_time c' now"
  by (auto simp: now_of_def statement_time_def split: option.splits if_splits)

lemma leased_parts:
  "leased ob db e own c now = Inr (i, r, t) \<Longrightarrow>
   load ob db e = Inr (i, Some r) \<and> now_of c now = Inr t"
proof -
  assume l: "leased ob db e own c now = Inr (i, r, t)"
  then obtain j row where 1: "load ob db e = Inr (j, row)"
    unfolding leased_def by (cases "load ob db e") auto
  from l obtain u where 2: "now_of c now = Inr u"
    unfolding leased_def 1 by (cases "now_of c now") auto
  from l have c: "(case row of None \<Rightarrow> Inl LeaseLostError
        | Some r \<Rightarrow> if st r \<noteq> LEASED \<or> owner r \<noteq> Some own \<or> expired u r
                    then Inl LeaseLostError else Inr (j, r, u)) = Inr (i, r, t)"
    by (simp only: leased_def 1 2 and_then_Inr prod.case)
  from c have "row = Some r" "i = j" "t = u" by (auto split: option.splits if_splits)
  with 1 2 show ?thesis by simp
qed

lemma leased_later:
  assumes "leased ob db e own c now = Inr (i, r0, t)" "outbox_steps res part db db1"
    and "states db1 (key_values ob, e) = Some r" "st r = LEASED" "owner r = Some own"
    and "expires_at r = Some x" "statement_time c' now < x" "c \<le> c'"
  shows "leased ob db1 e own c now = Inr (i, r, t)"
proof -
  note p = leased_parts [OF assms(1)]
  have "load ob db1 e = Inr (i, Some r)" using load_later [OF _ assms(2)] p assms(3) by simp
  moreover have "\<not> expired t r" using now_of_le [of c now t c'] p assms(6-8) by (simp add: expired_def)
  ultimately show ?thesis using p assms(4,5) by (simp add: leased_def)
qed

lemma checkpoint_later:
  assumes "outbox_steps res part db db1"
    and "\<And>k. checkpoints db1 (key_values ob, pk) = Some k \<Longrightarrow>
           revision k = cp_revision (read_checkpoint ob db pk)"
  shows "cp_revision (read_checkpoint ob db1 pk) = cp_revision (read_checkpoint ob db pk)"
proof (cases "checkpoints db1 (key_values ob, pk)")
  case None
  then have "checkpoints db (key_values ob, pk) = None"
    using steps_checkpoint_present [OF assms(1)] by blast
  with None show ?thesis by (simp add: read_checkpoint_def)
next
  case (Some k)
  then show ?thesis using assms(2) [OF Some] by (simp add: read_checkpoint_def [of _ db1] progress_def)
qed


section \<open>Claims\<close>

lemma candidates_claimable:
  "i \<in> set (candidates ob db t locked n) \<Longrightarrow> i \<in> set (intents db) \<and> claimable ob db t i"
  unfolding candidates_def by (auto dest: in_set_takeD)

lemma atomic_claim_success:
  assumes "atomic_claim ob bytes_of own limit d now clock0 clock locked others db = (Inr recs, db')"
  shows "\<exists>n t. claim_limit ob limit = Inr n \<and> 0 < d \<and> own \<noteq> [] \<and> now_of clock0 now = Inr t \<and>
     claim_loop ob bytes_of own d now clock others 0 (candidates ob db t locked n) db db = (Inr recs, db')"
  using assms unfolding atomic_claim_def
  by (cases "claim_limit ob limit"; cases "own = []"; cases "0 < d"; cases "now_of clock0 now") auto

text \<open>
  C1. Version order of a claim, also when other sessions commit between its statements: whatever a
  claim returns is under a fresh lease of the claimer for the requested duration, and every earlier
  selected intent of the same source identity (in the claim's snapshot) is completed in the resulting
  database, which is reached from the one before by steps of the outbox only.
\<close>
theorem claim_version_order:
  assumes "\<And>e x. outbox_steps (ob_resource ob) part x (others e x)"
    and "atomic_claim ob bytes_of own limit d now clock0 clock locked others db = (Inr recs, db')"
  shows "outbox_steps (ob_resource ob) part db db' \<and>
    (\<forall>r \<in> set recs. fresh_lease own d r \<and> selected ob (rec_data r) \<and>
       (\<forall>p \<in> set (intents db). selected ob p \<and> source_identity p = source_identity (rec_data r) \<and>
          claim_order p < claim_order (rec_data r) \<longrightarrow> completed (joined_state ob db' p)))"
proof -
  from atomic_claim_success [OF assms(2)] obtain n t where d: "0 < d" and
    l: "claim_loop ob bytes_of own d now clock others 0 (candidates ob db t locked n) db db = (Inr recs, db')"
    by blast
  have cand: "i \<in> set (intents db) \<and> claimable ob db t i" if "i \<in> set (candidates ob db t locked n)" for i
    by (rule candidates_claimable [OF that])
  have steps: "outbox_steps (ob_resource ob) part db db'"
    by (rule claim_loop_steps [OF assms(1) d refl l]) (use cand in \<open>auto simp: claimable_def\<close>)
  have "fresh_lease own d r \<and> selected ob (rec_data r) \<and>
       (\<forall>p \<in> set (intents db). selected ob p \<and> source_identity p = source_identity (rec_data r) \<and>
          claim_order p < claim_order (rec_data r) \<longrightarrow> completed (joined_state ob db' p))"
    if r: "r \<in> set recs" for r
  proof -
    from claim_loop_records [OF l] r have "fresh_lease own d r"
      "rec_data r \<in> set (candidates ob db t locked n)" by auto
    with cand [of "rec_data r"] steps_completed [OF steps] show ?thesis
      by (auto simp: claimable_def list_ex_iff blocks_def)
  qed
  with steps show ?thesis by blast
qed

lemma acquirable_later: "acquirable t row \<Longrightarrow> t \<le> t' \<Longrightarrow> acquirable t' row"
  by (auto simp: acquirable_def expired_def split: option.splits)

lemma now_of_mono:
  "now_of c now = Inr t \<Longrightarrow> c \<le> c' \<Longrightarrow> \<exists>t'. now_of c' now = Inr t' \<and> t \<le> t'"
  by (auto simp: now_of_def split: option.splits if_splits)

text \<open>The rows of a claim that nothing interferes with.\<close>

definition claimed_row :: "string \<Rightarrow> int \<Rightarrow> state_row option \<Rightarrow> state_row option \<Rightarrow> bool" where
  "claimed_row own d old new \<longleftrightarrow>
     (\<exists>r t. new = Some r \<and> st r = LEASED \<and> owner r = Some own \<and> acquired_at r = Some t \<and>
        expires_at r = Some (t + d) \<and>
        attempt r = (case old of None \<Rightarrow> 1 | Some r0 \<Rightarrow> attempt r0 + 1))"

lemma claim_loop_exact:
  assumes now: "now_of c now = Inr t" and later: "\<And>e. c \<le> clock e"
  shows "claim_loop ob bytes_of own d now clock (\<lambda>_ x. x) b is base db = (Inr recs, db') \<Longrightarrow>
    (\<And>i. i \<in> set is \<Longrightarrow> acquirable t (joined_state ob db i)) \<Longrightarrow> distinct (map event_id is) \<Longrightarrow>
    map rec_data recs = is \<and> intents db' = intents db \<and> checkpoints db' = checkpoints db \<and>
    (\<forall>k. if \<exists>i \<in> set is. k = (key_values ob, event_id i)
         then claimed_row own d (states db k) (states db' k) else states db' k = states db k)"
proof (induction "is" arbitrary: b db recs)
  case (Cons i "is")
  from now_of_mono [OF now later] obtain t' where t': "now_of (clock (event_id i)) now = Inr t'" "t \<le> t'"
    by blast
  let ?k = "(key_values ob, event_id i)"
  have acq: "acquirable t' (states db ?k)"
    using acquirable_later [OF _ t'(2)] Cons.prems(2) [of i] by (simp add: joined_state_def)
  then obtain r db1 where a: "acquire ob own t' d (event_id i) db = Some (r, db1)"
    using acquire_iff [of ob own t' d "event_id i" db] by (cases "acquire ob own t' d (event_id i) db") auto
  note A = acquire_result [OF a]
  from Cons.prems(1) t' a obtain rs where recs: "recs = record_of i (Some r) # rs" and
    l: "claim_loop ob bytes_of own d now clock (\<lambda>_ x. x) (b + bytes_of i) is base db1 = (Inr rs, db')"
    unfolding claim_loop_step by auto
  have db1: "db1 = store_state ?k r db" using A by simp
  have other: "states db1 q = states db q" if "q \<noteq> ?k" for q
    using that by (simp add: db1 store_state_def)
  have "acquirable t (joined_state ob db1 j)" if "j \<in> set is" for j
  proof -
    from Cons.prems(3) that have "event_id j \<noteq> event_id i" by (simp add: image_iff) metis
    then have "joined_state ob db1 j = joined_state ob db j"
      using other [of "(key_values ob, event_id j)"] by (simp add: joined_state_def)
    with Cons.prems(2) [of j] that show ?thesis by simp
  qed
  note I = Cons.IH [OF l this distinct_tl [OF Cons.prems(3), simplified]]
  note IH = I [THEN conjunct1] I [THEN conjunct2, THEN conjunct1]
    I [THEN conjunct2, THEN conjunct2, THEN conjunct1]
    I [THEN conjunct2, THEN conjunct2, THEN conjunct2, rule_format]
  have "if \<exists>i \<in> set (i # is). k = (key_values ob, event_id i)
         then claimed_row own d (states db k) (states db' k) else states db' k = states db k" for k
  proof (cases "k = ?k")
    case True
    then have "states db' k = Some r"
      using IH(4) [of k] Cons.prems(3) by (auto simp: db1 store_state_def split: if_splits)
    then show ?thesis using True A by (simp add: claimed_row_def)
  next
    case False
    then have eq: "(\<exists>j \<in> set (i # is). k = (key_values ob, event_id j)) =
        (\<exists>j \<in> set is. k = (key_values ob, event_id j))" by auto
    show ?thesis using IH(4) [of k] unfolding eq other [OF False] .
  qed
  then show ?case using IH(1-3) recs acquire_record [OF a, of i] by (simp add: db1)
qed simp

lemma candidates_distinct:
  assumes "distinct (map intent_key (intents db))"
  shows "distinct (map event_id (candidates ob db t locked n))"
proof -
  let ?xs = "filter (\<lambda>i. \<not> locked (event_id i))
       (sort_key (\<lambda>i. (occurred_at i, event_id i)) (filter (claimable ob db t) (intents db)))"
  from assms have d: "distinct (intents db)" "inj_on intent_key (set (intents db))"
    by (simp_all add: distinct_map)
  have "inj_on event_id (set ?xs)"
  proof (rule inj_onI)
    fix i j assume "i \<in> set ?xs" "j \<in> set ?xs" "event_id i = event_id j"
    then show "i = j"
      using inj_onD [OF d(2), of i j] by (auto simp: claimable_def selected_def intent_key_def)
  qed
  with d(1) have "distinct (map event_id ?xs)" by (simp add: distinct_map)
  then show ?thesis unfolding candidates_def by (simp add: take_map flip: take_map)
qed

text \<open>
  C5. A claim that no other session interferes with leases exactly the selected rows: the records it
  returns are the first claimable, unlocked intents in order of occurrence up to the batch limit, each
  of their state rows is leased to the claimer with one more attempt, and every other row, every
  intent and every checkpoint is as before. The records fit the result-size limit.
\<close>
theorem claim_exact:
  assumes "distinct (map intent_key (intents db))" and "\<And>e. clock0 \<le> clock e"
    and "atomic_claim ob bytes_of own limit d now clock0 clock locked (\<lambda>_ x. x) db = (Inr recs, db')"
  shows "\<exists>n t. claim_limit ob limit = Inr n \<and> now_of clock0 now = Inr t \<and>
    map rec_data recs = candidates ob db t locked n \<and> length recs \<le> n \<and>
    (recs \<noteq> [] \<longrightarrow> sum_list (map (bytes_of \<circ> rec_data) recs) \<le> ob_max_result_bytes ob) \<and>
    intents db' = intents db \<and> checkpoints db' = checkpoints db \<and>
    (\<forall>k. if \<exists>i \<in> set (candidates ob db t locked n). k = (key_values ob, event_id i)
         then claimed_row own d (states db k) (states db' k) else states db' k = states db k)"
proof -
  from atomic_claim_success [OF assms(3)] obtain n t where
    nt: "claim_limit ob limit = Inr n" "now_of clock0 now = Inr t" and
    l: "claim_loop ob bytes_of own d now clock (\<lambda>_ x. x) 0 (candidates ob db t locked n) db db
        = (Inr recs, db')" by blast
  have "acquirable t (joined_state ob db i)" if "i \<in> set (candidates ob db t locked n)" for i
    using candidates_claimable [OF that] by (simp add: claimable_def)
  note X = claim_loop_exact [OF nt(2) assms(2) l this candidates_distinct [OF assms(1)]]
  then have E: "map rec_data recs = candidates ob db t locked n" "intents db' = intents db"
    "checkpoints db' = checkpoints db"
    "\<forall>k. if \<exists>i \<in> set (candidates ob db t locked n). k = (key_values ob, event_id i)
         then claimed_row own d (states db k) (states db' k) else states db' k = states db k"
    by (simp, simp, simp, intro X [THEN conjunct2, THEN conjunct2, THEN conjunct2])
  have "length recs = length (candidates ob db t locked n)" using E(1) by (metis length_map)
  then have len: "length recs \<le> n" by (simp add: candidates_def)
  have "recs \<noteq> [] \<longrightarrow> sum_list (map bytes_of (map rec_data recs)) \<le> ob_max_result_bytes ob"
    using claim_loop_records [OF l] E(1) by auto
  then have "recs \<noteq> [] \<longrightarrow> sum_list (map (bytes_of \<circ> rec_data) recs) \<le> ob_max_result_bytes ob"
    by simp
  with nt E len show ?thesis by blast
qed

section \<open>Release\<close>

lemma threshold_frames [simp]:
  "selected (ob\<lparr>ob_threshold := n\<rparr>) = selected ob"
  "key_values (ob\<lparr>ob_threshold := n\<rparr>) = key_values ob"
  "joined_state (ob\<lparr>ob_threshold := n\<rparr>) = joined_state ob"
  by (simp_all add: fun_eq_iff selected_def key_values_def joined_state_def)

lemma leased_threshold [simp]: "leased (ob\<lparr>ob_threshold := n\<rparr>) = leased ob"
proof -
  have "load (ob\<lparr>ob_threshold := n\<rparr>) = load ob"
    unfolding load_def threshold_frames ..
  then show ?thesis unfolding leased_def by simp
qed

text \<open>A release with commits of others in between is a step from the database they left.\<close>

lemma release_interleaved:
  assumes "outbox_steps (ob_resource ob) part db (mid db)" "clock \<le> clock'"
    and "release_event ob e own nm retry now clock clock' mid db = (Inr rec, db')"
  shows "outbox_step (ob_resource ob) part (mid db) db'"
proof -
  from assms(3) obtain i r0 t where l: "leased ob db e own clock now = Inr (i, r0, t)"
    unfolding release_event_def by (auto split: sum.splits prod.splits)
  from release_event_result [OF assms(3)] obtain r x where R:
    "states (mid db) (key_values ob, e) = Some r" "st r = LEASED" "owner r = Some own"
    "expires_at r = Some x" "statement_time clock' now < x" by blast
  note l' = leased_later [OF l assms(1) R assms(2)]
  define retry' where "retry' = (retry \<and> attempt r0 < ob_threshold ob)"
  define ob' where "ob' = ob\<lparr>ob_threshold := attempt r + 1\<rparr>"
  have "release_event ob' e own nm retry' now clock clock' id (mid db) = (Inr rec, db')"
    using assms(3) unfolding release_event_def ob'_def leased_threshold threshold_frames l l'
    by (simp add: retry'_def Let_def)
  moreover have "ob_resource ob' = ob_resource ob" by (simp add: ob'_def)
  ultimately show ?thesis by (intro release_step)
qed

text \<open>
  C10. A release, whatever commits between its lease check and its update, ends only a lease that its
  caller still holds and that is still alive at the update: the row becomes RETRYABLE only when the
  failure is retryable and the attempts are below the poison threshold, and QUARANTINED otherwise;
  the recorded failure carries a redacted cause and a bounded code; nothing else changes.
\<close>
theorem release_fenced:
  assumes "release_event ob e own nm retry now clock clock' mid db = (Inr rec, db')"
  shows "\<exists>r t r'. states (mid db) (key_values ob, e) = Some r \<and> st r = LEASED \<and> owner r = Some own \<and>
     expires_at r = Some t \<and> statement_time clock' now < t \<and>
     st r' = (if retry \<and> (\<exists>r0. states db (key_values ob, e) = Some r0 \<and> attempt r0 < ob_threshold ob)
              then RETRYABLE else QUARANTINED) \<and>
     attempt r' = attempt r \<and> rec_lease rec = None \<and> rec_state rec = st r' \<and>
     (\<exists>f. rec_failure rec = Some f \<and> fail_cause f = ''projection failed (details redacted)'' \<and>
          length (fail_code f) \<le> 128) \<and>
     db' = store_state (key_values ob, e) r' (mid db)"
proof -
  from release_event_result [OF assms] obtain i r t r' f where R:
    "states (mid db) (key_values ob, e) = Some r" "st r = LEASED" "owner r = Some own"
    "expires_at r = Some t" "statement_time clock' now < t"
    "st r' = (if retry \<and> (\<exists>r0. states db (key_values ob, e) = Some r0 \<and> attempt r0 < ob_threshold ob)
              then RETRYABLE else QUARANTINED)" "attempt r' = attempt r"
    "failure_of r' = Some f" "fail_cause f = ''projection failed (details redacted)''"
    "length (fail_code f) \<le> 128" "rec = record_of i (Some r')"
    "db' = store_state (key_values ob, e) r' (mid db)" by blast
  have "st r' \<noteq> LEASED" using R(6) by simp
  then have "rec_lease rec = None" "rec_state rec = st r'" "rec_failure rec = Some f"
    using R(8,11) by (simp_all add: record_of_def)
  with R show ?thesis by blast
qed

section \<open>Transitions, reachability and lag\<close>

text \<open>
  C9. Every transaction of every outbox changes a state row only along the lease protocol: an absent
  row becomes a first lease; a retryable row, or a lease that has expired at the new lease's time,
  becomes a lease with one more attempt; a lease is ended into COMPLETED, RETRYABLE or QUARANTINED;
  COMPLETED and QUARANTINED rows never change again, and no row disappears.
\<close>
theorem lease_transitions:
  assumes "outbox_step res part db db'"
  shows "row_change (states db k) (states db' k) \<and>
    (\<forall>r. states db k = Some r \<longrightarrow>
       (st r \<in> {COMPLETED, QUARANTINED} \<longrightarrow> states db' k = Some r) \<and>
       (\<exists>r'. states db' k = Some r' \<and> attempt r \<le> attempt r'))"
proof -
  note C = step_row_change [OF assms, of k]
  have "\<exists>r'. states db' k = Some r' \<and> attempt r \<le> attempt r'" if "states db k = Some r" for r
    using C row_change_present [of r] row_change_attempts [of r] that
    by (cases "states db' k") auto
  with C show ?thesis using row_change_terminal by (auto simp: terminal_def)
qed

lemma outbox_wf_empty: "outbox_wf part empty_outbox"
  by (rule outbox_wfI) (simp_all add: empty_outbox_def recorded_def done_events_def completed_def)

lemma outbox_wf_steps: "outbox_steps res part db db' \<Longrightarrow> outbox_wf part db \<Longrightarrow> outbox_wf part db'"
  by (induction rule: rtranclp_induct) (auto intro: outbox_wf_step)

text \<open>
  C3. In every database that the outboxes can reach, the checkpoint of a partition records exactly
  the number of its completed events, every event with a state row has its intent, and every state row
  satisfies the CHECK constraint of the table: positive attempts, and a lease exactly while LEASED, with
  its expiry after its acquisition.
\<close>
theorem outbox_reachable:
  assumes "outbox_steps res part empty_outbox db"
  shows "recorded db k pk = int (card (done_events part db k pk)) \<and>
    (\<forall>e r. states db (k, e) = Some r \<longrightarrow>
       row_ok r \<and> (\<exists>i \<in> set (intents db). in_scope i = fst k \<and> event_id i = e))"
proof -
  have wf: "outbox_wf part db" by (rule outbox_wf_steps [OF assms outbox_wf_empty])
  have "row_ok r \<and> (\<exists>i \<in> set (intents db). in_scope i = fst k \<and> event_id i = e)"
    if "states db (k, e) = Some r" for e r
    using outbox_wf_row [OF wf that] outbox_wf_intent [OF wf that] by (auto simp: intent_key_def)
  with outbox_wf_recorded [OF wf] show ?thesis by blast
qed

text \<open>
  Lag is what is open: it counts the selected intents that are not completed, its oldest time is
  the least of their occurrence times, its age is never negative, and it is empty exactly when
  everything selected is completed.
\<close>
theorem lag_counts_open:
  assumes "lag ob db clock now = Inr l"
  shows "lag_count l = length (filter (\<lambda>i. selected ob i \<and> \<not> completed (joined_state ob db i)) (intents db)) \<and>
    0 \<le> lag_age l \<and>
    (lag_oldest l = None \<longleftrightarrow> (\<forall>i \<in> set (intents db). selected ob i \<longrightarrow> completed (joined_state ob db i))) \<and>
    (\<forall>t. lag_oldest l = Some t \<longrightarrow>
       t = Min (occurred_at ` {i \<in> set (intents db). selected ob i \<and> \<not> completed (joined_state ob db i)}))"
proof -
  let ?open = "filter (\<lambda>i. selected ob i \<and> \<not> completed (joined_state ob db i)) (intents db)"
  from assms obtain cur where
    l: "l = (case map occurred_at ?open of
          [] \<Rightarrow> \<lparr>lag_count = 0, lag_oldest = None, lag_age = 0\<rparr>
        | t # ts \<Rightarrow> (let oldest = fold min ts t
             in \<lparr>lag_count = length ?open, lag_oldest = Some oldest, lag_age = max 0 (cur - oldest)\<rparr>))"
    unfolding lag_def Let_def and_then_success by blast
  have set_open: "{i \<in> set (intents db). selected ob i \<and> \<not> completed (joined_state ob db i)} = set ?open"
    by auto
  show ?thesis
  proof (cases ?open)
    case Nil
    then have "\<forall>i \<in> set (intents db). selected ob i \<longrightarrow> completed (joined_state ob db i)"
      by (simp add: filter_empty_conv)
    then show ?thesis using l Nil by simp
  next
    case (Cons i xs)
    have least: "fold min (map occurred_at xs) (occurred_at i) = Min (occurred_at ` set ?open)"
      using Cons Min.set_eq_fold [of "occurred_at i" "map occurred_at xs"] by simp
    have "i \<in> set ?open" unfolding Cons by simp
    then have "i \<in> set (intents db) \<and> selected ob i \<and> \<not> completed (joined_state ob db i)"
      by simp
    with least show ?thesis using l Cons by (auto simp: set_open Let_def)
  qed
qed

section \<open>An example\<close>

definition sample_outbox :: outbox where
  "sample_outbox =
     \<lparr>ob_scope_values = [''tenant''], ob_resource = ''structured:outbox'', spec_name = ''search'',
      spec_catalog = ''structured'', spec_source = ''items'', spec_schema = ''v1'', spec_labels = [],
      ob_threshold = 3, ob_max_batch = 10, ob_max_result_bytes = 1000\<rparr>"

definition sample_intent :: "string \<Rightarrow> int \<Rightarrow> intent" where
  "sample_intent e v =
     \<lparr>in_scope = [''tenant''], event_id = e, source_catalog = ''structured'', source_resource = ''items'',
      source_schema = ''v1'', source_identity = StrS ''item'', source_version = IntS v,
      mutation_kind = ''put'', payload = PNone, immutable_reference = PNone, target_labels = [],
      occurred_at = v, operation_context = PNone, digest = ''d'', format_version = ''1''\<rparr>"

definition sample_part :: "intent \<Rightarrow> string" where
  "sample_part i = ''items''"

definition sample_appended :: outbox_db where
  "sample_appended =
     \<lparr>intents = [sample_intent ''e1'' 1, sample_intent ''e2'' 2], states = Map.empty, checkpoints = Map.empty\<rparr>"

definition sample_claim :: "outbox_record list result \<times> outbox_db" where
  "sample_claim = atomic_claim sample_outbox (\<lambda>_. 10) ''worker'' (PInt 5) 60 None 100 (\<lambda>_. 100)
     (\<lambda>_. False) (\<lambda>_ x. x) sample_appended"

definition sample_claimed :: outbox_db where
  "sample_claimed = snd sample_claim"

definition sample_target :: string where
  "sample_target = ''sha256:'' @ replicate 64 (CHR ''a'')"

definition sample_completion :: "checkpoint result \<times> outbox_db" where
  "sample_completion = complete sample_outbox sample_part ''e1'' ''worker'' (IntS 1) sample_target None
     110 111 id sample_claimed"

lemma returned: "case fst p of Inl _ \<Rightarrow> False | Inr x \<Rightarrow> P x \<Longrightarrow> \<exists>x. p = (Inr x, snd p) \<and> P x"
  by (cases p) (auto split: sum.splits)

lemma sample_claim_ok: "\<exists>recs. sample_claim = (Inr recs, sample_claimed) \<and> recs \<noteq> []"
  unfolding sample_claimed_def by (rule returned) code_simp

lemma sample_completion_ok: "\<exists>cp. sample_completion = (Inr cp, snd sample_completion) \<and> cp_revision cp = 1"
  by (rule returned) code_simp

lemma sample_distinct: "distinct (map intent_key (intents sample_appended))"
  by (simp add: sample_appended_def sample_intent_def intent_key_def)

lemma claim_version_order_witness:
  "\<exists>recs. sample_claim = (Inr recs, sample_claimed) \<and> recs \<noteq> [] \<and>
     outbox_steps ''structured:outbox'' sample_part sample_appended sample_claimed \<and>
     (\<forall>r \<in> set recs. fresh_lease ''worker'' 60 r)"
proof -
  from sample_claim_ok obtain recs where
    r: "sample_claim = (Inr recs, sample_claimed)" "recs \<noteq> []" by blast
  have "outbox_steps (ob_resource sample_outbox) sample_part x x" for x by simp
  from claim_version_order [of sample_outbox sample_part "\<lambda>_ x. x", OF this] r
  show ?thesis unfolding sample_claim_def by (auto simp: sample_outbox_def)
qed

lemma claim_exact_witness:
  "\<exists>recs. sample_claim = (Inr recs, sample_claimed) \<and> recs \<noteq> [] \<and>
     intents sample_claimed = intents sample_appended \<and>
     checkpoints sample_claimed = checkpoints sample_appended"
proof -
  from sample_claim_ok obtain recs where
    r: "sample_claim = (Inr recs, sample_claimed)" "recs \<noteq> []" by blast
  show ?thesis using claim_exact [OF sample_distinct _ r(1) [unfolded sample_claim_def]] r by auto
qed


definition sample_release :: "outbox_record result \<times> outbox_db" where
  "sample_release = release_event sample_outbox ''e1'' ''worker'' ''Boom'' True None 110 111 id sample_claimed"

lemma release_fenced_witness:
  "\<exists>rec db. sample_release = (Inr rec, db) \<and> rec_lease rec = None \<and>
     (\<exists>r. states sample_claimed (key_values sample_outbox, ''e1'') = Some r \<and> owner r = Some ''worker'')"
proof -
  have "\<exists>rec. sample_release = (Inr rec, snd sample_release) \<and> rec_state rec = RETRYABLE"
    by (rule returned) code_simp
  then obtain rec db where r: "sample_release = (Inr rec, db)" by blast
  from release_fenced [OF r [unfolded sample_release_def]] r show ?thesis by (simp add: id_def) blast
qed

lemma sample_steps:
  "outbox_steps ''structured:outbox'' sample_part empty_outbox sample_appended"
  "outbox_steps ''structured:outbox'' sample_part sample_appended sample_claimed"
  "\<exists>cp db. sample_completion = (Inr cp, db) \<and> outbox_step ''structured:outbox'' sample_part sample_claimed db"
proof -
  have 1: "outbox_step ''structured:outbox'' sample_part empty_outbox
      (empty_outbox\<lparr>intents := intents empty_outbox @ [sample_intent ''e1'' 1]\<rparr>)"
    by (rule append_step) (simp add: empty_outbox_def)
  have 2: "outbox_step ''structured:outbox'' sample_part
      (empty_outbox\<lparr>intents := intents empty_outbox @ [sample_intent ''e1'' 1]\<rparr>) sample_appended"
    using append_step [of "sample_intent ''e2'' 2" "empty_outbox\<lparr>intents := intents empty_outbox @ [sample_intent ''e1'' 1]\<rparr>"]
    by (simp add: empty_outbox_def sample_appended_def intent_key_def sample_intent_def)
  from 1 2 show "outbox_steps ''structured:outbox'' sample_part empty_outbox sample_appended" by simp
  from sample_claim_ok obtain recs where "sample_claim = (Inr recs, sample_claimed)" by blast
  from claim_loop_steps [of "''structured:outbox''" sample_part "\<lambda>_ x. x" 60 sample_outbox]
  show "outbox_steps ''structured:outbox'' sample_part sample_appended sample_claimed"
    using atomic_claim_success [OF \<open>sample_claim = (Inr recs, sample_claimed)\<close> [unfolded sample_claim_def]]
      candidates_claimable by (auto simp: sample_outbox_def claimable_def)
  from sample_completion_ok obtain cp db where "sample_completion = (Inr cp, db)" by blast
  then show "\<exists>cp db. sample_completion = (Inr cp, db) \<and>
      outbox_step ''structured:outbox'' sample_part sample_claimed db"
    using complete_step [of sample_outbox "''structured:outbox''" sample_part]
    by (auto simp: sample_completion_def sample_outbox_def)
qed

lemma lease_transitions_witness:
  "\<exists>db. outbox_step ''structured:outbox'' sample_part sample_claimed db \<and>
     row_change (states sample_claimed (key_values sample_outbox, ''e1''))
                (states db (key_values sample_outbox, ''e1''))"
  using sample_steps(3) lease_transitions by blast

lemma outbox_reachable_witness:
  "\<exists>cp db. sample_completion = (Inr cp, db) \<and>
     recorded db (key_values sample_outbox) ''items'' =
       int (card (done_events sample_part db (key_values sample_outbox) ''items''))"
proof -
  from sample_steps obtain cp db where
    d: "sample_completion = (Inr cp, db)" "outbox_steps ''structured:outbox'' sample_part empty_outbox db"
    by (meson rtranclp.rtrancl_into_rtrancl rtranclp_trans)
  from outbox_reachable [OF d(2)] d(1) show ?thesis by blast
qed

lemma lag_counts_open_witness:
  "\<exists>l. lag sample_outbox sample_appended 100 None = Inr l \<and> lag_count l = 2 \<and> 0 \<le> lag_age l"
proof -
  have "\<not> isl (lag sample_outbox sample_appended 100 None)" by code_simp
  then obtain l where l: "lag sample_outbox sample_appended 100 None = Inr l"
    by (cases "lag sample_outbox sample_appended 100 None") auto
  have "lag_count (projr (lag sample_outbox sample_appended 100 None)) = 2" by code_simp
  with lag_counts_open [OF l] l show ?thesis by simp
qed

end
