(* ===== verification/Values.thy ===== *)
theory Values
  imports Settings
begin

text \<open>
  Driver-value normalisation of \<open>query/_values.py\<close>: base64url text, WGS84 coordinates, JSON
  normalisation, and the markers that carry JSON and binary parameters through a compiled query.
  A parameter for the driver is a plain value, or a value wrapped as \<open>Jsonb\<close>.

  \<open>texts\<close> stands for the printing of values outside JSON (decimals, dates and other objects, keys
  that are not strings) and for the rounding of a number to a float.
\<close>

datatype driver_value = Plain pyval | Jsonb pyval

record texts =
  decimal_text :: "pyfloat \<Rightarrow> string"
  other_text :: "nat \<Rightarrow> string"
  key_text :: "pyval \<Rightarrow> string"
  round_float :: "rat \<Rightarrow> pyfloat"

section \<open>Base64url\<close>

definition base64_alphabet :: string where
  "base64_alphabet = ''ABCDEFGHIJKLMNOPQRSTUVWXYZabcdefghijklmnopqrstuvwxyz0123456789-_''"

definition sextet_of :: "char \<Rightarrow> nat option" where
  "sextet_of c = map_of (zip base64_alphabet [0..<64]) c"

definition char_of_sextet :: "nat \<Rightarrow> char" where
  "char_of_sextet n = base64_alphabet ! (n mod 64)"

fun encode_sextets :: "nat list \<Rightarrow> nat list" where
  "encode_sextets (x # y # z # r) =
     [x div 4, (x mod 4) * 16 + y div 16, (y mod 16) * 4 + z div 64, z mod 64] @ encode_sextets r"
| "encode_sextets [x, y] = [x div 4, (x mod 4) * 16 + y div 16, (y mod 16) * 4]"
| "encode_sextets [x] = [x div 4, (x mod 4) * 16]"
| "encode_sextets [] = []"

fun decode_sextets :: "nat list \<Rightarrow> nat list" where
  "decode_sextets (a # b # c # d # r) =
     [a * 4 + b div 16, (b mod 16) * 16 + c div 4, (c mod 4) * 64 + d] @ decode_sextets r"
| "decode_sextets [a, b, c] = [a * 4 + b div 16, (b mod 16) * 16 + c div 4]"
| "decode_sextets [a, b] = [a * 4 + b div 16]"
| "decode_sextets _ = []"

text \<open>\<open>urlsafe_b64encode\<close> without its padding, and the checked decoding.\<close>

definition encode_base64url :: "nat list \<Rightarrow> string" where
  "encode_base64url bs = map char_of_sextet (encode_sextets bs)"

definition base64_body :: "string \<Rightarrow> string" where
  "base64_body s = rev (dropWhile (\<lambda>c. c = CHR ''='') (rev s))"

definition is_base64url :: "string \<Rightarrow> bool" where
  "is_base64url s \<longleftrightarrow> length s \<le> length (base64_body s) + 2 \<and>
     list_all (\<lambda>c. c \<in> set base64_alphabet) (base64_body s)"

definition decode_base64url :: "pyval \<Rightarrow> nat list result" where
  "decode_base64url v =
     (case v of
        PStr s \<Rightarrow>
          if \<not> is_base64url s \<or> length (base64_body s) mod 4 = 1 then Inl ValueError
          else Inr (decode_sextets (map (\<lambda>c. case sextet_of c of Some n \<Rightarrow> n | None \<Rightarrow> 0) (base64_body s)))
      | _ \<Rightarrow> Inl TypeError)"

section \<open>Coordinates\<close>

definition entry :: "string \<Rightarrow> (pyval \<times> pyval) list \<Rightarrow> pyval option" where
  "entry k d = map_of d (PStr k)"

definition has_keys :: "string list \<Rightarrow> (pyval \<times> pyval) list \<Rightarrow> bool" where
  "has_keys ks d \<longleftrightarrow> set (keys d) = PStr ` set ks"

definition to_float :: "texts \<Rightarrow> pyval \<Rightarrow> pyfloat result" where
  "to_float T v =
     (case v of
        PInt n \<Rightarrow> (case round_float T (of_int n) of Finite q \<Rightarrow> Inr (Finite q) | _ \<Rightarrow> Inl OtherException)
      | PFloat f \<Rightarrow> Inr f
      | PDecimal (Finite q) \<Rightarrow> Inr (round_float T q)
      | PDecimal f \<Rightarrow> Inr f
      | _ \<Rightarrow> Inl TypeError)"

definition is_number :: "pyval \<Rightarrow> bool" where
  "is_number v \<longleftrightarrow> (case v of PInt _ \<Rightarrow> True | PFloat _ \<Rightarrow> True | PDecimal _ \<Rightarrow> True | _ \<Rightarrow> False)"

definition in_degrees :: "rat \<Rightarrow> pyfloat \<Rightarrow> bool" where
  "in_degrees b f \<longleftrightarrow> (case f of Finite q \<Rightarrow> - b \<le> q \<and> q \<le> b | _ \<Rightarrow> False)"

definition wgs84_coordinates :: "texts \<Rightarrow> pyval \<Rightarrow> (pyfloat \<times> pyfloat) result" where
  "wgs84_coordinates T v =
     (case v of
        PMap d \<Rightarrow>
          (case (entry ''longitude'' d, entry ''latitude'' d) of
             (Some lon, Some lat) \<Rightarrow>
               if \<not> has_keys [''longitude'', ''latitude''] d then Inl ValueError
               else if \<not> is_number lon \<or> \<not> is_number lat then Inl TypeError
               else and_then (to_float T lon) (\<lambda>x. and_then (to_float T lat) (\<lambda>y.
                      if in_degrees 180 x \<and> in_degrees 90 y then Inr (x, y) else Inl ValueError))
           | _ \<Rightarrow> Inl ValueError)
      | _ \<Rightarrow> Inl ValueError)"

section \<open>JSON normalisation\<close>

definition dict_of :: "('k \<times> 'v) list \<Rightarrow> ('k \<times> 'v) list" where
  "dict_of kvs = fold (\<lambda>(k, v). dict_set k v) kvs []"

definition key_string :: "texts \<Rightarrow> pyval \<Rightarrow> string" where
  "key_string T k = (case k of PStr s \<Rightarrow> s | _ \<Rightarrow> key_text T k)"

fun jsonable :: "texts \<Rightarrow> pyval \<Rightarrow> pyval" where
  "jsonable T (PDecimal f) = PStr (decimal_text T f)"
| "jsonable T (PBytes bs) = PStr (encode_base64url bs)"
| "jsonable T (PMap d) = PMap (dict_of (map (\<lambda>p. (PStr (key_string T (fst p)), jsonable T (snd p))) d))"
| "jsonable T (PSeq xs) = PSeq (map (jsonable T) xs)"
| "jsonable T (POther n) = PStr (other_text T n)"
| "jsonable T v = v"

section \<open>Parameters\<close>

definition json_field :: "field_layout \<Rightarrow> bool" where
  "json_field f \<longleftrightarrow> f_cardinality f = Many \<or> f_type f \<in> {LJson, LRecordRef, LObjectRef}"

definition adapt_driver_value :: "texts \<Rightarrow> field_layout \<Rightarrow> pyval \<Rightarrow> driver_value result" where
  "adapt_driver_value T f v =
     (if json_field f then Inr (Jsonb (jsonable T v))
      else if f_type f = LBytes then and_then (decode_base64url v) (\<lambda>b. Inr (Plain (PBytes b)))
      else Inr (Plain v))"

definition marker :: "string \<Rightarrow> pyval \<Rightarrow> pyval" where
  "marker encoding v =
     PMap [(PStr ''$postgresql'', PMap [(PStr ''encoding'', PStr encoding), (PStr ''value'', v)])]"

definition encode_query_value :: "texts \<Rightarrow> field_layout \<Rightarrow> pyval \<Rightarrow> pyval result" where
  "encode_query_value T f v =
     (if json_field f then Inr (marker ''jsonb'' (jsonable T v))
      else if f_type f = LBytes then and_then (decode_base64url v) (\<lambda>_. Inr (marker ''base64url'' v))
      else Inr v)"

definition is_marker :: "pyval \<Rightarrow> bool" where
  "is_marker v \<longleftrightarrow> (case v of PMap d \<Rightarrow> has_keys [''$postgresql''] d | _ \<Rightarrow> False)"

definition decode_query_value :: "texts \<Rightarrow> pyval \<Rightarrow> driver_value result" where
  "decode_query_value T v =
     (case v of
        PMap d \<Rightarrow>
          if \<not> has_keys [''$postgresql''] d then Inr (Plain v)
          else (case entry ''$postgresql'' d of
            Some (PMap spec) \<Rightarrow>
              if \<not> has_keys [''encoding'', ''value''] spec then Inl ValueError
              else (case (entry ''encoding'' spec, entry ''value'' spec) of
                (Some enc, Some x) \<Rightarrow>
                  if enc = PStr ''jsonb'' then Inr (Jsonb (jsonable T x))
                  else if enc = PStr ''base64url'' then and_then (decode_base64url x) (\<lambda>b. Inr (Plain (PBytes b)))
                  else Inl ValueError
              | _ \<Rightarrow> Inl ValueError)
          | _ \<Rightarrow> Inl ValueError)
      | _ \<Rightarrow> Inr (Plain v))"

section \<open>Laws\<close>

lemma sextets_roundtrip: "list_all (\<lambda>b. b < 256) bs \<Longrightarrow> decode_sextets (encode_sextets bs) = bs"
  by (induction bs rule: encode_sextets.induct) auto

lemma sextets_bound: "list_all (\<lambda>b. b < 256) bs \<Longrightarrow> list_all (\<lambda>n. n < 64) (encode_sextets bs)"
  by (induction bs rule: encode_sextets.induct) auto

lemma sextets_length: "length (encode_sextets bs) mod 4 \<noteq> 1"
proof (induction bs rule: encode_sextets.induct)
  case (1 x y z r)
  then show ?case by (simp add: mod_Suc)
qed auto

lemma alphabet_facts: "length base64_alphabet = 64" "distinct base64_alphabet" "CHR ''='' \<notin> set base64_alphabet"
  by (simp_all add: base64_alphabet_def)

lemma sextet_of_char: "n < 64 \<Longrightarrow> sextet_of (char_of_sextet n) = Some n"
  unfolding sextet_of_def char_of_sextet_def
  using alphabet_facts by (simp add: map_of_zip_nth)

lemma base64_body_plain: "CHR ''='' \<notin> set s \<Longrightarrow> base64_body s = s"
proof -
  assume "CHR ''='' \<notin> set s"
  then have "dropWhile (\<lambda>c. c = CHR ''='') (rev s) = rev s"
    by (cases "rev s") (auto dest: arg_cong [of _ _ set])
  then show ?thesis by (simp add: base64_body_def)
qed

text \<open>
  Binary values survive the text form: base64url decoding of the encoding of any bytes gives
  those bytes back.
\<close>
theorem base64url_roundtrip:
  assumes "list_all (\<lambda>b. b < 256) bs"
  shows "decode_base64url (PStr (encode_base64url bs)) = Inr bs"
proof -
  let ?ns = "encode_sextets bs"
  have b: "\<forall>n \<in> set ?ns. n < 64" using sextets_bound [OF assms] by (simp add: list_all_iff)
  have chars: "set (encode_base64url bs) \<subseteq> set base64_alphabet"
    using alphabet_facts(1) by (auto simp: encode_base64url_def char_of_sextet_def intro!: nth_mem)
  then have body: "base64_body (encode_base64url bs) = encode_base64url bs"
    using alphabet_facts(3) by (intro base64_body_plain) blast
  have ok: "is_base64url (encode_base64url bs)"
    using chars by (auto simp: is_base64url_def body list_all_iff)
  have len: "length (encode_base64url bs) mod 4 \<noteq> 1"
    using sextets_length by (simp add: encode_base64url_def)
  have "map (\<lambda>c. case sextet_of c of Some n \<Rightarrow> n | None \<Rightarrow> 0) (encode_base64url bs) = ?ns"
    using b by (auto simp: encode_base64url_def sextet_of_char intro!: map_idI)
  then show ?thesis
    using ok len sextets_roundtrip [OF assms] by (simp add: decode_base64url_def body)
qed

lemma base64url_roundtrip_witness:
  "decode_base64url (PStr (encode_base64url [0, 255, 16, 7])) = Inr [0, 255, 16, 7]"
  by (rule base64url_roundtrip) simp

lemma dict_set_mem: "set (dict_set k v d) \<subseteq> insert (k, v) (set d)"
  by (induction k v d rule: dict_set.induct) auto

lemma dict_of_mem: "set (dict_of kvs) \<subseteq> set kvs"
proof -
  have "set (fold (\<lambda>(k, v). dict_set k v) kvs d) \<subseteq> set kvs \<union> set d" for d
  proof (induction kvs arbitrary: d)
    case (Cons p kvs)
    then show ?case using dict_set_mem by (cases p) fastforce
  qed simp
  from this [of "[]"] show ?thesis by (simp add: dict_of_def)
qed

lemma dict_of_wf: "dict_wf (dict_of kvs)"
proof -
  have "dict_wf d \<Longrightarrow> dict_wf (fold (\<lambda>(k, v). dict_set k v) kvs d)" for d
    by (induction kvs arbitrary: d) (auto intro: dict_wf_set)
  then show ?thesis by (simp add: dict_of_def dict_wf_def keys_def)
qed

lemma dict_set_new: "k \<notin> set (keys d) \<Longrightarrow> dict_set k v d = d @ [(k, v)]"
  by (induction k v d rule: dict_set.induct) (auto simp: keys_def)

lemma dict_of_id: "dict_wf d \<Longrightarrow> dict_of d = d"
proof -
  have "dict_wf (d0 @ d) \<Longrightarrow> fold (\<lambda>(k, v). dict_set k v) d d0 = d0 @ d" for d0
  proof (induction d arbitrary: d0)
    case (Cons p d)
    obtain k v where p: "p = (k, v)" by (cases p)
    have "k \<notin> set (keys d0)" using Cons.prems p by (auto simp: dict_wf_def keys_def)
    then show ?case using Cons.IH [of "d0 @ [(k, v)]"] Cons.prems p by (simp add: dict_set_new)
  qed simp
  from this [of "[]"] show "dict_wf d \<Longrightarrow> dict_of d = d" by (simp add: dict_of_def)
qed

lemma jsonable_idem: "jsonable T (jsonable T v) = jsonable T v"
proof (induction T v rule: jsonable.induct)
  case (3 T d)
  let ?m = "map (\<lambda>p. (PStr (key_string T (fst p)), jsonable T (snd p))) d"
  have val: "jsonable T (snd q) = snd q" "PStr (key_string T (fst q)) = fst q" if "q \<in> set (dict_of ?m)" for q
  proof -
    from that dict_of_mem [of ?m] have "q \<in> set ?m" by blast
    then obtain p where p: "p \<in> set d" "q = (PStr (key_string T (fst p)), jsonable T (snd p))" by auto
    show "jsonable T (snd q) = snd q" using 3 [OF p(1)] p(2) by simp
    show "PStr (key_string T (fst q)) = fst q" using p(2) by (simp add: key_string_def)
  qed
  have "map (\<lambda>p. (PStr (key_string T (fst p)), jsonable T (snd p))) (dict_of ?m) = dict_of ?m"
  proof (rule map_idI)
    fix q assume "q \<in> set (dict_of ?m)"
    from val [OF this] show "(PStr (key_string T (fst q)), jsonable T (snd q)) = q"
      by (cases q) simp
  qed
  then show ?case by (simp only: jsonable.simps dict_of_id dict_of_wf)
qed simp_all

lemma marker_parts:
  "has_keys [''$postgresql''] [(PStr ''$postgresql'', x)]"
  "has_keys [''encoding'', ''value''] [(PStr ''encoding'', y), (PStr ''value'', z)]"
  "entry ''$postgresql'' [(PStr ''$postgresql'', x)] = Some x"
  "entry ''encoding'' [(PStr ''encoding'', y), (PStr ''value'', z)] = Some y"
  "entry ''value'' [(PStr ''encoding'', y), (PStr ''value'', z)] = Some z"
  by (simp_all add: has_keys_def keys_def entry_def)


definition sample_texts :: texts where
  "sample_texts = \<lparr>decimal_text = (\<lambda>_. ''1''), other_text = (\<lambda>_. ''x''), key_text = (\<lambda>_. ''k''),
     round_float = Finite\<rparr>"

definition sample_json_field :: field_layout where
  "sample_json_field = \<lparr>f_name = ''a'', f_column = ''a'', f_type = LJson, f_nullable = True,
     f_mutable = True, f_cardinality = One, f_precision = None, f_scale = None\<rparr>"


end
