(* ===== verification/SqlShape.thy ===== *)
theory SqlShape
  imports SqlText
begin

text \<open>
  When a composed statement is sound whatever the request holds: one value per placeholder, balanced
  parentheses (no part can close the parenthesis that the adapter opened around it) with no value
  inlined as a literal, and identifiers from a known set only. Each is closed under the ways in which the compilers compose statements.
\<close>

fun depth_text :: "string \<Rightarrow> nat \<Rightarrow> nat option" where
  "depth_text [] n = Some n"
| "depth_text (c # s) n =
     (if c = CHR ''('' then depth_text s (Suc n)
      else if c = CHR '')'' then (case n of 0 \<Rightarrow> None | Suc m \<Rightarrow> depth_text s m)
      else depth_text s n)"

fun depth_sql :: "sql \<Rightarrow> nat \<Rightarrow> nat option" where
  "depth_sql [] n = Some n"
| "depth_sql (Raw s # c) n = (case depth_text s n of None \<Rightarrow> None | Some m \<Rightarrow> depth_sql c m)"
| "depth_sql (Literal v # c) n = None"
| "depth_sql (_ # c) n = depth_sql c n"

definition balanced :: "sql \<Rightarrow> bool" where
  "balanced c \<longleftrightarrow> depth_sql c 0 = Some 0"

definition idents :: "sql \<Rightarrow> string set" where
  "idents c = {i. Ident i \<in> set c}"

lemma depth_append: "depth_sql (a @ b) n = (case depth_sql a n of None \<Rightarrow> None | Some m \<Rightarrow> depth_sql b m)"
  by (induction a n rule: depth_sql.induct) (auto split: option.splits)

lemma depth_text_shift: "depth_text s n = Some m \<Longrightarrow> depth_text s (n + k) = Some (m + k)"
  by (induction s n rule: depth_text.induct) (auto split: nat.splits if_splits)

lemma depth_sql_shift: "depth_sql c n = Some m \<Longrightarrow> depth_sql c (n + k) = Some (m + k)"
proof (induction c n rule: depth_sql.induct)
  case (2 s c n)
  then obtain x where x: "depth_text s n = Some x" "depth_sql c x = Some m"
    by (auto split: option.splits)
  then show ?case using 2(1) [OF x] depth_text_shift [OF x(1), of k] by simp
qed auto

lemma depth_no_literal: "depth_sql c n = Some m \<Longrightarrow> Literal v \<notin> set c"
  by (induction c n rule: depth_sql.induct) (auto split: option.splits)

lemma balanced_tokens:
  assumes "balanced c" "idents c \<subseteq> A" "{t. Raw t \<in> set c} \<subseteq> W"
  shows "set c \<subseteq> Raw ` W \<union> Ident ` A \<union> {Hole}"
proof
  fix t assume t: "t \<in> set c"
  then show "t \<in> Raw ` W \<union> Ident ` A \<union> {Hole}"
    using assms(2,3) depth_no_literal assms(1) unfolding balanced_def idents_def
    by (cases t rule: sql_token.exhaust) blast+
qed

lemma balanced_depth: "balanced c \<Longrightarrow> depth_sql c n = Some n"
  using depth_sql_shift [of c 0 0 n] by (simp add: balanced_def)

lemma balanced_append [intro]: "balanced a \<Longrightarrow> balanced b \<Longrightarrow> balanced (a @ b)"
  by (simp add: balanced_def depth_append)

lemma balanced_join: "balanced sep \<Longrightarrow> (\<And>x. x \<in> set xs \<Longrightarrow> balanced x) \<Longrightarrow> balanced (join_sql sep xs)"
  by (induction sep xs rule: join_sql.induct) (auto simp: balanced_def depth_append)

lemma balanced_leaf [simp]: "balanced []" "balanced [Ident i]" "balanced [Hole]"
  by (simp_all add: balanced_def)

lemma balanced_ident [simp]: "balanced (ident ps)"
proof -
  have "balanced [Raw ''.'']" by (simp add: balanced_def)
  then show ?thesis unfolding ident_def by (rule balanced_join) auto
qed

lemma idents_simps [simp]:
  "idents [] = {}" "idents (a @ b) = idents a \<union> idents b" "idents (Raw s # c) = idents c"
  "idents (Ident i # c) = insert i (idents c)" "idents (Literal v # c) = idents c"
  "idents (Hole # c) = idents c"
  by (auto simp: idents_def)

lemma idents_join: "idents (join_sql sep xs) \<subseteq> idents sep \<union> (\<Union>x \<in> set xs. idents x)"
  by (induction sep xs rule: join_sql.induct) auto

lemma idents_ident [simp]: "idents (ident ps) = set ps"
proof -
  have "idents (join_sql [Raw ''.''] (map (\<lambda>p. [Ident p]) ps)) = set ps"
  proof (induction ps)
    case (Cons p ps)
    then show ?case by (cases ps) auto
  qed simp
  then show ?thesis by (simp add: ident_def)
qed

lemma idents_commands:
  "(\<And>s. s \<in> set ss \<Longrightarrow> idents (command s) \<subseteq> A) \<Longrightarrow> idents sep = {} \<Longrightarrow>
   idents (join_sql sep (map command ss)) \<subseteq> A"
  using idents_join [of sep "map command ss"] by fastforce

section \<open>Sound statements\<close>

definition sound_over :: "string set \<Rightarrow> 'p bound_statement \<Rightarrow> bool" where
  "sound_over A s \<longleftrightarrow> arity_ok s \<and> balanced (command s) \<and> idents (command s) \<subseteq> A"

lemma sound_mono: "sound_over A s \<Longrightarrow> A \<subseteq> B \<Longrightarrow> sound_over B s"
  by (auto simp: sound_over_def)

lemma sound_parts:
  "sound_over A s \<Longrightarrow> holes (command s) = length (params s)"
  "sound_over A s \<Longrightarrow> depth_sql (command s) n = Some n"
  "sound_over A s \<Longrightarrow> idents (command s) \<subseteq> A"
  by (auto simp: sound_over_def arity_ok_def balanced_depth)

lemma sound_same_arity:
  "sound_over A s \<Longrightarrow> length ps = length (params s) \<Longrightarrow> sound_over A (bound (command s) ps)"
  by (simp add: sound_over_def arity_ok_def)

lemma sound_list:
  assumes "\<And>s. s \<in> set ss \<Longrightarrow> sound_over A s" "balanced sep" "holes sep = 0" "idents sep = {}"
  shows "holes (join_sql sep (map command ss)) = length (concat (map params ss))"
    "depth_sql (join_sql sep (map command ss)) n = Some n" "idents (join_sql sep (map command ss)) \<subseteq> A"
proof -
  show "holes (join_sql sep (map command ss)) = length (concat (map params ss))"
    using assms(1,3) sum_arity [of ss] by (simp add: holes_join sound_over_def)
  have "balanced (join_sql sep (map command ss))"
    by (rule balanced_join [OF assms(2)]) (use assms(1) in \<open>auto simp: sound_over_def\<close>)
  then show "depth_sql (join_sql sep (map command ss)) n = Some n" by (rule balanced_depth)
  show "idents (join_sql sep (map command ss)) \<subseteq> A"
    by (rule idents_commands [OF _ assms(4)]) (use assms(1) in \<open>simp add: sound_over_def\<close>)
qed

lemma parenthesised_list:
  assumes "\<And>s. s \<in> set ss \<Longrightarrow> balanced (command s)" "ss \<noteq> []"
    and sep: "depth_text sep 1 = Some 1"
  shows "depth_sql (join_sql [Raw sep] (map command ss)) (Suc n) = Some (Suc n)"
  using assms(1,2)
proof (induction ss)
  case (Cons s ss)
  have "depth_text sep (1 + n) = Some (1 + n)" using depth_text_shift [OF sep] by simp
  then show ?case using Cons by (cases ss) (auto simp: depth_append balanced_depth)
qed simp

lemma sound_conjunction [intro]:
  assumes "\<And>s. s \<in> set ss \<Longrightarrow> sound_over A s" shows "sound_over A (conjunction ss)"
proof (cases "ss = []")
  case False
  have "depth_text '') AND ('' 1 = Some 1" by simp
  from parenthesised_list [OF _ False this] assms
  have "depth_sql (join_sql [Raw '') AND (''] (map command ss)) (Suc 0) = Some (Suc 0)"
    by (simp add: sound_over_def)
  then have "balanced (command (conjunction ss))"
    using False by (simp add: conjunction_def balanced_def depth_append)
  moreover have "arity_ok (conjunction ss)"
    by (rule conjunction_arity) (use assms in \<open>simp add: sound_over_def\<close>)
  moreover have "idents (command (conjunction ss)) \<subseteq> A"
    using False assms idents_commands [of ss A "[Raw '') AND ('']"]
    by (auto simp: conjunction_def sound_over_def)
  ultimately show ?thesis by (simp add: sound_over_def)
qed (simp add: conjunction_def sound_over_def balanced_def)

lemma sound_disjunction [intro]:
  assumes "\<And>s. s \<in> set ss \<Longrightarrow> sound_over A s" shows "sound_over A (disjunction ss)"
proof (cases "ss = []")
  case False
  have "depth_text '') OR ('' 1 = Some 1" by simp
  from parenthesised_list [OF _ False this] assms
  have "depth_sql (join_sql [Raw '') OR (''] (map command ss)) (Suc 0) = Some (Suc 0)"
    by (simp add: sound_over_def)
  then have "balanced (command (disjunction ss))"
    using False by (simp add: disjunction_def balanced_def depth_append)
  moreover have "arity_ok (disjunction ss)"
    by (rule disjunction_arity) (use assms in \<open>simp add: sound_over_def\<close>)
  moreover have "idents (command (disjunction ss)) \<subseteq> A"
    using False assms idents_commands [of ss A "[Raw '') OR ('']"]
    by (auto simp: disjunction_def sound_over_def)
  ultimately show ?thesis by (simp add: sound_over_def)
qed (simp add: disjunction_def sound_over_def balanced_def)

end
