(* ===== verification/Expressions.thy ===== *)
theory Expressions
  imports Values SqlShape
begin

text \<open>
  The expression compiler of \<open>query/__init__.py\<close> (\<open>_ExpressionCompiler\<close>): a canonical query expression,
  a mapping with a \<open>kind\<close>, to a bound statement over the aliases of the query's targets. The branches
  are those of \<open>compile\<close>; every value of the request becomes a parameter.
\<close>

section \<open>Accessors\<close>

text \<open>\<open>value[k]\<close>, \<open>value.get(k)\<close>, iteration over a \<open>Sequence\<close>, and the truth value of an object.\<close>

definition operand :: "string \<Rightarrow> (pyval \<times> pyval) list \<Rightarrow> pyval result" where
  "operand k d = (case entry k d of Some v \<Rightarrow> Inr v | None \<Rightarrow> Inl KeyError)"

definition optional :: "string \<Rightarrow> (pyval \<times> pyval) list \<Rightarrow> pyval" where
  "optional k d = (case entry k d of Some v \<Rightarrow> v | None \<Rightarrow> PNone)"

fun items_of :: "pyval \<Rightarrow> pyval list option" where
  "items_of (PSeq xs) = Some xs"
| "items_of (PStr s) = Some (map (\<lambda>c. PStr [c]) s)"
| "items_of (PBytes bs) = Some (map (\<lambda>b. PInt (int b)) bs)"
| "items_of _ = None"

definition sequence_arg :: "py_error \<Rightarrow> string \<Rightarrow> (pyval \<times> pyval) list \<Rightarrow> pyval list result" where
  "sequence_arg e k d = (case items_of (optional k d) of Some xs \<Rightarrow> Inr xs | None \<Rightarrow> Inl e)"

fun truthy :: "pyval \<Rightarrow> bool" where
  "truthy PNone = False" | "truthy (PBool b) = b" | "truthy (PInt n) = (n \<noteq> 0)"
| "truthy (PFloat f) = (f \<noteq> Finite 0)" | "truthy (PDecimal f) = (f \<noteq> Finite 0)"
| "truthy (PStr s) = (s \<noteq> [])" | "truthy (PBytes b) = (b \<noteq> [])" | "truthy (PSeq xs) = (xs \<noteq> [])"
| "truthy (PMap d) = (d \<noteq> [])" | "truthy (POther n) = True"

lemma entry_size: "entry k d = Some v \<Longrightarrow> size v < size (PMap d)"
  unfolding entry_def by (auto dest!: map_of_SomeD size_snd_less)

lemma operand_size: "operand k d = Inr v \<Longrightarrow> size v < size (PMap d)"
  by (auto simp: operand_def entry_size [simplified] split: option.splits)

lemma optional_size: "optional k d \<noteq> PNone \<Longrightarrow> size (optional k d) < size (PMap d)"
  by (auto simp: optional_def entry_size [simplified] split: option.splits)

lemma sequence_arg_size:
  assumes "sequence_arg e k d = Inr xs" "x \<in> set xs" shows "size x < size (PMap d)"
proof -
  from assms have i: "items_of (optional k d) = Some xs"
    by (auto simp: sequence_arg_def split: option.splits)
  then have "optional k d \<noteq> PNone" by auto
  then have s: "size (optional k d) < size (PMap d)" by (rule optional_size)
  have "size x \<le> size (optional k d)"
    using i assms(2) by (cases "optional k d") (auto dest: size_elem_less)
  with s show ?thesis by simp
qed

section \<open>Fields\<close>

text \<open>The targets of a query: each canonical Resource with its alias and its layout, in order.\<close>

type_synonym targets = "(string \<times> string \<times> resource_layout) list"

definition canonical_resource :: "targets \<Rightarrow> string \<Rightarrow> string result" where
  "canonical_resource env v =
     (if v \<in> set (keys env) then Inr v
      else (case filter (\<lambda>k. ends_with ('':'' @ v) k \<or> ends_with (''.'' @ v) k) (keys env) of
              [k] \<Rightarrow> Inr k
            | _ \<Rightarrow> Inl ValueError))"

definition query_field :: "targets \<Rightarrow> (pyval \<times> pyval) list \<Rightarrow> (string \<times> field_layout) result" where
  "query_field env d =
     and_then (case optional ''resource'' d of
          PNone \<Rightarrow> (case keys env of k # _ \<Rightarrow> Inr k | [] \<Rightarrow> Inl OtherException)
        | PStr r \<Rightarrow> canonical_resource env r
        | _ \<Rightarrow> Inl TypeError) (\<lambda>canonical.
     and_then (dict_item canonical env) (\<lambda>(alias, layout).
       (case optional ''name'' d of
          PStr n \<Rightarrow> (case field_of layout n of Some f \<Rightarrow> Inr (alias, f) | None \<Rightarrow> Inl ValueError)
        | _ \<Rightarrow> Inl ValueError)))"

definition expression_field :: "targets \<Rightarrow> pyval \<Rightarrow> field_layout option result" where
  "expression_field env v =
     (case v of
        PMap d \<Rightarrow> if optional ''kind'' d = PStr ''field''
                  then and_then (query_field env d) (\<lambda>(_, f). Inr (Some f)) else Inr None
      | _ \<Rightarrow> Inr None)"

definition is_literal :: "pyval \<Rightarrow> bool" where
  "is_literal v \<longleftrightarrow> (case v of PMap d \<Rightarrow> optional ''kind'' d = PStr ''literal'' | _ \<Rightarrow> False)"

definition adapt_params :: "texts \<Rightarrow> pyval bound_statement \<Rightarrow> field_layout \<Rightarrow> pyval bound_statement result" where
  "adapt_params T s f =
     and_then (traverse (encode_query_value T f) (params s)) (\<lambda>ps. Inr (bound (command s) ps))"

definition adapt_if ::
  "texts \<Rightarrow> bool \<Rightarrow> field_layout option \<Rightarrow> pyval bound_statement \<Rightarrow> pyval bound_statement result" where
  "adapt_if T wanted f s = (case f of Some f \<Rightarrow> if wanted then adapt_params T s f else Inr s | None \<Rightarrow> Inr s)"

section \<open>Text\<close>

definition operators :: "(string \<times> string) list" where
  "operators =
     [(''eq'', ''=''), (''ne'', ''<>''), (''lt'', ''<''), (''lte'', ''<=''), (''gt'', ''>''), (''gte'', ''>=''),
      (''add'', ''+''), (''subtract'', ''-''), (''multiply'', ''*''), (''divide'', ''/''), (''modulo'', ''%'')]"

definition unary_sql :: "string \<Rightarrow> 'p bound_statement \<Rightarrow> 'p bound_statement" where
  "unary_sql kind s =
     bound ([Raw (if kind = ''not'' then ''NOT '' else ''-''), Raw ''(''] @ command s @ [Raw '')'']) (params s)"

definition binary_sql :: "string \<Rightarrow> 'p bound_statement \<Rightarrow> 'p bound_statement \<Rightarrow> 'p bound_statement" where
  "binary_sql operator l r =
     bound ([Raw ''(''] @ command l @ [Raw ('' '' @ operator @ '' '')] @ command r @ [Raw '')''])
       (params l @ params r)"

text \<open>The escaping of \<open>prefix\<close>, with \<open>q\<close> a quote and \<open>b\<close> a backslash.\<close>

definition like_escape :: string where
  "like_escape = (let q = [CHR 0x27]; b = [CHR 0x5C] in
     '' )::text, '' @ q @ b @ b @ q @ '', '' @ q @ b @ b @ b @ b @ q @ ''), '' @ q @ ''%'' @ q @ '', '' @
     q @ b @ ''%'' @ q @ ''), '' @ q @ ''_'' @ q @ '', '' @ q @ b @ ''_'' @ q @ '') || '' @ q @ ''%'' @ q @
     '') ESCAPE '' @ q @ b @ b @ q @ '')'')"

definition prefix_sql :: "'p bound_statement \<Rightarrow> 'p bound_statement \<Rightarrow> 'p bound_statement" where
  "prefix_sql l r =
     bound ([Raw ''(''] @ command l @ [Raw '' LIKE (replace(replace(replace((''] @ command r @ [Raw like_escape])
       (params l @ params r)"

definition contains_json_sql :: "'p bound_statement \<Rightarrow> 'p bound_statement \<Rightarrow> 'p bound_statement" where
  "contains_json_sql l r =
     bound (command l @ [Raw '' @> (''] @ command r @ [Raw '')::jsonb'']) (params l @ params r)"

definition contains_text_sql :: "'p bound_statement \<Rightarrow> 'p bound_statement \<Rightarrow> 'p bound_statement" where
  "contains_text_sql l r =
     bound ([Raw ''position((''] @ command r @ [Raw '')::text in ''] @ command l @ [Raw '') > 0''])
       (params r @ params l)"

definition null_sql :: "bool \<Rightarrow> 'p bound_statement \<Rightarrow> 'p bound_statement" where
  "null_sql expected s =
     bound ([Raw ''(''] @ command s @ [Raw (if expected then '' IS NULL)'' else '' IS NOT NULL)'')]) (params s)"

definition member_sql :: "bool \<Rightarrow> 'p bound_statement \<Rightarrow> 'p bound_statement list \<Rightarrow> 'p bound_statement" where
  "member_sql negated s items =
     bound ([Raw ''(''] @ command s @ [Raw (if negated then '' NOT IN ('' else '' IN ('')] @
            join_sql [Raw '', ''] (map command items) @ [Raw ''))''])
       (params s @ concat (map params items))"

definition compare_sql :: "'p bound_statement \<Rightarrow> string \<Rightarrow> 'p bound_statement \<Rightarrow> 'p bound_statement" where
  "compare_sql s operator e = bound (command s @ [Raw ('' '' @ operator @ '' '')] @ command e) (params s @ params e)"

definition path_sql :: "pyval bound_statement \<Rightarrow> string list \<Rightarrow> pyval bound_statement" where
  "path_sql s segments =
     bound ([Raw ''(''] @ command s @ [Raw '' #> '', Hole, Raw ''::text[])''])
       (params s @ [PSeq (map PStr segments)])"

definition full_text_sql :: "'p bound_statement list \<Rightarrow> 'p \<Rightarrow> 'p bound_statement" where
  "full_text_sql parts query =
     bound ([Raw ''to_tsvector('simple', concat_ws(' ', ''] @ join_sql [Raw '', ''] (map command parts) @
            [Raw '')) @@ websearch_to_tsquery('simple', '', Hole, Raw '')''])
       (concat (map params parts) @ [query])"

definition distance_sql :: "'p bound_statement \<Rightarrow> 'p bound_statement \<Rightarrow> 'p bound_statement" where
  "distance_sql l r =
     bound ([Raw ''ST_Distance(''] @ command l @ [Raw '', ''] @ command r @ [Raw '')'']) (params l @ params r)"

definition within_sql :: "'p bound_statement \<Rightarrow> 'p bound_statement \<Rightarrow> 'p \<Rightarrow> 'p bound_statement" where
  "within_sql l r distance =
     bound ([Raw ''ST_DWithin(''] @ command l @ [Raw '', ''] @ command r @ [Raw '', '', Hole, Raw '')''])
       (params l @ params r @ [distance])"

definition aggregate_sql :: "string \<Rightarrow> bool \<Rightarrow> 'p bound_statement \<Rightarrow> 'p bound_statement" where
  "aggregate_sql function_name distinct_rows s =
     bound ([Raw (function_name @ ''('' @ (if distinct_rows then ''DISTINCT '' else []))] @ command s @ [Raw '')''])
       (params s)"

text \<open>RFC 6901 pointers.\<close>

fun replace_pair :: "char \<Rightarrow> char \<Rightarrow> char \<Rightarrow> string \<Rightarrow> string" where
  "replace_pair a b r (x # y # s) =
     (if x = a \<and> y = b then r # replace_pair a b r s else x # replace_pair a b r (y # s))"
| "replace_pair a b r s = s"

fun split_on :: "char \<Rightarrow> string \<Rightarrow> string list" where
  "split_on c [] = [[]]"
| "split_on c (x # s) =
     (if x = c then [] # split_on c s
      else (case split_on c s of w # ws \<Rightarrow> (x # w) # ws | [] \<Rightarrow> [[x]]))"

definition pointer_segments :: "string \<Rightarrow> string list" where
  "pointer_segments p =
     map (\<lambda>w. replace_pair (CHR ''~'') (CHR ''0'') (CHR ''~'')
                (replace_pair (CHR ''~'') (CHR ''1'') (CHR ''/'') w)) (split_on (CHR ''/'') (tl p))"

section \<open>The compiler\<close>

definition point_arg :: "(pyval \<times> pyval) list \<Rightarrow> pyval bound_statement result" where
  "point_arg d =
     (case items_of (optional ''coordinates'' d) of
        Some [x, y] \<Rightarrow>
          Inr (bound [Raw ''ST_SetSRID(ST_MakePoint('', Hole, Raw '', '', Hole, Raw ''), 4326)::geography''] [x, y])
      | _ \<Rightarrow> Inl ValueError)"

definition field_sql :: "targets \<Rightarrow> (pyval \<times> pyval) list \<Rightarrow> pyval bound_statement result" where
  "field_sql env d = and_then (query_field env d) (\<lambda>(alias, f). Inr (bound (ident [alias, f_column f]) []))"

definition adapt_both ::
  "texts \<Rightarrow> targets \<Rightarrow> pyval \<Rightarrow> pyval \<Rightarrow> pyval bound_statement \<Rightarrow> pyval bound_statement \<Rightarrow>
   (pyval bound_statement \<times> pyval bound_statement) result" where
  "adapt_both T env lv rv l r =
     and_then (expression_field env lv) (\<lambda>lf.
     and_then (expression_field env rv) (\<lambda>rf.
     and_then (adapt_if T (is_literal rv) lf r) (\<lambda>r.
     and_then (adapt_if T (is_literal lv) rf l) (\<lambda>l. Inr (l, r)))))"

definition range_part ::
  "pyval bound_statement \<Rightarrow> string \<Rightarrow> pyval bound_statement option \<Rightarrow> pyval bound_statement list" where
  "range_part s operator e = (case e of None \<Rightarrow> [] | Some e \<Rightarrow> [compare_sql s operator e])"

definition aggregate_names :: "string list" where
  "aggregate_names = [''count'', ''sum'', ''avg'', ''min'', ''max'', ''percentile'']"

function (sequential) compile :: "texts \<Rightarrow> targets \<Rightarrow> pyval \<Rightarrow> pyval bound_statement result" where
  "compile T env (PMap d) =
     (case optional ''kind'' d of
        PStr kind \<Rightarrow>
          if kind = ''field'' then field_sql env d
          else if kind = ''literal'' then Inr (bound [Hole] [optional ''value'' d])
          else if kind = ''parameter'' then Inl ValueError
          else if kind = ''point'' then point_arg d
          else if kind \<in> {''not'', ''negate''} then
            and_then (operand ''operand'' d) (\<lambda>v.
            and_then (compile T env v) (\<lambda>s. Inr (unary_sql kind s)))
          else if kind \<in> {''and'', ''or''} then
            and_then (sequence_arg TypeError ''operands'' d) (\<lambda>vs.
            and_then (traverse (compile T env) vs) (\<lambda>ss.
              Inr (if kind = ''and'' then conjunction ss else disjunction ss)))
          else if kind \<in> set (keys operators) then
            and_then (operand ''left'' d) (\<lambda>lv.
            and_then (operand ''right'' d) (\<lambda>rv.
            and_then (compile T env lv) (\<lambda>l.
            and_then (compile T env rv) (\<lambda>r.
            and_then (adapt_both T env lv rv l r) (\<lambda>(l, r).
            and_then (dict_item kind operators) (\<lambda>operator. Inr (binary_sql operator l r)))))))
          else if kind = ''prefix'' then
            and_then (operand ''left'' d) (\<lambda>lv.
            and_then (compile T env lv) (\<lambda>l.
            and_then (operand ''right'' d) (\<lambda>rv.
            and_then (compile T env rv) (\<lambda>r. Inr (prefix_sql l r)))))
          else if kind = ''contains'' then
            and_then (operand ''left'' d) (\<lambda>lv.
            and_then (expression_field env lv) (\<lambda>lf.
            and_then (compile T env lv) (\<lambda>l.
            and_then (operand ''right'' d) (\<lambda>rv.
            and_then (compile T env rv) (\<lambda>r.
              (case lf of
                 Some f \<Rightarrow>
                   if json_field f
                   then and_then (adapt_params T r f) (\<lambda>r. Inr (contains_json_sql l r))
                   else Inr (contains_text_sql l r)
               | None \<Rightarrow> Inr (contains_text_sql l r)))))))
          else if kind = ''isNull'' then
            and_then (operand ''operand'' d) (\<lambda>v.
            and_then (compile T env v) (\<lambda>s.
              Inr (null_sql (optional ''expected'' d = PBool True) s)))
          else if kind \<in> {''in'', ''notIn''} then
            and_then (operand ''operand'' d) (\<lambda>v.
            and_then (compile T env v) (\<lambda>s.
            and_then (sequence_arg ValueError ''values'' d) (\<lambda>vs.
            and_then (ensure (vs \<noteq> []) ValueError) (\<lambda>_.
            and_then (traverse (compile T env) vs) (\<lambda>items.
            and_then (expression_field env v) (\<lambda>f.
            and_then (traverse (adapt_if T True f) items) (\<lambda>items.
              Inr (member_sql (kind = ''notIn'') s items))))))))
          else if kind = ''timestampRange'' then
            and_then (operand ''operand'' d) (\<lambda>v.
            and_then (compile T env v) (\<lambda>s.
            and_then (if optional ''start'' d = PNone then Inr None
                      else and_then (compile T env (optional ''start'' d)) (\<lambda>e. Inr (Some e))) (\<lambda>start.
            and_then (if optional ''end'' d = PNone then Inr None
                      else and_then (compile T env (optional ''end'' d)) (\<lambda>e. Inr (Some e))) (\<lambda>stop.
              Inr (conjunction
                (range_part s (if truthy (optional ''includeStart'' d) then ''>='' else ''>'') start @
                 range_part s (if truthy (optional ''includeEnd'' d) then ''<='' else ''<'') stop))))))
          else if kind = ''documentPath'' then
            and_then (operand ''document'' d) (\<lambda>v.
            and_then (compile T env v) (\<lambda>s.
              (case optional ''pointer'' d of
                 PStr p \<Rightarrow> if starts_with ''/'' p then Inr (path_sql s (pointer_segments p)) else Inl ValueError
               | _ \<Rightarrow> Inl ValueError)))
          else if kind = ''fullText'' then
            and_then (sequence_arg ValueError ''fields'' d) (\<lambda>vs.
            and_then (ensure (vs \<noteq> []) ValueError) (\<lambda>_.
            and_then (traverse (compile T env) vs) (\<lambda>ss.
              Inr (full_text_sql ss (optional ''query'' d)))))
          else if kind \<in> {''distance'', ''distanceWithin''} then
            and_then (operand ''left'' d) (\<lambda>lv.
            and_then (compile T env lv) (\<lambda>l.
            and_then (operand ''right'' d) (\<lambda>rv.
            and_then (compile T env rv) (\<lambda>r.
              Inr (if kind = ''distance'' then distance_sql l r
                   else within_sql l r (optional ''distance'' d))))))
          else if kind = ''aggregate'' then
            (case optional ''function'' d of
               PStr fn \<Rightarrow>
                 if fn \<notin> set aggregate_names then Inl ValueError
                 else if optional ''operand'' d = PNone
                 then (if fn = ''count'' then Inr (bound [Raw ''count(*)''] []) else Inl TypeError)
                 else and_then (compile T env (optional ''operand'' d)) (\<lambda>s.
                        if fn = ''percentile'' then Inl ValueError
                        else Inr (aggregate_sql fn (truthy (optional ''distinct'' d)) s))
             | PSeq _ \<Rightarrow> Inl TypeError
             | PMap _ \<Rightarrow> Inl TypeError
             | _ \<Rightarrow> Inl ValueError)
          else Inl ValueError
      | PSeq _ \<Rightarrow> Inl TypeError
      | PMap _ \<Rightarrow> Inl TypeError
      | _ \<Rightarrow> Inl ValueError)"
| "compile T env v = Inl TypeError"
  by pat_completeness auto
termination
  by (relation "measure (\<lambda>(T, env, v). size v)", rule wf_measure; unfold in_measure prod.case)
    (erule operand_size | erule (1) sequence_arg_size | erule optional_size)+

declare compile.simps [simp del]

definition optional_compile :: "texts \<Rightarrow> targets \<Rightarrow> pyval \<Rightarrow> pyval bound_statement option result" where
  "optional_compile T env v =
     (if v = PNone then Inr None else and_then (compile T env v) (\<lambda>e. Inr (Some e)))"

lemma compile_range:
  assumes "optional ''kind'' d = PStr ''timestampRange''"
  shows "compile T env (PMap d) = and_then (operand ''operand'' d) (\<lambda>v. and_then (compile T env v) (\<lambda>s.
    and_then (optional_compile T env (optional ''start'' d)) (\<lambda>a.
    and_then (optional_compile T env (optional ''end'' d)) (\<lambda>z.
      Inr (conjunction
        (range_part s (if truthy (optional ''includeStart'' d) then ''>='' else ''>'') a @
         range_part s (if truthy (optional ''includeEnd'' d) then ''<='' else ''<'') z))))))"
proof -
  have "''timestampRange'' \<notin> set (keys operators)" by (simp add: operators_def keys_def)
  then show ?thesis
    by (subst compile.simps) (simp add: assms optional_compile_def split del: if_split)
qed

section \<open>What every compiled statement satisfies\<close>

text \<open>
  The contract of the compiler's building blocks: a property of statements that each of them keeps.
  It holds of everything that is compiled.
\<close>

locale statement_closed =
  fixes holds :: "pyval bound_statement \<Rightarrow> bool"
    and env :: targets
  assumes closed_field: "field_sql env d = Inr s \<Longrightarrow> holds s"
    and closed_hole: "holds (bound [Hole] [v])"
    and closed_point: "point_arg d = Inr s \<Longrightarrow> holds s"
    and closed_count: "holds (bound [Raw ''count(*)''] [])"
    and closed_adapt: "holds s \<Longrightarrow> length ps = length (params s) \<Longrightarrow> holds (bound (command s) ps)"
    and closed_unary: "holds s \<Longrightarrow> holds (unary_sql kind s)"
    and closed_binary: "holds l \<Longrightarrow> holds r \<Longrightarrow> operator \<in> snd ` set operators \<Longrightarrow> holds (binary_sql operator l r)"
    and closed_prefix: "holds l \<Longrightarrow> holds r \<Longrightarrow> holds (prefix_sql l r)"
    and closed_contains: "holds l \<Longrightarrow> holds r \<Longrightarrow> holds (contains_json_sql l r) \<and> holds (contains_text_sql l r)"
    and closed_null: "holds s \<Longrightarrow> holds (null_sql b s)"
    and closed_member: "holds s \<Longrightarrow> (\<And>x. x \<in> set xs \<Longrightarrow> holds x) \<Longrightarrow> holds (member_sql b s xs)"
    and closed_compare: "holds l \<Longrightarrow> holds r \<Longrightarrow> operator \<in> snd ` set operators \<Longrightarrow> holds (compare_sql l operator r)"
    and closed_path: "holds s \<Longrightarrow> holds (path_sql s segments)"
    and closed_full_text: "(\<And>x. x \<in> set xs \<Longrightarrow> holds x) \<Longrightarrow> holds (full_text_sql xs q)"
    and closed_distance: "holds l \<Longrightarrow> holds r \<Longrightarrow> holds (distance_sql l r) \<and> holds (within_sql l r x)"
    and closed_aggregate: "holds s \<Longrightarrow> fn \<in> set aggregate_names \<Longrightarrow> holds (aggregate_sql fn b s)"
    and closed_conjunction: "(\<And>x. x \<in> set xs \<Longrightarrow> holds x) \<Longrightarrow> holds (conjunction xs)"
    and closed_disjunction: "(\<And>x. x \<in> set xs \<Longrightarrow> holds x) \<Longrightarrow> holds (disjunction xs)"
begin

lemma closed_adapt_params: "adapt_params T s f = Inr t \<Longrightarrow> holds s \<Longrightarrow> holds t"
  by (auto simp: adapt_params_def result_simps dest!: traverse_length intro: closed_adapt)

lemma closed_adapt_if: "adapt_if T b f s = Inr t \<Longrightarrow> holds s \<Longrightarrow> holds t"
  by (auto simp: adapt_if_def intro: closed_adapt_params split: option.splits if_splits)

lemma closed_adapt_both:
  "adapt_both T env lv rv l r = Inr (l', r') \<Longrightarrow> holds l \<Longrightarrow> holds r \<Longrightarrow> holds l' \<and> holds r'"
  unfolding adapt_both_def by (auto simp: result_simps intro: closed_adapt_if)

lemma closed_compile: "compile T env v = Inr s \<Longrightarrow> holds s"
proof (induction v arbitrary: s rule: measure_induct_rule [of size])
  case (less v)
  show ?case
  proof (cases v)
    case (PMap d)
    have sub: "operand k d = Inr w \<Longrightarrow> compile T env w = Inr t \<Longrightarrow> holds t" for k w t
      using less.IH [of w] operand_size [of k d w] by (simp add: PMap)
    have opt: "optional k d \<noteq> PNone \<Longrightarrow> compile T env (optional k d) = Inr t \<Longrightarrow> holds t" for k t
      using less.IH [of "optional k d"] optional_size [of k d] by (simp add: PMap)
    have seq: "\<forall>t \<in> set ts. holds t" if "sequence_arg e k d = Inr vs" "traverse (compile T env) vs = Inr ts" for e k vs ts
      using that(2)
    proof (rule traverse_all)
      fix x t assume "x \<in> set vs" "compile T env x = Inr t"
      then show "holds t" using less.IH [of x] sequence_arg_size [OF that(1)] by (simp add: PMap)
    qed
    from less.prems obtain kind where kind: "optional ''kind'' d = PStr kind"
      by (cases "optional ''kind'' d") (auto simp: PMap compile.simps)
    note C = less.prems [unfolded PMap compile.simps kind pyval.case]
    consider "kind = ''field''" | "kind = ''literal''" | "kind = ''parameter''" | "kind = ''point''"
      | "kind \<in> {''not'', ''negate''}" | "kind \<in> {''and'', ''or''}" | "kind \<in> set (keys operators)"
      | "kind = ''prefix''" | "kind = ''contains''" | "kind = ''isNull''" | "kind \<in> {''in'', ''notIn''}"
      | "kind = ''timestampRange''" | "kind = ''documentPath''" | "kind = ''fullText''"
      | "kind \<in> {''distance'', ''distanceWithin''}" | "kind = ''aggregate''"
      using C by (auto split: if_splits)
    then show ?thesis
    proof cases
      case 1 with C show ?thesis by (simp add: closed_field)
    next
      case 2 with C show ?thesis using closed_hole by auto
    next
      case 3 with C show ?thesis by simp
    next
      case 4 with C show ?thesis by (simp add: closed_point)
    next
      case 5 with C show ?thesis by (auto simp: result_simps) (metis closed_unary sub)+
    next
      case 6 with C show ?thesis
        by (auto simp: result_simps) (metis closed_conjunction closed_disjunction seq)+
    next
      case 7 then have "kind \<notin> {''field'', ''literal'', ''parameter'', ''point'', ''not'', ''negate'', ''and'', ''or''}"
        by (auto simp: keys_def operators_def)
      with 7 C obtain lv rv l r l' r' operator where
        b: "operand ''left'' d = Inr lv" "operand ''right'' d = Inr rv" "compile T env lv = Inr l"
        "compile T env rv = Inr r" "adapt_both T env lv rv l r = Inr (l', r')"
        "dict_item kind operators = Inr operator" "s = binary_sql operator l' r'"
        by (auto simp: result_simps)
      then have "holds l' \<and> holds r'" using closed_adapt_both sub by metis
      moreover have "operator \<in> snd ` set operators"
        using b(6) by (force simp: dict_item_success dest: map_of_SomeD)
      ultimately show ?thesis using b(7) closed_binary by blast
    next
      case 8 with C show ?thesis
        by (auto simp: result_simps operators_def keys_def) (metis closed_prefix sub)+
    next
      case 9 with C show ?thesis
        by (auto simp: result_simps operators_def keys_def split: option.splits if_splits)
          (metis closed_contains sub closed_adapt_params)+
    next
      case 10 with C show ?thesis
        by (auto simp: result_simps operators_def keys_def) (metis closed_null sub)+
    next
      case 11
      with C obtain w t vs items f items' b where
        m: "operand ''operand'' d = Inr w" "compile T env w = Inr t" "sequence_arg ValueError ''values'' d = Inr vs"
        "traverse (compile T env) vs = Inr items" "traverse (adapt_if T True f) items = Inr items'"
        "s = member_sql b t items'"
        by (auto simp: result_simps operators_def keys_def)
      have "\<forall>x \<in> set items. holds x" using seq m(3,4) by blast
      then have "\<forall>x \<in> set items'. holds x"
        by (intro traverse_all [OF m(5)]) (auto intro: closed_adapt_if)
      then show ?thesis using m sub closed_member by metis
    next
      case 12
      let ?lo = "if truthy (optional ''includeStart'' d) then ''>='' else ''>''"
      let ?hi = "if truthy (optional ''includeEnd'' d) then ''<='' else ''<''"
      note E = less.prems [unfolded PMap compile_range [OF kind [unfolded 12]]]
      from E obtain w where w: "operand ''operand'' d = Inr w" by (cases "operand ''operand'' d") simp_all
      from E w obtain t where t: "compile T env w = Inr t" by (cases "compile T env w") simp_all
      from E w t obtain a where a: "optional_compile T env (optional ''start'' d) = Inr a"
        by (cases "optional_compile T env (optional ''start'' d)") simp_all
      from E w t a obtain z where z: "optional_compile T env (optional ''end'' d) = Inr z"
        by (cases "optional_compile T env (optional ''end'' d)") simp_all
      from E w t a z have m: "s = conjunction (range_part t ?lo a @ range_part t ?hi z)"
        by (simp split del: if_split)
      have "holds t" using w t sub by blast
      moreover have "holds e" if "a = Some e \<or> z = Some e" for e
        using a z that opt by (auto simp: optional_compile_def and_then_success split: if_splits)
      moreover have "?lo \<in> snd ` set operators" "?hi \<in> snd ` set operators"
        by (auto simp: operators_def)
      ultimately show ?thesis unfolding m
        by (intro closed_conjunction) (auto simp: range_part_def intro: closed_compare split: option.splits)
    next
      case 13
      have K: "''documentPath'' \<notin> set (keys operators)" by (simp add: operators_def keys_def)
      from C 13 K obtain w t where w: "operand ''document'' d = Inr w" "compile T env w = Inr t"
        and r: "(case optional ''pointer'' d of
           PStr p \<Rightarrow> if starts_with ''/'' p then Inr (path_sql t (pointer_segments p)) else Inl ValueError
         | _ \<Rightarrow> Inl ValueError) = Inr s"
        by (cases "operand ''document'' d"; simp; cases "compile T env (projr (operand ''document'' d))"; simp)
      from r have "\<exists>p. path_sql t (pointer_segments p) = s"
        by (cases "optional ''pointer'' d") (auto split: if_splits)
      then show ?thesis using w sub closed_path by blast
    next
      case 14 with C show ?thesis
        by (auto simp: result_simps operators_def keys_def) (metis closed_full_text seq)+
    next
      case 15
      then have K: "kind \<notin> set (keys operators)" by (auto simp: operators_def keys_def)
      from C 15 K obtain lv l rv r where d: "operand ''left'' d = Inr lv" "compile T env lv = Inr l"
        "operand ''right'' d = Inr rv" "compile T env rv = Inr r"
        and s: "(if kind = ''distance'' then distance_sql l r else within_sql l r (optional ''distance'' d)) = s"
        by (auto simp: and_then_success)
      from d have "holds l" "holds r" using sub by blast+
      then show ?thesis using s closed_distance by (auto split: if_splits)
    next
      case 16 with C show ?thesis
        by (auto simp: result_simps operators_def keys_def closed_count split: pyval.splits if_splits
            intro: closed_aggregate opt)
    qed
  qed (use less.prems in \<open>simp_all add: compile.simps\<close>)
qed

end

section \<open>No injection\<close>

text \<open>The identifiers of a query's targets, and every text that the compiler itself writes.\<close>

definition target_idents :: "targets \<Rightarrow> string set" where
  "target_idents env = (\<Union>(k, alias, layout) \<in> set env. insert alias (f_column ` set (l_fields layout)))"

definition raw_texts :: "sql \<Rightarrow> string set" where
  "raw_texts c = {t. Raw t \<in> set c}"

definition vocabulary :: "string list" where
  "vocabulary =
     [''.'', ''('', '')'', ''NOT '', ''-'', '', '', '') AND ('', '') OR ('', ''TRUE'', ''FALSE'', '' LIKE (replace(replace(replace(('',
      like_escape, '' @> ('', '')::jsonb'', ''position(('', '')::text in '', '') > 0'', '' IS NULL)'',
      '' IS NOT NULL)'', '' IN ('', '' NOT IN ('', ''))'', '' #> '', ''::text[])'',
      ''to_tsvector('simple', concat_ws(' ', '', '')) @@ websearch_to_tsquery('simple', '', ''ST_Distance('',
      ''ST_DWithin('', ''count(*)'', ''ST_SetSRID(ST_MakePoint('', ''), 4326)::geography''] @
     map (\<lambda>(_, operator). '' '' @ operator @ '' '') operators @
     map (\<lambda>fn. fn @ ''('') aggregate_names @ map (\<lambda>fn. fn @ ''(DISTINCT '') aggregate_names"

lemma raw_texts_simps [simp]:
  "raw_texts [] = {}" "raw_texts (a @ b) = raw_texts a \<union> raw_texts b"
  "raw_texts (Raw s # c) = insert s (raw_texts c)" "raw_texts (Ident i # c) = raw_texts c"
  "raw_texts (Literal v # c) = raw_texts c" "raw_texts (Hole # c) = raw_texts c"
  by (auto simp: raw_texts_def)

lemma raw_texts_join: "raw_texts (join_sql sep xs) \<subseteq> raw_texts sep \<union> (\<Union>x \<in> set xs. raw_texts x)"
  by (induction sep xs rule: join_sql.induct) auto

lemma raw_texts_commands:
  "(\<And>s. s \<in> set ss \<Longrightarrow> raw_texts (command s) \<subseteq> A) \<Longrightarrow> raw_texts sep \<subseteq> A \<Longrightarrow>
   raw_texts (join_sql sep (map command ss)) \<subseteq> A"
  using raw_texts_join [of sep "map command ss"] by fastforce

lemma raw_texts_ident: "raw_texts (ident ps) \<subseteq> {''.''}"
  using raw_texts_join [of "[Raw ''.'']" "map (\<lambda>p. [Ident p]) ps"] by (auto simp: ident_def)

definition safe_over :: "string set \<Rightarrow> pyval bound_statement \<Rightarrow> bool" where
  "safe_over A s \<longleftrightarrow> sound_over A s \<and> raw_texts (command s) \<subseteq> set vocabulary"

named_theorems statement_texts \<open>the texts of the compiler\<close>
declare unary_sql_def [statement_texts] binary_sql_def [statement_texts] prefix_sql_def [statement_texts]
  contains_json_sql_def [statement_texts] contains_text_sql_def [statement_texts] null_sql_def [statement_texts]
  member_sql_def [statement_texts] compare_sql_def [statement_texts] path_sql_def [statement_texts]
  full_text_sql_def [statement_texts] distance_sql_def [statement_texts] within_sql_def [statement_texts]
  aggregate_sql_def [statement_texts]

lemma operator_depth: "operator \<in> snd ` set operators \<Longrightarrow> depth_text ('' '' @ operator @ '' '') n = Some n"
  by (auto simp: operators_def)

lemma operator_word: "operator \<in> snd ` set operators \<Longrightarrow> '' '' @ operator @ '' '' \<in> set vocabulary"
  unfolding vocabulary_def by (force simp: image_iff)

lemma aggregate_depth:
  "fn \<in> set aggregate_names \<Longrightarrow> depth_text (fn @ ''('' @ (if b then ''DISTINCT '' else [])) n = Some (Suc n)"
  by (auto simp: aggregate_names_def)

lemma aggregate_word:
  "fn \<in> set aggregate_names \<Longrightarrow> fn @ ''('' @ (if b then ''DISTINCT '' else []) \<in> set vocabulary"
  unfolding vocabulary_def by (cases b) auto

lemma words [simp]:
  "''.'' \<in> set vocabulary" "''('' \<in> set vocabulary" "'')'' \<in> set vocabulary"
  "''NOT '' \<in> set vocabulary" "''-'' \<in> set vocabulary" "'', '' \<in> set vocabulary"
  "'') AND ('' \<in> set vocabulary" "'') OR ('' \<in> set vocabulary"
  "''TRUE'' \<in> set vocabulary" "''FALSE'' \<in> set vocabulary"
  "'' LIKE (replace(replace(replace(('' \<in> set vocabulary" "like_escape \<in> set vocabulary"
  "'' @> ('' \<in> set vocabulary" "'')::jsonb'' \<in> set vocabulary"
  "''position(('' \<in> set vocabulary" "'')::text in '' \<in> set vocabulary"
  "'') > 0'' \<in> set vocabulary" "'' IS NULL)'' \<in> set vocabulary"
  "'' IS NOT NULL)'' \<in> set vocabulary" "'' IN ('' \<in> set vocabulary"
  "'' NOT IN ('' \<in> set vocabulary" "''))'' \<in> set vocabulary"
  "'' #> '' \<in> set vocabulary" "''::text[])'' \<in> set vocabulary"
  "''to_tsvector('simple', concat_ws(' ', '' \<in> set vocabulary"
  "'')) @@ websearch_to_tsquery('simple', '' \<in> set vocabulary"
  "''ST_Distance('' \<in> set vocabulary" "''ST_DWithin('' \<in> set vocabulary"
  "''count(*)'' \<in> set vocabulary" "''ST_SetSRID(ST_MakePoint('' \<in> set vocabulary"
  "''), 4326)::geography'' \<in> set vocabulary"
  by (simp_all add: vocabulary_def)

lemma escape_depth: "depth_text like_escape (Suc (Suc (Suc (Suc (Suc (Suc n)))))) = Some n"
  by (simp add: like_escape_def Let_def)

lemma safe_parts:
  "safe_over A s \<Longrightarrow> holes (command s) = length (params s)"
  "safe_over A s \<Longrightarrow> depth_sql (command s) n = Some n"
  "safe_over A s \<Longrightarrow> idents (command s) \<subseteq> A"
  "safe_over A s \<Longrightarrow> raw_texts (command s) \<subseteq> set vocabulary"
  unfolding safe_over_def by (blast dest: sound_parts)+

lemma safe_intro:
  "holes (command s) = length (params s) \<Longrightarrow> depth_sql (command s) 0 = Some 0 \<Longrightarrow>
   idents (command s) \<subseteq> A \<Longrightarrow> raw_texts (command s) \<subseteq> set vocabulary \<Longrightarrow> safe_over A s"
  by (simp add: safe_over_def sound_over_def arity_ok_def balanced_def)

lemmas safe_simps = statement_texts depth_append operator_depth operator_word escape_depth

lemma safe_binary:
  assumes "safe_over A l" "safe_over A r"
  shows "operator \<in> snd ` set operators \<Longrightarrow> safe_over A (binary_sql operator l r)"
    "operator \<in> snd ` set operators \<Longrightarrow> safe_over A (compare_sql l operator r)"
    "safe_over A (prefix_sql l r)" "safe_over A (contains_json_sql l r)" "safe_over A (contains_text_sql l r)"
    "safe_over A (distance_sql l r)" "safe_over A (within_sql l r x)"
proof -
  note P = safe_parts [OF assms(1)] safe_parts [OF assms(2)] safe_simps
  show "safe_over A (binary_sql operator l r)" if "operator \<in> snd ` set operators"
    by (rule safe_intro) (use that in \<open>simp_all add: P del: append.simps\<close>)
  show "safe_over A (compare_sql l operator r)" if "operator \<in> snd ` set operators"
    by (rule safe_intro) (use that in \<open>simp_all add: P del: append.simps\<close>)
  show "safe_over A (prefix_sql l r)" "safe_over A (contains_json_sql l r)" "safe_over A (contains_text_sql l r)"
    "safe_over A (distance_sql l r)" "safe_over A (within_sql l r x)"
    by (rule safe_intro; simp add: P)+
qed

lemma safe_unary:
  assumes "safe_over A s"
  shows "safe_over A (unary_sql kind s)" "safe_over A (null_sql b s)" "safe_over A (path_sql s segments)"
proof -
  note P = safe_parts [OF assms] safe_simps
  show "safe_over A (unary_sql kind s)" "safe_over A (null_sql b s)" "safe_over A (path_sql s segments)"
    by (rule safe_intro; simp add: P)+
qed

lemma safe_aggregate:
  "safe_over A s \<Longrightarrow> fn \<in> set aggregate_names \<Longrightarrow> safe_over A (aggregate_sql fn b s)"
  by (rule safe_intro; simp add: safe_parts safe_simps aggregate_depth aggregate_word del: append.simps if_split)

lemma safe_list:
  assumes "\<And>x. x \<in> set xs \<Longrightarrow> safe_over A x"
  shows "holes (join_sql [Raw '', ''] (map command xs)) = length (concat (map params xs))"
    "depth_sql (join_sql [Raw '', ''] (map command xs)) n = Some n"
    "idents (join_sql [Raw '', ''] (map command xs)) \<subseteq> A"
    "raw_texts (join_sql [Raw '', ''] (map command xs)) \<subseteq> set vocabulary"
proof -
  have s: "sound_over A x" if "x \<in> set xs" for x using assms [OF that] by (simp add: safe_over_def)
  have b: "balanced [Raw '', '']" by (simp add: balanced_def)
  note L = sound_list [OF s b, of xs, simplified]
  show "holes (join_sql [Raw '', ''] (map command xs)) = length (concat (map params xs))"
    "depth_sql (join_sql [Raw '', ''] (map command xs)) n = Some n"
    "idents (join_sql [Raw '', ''] (map command xs)) \<subseteq> A"
    using L by simp_all
  show "raw_texts (join_sql [Raw '', ''] (map command xs)) \<subseteq> set vocabulary"
    by (rule raw_texts_commands) (use assms safe_parts(4) in auto)
qed

lemma safe_member:
  assumes "safe_over A s" "\<And>x. x \<in> set xs \<Longrightarrow> safe_over A x"
  shows "safe_over A (member_sql b s xs)"
  by (rule safe_intro; simp add: safe_parts [OF assms(1)] safe_list [OF assms(2)] safe_simps)

lemma safe_full_text:
  assumes "\<And>x. x \<in> set xs \<Longrightarrow> safe_over A x" shows "safe_over A (full_text_sql xs q)"
  by (rule safe_intro; simp add: safe_list [OF assms] safe_simps)

lemma safe_adapt: "safe_over A s \<Longrightarrow> length ps = length (params s) \<Longrightarrow> safe_over A (bound (command s) ps)"
  by (simp add: safe_over_def sound_same_arity)

lemma safe_junction:
  assumes "\<And>x. x \<in> set xs \<Longrightarrow> safe_over A x"
  shows "safe_over A (conjunction xs)" "safe_over A (disjunction xs)"
proof -
  have s: "sound_over A x" if "x \<in> set xs" for x using assms [OF that] by (simp add: safe_over_def)
  have r: "raw_texts (join_sql [Raw '') AND (''] (map command xs)) \<subseteq> set vocabulary"
    "raw_texts (join_sql [Raw '') OR (''] (map command xs)) \<subseteq> set vocabulary"
    by (rule raw_texts_commands; use assms safe_parts(4) in auto)+
  show "safe_over A (conjunction xs)" "safe_over A (disjunction xs)"
    unfolding safe_over_def using sound_conjunction [OF s] sound_disjunction [OF s] r
    by (auto simp: conjunction_def disjunction_def)
qed

lemma field_sql_parts:
  assumes "field_sql env d = Inr s"
  shows "\<exists>k al layout f. (k, al, layout) \<in> set env \<and> f \<in> set (l_fields layout) \<and>
    s = bound (ident [al, f_column f]) []"
proof -
  from assms obtain al f where q: "query_field env d = Inr (al, f)" "s = bound (ident [al, f_column f]) []"
    unfolding field_sql_def and_then_success by auto
  from q(1) obtain k p where k: "dict_item k env = Inr p" and n: "(case p of (a, layout) \<Rightarrow>
       (case optional ''name'' d of
          PStr n \<Rightarrow> (case field_of layout n of Some f \<Rightarrow> Inr (a, f) | None \<Rightarrow> Inl ValueError)
        | _ \<Rightarrow> Inl ValueError)) = Inr (al, f)"
    unfolding query_field_def and_then_success by blast
  obtain a layout where p: "p = (a, layout)" by (cases p)
  from n obtain n where "field_of layout n = Some f" "a = al"
    unfolding p by (cases "optional ''name'' d") (auto split: option.splits)
  with k p have "dict_item k env = Inr (al, layout)" "field_of layout n = Some f" by simp_all
  then have "(k, al, layout) \<in> set env" "f \<in> set (l_fields layout)"
    by (auto simp: dict_item_success field_of_def field_map_def dest!: map_of_SomeD)
  with q(2) show ?thesis by blast
qed

lemma safe_column: "safe_over (set ps) (bound (ident ps) [])"
  by (rule safe_intro) (use raw_texts_ident [of ps] in \<open>auto simp: balanced_depth\<close>)

lemma safe_mono: "safe_over A s \<Longrightarrow> A \<subseteq> B \<Longrightarrow> safe_over B s"
  unfolding safe_over_def by (blast intro: sound_mono)

lemma safe_field:
  assumes "field_sql env d = Inr s" shows "safe_over (target_idents env) s"
proof -
  from field_sql_parts [OF assms] obtain k al layout f where
    f: "(k, al, layout) \<in> set env" "f \<in> set (l_fields layout)" "s = bound (ident [al, f_column f]) []"
    by blast
  have "set [al, f_column f] \<subseteq> target_idents env"
  proof -
    have "insert al (f_column ` set (l_fields layout)) \<subseteq> target_idents env"
      unfolding target_idents_def using UN_upper [OF f(1)] by (metis (no_types, lifting) case_prod_conv)
    then show ?thesis using f(2) by auto
  qed
  then show ?thesis unfolding f(3) by (rule safe_mono [OF safe_column])
qed

lemma safe_leaf:
  "safe_over A (bound [Hole] [v])" "safe_over A (bound [Raw ''count(*)''] [])"
  "point_arg d = Inr s \<Longrightarrow> safe_over A s"
proof -
  show "safe_over A (bound [Hole] [v])" "safe_over A (bound [Raw ''count(*)''] [])"
    by (rule safe_intro; simp)+
  assume "point_arg d = Inr s"
  then obtain x y where "s = bound [Raw ''ST_SetSRID(ST_MakePoint('', Hole, Raw '', '', Hole,
      Raw ''), 4326)::geography''] [x, y]"
    by (auto simp: point_arg_def split: option.splits list.splits)
  then show "safe_over A s" by (intro safe_intro) simp_all
qed

interpretation safe_text: statement_closed "safe_over (target_idents env)" env for env
  by unfold_locales
    (simp_all add: safe_field safe_leaf safe_binary safe_unary safe_aggregate safe_member safe_full_text
      safe_junction safe_adapt)

text \<open>
  C32. No injection through expressions: whatever expression compiles, the command has one placeholder
  per bound value, its parentheses are balanced (no part can leave the parentheses that the adapter puts
  around it), its identifiers are aliases of the query's targets and columns of their layouts, and all of
  its remaining text is from the compiler's own fixed vocabulary; every value of the request is a parameter.
\<close>
theorem compiled_expression_safe:
  assumes "compile T env v = Inr s"
  shows "holes (command s) = length (params s) \<and> balanced (command s) \<and>
    set (command s) \<subseteq> Raw ` set vocabulary \<union> Ident ` target_idents env \<union> {Hole}"
  using safe_text.closed_compile [OF assms] balanced_tokens [of "command s" "target_idents env" "set vocabulary"]
  by (simp add: safe_over_def sound_over_def arity_ok_def raw_texts_def)

section \<open>Examples\<close>

definition sample_targets :: targets where
  "sample_targets = [(''structured:people'', ''t0'', sample_layout)]"

definition nick_is :: "string \<Rightarrow> pyval \<Rightarrow> pyval" where
  "nick_is kind v =
     PMap [(PStr ''kind'', PStr kind),
           (PStr ''left'', PMap [(PStr ''kind'', PStr ''field''), (PStr ''name'', PStr ''nick'')]),
           (PStr ''right'', PMap [(PStr ''kind'', PStr ''literal''), (PStr ''value'', v)])]"

lemma nick_is_compiled:
  "compile sample_texts sample_targets (nick_is ''eq'' (PStr ''x') OR (TRUE'')) =
     Inr (bound [Raw ''('', Ident ''t0'', Raw ''.'', Ident ''nick'', Raw '' = '', Hole, Raw '')'']
                [PStr ''x') OR (TRUE''])"
  by code_simp

lemma compiled_expression_safe_witness:
  "\<exists>s. compile sample_texts sample_targets (nick_is ''eq'' (PStr ''x') OR (TRUE'')) = Inr s \<and>
     balanced (command s) \<and> set (command s) \<subseteq> Raw ` set vocabulary \<union> Ident ` target_idents sample_targets \<union> {Hole}"
  using compiled_expression_safe [OF nick_is_compiled] nick_is_compiled by blast

text \<open>
  The driver reads a percent sign in a command as the start of a placeholder; the compiler writes
  one, undoubled, for modulo and for prefix, so these two operators cannot be executed with
  bound parameters.
\<close>
theorem modulo_prefix_percent:
  "(\<exists>s. compile sample_texts sample_targets (nick_is ''modulo'' (PInt 2)) = Inr s \<and>
      stray_percent (command s) \<and> params s \<noteq> []) \<and>
   (\<exists>s. compile sample_texts sample_targets (nick_is ''prefix'' (PStr ''a'')) = Inr s \<and>
      stray_percent (command s) \<and> params s \<noteq> [])"
proof -
  have m: "compile sample_texts sample_targets (nick_is ''modulo'' (PInt 2)) =
     Inr (bound [Raw ''('', Ident ''t0'', Raw ''.'', Ident ''nick'', Raw '' % '', Hole, Raw '')''] [PInt 2])"
    by code_simp
  have p: "compile sample_texts sample_targets (nick_is ''prefix'' (PStr ''a'')) =
     Inr (bound [Raw ''('', Ident ''t0'', Raw ''.'', Ident ''nick'', Raw '' LIKE (replace(replace(replace(('',
       Hole, Raw like_escape] [PStr ''a''])"
    by code_simp
  have "CHR ''%'' \<in> set like_escape" by (simp add: like_escape_def Let_def)
  with m p show ?thesis by auto
qed

end
