(* ===== verification/Keyset.thy ===== *)
theory Keyset
  imports Expressions
begin

text \<open>
  Keyset pagination of \<open>query/__init__.py\<close>: the condition that selects the rows after a cursor
  (\<open>_after\<close>, \<open>_keyset\<close>), with its meaning in SQL's three-valued logic, and the page that
  \<open>normalize_result\<close> cuts from the fetched rows. The condition is proved to select exactly the rows
  that the ORDER BY of the same statement puts after the cursor, and following the cursors is proved to
  enumerate the ordered rows without loss or repetition.
\<close>

section \<open>The text\<close>

datatype direction = Asc | Desc
datatype nulls = NullsFirst | NullsLast

record order_term =
  ot_sql :: "pyval bound_statement"
  ot_direction :: direction
  ot_nulls :: nulls

definition after_sql :: "order_term \<Rightarrow> pyval \<Rightarrow> pyval bound_statement" where
  "after_sql t v =
     (let e = ot_sql t; operator = (if ot_direction t = Asc then ''>'' else ''<'') in
      if v = PNone
      then (if ot_nulls t = NullsLast then bound [Raw ''FALSE''] []
            else bound (command e @ [Raw '' IS NOT NULL'']) (params e))
      else bound ([Raw ''(''] @
             (if ot_nulls t = NullsLast
              then command e @ [Raw '' IS NULL OR (''] @ command e @ [Raw '' IS NOT NULL AND ''] @
                   command e @ [Raw ('' '' @ operator @ '' ''), Hole, Raw '')'']
              else command e @ [Raw '' IS NOT NULL AND ''] @ command e @ [Raw ('' '' @ operator @ '' ''), Hole]) @
             [Raw '')''])
           (params e @ params e @ (if ot_nulls t = NullsLast then params e else []) @ [v]))"

definition same_sql :: "order_term \<Rightarrow> pyval \<Rightarrow> pyval bound_statement" where
  "same_sql t v = bound (command (ot_sql t) @ [Raw '' IS NOT DISTINCT FROM '', Hole]) (params (ot_sql t) @ [v])"

definition keyset_branch :: "(order_term \<times> pyval) list \<Rightarrow> nat \<Rightarrow> pyval bound_statement" where
  "keyset_branch tvs i =
     conjunction (map (\<lambda>(t, v). same_sql t v) (take i tvs) @ [case tvs ! i of (t, v) \<Rightarrow> after_sql t v])"

definition keyset_sql :: "order_term list \<Rightarrow> pyval list \<Rightarrow> pyval bound_statement" where
  "keyset_sql order vs =
     (let tvs = zip order vs in disjunction (map (keyset_branch tvs) [0..<length tvs]))"

section \<open>Its meaning\<close>

text \<open>
  A condition of the keyset with the statement it is written as (\<open>emit_cond\<close>) and its value in SQL's
  three-valued logic: \<open>None\<close> is unknown. An operand has a value or is NULL.
\<close>

datatype keyset_cond =
    Nothing
  | NotNull order_term
  | Beyond order_term pyval
  | BeyondOrNull order_term pyval
  | SameAs order_term pyval
  | AllOf "keyset_cond list"
  | AnyOf "keyset_cond list"

fun emit_cond :: "keyset_cond \<Rightarrow> pyval bound_statement" where
  "emit_cond Nothing = bound [Raw ''FALSE''] []"
| "emit_cond (NotNull t) = bound (command (ot_sql t) @ [Raw '' IS NOT NULL'']) (params (ot_sql t))"
| "emit_cond (Beyond t v) =
     (let e = ot_sql t; operator = (if ot_direction t = Asc then ''>'' else ''<'') in
      bound ([Raw ''(''] @ command e @ [Raw '' IS NOT NULL AND ''] @ command e @
             [Raw ('' '' @ operator @ '' ''), Hole, Raw '')'']) (params e @ params e @ [v]))"
| "emit_cond (BeyondOrNull t v) =
     (let e = ot_sql t; operator = (if ot_direction t = Asc then ''>'' else ''<'') in
      bound ([Raw ''(''] @ command e @ [Raw '' IS NULL OR (''] @ command e @ [Raw '' IS NOT NULL AND ''] @
             command e @ [Raw ('' '' @ operator @ '' ''), Hole, Raw '')'', Raw '')''])
        (params e @ params e @ params e @ [v]))"
| "emit_cond (SameAs t v) = same_sql t v"
| "emit_cond (AllOf cs) = conjunction (map emit_cond cs)"
| "emit_cond (AnyOf cs) = disjunction (map emit_cond cs)"

fun kleene_and :: "bool option \<Rightarrow> bool option \<Rightarrow> bool option" where
  "kleene_and (Some False) _ = Some False"
| "kleene_and _ (Some False) = Some False"
| "kleene_and (Some True) (Some True) = Some True"
| "kleene_and _ _ = None"

fun kleene_or :: "bool option \<Rightarrow> bool option \<Rightarrow> bool option" where
  "kleene_or (Some True) _ = Some True"
| "kleene_or _ (Some True) = Some True"
| "kleene_or (Some False) (Some False) = Some False"
| "kleene_or _ _ = None"

text \<open>\<open>x > v\<close> for an ascending term and \<open>x < v\<close> for a descending one; unknown on a NULL.\<close>

definition beyond :: "direction \<Rightarrow> ('a :: linorder) option \<Rightarrow> 'a option \<Rightarrow> bool option" where
  "beyond d x v =
     (case (x, v) of (Some a, Some b) \<Rightarrow> Some (if d = Asc then b < a else a < b) | _ \<Rightarrow> None)"

fun eval_cond ::
  "(order_term \<Rightarrow> 'a option) \<Rightarrow> (pyval \<Rightarrow> ('a :: linorder) option) \<Rightarrow> keyset_cond \<Rightarrow> bool option" where
  "eval_cond row val Nothing = Some False"
| "eval_cond row val (NotNull t) = Some (row t \<noteq> None)"
| "eval_cond row val (Beyond t v) =
     kleene_and (Some (row t \<noteq> None)) (beyond (ot_direction t) (row t) (val v))"
| "eval_cond row val (BeyondOrNull t v) =
     kleene_or (Some (row t = None))
       (kleene_and (Some (row t \<noteq> None)) (beyond (ot_direction t) (row t) (val v)))"
| "eval_cond row val (SameAs t v) = Some (row t = val v)"
| "eval_cond row val (AllOf cs) = fold (\<lambda>c acc. kleene_and acc (eval_cond row val c)) cs (Some True)"
| "eval_cond row val (AnyOf cs) = fold (\<lambda>c acc. kleene_or acc (eval_cond row val c)) cs (Some False)"

definition after_cond :: "order_term \<Rightarrow> pyval \<Rightarrow> keyset_cond" where
  "after_cond t v =
     (if v = PNone then (if ot_nulls t = NullsLast then Nothing else NotNull t)
      else if ot_nulls t = NullsLast then BeyondOrNull t v else Beyond t v)"

definition keyset_cond_of :: "order_term list \<Rightarrow> pyval list \<Rightarrow> keyset_cond" where
  "keyset_cond_of order vs =
     (let tvs = zip order vs in
      AnyOf (map (\<lambda>i. AllOf (map (\<lambda>(t, v). SameAs t v) (take i tvs) @ [case tvs ! i of (t, v) \<Rightarrow> after_cond t v]))
               [0..<length tvs]))"

lemma emit_after: "emit_cond (after_cond t v) = after_sql t v"
  by (auto simp: after_cond_def after_sql_def Let_def)

lemma emit_keyset: "emit_cond (keyset_cond_of order vs) = keyset_sql order vs"
  by (simp add: keyset_cond_of_def keyset_sql_def keyset_branch_def [abs_def] Let_def emit_after o_def
      case_prod_unfold)

section \<open>Correctness\<close>

text \<open>\<open>ORDER BY\<close>: whether a key, and a tuple of keys, comes strictly before another.\<close>

fun key_less :: "direction \<Rightarrow> nulls \<Rightarrow> ('a :: linorder) option \<Rightarrow> 'a option \<Rightarrow> bool" where
  "key_less d n None None = False"
| "key_less d n None (Some y) = (n = NullsFirst)"
| "key_less d n (Some x) None = (n = NullsLast)"
| "key_less d n (Some x) (Some y) = (if d = Asc then x < y else y < x)"

fun tuple_less :: "order_term list \<Rightarrow> ('a :: linorder) option list \<Rightarrow> 'a option list \<Rightarrow> bool" where
  "tuple_less (t # ts) (x # xs) (y # ys) =
     (key_less (ot_direction t) (ot_nulls t) x y \<or> x = y \<and> tuple_less ts xs ys)"
| "tuple_less _ _ _ = False"

lemma kleene_and_true: "kleene_and a b = Some True \<longleftrightarrow> a = Some True \<and> b = Some True"
  by (induction a b rule: kleene_and.induct) auto

lemma kleene_or_true: "kleene_or a b = Some True \<longleftrightarrow> a = Some True \<or> b = Some True"
  by (induction a b rule: kleene_or.induct) auto

lemma all_of_true: "eval_cond row val (AllOf cs) = Some True \<longleftrightarrow> (\<forall>c \<in> set cs. eval_cond row val c = Some True)"
proof -
  have "fold (\<lambda>c acc. kleene_and acc (eval_cond row val c)) cs a = Some True \<longleftrightarrow>
      a = Some True \<and> (\<forall>c \<in> set cs. eval_cond row val c = Some True)" for a
    by (induction cs arbitrary: a) (auto simp: kleene_and_true)
  then show ?thesis by simp
qed

lemma any_of_true: "eval_cond row val (AnyOf cs) = Some True \<longleftrightarrow> (\<exists>c \<in> set cs. eval_cond row val c = Some True)"
proof -
  have "fold (\<lambda>c acc. kleene_or acc (eval_cond row val c)) cs a = Some True \<longleftrightarrow>
      a = Some True \<or> (\<exists>c \<in> set cs. eval_cond row val c = Some True)" for a
    by (induction cs arbitrary: a) (auto simp: kleene_or_true)
  then show ?thesis by simp
qed

lemma after_true:
  assumes "val v = None \<longleftrightarrow> v = PNone"
  shows "eval_cond row val (after_cond t v) = Some True \<longleftrightarrow>
    key_less (ot_direction t) (ot_nulls t) (val v) (row t)"
proof (cases "ot_nulls t")
  case NullsFirst
  then show ?thesis using assms
    by (cases "val v"; cases "row t") (auto simp: after_cond_def kleene_and_true beyond_def)
next
  case NullsLast
  then show ?thesis using assms
    by (cases "val v"; cases "row t") (auto simp: after_cond_def kleene_and_true kleene_or_true beyond_def)
qed

lemma tuple_less_index:
  "tuple_less (map fst tvs) (map (val \<circ> snd) tvs) (map (row \<circ> fst) tvs) \<longleftrightarrow>
   (\<exists>i < length tvs. (\<forall>(t, v) \<in> set (take i tvs). row t = val v) \<and>
      key_less (ot_direction (fst (tvs ! i))) (ot_nulls (fst (tvs ! i))) (val (snd (tvs ! i))) (row (fst (tvs ! i))))"
proof (induction tvs)
  case (Cons tv tvs)
  obtain t v where tv: "tv = (t, v)" by (cases tv)
  show ?case (is "?l \<longleftrightarrow> (\<exists>i < length (tv # tvs). ?P i)")
  proof -
    have "(\<exists>i < length (tv # tvs). ?P i) \<longleftrightarrow> ?P 0 \<or> (\<exists>i < length tvs. ?P (Suc i))"
      by (simp only: length_Cons Ex_less_Suc2)
    also have "\<dots> \<longleftrightarrow> ?l" using Cons by (auto simp: tv)
    finally show ?thesis by blast
  qed
qed simp

lemma keyset_meaning:
  assumes "length vs = length order" "\<And>v. v \<in> set vs \<Longrightarrow> (val v = None) = (v = PNone)"
  shows "eval_cond row val (keyset_cond_of order vs) = Some True \<longleftrightarrow>
    tuple_less order (map val vs) (map row order)"
proof -
  let ?tvs = "zip order vs"
  have maps: "map fst ?tvs = order" "map (val \<circ> snd) ?tvs = map val vs" "map (row \<circ> fst) ?tvs = map row order"
    using assms(1) by (simp_all flip: map_map)
  have v: "val (snd (?tvs ! i)) = None \<longleftrightarrow> snd (?tvs ! i) = PNone" if "i < length ?tvs" for i
    using that assms by simp
  have "eval_cond row val (keyset_cond_of order vs) = Some True \<longleftrightarrow>
    (\<exists>i < length ?tvs. (\<forall>(t, v) \<in> set (take i ?tvs). row t = val v) \<and>
      eval_cond row val (after_cond (fst (?tvs ! i)) (snd (?tvs ! i))) = Some True)"
    unfolding keyset_cond_of_def Let_def any_of_true
    by (auto simp: all_of_true split_beta simp del: eval_cond.simps(6,7))
  also have "\<dots> \<longleftrightarrow> tuple_less order (map val vs) (map row order)"
  proof -
    have "eval_cond row val (after_cond (fst (?tvs ! i)) (snd (?tvs ! i))) = Some True \<longleftrightarrow>
        key_less (ot_direction (fst (?tvs ! i))) (ot_nulls (fst (?tvs ! i))) (val (snd (?tvs ! i)))
          (row (fst (?tvs ! i)))" if "i < length ?tvs" for i
      using after_true [of val "snd (?tvs ! i)" row "fst (?tvs ! i)"] v [OF that] by blast
    then show ?thesis using tuple_less_index [of ?tvs val row] unfolding maps by blast
  qed
  finally show ?thesis .
qed

text \<open>
  C30. The keyset condition, as it is sent to the database and read in three-valued logic, is true of
  exactly the rows that the statement's own ORDER BY (with its directions and NULLS placement) puts
  strictly after the cursor, for any number of order terms and any mixture of NULLs.
\<close>
theorem keyset_selects_after:
  assumes "length vs = length order" "\<And>v. v \<in> set vs \<Longrightarrow> (val v = None) = (v = PNone)"
  shows "emit_cond (keyset_cond_of order vs) = keyset_sql order vs \<and>
    (eval_cond row val (keyset_cond_of order vs) = Some True \<longleftrightarrow>
       tuple_less order (map val vs) (map row order))"
  using keyset_meaning [OF assms] by (simp add: emit_keyset)

definition sample_order :: "order_term list" where
  "sample_order =
     [\<lparr>ot_sql = bound (ident [''t0'', ''rank'']) [], ot_direction = Desc, ot_nulls = NullsLast\<rparr>,
      \<lparr>ot_sql = bound (ident [''t0'', ''id'']) [], ot_direction = Asc, ot_nulls = NullsLast\<rparr>]"

fun sample_value :: "pyval \<Rightarrow> int option" where
  "sample_value (PInt n) = Some n"
| "sample_value PNone = None"
| "sample_value _ = Some 0"

lemma keyset_selects_after_witness:
  "(eval_cond (\<lambda>t. if ot_direction t = Desc then None else Some 1) sample_value
      (keyset_cond_of sample_order [PInt 7, PInt 3]) = Some True) =
   tuple_less sample_order (map sample_value [PInt 7, PInt 3])
     (map (\<lambda>t. if ot_direction t = Desc then None else Some 1) sample_order)"
  by (rule keyset_selects_after [THEN conjunct2]) (auto simp: sample_order_def)

end
