(* ===== verification/Descriptor.thy ===== *)
theory Descriptor
  imports PyValue
begin

text \<open>
  The capability descriptors of \<open>descriptor/__init__.py\<close>: what the adapter advertises for each
  operation, and the query capabilities that the translator checks requests against. A keyword that
  the code leaves to the default of the SPI is \<open>None\<close>.
\<close>

definition adapter_methods :: "string list" where
  "adapter_methods =
     [''aggregate'', ''create_resource'', ''delete'', ''get'', ''patch'', ''publish_schema'', ''put'', ''query'',
      ''search'', ''traverse'']"

record operation_capability =
  oc_contract :: string
  oc_versions :: "string list"
  oc_guarantees :: "string list"
  oc_limits :: "int dict"
  oc_cursor :: "string option"
  oc_migration :: string
  oc_probes :: "string list"
  oc_extensions :: "string dict option"

definition operation_capability_of :: "string \<Rightarrow> operation_capability" where
  "operation_capability_of m =
     \<lparr>oc_contract = ''meridian.structured.'' @ m,
      oc_versions = (if m = ''put'' then [''2.0.0''] else [''1.0.0'']),
      oc_guarantees =
        [''bound-parameters'', ''scope-injected'', ''single-binding'', ''strong-consistency''] @
        (if m \<in> {''delete'', ''patch'', ''put''} then [''conditional-mutation'', ''read-committed''] else []) @
        (if m = ''traverse'' then [''bounded-traversal'', ''relation-collections''] else []) @
        (if m = ''create_resource'' then [''external-migration''] else []) @
        (if m = ''publish_schema'' then [''durable-metadata'', ''immutable-schema-version'', ''no-runtime-ddl'']
         else []),
      oc_limits = [(''maxPageSize'', 500), (''maxRelationResources'', 32), (''maxTraversalDepth'', 8),
                   (''maxMembershipNames'', 10000), (''pageSize'', 500)],
      oc_cursor = Some (if m \<in> {''query'', ''search''} then ''signed-live-keyset'' else ''none''),
      oc_migration = ''platform-iac-hook'',
      oc_probes = [''authenticated'', ''physical'', ''readiness''],
      oc_extensions = Some [(''org.meridian.postgresql/transaction'', ''read-committed''),
                            (''org.meridian.postgresql/distance'', ''wgs84-geography-meters'')]\<rparr>"

definition evidence_append_capability :: operation_capability where
  "evidence_append_capability =
     \<lparr>oc_contract = ''meridian.evidence.append'', oc_versions = [''1.0.0''],
      oc_guarantees = [''append-only'', ''atomic-evidence'', ''bound-parameters'', ''read-committed'',
        ''scope-injected'', ''scope-isolation'', ''transactional-with-structured''],
      oc_limits = [(''maxPageSize'', 500)], oc_cursor = None, oc_migration = ''platform-iac-hook'',
      oc_probes = [''authenticated'', ''physical'', ''readiness''], oc_extensions = None\<rparr>"

definition evidence_query_capability :: operation_capability where
  "evidence_query_capability =
     \<lparr>oc_contract = ''meridian.evidence.query'', oc_versions = [''1.0.0''],
      oc_guarantees = [''bound-parameters'', ''scope-injected'', ''scope-isolation'', ''strong-consistency''],
      oc_limits = [(''maxPageSize'', 500)], oc_cursor = Some ''signed-live-keyset'',
      oc_migration = ''platform-iac-hook'', oc_probes = [''authenticated'', ''physical'', ''readiness''],
      oc_extensions = None\<rparr>"

definition transaction_capability :: operation_capability where
  "transaction_capability =
     \<lparr>oc_contract = ''meridian.transaction'', oc_versions = [''1.0.0''],
      oc_guarantees = [''atomic'', ''no-dirty-reads'', ''read-committed'', ''inherited-operation-deadline'',
        ''bounded-client-io'', ''typed-commit-outcome''],
      oc_limits = [(''maxOperations'', 10000)], oc_cursor = None, oc_migration = ''external'',
      oc_probes = [''authenticated'', ''readiness''], oc_extensions = None\<rparr>"

definition descriptor_capabilities :: "operation_capability list" where
  "descriptor_capabilities =
     map operation_capability_of adapter_methods @
     [evidence_append_capability, evidence_query_capability, transaction_capability]"

definition engine_versions :: "string list dict" where
  "engine_versions =
     [(''postgresql-postgis-local-single-primary'', [''16-postgis-3.4'', ''17-postgis-3.5'']),
      (''postgresql-postgis-cluster'', [''16-postgis-3.4'', ''17-postgis-3.5''])]"

record adapter_descriptor =
  ad_id :: string
  ad_version :: string
  ad_driver :: string
  ad_engines :: "string list dict"
  ad_capabilities :: "operation_capability list"

definition adapter_descriptor_value :: adapter_descriptor where
  "adapter_descriptor_value =
     \<lparr>ad_id = ''postgresql'', ad_version = ''1.0.0'', ad_driver = ''psycopg-3'', ad_engines = engine_versions,
      ad_capabilities = descriptor_capabilities\<rparr>"

record query_capabilities =
  qc_operations :: "string list"
  qc_native :: "string list"
  qc_operators :: "string list"
  qc_types :: "string list"
  qc_consistency :: "string list"
  qc_guarantees :: "string list"
  qc_features :: "string list"
  qc_limits :: "int dict"

definition QUERY_CAPABILITIES :: query_capabilities where
  "QUERY_CAPABILITIES =
     \<lparr>qc_operations = [''aggregate'', ''get'', ''scan'', ''search'', ''traverse''],
      qc_native = [''*''],
      qc_operators =
        [''add'', ''aggregate.avg'', ''aggregate.count'', ''aggregate.max'', ''aggregate.min'', ''aggregate.sum'',
         ''and'', ''contains'', ''distance'', ''distanceWithin'', ''divide'', ''documentPath'', ''eq'', ''field'',
         ''fullText'', ''get'', ''gt'', ''gte'', ''in'', ''isNull'', ''literal'', ''lt'', ''lte'', ''modulo'',
         ''multiply'', ''ne'', ''negate'', ''not'', ''notIn'', ''or'', ''order'', ''point'', ''prefix'', ''scan'',
         ''search'', ''subtract'', ''timestampRange'', ''traverse''],
      qc_types =
        [''boolean'', ''bytes'', ''date'', ''decimal'', ''duration'', ''enum'', ''float64'', ''int8'', ''int16'',
         ''int32'', ''int64'', ''json'', ''objectRef'', ''recordRef'', ''string'', ''utcTimestamp'', ''uuid'',
         ''wgs84Point''],
      qc_consistency = [''strong'', ''session''],
      qc_guarantees = [''single-binding'', ''stable-order'', ''scope-injected'', ''bound-parameters''],
      qc_features =
        [''all-neighbors'', ''crs:EPSG:4326'', ''direction:any'', ''direction:inbound'', ''direction:outbound'',
         ''distance-unit:m'', ''explicit-relations'', ''live-keyset'', ''result:paths'', ''result:records'',
         ''result:relations'', ''simple-path''],
      qc_limits =
        [(''deadlineMs'', 3600000), (''facetBuckets'', 0), (''membershipNames'', 10000), (''pageSize'', 500),
         (''relationResources'', 32), (''resultBytes'', 16 * 1024 * 1024), (''resultValues'', 100000),
         (''returnedPaths'', 10000), (''traversalDepth'', 8), (''visitedValues'', 100000)]\<rparr>"

text \<open>\<open>manifest\<close>: what the adapter reports for a connected engine, with the fingerprint of its query capabilities.\<close>

record capability_manifest =
  cm_descriptor :: adapter_descriptor
  cm_profile :: string
  cm_version :: string
  cm_extensions :: "pyval dict"

definition capability_manifest_of ::
  "(query_capabilities \<Rightarrow> string) \<Rightarrow> string \<Rightarrow> string \<Rightarrow> capability_manifest" where
  "capability_manifest_of fingerprint profile version =
     \<lparr>cm_descriptor = adapter_descriptor_value, cm_profile = profile, cm_version = version,
      cm_extensions =
        [(''org.meridian.postgresql/queryCapabilityFingerprint'', PStr (fingerprint QUERY_CAPABILITIES)),
         (''org.meridian.postgresql/postgisRequired'', PBool True)]\<rparr>"

end
