(* ===== verification/Translator.thy ===== *)
theory Translator
  imports Keyset Descriptor
begin

text \<open>
  The query translator of \<open>query/__init__.py\<close> (\<open>PostgreSQLQueryTranslator\<close>): a released query operation
  and its translation context to a compiled query, and the raw rows of the database to a normalized
  result with its continuation cursor.

  The released operation, the context, the cursor signer and the fingerprint of an operation belong to
  the SPI package: the records hold the fields that the adapter reads, and \<open>translator\<close> holds what it calls.
\<close>

section \<open>What the translator is given\<close>

record join_clause =
  j_target :: resource_ref
  j_on :: pyval
  j_kind :: string

record projected =
  pj_expression :: pyval
  pj_alias :: "string option"

record order_item =
  oi_expression :: pyval
  oi_direction :: direction
  oi_nulls :: nulls

record traversal =
  tv_relations :: "resource_ref list"
  tv_resolved :: bool
  tv_all_neighbors :: bool
  tv_registry :: "string option"
  tv_record_filter :: "pyval option"
  tv_predicates :: "pyval dict"
  tv_direction :: string
  tv_min_depth :: nat
  tv_max_depth :: nat
  tv_start_collection :: string
  tv_start_record :: pyval

record query_budget =
  qb_deadline :: int
  qb_relations :: nat
  qb_depth :: nat
  qb_paths :: nat
  qb_values :: int
  qb_bytes :: int

record query_operation =
  qo_operation :: string
  qo_consistency :: string
  qo_targets :: "resource_ref list"
  qo_joins :: "join_clause list"
  qo_filter :: "pyval option"
  qo_grouping :: "pyval list"
  qo_aggregates :: "(string \<times> pyval) list"
  qo_order :: "order_item list"
  qo_projection :: "projected list"
  qo_shape :: string
  qo_total :: bool
  qo_size :: nat
  qo_cursor :: "string option"
  qo_point_in_time :: bool
  qo_traversal :: "traversal option"
  qo_budget :: query_budget

text \<open>A planned query; \<open>None\<close> is an attribute that the plan does not have.\<close>

record query_plan =
  qp_operation :: "query_operation option"
  qp_binding :: "string option"
  qp_registry :: "string option"
  qp_empty :: "bool option"

record translation_context =
  tc_binding :: string
  tc_plan :: string
  tc_registry :: string
  tc_scope :: string
  tc_schemas :: "string dict"
  tc_deadline :: int

record cursor_payload =
  cp_plan :: string
  cp_schemas :: "string dict"
  cp_registry :: string
  cp_scope :: string
  cp_sort :: "pyval list"
  cp_size :: nat

record cursor_signer =
  issue :: "cursor_payload \<Rightarrow> string"
  verify :: "string \<Rightarrow> cursor_payload result"

record translator =
  tr_settings :: pg_settings
  tr_texts :: texts
  tr_signer :: "cursor_signer option"
  tr_fingerprint :: "query_operation \<Rightarrow> string"
  tr_json :: "pyval \<Rightarrow> string"
  tr_quote :: "string \<Rightarrow> string"
  tr_literal :: "pyval \<Rightarrow> string"

section \<open>Targets, scope, projections\<close>

fun targets_from :: "pg_settings \<Rightarrow> nat \<Rightarrow> resource_ref list \<Rightarrow> targets \<Rightarrow> targets result" where
  "targets_from s i [] env = Inr env"
| "targets_from s i (r # rs) env =
     and_then (layout_for s r) (\<lambda>layout.
       targets_from s (Suc i) rs (dict_set (r_canonical r) (''t'' @ nat_text i, layout) env))"

definition targets_of :: "pg_settings \<Rightarrow> query_operation \<Rightarrow> targets result" where
  "targets_of s q = targets_from s 0 (qo_targets q) []"

definition scope_columns :: "pg_settings \<Rightarrow> string list" where
  "scope_columns s = ''__tenant'' # map (\<lambda>k. ''__scope_'' @ k) (scope_keys s)"

text \<open>A scope value is not known here: its placeholder is tagged with the column, for the runtime.\<close>

definition scope_marker :: "string \<Rightarrow> pyval" where
  "scope_marker column = PMap [(PStr ''$scope'', PStr column)]"

definition scope_predicate :: "pg_settings \<Rightarrow> string \<Rightarrow> pyval bound_statement" where
  "scope_predicate s alias =
     bound (join_sql [Raw '' AND ''] (map (\<lambda>c. ident [alias, c] @ [Raw '' = '', Hole]) (scope_columns s)))
       (map scope_marker (scope_columns s))"

definition named_as :: "sql \<Rightarrow> string \<Rightarrow> sql" where
  "named_as c n = c @ [Raw '' AS '', Ident n]"

definition from_sql :: "pg_settings \<Rightarrow> resource_layout \<Rightarrow> string \<Rightarrow> sql" where
  "from_sql s layout alias = named_as (ident [physical_schema s, l_table layout]) alias"

text \<open>A join's ON clause is conjoined with the scope predicate of the joined table.\<close>

definition join_sql_of :: "translator \<Rightarrow> targets \<Rightarrow> join_clause \<Rightarrow> pyval bound_statement result" where
  "join_sql_of T env j =
     and_then (dict_item (r_canonical (j_target j)) env) (\<lambda>(alias, layout).
     and_then (compile (tr_texts T) env (j_on j)) (\<lambda>on_sql.
     let predicate = conjunction [on_sql, scope_predicate (tr_settings T) alias] in
     Inr (bound ([Raw (if j_kind j = ''left'' then '' LEFT JOIN '' else '' INNER JOIN '')] @
                 from_sql (tr_settings T) layout alias @ [Raw '' ON ''] @ command predicate)
            (params predicate))))"

definition where_of ::
  "translator \<Rightarrow> targets \<Rightarrow> query_operation \<Rightarrow> string \<Rightarrow> pyval bound_statement result" where
  "where_of T env q alias =
     (let scope = scope_predicate (tr_settings T) alias in
      case qo_filter q of
        None \<Rightarrow> Inr scope
      | Some f \<Rightarrow> and_then (compile (tr_texts T) env f) (\<lambda>s. Inr (conjunction [scope, s])))"

definition value_alias :: "nat \<Rightarrow> projected \<Rightarrow> string" where
  "value_alias i p =
     (case pj_alias p of Some (c # cs) \<Rightarrow> c # cs | _ \<Rightarrow> ''value_'' @ nat_text i)"

definition point_columns :: "sql \<Rightarrow> sql" where
  "point_columns c =
     [Raw ''jsonb_build_object('longitude', ST_X((''] @ c @ [Raw '')::geometry), 'latitude', ST_Y((''] @ c @
     [Raw '')::geometry))'']"

definition field_column :: "string \<Rightarrow> field_layout \<Rightarrow> sql" where
  "field_column alias f =
     named_as
       (if f_type f = LWgs84Point \<and> f_cardinality f = One then point_columns (ident [alias, f_column f])
        else ident [alias, f_column f])
       (f_name f)"

definition audit_columns :: "(string \<times> string) list" where
  "audit_columns =
     [(''__record_version'', ''recordVersion''), (''__created_at'', ''createdAt''), (''__updated_at'', ''updatedAt'')]"

definition record_columns :: "resource_layout \<Rightarrow> string \<Rightarrow> sql list" where
  "record_columns layout alias =
     map (field_column alias) (l_fields layout) @
     map (\<lambda>(physical, logical). named_as (ident [alias, physical]) logical)
       (filter (\<lambda>(physical, logical).
          \<not> (logical \<in> {''createdAt'', ''updatedAt''} \<and> logical \<in> set (keys (field_map layout)))) audit_columns)"

definition cursor_fields :: "order_term list \<Rightarrow> string list" where
  "cursor_fields order = map (\<lambda>i. ''__cursor_'' @ nat_text i) [0..<length order]"

definition cursor_columns :: "order_term list \<Rightarrow> pyval bound_statement list" where
  "cursor_columns order =
     map (\<lambda>(t, n). bound (named_as (command (ot_sql t)) n) (params (ot_sql t))) (zip order (cursor_fields order))"

definition select_list :: "pyval bound_statement list \<Rightarrow> pyval bound_statement" where
  "select_list cols = bound (join_sql [Raw '', ''] (map command cols)) (concat (map params cols))"

definition projected_columns ::
  "translator \<Rightarrow> targets \<Rightarrow> projected list \<Rightarrow> pyval bound_statement list result" where
  "projected_columns T env ps =
     traverse (\<lambda>(i, p). and_then (compile (tr_texts T) env (pj_expression p)) (\<lambda>s.
         Inr (bound (named_as (command s) (value_alias i p)) (params s))))
       (zip [0..<length ps] ps)"

definition record_projection ::
  "translator \<Rightarrow> targets \<Rightarrow> query_operation \<Rightarrow> resource_layout \<Rightarrow> string \<Rightarrow> order_term list \<Rightarrow>
   pyval bound_statement result" where
  "record_projection T env q layout alias order =
     and_then (if qo_projection q = [] then Inr (map (\<lambda>c. bound c []) (record_columns layout alias))
               else projected_columns T env (qo_projection q)) (\<lambda>cols.
     Inr (select_list (cols @ cursor_columns order)))"

definition aggregate_projection ::
  "translator \<Rightarrow> targets \<Rightarrow> query_operation \<Rightarrow> pyval bound_statement result" where
  "aggregate_projection T env q =
     and_then (traverse (\<lambda>(i, g). and_then (compile (tr_texts T) env g) (\<lambda>s.
           Inr (bound (named_as (command s) (''group_'' @ nat_text i)) (params s))))
         (zip [0..<length (qo_grouping q)] (qo_grouping q))) (\<lambda>groups.
     and_then (traverse (\<lambda>(name, a). and_then (compile (tr_texts T) env a) (\<lambda>s.
           Inr (bound (named_as (command s) name) (params s)))) (qo_aggregates q)) (\<lambda>aggregates.
     Inr (select_list (groups @ aggregates))))"

definition grouping_of :: "translator \<Rightarrow> targets \<Rightarrow> query_operation \<Rightarrow> pyval bound_statement result" where
  "grouping_of T env q =
     (if qo_grouping q = [] then Inr (bound [] [])
      else and_then (traverse (compile (tr_texts T) env) (qo_grouping q)) (\<lambda>items.
        Inr (bound ([Raw '' GROUP BY ''] @ join_sql [Raw '', ''] (map command items)) (concat (map params items)))))"

section \<open>Order\<close>

text \<open>The attributes \<open>resource\<close> and \<open>name\<close> of an order expression.\<close>

definition attribute :: "string \<Rightarrow> pyval \<Rightarrow> pyval option" where
  "attribute k v = (case v of PMap d \<Rightarrow> entry k d | _ \<Rightarrow> None)"

definition represented :: "resource_layout \<Rightarrow> query_operation \<Rightarrow> pyval list" where
  "represented layout q =
     concat (map (\<lambda>item.
       (case attribute ''name'' (oi_expression item) of
          None \<Rightarrow> []
        | Some n \<Rightarrow>
            if attribute ''resource'' (oi_expression item)
                 \<in> {None, Some PNone, Some (PStr (r_canonical (l_ref layout)))}
            then [n] else [])) (qo_order q))"

definition identity_term :: "resource_layout \<Rightarrow> string \<Rightarrow> order_term result" where
  "identity_term layout n =
     and_then (dict_item n (field_map layout)) (\<lambda>f.
       Inr \<lparr>ot_sql = bound (ident [''t0'', f_column f]) [], ot_direction = Asc, ot_nulls = NullsLast\<rparr>)"

definition order_of ::
  "translator \<Rightarrow> targets \<Rightarrow> query_operation \<Rightarrow> resource_layout \<Rightarrow> order_term list result" where
  "order_of T env q layout =
     and_then (traverse (\<lambda>item. and_then (compile (tr_texts T) env (oi_expression item)) (\<lambda>s.
         Inr \<lparr>ot_sql = s, ot_direction = oi_direction item, ot_nulls = oi_nulls item\<rparr>)) (qo_order q)) (\<lambda>asked.
     and_then (traverse (identity_term layout)
         (filter (\<lambda>n. PStr n \<notin> set (represented layout q)) (l_identity layout))) (\<lambda>rest.
     Inr (asked @ rest)))"

definition order_sql :: "order_term list \<Rightarrow> pyval bound_statement" where
  "order_sql order =
     bound ([Raw '' ORDER BY ''] @ join_sql [Raw '', ''] (map (\<lambda>t. command (ot_sql t) @
              [Raw ((if ot_direction t = Asc then '' ASC'' else '' DESC'') @ '' NULLS '' @
                    (if ot_nulls t = NullsLast then ''LAST'' else ''FIRST''))]) order))
       (concat (map (\<lambda>t. params (ot_sql t)) order))"

text \<open>Equality of dictionaries does not depend on their order.\<close>

definition dict_eq :: "('k \<times> 'v) list \<Rightarrow> ('k \<times> 'v) list \<Rightarrow> bool" where
  "dict_eq d e \<longleftrightarrow> list_all (\<lambda>k. map_of d k = map_of e k) (keys d @ keys e)"

lemma dict_eq_maps: "dict_eq d e \<longleftrightarrow> map_of d = map_of e"
proof
  assume "dict_eq d e"
  then have "map_of d k = map_of e k" for k
    using map_of_keys [of d k] map_of_keys [of e k]
    by (cases "k \<in> set (keys d) \<or> k \<in> set (keys e)") (auto simp: dict_eq_def list_all_iff)
  then show "map_of d = map_of e" by blast
qed (simp add: dict_eq_def list_all_iff)

text \<open>The cursor pins the operation without its cursor and its deadline.\<close>

definition cursor_plan_fingerprint :: "translator \<Rightarrow> query_operation \<Rightarrow> string" where
  "cursor_plan_fingerprint T q =
     tr_fingerprint T (q\<lparr>qo_cursor := None, qo_budget := (qo_budget q)\<lparr>qb_deadline := 30000\<rparr>\<rparr>)"

definition keyset_of ::
  "translator \<Rightarrow> query_operation \<Rightarrow> translation_context \<Rightarrow> order_term list \<Rightarrow> pyval bound_statement result" where
  "keyset_of T q ctx order =
     (case (tr_signer T, qo_cursor q) of
        (Some signer, Some cursor) \<Rightarrow>
          and_then (verify signer cursor) (\<lambda>p.
          and_then (ensure (cp_plan p = cursor_plan_fingerprint T q \<and> dict_eq (cp_schemas p) (tc_schemas ctx) \<and>
              cp_registry p = tc_registry ctx \<and> cp_scope p = tc_scope ctx \<and> cp_size p = qo_size q \<and>
              length (cp_sort p) = length order) ValueError) (\<lambda>_.
          Inr (keyset_sql order (cp_sort p))))
      | _ \<Rightarrow> Inl ValueError)"

section \<open>Compiled queries\<close>

record cursor_context =
  cc_plan :: string
  cc_schemas :: "string dict"
  cc_registry :: string
  cc_scope :: string

record compiled_query =
  cq_adapter :: string
  cq_plan :: string
  cq_format :: string
  cq_sql :: string
  cq_order :: "string list"
  cq_parameters :: "pyval dict"
  cq_shape :: string
  cq_deadline :: int
  cq_bytes :: int
  cq_empty :: bool
  cq_page_size :: nat
  cq_single :: bool
  cq_cursor_fields :: "string list"
  cq_internal :: "string list"
  cq_cursor_context :: "cursor_context option"

definition parameter_names :: "nat \<Rightarrow> string list" where
  "parameter_names n = map (\<lambda>i. ''p'' @ nat_text i) [0..<n]"

definition compiled_of ::
  "translator \<Rightarrow> translation_context \<Rightarrow> pyval bound_statement \<Rightarrow> query_operation \<Rightarrow> compiled_query" where
  "compiled_of T ctx s q =
     \<lparr>cq_adapter = ''postgresql'', cq_plan = tc_plan ctx, cq_format = ''meridian.postgresql.command.v1'',
      cq_sql = render (tr_quote T) (tr_literal T) (command s),
      cq_order = parameter_names (length (params s)),
      cq_parameters = dict_of (zip (parameter_names (length (params s))) (params s)),
      cq_shape = qo_shape q, cq_deadline = tc_deadline ctx, cq_bytes = qb_bytes (qo_budget q),
      cq_empty = False, cq_page_size = qo_size q, cq_single = False, cq_cursor_fields = [],
      cq_internal = [], cq_cursor_context = None\<rparr>"

definition select_sql ::
  "pyval bound_statement \<Rightarrow> pyval bound_statement \<Rightarrow> pyval bound_statement \<Rightarrow> pyval bound_statement \<Rightarrow>
   pyval bound_statement" where
  "select_sql sel source condition rest =
     bound ([Raw ''SELECT ''] @ command sel @ command source @ [Raw '' WHERE ''] @ command condition @ command rest)
       (params sel @ params source @ params condition @ params rest)"

definition source_of ::
  "translator \<Rightarrow> targets \<Rightarrow> query_operation \<Rightarrow> resource_layout \<Rightarrow> string \<Rightarrow> pyval bound_statement result" where
  "source_of T env q layout alias =
     and_then (traverse (join_sql_of T env) (qo_joins q)) (\<lambda>joins.
     Inr (bound ([Raw '' FROM ''] @ from_sql (tr_settings T) layout alias @ concat (map command joins))
            (concat (map params joins))))"

definition page_sql :: "order_term list \<Rightarrow> nat \<Rightarrow> pyval bound_statement" where
  "page_sql order n =
     bound (command (order_sql order) @ [Raw '' LIMIT '', Hole]) (params (order_sql order) @ [PInt (int n + 1)])"

definition base_of :: "targets \<Rightarrow> query_operation \<Rightarrow> (string \<times> resource_layout) result" where
  "base_of env q =
     (case qo_targets q of [] \<Rightarrow> Inl OtherException | r # _ \<Rightarrow> dict_item (r_canonical r) env)"

definition aggregate_statement ::
  "translator \<Rightarrow> targets \<Rightarrow> query_operation \<Rightarrow> pyval bound_statement \<Rightarrow> pyval bound_statement \<Rightarrow>
   pyval bound_statement result" where
  "aggregate_statement T env q source condition =
     and_then (aggregate_projection T env q) (\<lambda>sel.
     and_then (grouping_of T env q) (\<lambda>group.
     Inr (select_sql sel source condition group)))"

definition record_condition ::
  "translator \<Rightarrow> query_operation \<Rightarrow> translation_context \<Rightarrow> order_term list \<Rightarrow> pyval bound_statement \<Rightarrow>
   pyval bound_statement result" where
  "record_condition T q ctx order condition =
     (if qo_cursor q = None then Inr condition
      else and_then (keyset_of T q ctx order) (\<lambda>k. Inr (conjunction [condition, k])))"

definition finish_select ::
  "translator \<Rightarrow> query_operation \<Rightarrow> translation_context \<Rightarrow> targets \<Rightarrow> string \<Rightarrow> resource_layout \<Rightarrow>
   pyval bound_statement \<Rightarrow> pyval bound_statement \<Rightarrow> compiled_query result" where
  "finish_select T q ctx env alias layout source condition =
     (if qo_operation q = ''aggregate'' then
        and_then (aggregate_statement T env q source condition) (\<lambda>s. Inr (compiled_of T ctx s q))
      else
        and_then (order_of T env q layout) (\<lambda>order.
        and_then (record_projection T env q layout alias order) (\<lambda>sel.
        and_then (record_condition T q ctx order condition) (\<lambda>condition.
          Inr ((compiled_of T ctx (select_sql sel source condition (page_sql order (qo_size q))) q)
                 \<lparr>cq_single := qo_operation q = ''get'', cq_cursor_fields := cursor_fields order,
                  cq_internal := cursor_fields order,
                  cq_cursor_context := Some \<lparr>cc_plan = cursor_plan_fingerprint T q, cc_schemas = tc_schemas ctx,
                    cc_registry = tc_registry ctx, cc_scope = tc_scope ctx\<rparr>\<rparr>)))))"

definition compile_select ::
  "translator \<Rightarrow> query_operation \<Rightarrow> translation_context \<Rightarrow> compiled_query result" where
  "compile_select T q ctx =
     and_then (targets_of (tr_settings T) q) (\<lambda>env.
     and_then (base_of env q) (\<lambda>(alias, layout).
     and_then (source_of T env q layout alias) (\<lambda>source.
     and_then (where_of T env q alias) (\<lambda>condition.
       finish_select T q ctx env alias layout source condition))))"

section \<open>Traversal\<close>

text \<open>The edges of one Relation Collection in one direction, read through its physical endpoint columns.\<close>

definition edge_text :: "bool \<Rightarrow> string" where
  "edge_text forward =
     (if forward
      then ''::text AS relation_ref, r.__source_collection AS source_collection, r.__source_record_id AS source_id, r.__target_collection AS target_collection, r.__target_record_id AS target_id FROM ''
      else ''::text AS relation_ref, r.__target_collection AS source_collection, r.__target_record_id AS source_id, r.__source_collection AS target_collection, r.__source_record_id AS target_id FROM '')"

definition edge_sql ::
  "pg_settings \<Rightarrow> bool \<Rightarrow> resource_ref \<Rightarrow> resource_layout \<Rightarrow> pyval bound_statement \<Rightarrow> pyval bound_statement" where
  "edge_sql s forward ref layout scope =
     bound ([Raw ''SELECT '', Hole, Raw (edge_text forward)] @ ident [physical_schema s, l_table layout] @
            [Raw '' AS r WHERE ''] @ command scope)
       (PStr (r_canonical ref) # params scope)"

definition edges_of :: "translator \<Rightarrow> traversal \<Rightarrow> resource_ref \<Rightarrow> pyval bound_statement list result" where
  "edges_of T tv ref =
     (let s = tr_settings T in
      and_then (layout_for s ref) (\<lambda>layout.
      (case l_relation layout of
         None \<Rightarrow> Inl ValueError
       | Some relation \<Rightarrow>
           and_then (case dict_get (r_canonical ref) PNone (tv_predicates tv) of
                PNone \<Rightarrow> Inr (scope_predicate s ''r'')
              | predicate \<Rightarrow>
                  and_then (compile (tr_texts T) [(r_canonical ref, ''r'', layout)] predicate) (\<lambda>p.
                    Inr (conjunction [scope_predicate s ''r'', p]))) (\<lambda>scope.
           Inr ((if tv_direction tv \<in> {''outbound'', ''any''} \<or> \<not> directed relation
                 then [edge_sql s True ref layout scope] else []) @
                (if tv_direction tv \<in> {''inbound'', ''any''} \<or> \<not> directed relation
                 then [edge_sql s False ref layout scope] else []))))))"

definition unit_separator :: string where
  "unit_separator = ''E'' @ [CHR 0x27, CHR 0x5C] @ ''x1f'' @ [CHR 0x27]"

definition walk_sql :: sql where
  "walk_sql =
     [Raw ''), walk(depth, collection_ref, record_id, path, relation_path) AS (SELECT 0, '', Hole, Raw ''::text, '',
      Hole, Raw ''::text, ARRAY['', Hole, Raw (''::text || '' @ unit_separator @ '' || ''), Hole,
      Raw (''::text], ARRAY[]::text[] UNION ALL SELECT w.depth + 1, e.target_collection, e.target_id, w.path || (e.target_collection || ''
           @ unit_separator @ '' || e.target_id), w.relation_path || e.relation_ref FROM walk AS w JOIN edges AS e ON e.source_collection = w.collection_ref AND e.source_id = w.record_id WHERE w.depth < ''),
      Hole, Raw ('' AND NOT (e.target_collection || '' @ unit_separator @ '' || e.target_id) = ANY(w.path)) SELECT collection_ref AS ''
           @ [CHR 0x22] @ ''collectionRef'' @ [CHR 0x22] @ '', record_id::jsonb AS '' @ [CHR 0x22] @ ''recordId'' @ [CHR 0x22] @
           '', depth, path, relation_path AS '' @ [CHR 0x22] @ ''relationPath'' @ [CHR 0x22] @ '' FROM walk WHERE depth BETWEEN ''),
      Hole, Raw '' AND '', Hole, Raw '' ORDER BY depth, collection_ref, record_id LIMIT '', Hole]"

definition walk_params :: "translator \<Rightarrow> query_operation \<Rightarrow> traversal \<Rightarrow> pyval list" where
  "walk_params T q tv =
     (let c = PStr (tv_start_collection tv); r = PStr (tr_json T (tv_start_record tv)) in
      [c, r, c, r, PInt (int (tv_max_depth tv)), PInt (int (tv_min_depth tv)), PInt (int (tv_max_depth tv)),
       PInt (int (min (qo_size q) (qb_paths (qo_budget q))) + 1)])"

definition depth_limit :: "query_operation \<Rightarrow> nat" where
  "depth_limit q =
     min (qb_depth (qo_budget q)) (nat (dict_get ''traversalDepth'' 0 (qc_limits QUERY_CAPABILITIES)))"

definition traversal_sql :: "pyval bound_statement list \<Rightarrow> pyval list \<Rightarrow> pyval bound_statement" where
  "traversal_sql edges ps =
     bound ([Raw ''WITH RECURSIVE edges AS (''] @ join_sql [Raw '' UNION ALL ''] (map command edges) @ walk_sql)
       (concat (map params edges) @ ps)"

definition compile_traversal ::
  "translator \<Rightarrow> query_operation \<Rightarrow> translation_context \<Rightarrow> compiled_query result" where
  "compile_traversal T q ctx =
     (case qo_traversal q of
        None \<Rightarrow> Inl OtherException
      | Some tv \<Rightarrow>
          and_then (ensure (tv_resolved tv \<and> tv_relations tv \<noteq> []) ValueError) (\<lambda>_.
          and_then (ensure (\<not> tv_all_neighbors tv \<or> tv_registry tv = Some (tc_registry ctx)) ValueError) (\<lambda>_.
          and_then (ensure (tv_record_filter tv = None) ValueError) (\<lambda>_.
          and_then (ensure (length (tv_relations tv) \<le> qb_relations (qo_budget q)) ValueError) (\<lambda>_.
          and_then (ensure (tv_max_depth tv \<le> depth_limit q) ValueError) (\<lambda>_.
          and_then (traverse (edges_of T tv) (tv_relations tv)) (\<lambda>edges.
            Inr (compiled_of T ctx (traversal_sql (concat edges) (walk_params T q tv)) q))))))))"

section \<open>Compilation\<close>

definition absent_or :: "'a option \<Rightarrow> 'a \<Rightarrow> bool" where
  "absent_or x v \<longleftrightarrow> x = None \<or> x = Some v"

definition compile_query ::
  "translator \<Rightarrow> query_plan \<Rightarrow> translation_context \<Rightarrow> compiled_query result" where
  "compile_query T plan ctx =
     (case qp_operation plan of
        None \<Rightarrow> Inl TypeError
      | Some q \<Rightarrow>
          and_then (ensure (qo_consistency q \<in> set (qc_consistency QUERY_CAPABILITIES)) ValueError) (\<lambda>_.
          and_then (ensure (\<not> qo_point_in_time q) ValueError) (\<lambda>_.
          and_then (ensure (\<not> qo_total q) ValueError) (\<lambda>_.
          and_then (ensure (absent_or (qp_binding plan) (tc_binding ctx)) ValueError) (\<lambda>_.
          and_then (ensure (absent_or (qp_registry plan) (tc_registry ctx)) ValueError) (\<lambda>_.
            if qp_empty plan = Some True
            then Inr ((compiled_of T ctx (bound [Raw ''SELECT NULL WHERE FALSE''] []) q)\<lparr>cq_empty := True\<rparr>)
            else if qo_operation q = ''traverse'' then compile_traversal T q ctx
            else if qo_operation q \<notin> {''get'', ''scan'', ''search'', ''aggregate''} then Inl ValueError
            else compile_select T q ctx))))))"

section \<open>Results\<close>

datatype query_data = OneRecord "pyval dict option" | Records "pyval dict list"

record query_result =
  qr_data :: query_data
  qr_cursor :: "string option"
  qr_provenance :: "string dict"

text \<open>The driver's raw result is a sequence of rows, or something else (\<open>None\<close>).\<close>

definition next_cursor ::
  "translator \<Rightarrow> compiled_query \<Rightarrow> pyval dict list \<Rightarrow> bool \<Rightarrow> string option result" where
  "next_cursor T c rows has_more =
     (if \<not> has_more \<or> rows = [] \<or> cq_cursor_fields c = [] then Inr None
      else (case (tr_signer T, cq_cursor_context c) of
              (None, _) \<Rightarrow> Inl RuntimeError
            | (_, None) \<Rightarrow> Inl KeyError
            | (Some signer, Some cc) \<Rightarrow>
                and_then (traverse (\<lambda>f. dict_item f (last rows)) (cq_cursor_fields c)) (\<lambda>tuple.
                Inr (Some (issue signer
                  \<lparr>cp_plan = cc_plan cc, cp_schemas = cc_schemas cc, cp_registry = cc_registry cc,
                   cp_scope = cc_scope cc, cp_sort = tuple, cp_size = cq_page_size c\<rparr>)))))"

definition normalize_result ::
  "translator \<Rightarrow> compiled_query \<Rightarrow> pyval dict list option \<Rightarrow> query_result result" where
  "normalize_result T c raw =
     (if cq_empty c
      then Inr \<lparr>qr_data = Records [], qr_cursor = None, qr_provenance = [(''adapter'', ''postgresql'')]\<rparr>
      else (case raw of
        None \<Rightarrow> Inl TypeError
      | Some fetched \<Rightarrow>
          let rows = take (cq_page_size c) fetched in
          and_then (next_cursor T c rows (length fetched > cq_page_size c)) (\<lambda>cursor.
          let visible = map (filter (\<lambda>(k, v). k \<notin> set (cq_internal c))) rows in
          Inr \<lparr>qr_data = (if cq_single c then OneRecord (case visible of r # _ \<Rightarrow> Some r | [] \<Rightarrow> None)
                          else Records visible),
               qr_cursor = cursor,
               qr_provenance = [(''adapter'', ''postgresql''), (''consistency'', ''strong''),
                                (''pagination'', ''live-keyset'')]\<rparr>)))"

end
