(* ===== verification/TranslatorLaws.thy ===== *)
theory TranslatorLaws
  imports Translator
begin

text \<open>
  What every compiled query satisfies: its text is the adapter's own, its values are parameters, and
  every table it reads is restricted to the caller's scope.
\<close>

section \<open>Statements over a set of names and a set of texts\<close>

definition statement_over :: "string set \<Rightarrow> string set \<Rightarrow> 'p bound_statement \<Rightarrow> bool" where
  "statement_over A W s \<longleftrightarrow> sound_over A s \<and> raw_texts (command s) \<subseteq> W"

lemma over_intro:
  "holes (command s) = length (params s) \<Longrightarrow> depth_sql (command s) 0 = Some 0 \<Longrightarrow>
   idents (command s) \<subseteq> A \<Longrightarrow> raw_texts (command s) \<subseteq> W \<Longrightarrow> statement_over A W s"
  by (simp add: statement_over_def sound_over_def arity_ok_def balanced_def)

lemma over_parts:
  "statement_over A W s \<Longrightarrow> holes (command s) = length (params s)"
  "statement_over A W s \<Longrightarrow> depth_sql (command s) n = Some n"
  "statement_over A W s \<Longrightarrow> idents (command s) \<subseteq> A"
  "statement_over A W s \<Longrightarrow> raw_texts (command s) \<subseteq> W"
  unfolding statement_over_def by (blast dest: sound_parts)+

lemma over_balanced: "statement_over A W s \<Longrightarrow> balanced (command s)"
  by (simp add: statement_over_def sound_over_def)

lemma over_mono: "statement_over A W s \<Longrightarrow> A \<subseteq> B \<Longrightarrow> W \<subseteq> V \<Longrightarrow> statement_over B V s"
  unfolding statement_over_def by (blast intro: sound_mono)

lemma over_safe: "safe_over A s \<Longrightarrow> A \<subseteq> B \<Longrightarrow> set vocabulary \<subseteq> W \<Longrightarrow> statement_over B W s"
  unfolding safe_over_def statement_over_def by (blast intro: sound_mono)

lemma over_list:
  assumes "\<And>x. x \<in> set xs \<Longrightarrow> statement_over A W x" "sep \<in> W" "depth_text sep n = Some n"
  shows "holes (join_sql [Raw sep] (map command xs)) = length (concat (map params xs))"
    "depth_sql (join_sql [Raw sep] (map command xs)) n = Some n"
    "idents (join_sql [Raw sep] (map command xs)) \<subseteq> A"
    "raw_texts (join_sql [Raw sep] (map command xs)) \<subseteq> W"
proof -
  have a: "arity_ok x" if "x \<in> set xs" for x
    using over_parts(1) [OF assms(1) [OF that]] by (simp add: arity_ok_def)
  show "holes (join_sql [Raw sep] (map command xs)) = length (concat (map params xs))"
    using sum_arity [of xs] a by (simp add: holes_join)
  have "depth_sql (join_sql [Raw sep] cs) n = Some n" if "\<forall>c \<in> set cs. depth_sql c n = Some n" for cs
    using that assms(3) by (induction "[Raw sep]" cs rule: join_sql.induct) (auto simp: depth_append)
  then show "depth_sql (join_sql [Raw sep] (map command xs)) n = Some n"
    using over_parts(2) [OF assms(1)] by simp
  show "idents (join_sql [Raw sep] (map command xs)) \<subseteq> A"
    by (rule idents_commands) (use over_parts(3) [OF assms(1)] in auto)
  show "raw_texts (join_sql [Raw sep] (map command xs)) \<subseteq> W"
    by (rule raw_texts_commands) (use over_parts(4) [OF assms(1)] assms(2) in auto)
qed

lemma over_append:
  assumes "statement_over A W s" "statement_over A W t"
  shows "statement_over A W (bound (command s @ command t) (params s @ params t))"
  by (rule over_intro) (simp_all add: over_parts [OF assms(1)] over_parts [OF assms(2)] depth_append)

lemma over_concat:
  "(\<And>x. x \<in> set xs \<Longrightarrow> statement_over A W x) \<Longrightarrow>
   statement_over A W (bound (concat (map command xs)) (concat (map params xs)))"
proof (induction xs)
  case Nil
  show ?case by (rule over_intro) simp_all
next
  case (Cons x xs)
  have "statement_over A W x" using Cons.prems by simp
  moreover have "statement_over A W (bound (concat (map command xs)) (concat (map params xs)))"
    by (rule Cons.IH) (use Cons.prems in auto)
  ultimately show ?case using over_append by fastforce
qed

lemma over_conjunction:
  assumes "\<And>x. x \<in> set xs \<Longrightarrow> statement_over A W x" "set vocabulary \<subseteq> W"
  shows "statement_over A W (conjunction xs)" "statement_over A W (disjunction xs)"
proof -
  have s: "sound_over A x" if "x \<in> set xs" for x using assms(1) [OF that] by (simp add: statement_over_def)
  have w: "{''('', '')'', '') AND ('', '') OR ('', ''TRUE'', ''FALSE''} \<subseteq> W" using assms(2) words by blast
  have t: "raw_texts (command x) \<subseteq> W" if "x \<in> set xs" for x using over_parts(4) [OF assms(1) [OF that]] .
  have r: "raw_texts (join_sql [Raw '') AND (''] (map command xs)) \<subseteq> W"
    "raw_texts (join_sql [Raw '') OR (''] (map command xs)) \<subseteq> W"
    by (rule raw_texts_commands; use t w in simp)+
  show "statement_over A W (conjunction xs)" "statement_over A W (disjunction xs)"
    unfolding statement_over_def using sound_conjunction [OF s] sound_disjunction [OF s] r w
    by (auto simp: conjunction_def disjunction_def)
qed

section \<open>The adapter's texts and names\<close>

definition sql_texts :: "sql \<Rightarrow> string list" where
  "sql_texts c = concat (map (\<lambda>t. case t of Raw r \<Rightarrow> [r] | _ \<Rightarrow> []) c)"

lemma raw_sql_texts: "raw_texts c = set (sql_texts c)"
  by (induction c) (auto simp: sql_texts_def raw_texts_def split: sql_token.splits)

definition query_texts :: "string list" where
  "query_texts = vocabulary @
     [''SELECT '', '' FROM '', '' AS '', '' LEFT JOIN '', '' INNER JOIN '', '' ON '', '' WHERE '', '' AND '', '' GROUP BY '',
      '' ORDER BY '', '' ASC NULLS LAST'', '' ASC NULLS FIRST'', '' DESC NULLS LAST'', '' DESC NULLS FIRST'', '' LIMIT '',
      '' IS NULL OR ('', '' IS NOT NULL AND '', '' IS NOT NULL'', '' IS NOT DISTINCT FROM '', ''SELECT NULL WHERE FALSE'',
      ''WITH RECURSIVE edges AS ('', '' UNION ALL '', '' AS r WHERE '', edge_text True, edge_text False] @
     sql_texts (point_columns []) @ sql_texts walk_sql"

text \<open>The names of a binding, and the result names that a request chooses.\<close>

definition binding_names :: "pg_settings \<Rightarrow> string set" where
  "binding_names s =
     insert (physical_schema s) (set (scope_columns s)) \<union> fst ` set audit_columns \<union> snd ` set audit_columns \<union>
     (\<Union>(c, layout) \<in> set (resources s).
        insert (l_table layout) (f_column ` set (l_fields layout) \<union> f_name ` set (l_fields layout)))"

definition adapter_names :: "string set" where
  "adapter_names = insert ''r'' ((\<Union>p \<in> {''t'', ''value_'', ''group_'', ''__cursor_''}. range (\<lambda>i. p @ nat_text i)))"

definition request_names :: "query_operation \<Rightarrow> string set" where
  "request_names q = fst ` set (qo_aggregates q) \<union> {n. \<exists>p \<in> set (qo_projection q). pj_alias p = Some n}"

definition query_names :: "pg_settings \<Rightarrow> query_operation \<Rightarrow> string set" where
  "query_names s q = binding_names s \<union> adapter_names \<union> request_names q"

abbreviation over_query :: "pg_settings \<Rightarrow> query_operation \<Rightarrow> pyval bound_statement \<Rightarrow> bool" where
  "over_query s q \<equiv> statement_over (query_names s q) (set query_texts)"

lemma query_words:
  "set vocabulary \<subseteq> set query_texts"
  "''SELECT '' \<in> set query_texts" "'' FROM '' \<in> set query_texts" "'' AS '' \<in> set query_texts"
  "'' LEFT JOIN '' \<in> set query_texts" "'' INNER JOIN '' \<in> set query_texts" "'' ON '' \<in> set query_texts"
  "'' WHERE '' \<in> set query_texts" "'' AND '' \<in> set query_texts" "'' GROUP BY '' \<in> set query_texts"
  "'' ORDER BY '' \<in> set query_texts" "'' LIMIT '' \<in> set query_texts" "'' IS NULL OR ('' \<in> set query_texts"
  "'' IS NOT NULL AND '' \<in> set query_texts" "'' IS NOT NULL'' \<in> set query_texts"
  "'' IS NOT DISTINCT FROM '' \<in> set query_texts" "''SELECT NULL WHERE FALSE'' \<in> set query_texts"
  "''WITH RECURSIVE edges AS ('' \<in> set query_texts" "'' UNION ALL '' \<in> set query_texts"
  "'' AS r WHERE '' \<in> set query_texts" "edge_text b \<in> set query_texts"
  "raw_texts (point_columns []) \<subseteq> set query_texts" "raw_texts walk_sql \<subseteq> set query_texts"
  "''.'' \<in> set query_texts" "''('' \<in> set query_texts" "'')'' \<in> set query_texts" "'', '' \<in> set query_texts"
  "'' = '' \<in> set query_texts" "'' > '' \<in> set query_texts" "'' < '' \<in> set query_texts"
  "'') AND ('' \<in> set query_texts" "'') OR ('' \<in> set query_texts" "''TRUE'' \<in> set query_texts" "''FALSE'' \<in> set query_texts"
proof -
  show v: "set vocabulary \<subseteq> set query_texts" unfolding query_texts_def set_append by blast
  show "raw_texts (point_columns []) \<subseteq> set query_texts" "raw_texts walk_sql \<subseteq> set query_texts"
    unfolding query_texts_def set_append raw_sql_texts by blast+
  show "''.'' \<in> set query_texts" "''('' \<in> set query_texts" "'')'' \<in> set query_texts" "'', '' \<in> set query_texts"
    "'') AND ('' \<in> set query_texts" "'') OR ('' \<in> set query_texts" "''TRUE'' \<in> set query_texts" "''FALSE'' \<in> set query_texts"
    by (rule subsetD [OF v], rule words)+
  show "'' = '' \<in> set query_texts" "'' > '' \<in> set query_texts" "'' < '' \<in> set query_texts"
    by (rule subsetD [OF v], use operator_word [of "''=''"] operator_word [of "''>''"] operator_word [of "''<''"]
      in \<open>simp add: operators_def\<close>)+
  show "edge_text b \<in> set query_texts" by (cases b) (simp_all add: query_texts_def)
qed (simp_all add: query_texts_def)

lemma names_union: "x \<in> binding_names s \<or> x \<in> adapter_names \<or> x \<in> request_names q \<Longrightarrow> x \<in> query_names s q"
  by (auto simp: query_names_def)

lemma layout_names:
  assumes "(c, layout) \<in> set (resources s)"
  shows "l_table layout \<in> query_names s q"
    "f \<in> set (l_fields layout) \<Longrightarrow> f_column f \<in> query_names s q"
    "f \<in> set (l_fields layout) \<Longrightarrow> f_name f \<in> query_names s q"
proof -
  have "insert (l_table layout) (f_column ` set (l_fields layout) \<union> f_name ` set (l_fields layout)) \<subseteq> binding_names s"
    unfolding binding_names_def using UN_upper [OF assms, of "\<lambda>(c, layout).
        insert (l_table layout) (f_column ` set (l_fields layout) \<union> f_name ` set (l_fields layout))"] by auto
  then show "l_table layout \<in> query_names s q"
    "f \<in> set (l_fields layout) \<Longrightarrow> f_column f \<in> query_names s q"
    "f \<in> set (l_fields layout) \<Longrightarrow> f_name f \<in> query_names s q"
    by (auto intro!: names_union)
qed

lemma fixed_names:
  "physical_schema s \<in> query_names s q" "c \<in> set (scope_columns s) \<Longrightarrow> c \<in> query_names s q"
  "(a, b) \<in> set audit_columns \<Longrightarrow> a \<in> query_names s q" "(a, b) \<in> set audit_columns \<Longrightarrow> b \<in> query_names s q"
  "''r'' \<in> query_names s q"
proof -
  assume "(a, b) \<in> set audit_columns"
  then have "a \<in> fst ` set audit_columns" "b \<in> snd ` set audit_columns"
    by (metis fst_conv image_eqI) (metis \<open>(a, b) \<in> set audit_columns\<close> snd_conv image_eqI)
  then show "a \<in> query_names s q" "b \<in> query_names s q"
    by (simp_all add: names_union binding_names_def)
qed (simp_all add: names_union binding_names_def adapter_names_def)

lemma prefixed_name:
  "p \<in> {''t'', ''value_'', ''group_'', ''__cursor_''} \<Longrightarrow> p @ nat_text i \<in> query_names s q"
  unfolding query_names_def adapter_names_def by blast

lemma indexed_names:
  "CHR ''t'' # nat_text i \<in> query_names s q" "''value_'' @ nat_text i \<in> query_names s q"
  "''group_'' @ nat_text i \<in> query_names s q" "''__cursor_'' @ nat_text i \<in> query_names s q"
  using prefixed_name [of "''t''" i s q] prefixed_name [of "''value_''" i s q]
    prefixed_name [of "''group_''" i s q] prefixed_name [of "''__cursor_''" i s q] by simp_all

section \<open>Targets\<close>

text \<open>The targets of an operation are aliases \<open>t\<close>i of layouts of the binding.\<close>

definition targets_in :: "pg_settings \<Rightarrow> targets \<Rightarrow> bool" where
  "targets_in s env \<longleftrightarrow> (\<forall>(c, alias, layout) \<in> set env.
     (c, layout) \<in> set (resources s) \<and> (alias = ''r'' \<or> (\<exists>i. alias = ''t'' @ nat_text i)))"

lemma targets_in_set:
  assumes "targets_in s env" "(c, layout) \<in> set (resources s)"
  shows "targets_in s (dict_set c (''t'' @ nat_text i, layout) env)"
  unfolding targets_in_def
proof (rule ballI)
  fix x assume "x \<in> set (dict_set c (''t'' @ nat_text i, layout) env)"
  then have "x = (c, ''t'' @ nat_text i, layout) \<or> x \<in> set env" using dict_set_mem by fast
  then show "case x of (c, alias, layout) \<Rightarrow>
      (c, layout) \<in> set (resources s) \<and> (alias = ''r'' \<or> (\<exists>i. alias = ''t'' @ nat_text i))"
  proof
    assume "x = (c, ''t'' @ nat_text i, layout)"
    then show ?thesis using assms(2) by auto
  next
    assume "x \<in> set env"
    then show ?thesis using assms(1) unfolding targets_in_def by (rule bspec [rotated])
  qed
qed

lemma targets_from_in:
  "targets_from s i rs env = Inr env' \<Longrightarrow> targets_in s env \<Longrightarrow> targets_in s env'"
proof (induction s i rs env rule: targets_from.induct)
  case (2 s i r rs env)
  then obtain layout where l: "layout_for s r = Inr layout"
    "targets_from s (Suc i) rs (dict_set (r_canonical r) (''t'' @ nat_text i, layout) env) = Inr env'"
    by (auto simp: result_simps)
  have "(r_canonical r, layout) \<in> set (resources s)"
    using l(1) by (auto simp: layout_for_def dict_item_success dest: map_of_SomeD)
  then have "targets_in s (dict_set (r_canonical r) (''t'' @ nat_text i, layout) env)"
    using targets_in_set 2(3) by blast
  then show ?case using 2(1) l by blast
qed simp

lemma targets_of_in: "targets_of s q = Inr env \<Longrightarrow> targets_in s env"
  using targets_from_in [of s 0 "qo_targets q" "[]" env] by (simp add: targets_of_def targets_in_def)

lemma targets_in_item:
  assumes "targets_in s env" "dict_item c env = Inr (alias, layout)"
  shows "(c, layout) \<in> set (resources s)" "alias \<in> query_names s q"
proof -
  have m: "(c, alias, layout) \<in> set env" using assms(2) by (auto simp: dict_item_success dest: map_of_SomeD)
  then show "(c, layout) \<in> set (resources s)" using assms(1) by (auto simp: targets_in_def)
  from m assms(1) have "alias = ''r'' \<or> (\<exists>i. alias = ''t'' @ nat_text i)" by (auto simp: targets_in_def)
  then show "alias \<in> query_names s q" using fixed_names(5) indexed_names(1) by auto
qed

lemma target_idents_in:
  assumes "targets_in s env" shows "target_idents env \<subseteq> query_names s q"
proof
  fix n assume "n \<in> target_idents env"
  then obtain c al layout where m: "(c, al, layout) \<in> set env" "n = al \<or> n \<in> f_column ` set (l_fields layout)"
    by (auto simp: target_idents_def)
  with assms have r: "(c, layout) \<in> set (resources s)" "al = ''r'' \<or> (\<exists>i. al = ''t'' @ nat_text i)"
    by (auto simp: targets_in_def)
  show "n \<in> query_names s q"
    using m(2) layout_names(2) [OF r(1)] r(2) fixed_names(5) indexed_names(1) by auto
qed

lemma compiled_over:
  assumes "compile T env v = Inr st" "targets_in s env" shows "over_query s q st"
  by (rule over_safe [OF safe_text.closed_compile [OF assms(1)] target_idents_in [OF assms(2)] query_words(1)])

section \<open>The parts of a query\<close>

lemma over_column: "set ps \<subseteq> A \<Longrightarrow> ''.'' \<in> W \<Longrightarrow> statement_over A W (bound (ident ps) [])"
  by (rule over_intro) (use raw_texts_ident [of ps] in \<open>auto simp: balanced_depth\<close>)

lemma column_parts:
  assumes "set ps \<subseteq> A" "''.'' \<in> W"
  shows "holes (ident ps) = 0" "depth_sql (ident ps) n = Some n" "idents (ident ps) \<subseteq> A" "raw_texts (ident ps) \<subseteq> W"
  using over_parts(2-4) [OF over_column [OF assms]] by simp_all

lemma over_scope:
  assumes "alias \<in> query_names s q" shows "over_query s q (scope_predicate s alias)"
proof -
  let ?item = "\<lambda>c. bound (ident [alias, c] @ [Raw '' = '', Hole]) [scope_marker c]"
  have i: "over_query s q x" if x: "x \<in> set (map ?item (scope_columns s))" for x
  proof -
    from x obtain c where c: "c \<in> set (scope_columns s)" "x = ?item c" by auto
    have n: "set [alias, c] \<subseteq> query_names s q" using assms fixed_names(2) [OF c(1), of q] by simp
    note P = column_parts [OF n query_words(24)]
    show ?thesis unfolding c(2)
      by (rule over_intro) (use n in \<open>simp_all add: P depth_append query_words\<close>)
  qed
  have d: "depth_text '' AND '' n = Some n" for n by simp
  note L = over_list [OF i query_words(9) d]
  have eq: "scope_predicate s alias = bound (join_sql [Raw '' AND ''] (map command (map ?item (scope_columns s))))
      (concat (map params (map ?item (scope_columns s))))"
  proof -
    have "concat (map params (map ?item cs)) = map scope_marker cs" for cs by (induction cs) simp_all
    then show ?thesis by (simp add: scope_predicate_def o_def)
  qed
  show ?thesis unfolding eq bound_simps by (rule over_intro) (simp_all only: bound_simps L)
qed

lemma over_named:
  assumes "statement_over A W st" "n \<in> A" "'' AS '' \<in> W"
  shows "statement_over A W (bound (named_as (command st) n) (params st))"
  by (rule over_intro) (use assms(2,3) in \<open>simp_all add: named_as_def over_parts [OF assms(1)] depth_append\<close>)

lemma over_from:
  assumes "(c, layout) \<in> set (resources s)" "alias \<in> query_names s q"
  shows "over_query s q (bound (from_sql s layout alias) [])"
proof -
  have "set [physical_schema s, l_table layout] \<subseteq> query_names s q"
    using layout_names(1) [OF assms(1), of q] fixed_names(1) [of s q] by simp
  from over_named [OF over_column [OF this query_words(24)] assms(2) query_words(4)]
  show ?thesis by (simp add: from_sql_def)
qed

lemma over_pair:
  assumes "over_query s q x" "over_query s q y" shows "over_query s q (conjunction [x, y])"
  by (rule over_conjunction(1) [OF _ query_words(1)]) (use assms in auto)

lemma over_raw: "t \<in> W \<Longrightarrow> depth_text t 0 = Some 0 \<Longrightarrow> statement_over A W (bound [Raw t] [])"
  by (rule over_intro) simp_all

lemma over_seq:
  assumes "statement_over A W (bound c ps)" "statement_over A W (bound d qs)"
  shows "statement_over A W (bound (c @ d) (ps @ qs))"
  using over_append [OF assms] by simp

lemma over_join:
  assumes "join_sql_of T env j = Inr st" "targets_in (tr_settings T) env"
  shows "over_query (tr_settings T) q st"
proof -
  let ?s = "tr_settings T"
  from assms(1) obtain al layout on_sql where
    t: "dict_item (r_canonical (j_target j)) env = Inr (al, layout)" and
    c: "compile (tr_texts T) env (j_on j) = Inr on_sql" and
    st: "st = bound ([Raw (if j_kind j = ''left'' then '' LEFT JOIN '' else '' INNER JOIN '')] @ from_sql ?s layout al @
        [Raw '' ON ''] @ command (conjunction [on_sql, scope_predicate ?s al]))
      (params (conjunction [on_sql, scope_predicate ?s al]))"
    by (auto simp: join_sql_of_def result_simps Let_def simp del: append.simps)
  note r = targets_in_item [OF assms(2) t]
  have k: "over_query ?s q (bound [Raw (if j_kind j = ''left'' then '' LEFT JOIN '' else '' INNER JOIN '')] [])"
    by (rule over_raw) (simp_all add: query_words)
  have o: "over_query ?s q (bound [Raw '' ON ''] [])" by (rule over_raw) (simp_all add: query_words)
  have p: "over_query ?s q (conjunction [on_sql, scope_predicate ?s al])"
    by (rule over_pair [OF compiled_over [OF c assms(2)] over_scope [OF r(2)]])
  have f: "over_query ?s q (bound (from_sql ?s layout al) [])" by (rule over_from [OF r])
  have "over_query ?s q (bound (command (conjunction [on_sql, scope_predicate ?s al]))
      (params (conjunction [on_sql, scope_predicate ?s al])))"
    using p by (simp add: statement_over_def sound_over_def arity_ok_def)
  from over_seq [OF k over_seq [OF f over_seq [OF o this]]]
  show ?thesis unfolding st by simp
qed

lemma over_where:
  assumes "where_of T env q alias = Inr st" "targets_in (tr_settings T) env" "alias \<in> query_names (tr_settings T) q"
  shows "over_query (tr_settings T) q st"
  using assms(1) over_scope [OF assms(3)] compiled_over [OF _ assms(2)]
  by (auto simp: where_of_def Let_def result_simps split: option.splits intro: over_pair)

lemma over_commas:
  assumes "\<And>x. x \<in> set xs \<Longrightarrow> statement_over A W x" "'', '' \<in> W"
  shows "statement_over A W (bound (join_sql [Raw '', ''] (map command xs)) (concat (map params xs)))"
proof -
  have d: "depth_text '', '' n = Some n" for n by simp
  show ?thesis by (rule over_intro) (simp_all add: over_list [OF assms d])
qed

lemmas over_joined = over_commas [OF _ query_words(27)]

lemma over_select_list:
  assumes "\<And>x. x \<in> set cols \<Longrightarrow> over_query s q x" shows "over_query s q (select_list cols)"
  unfolding select_list_def by (rule over_joined [OF assms])

lemma over_point_columns:
  assumes "statement_over A W (bound c [] :: 'p bound_statement)" "set (sql_texts (point_columns [])) \<subseteq> W"
  shows "statement_over A W (bound (point_columns c) [] :: 'p bound_statement)"
proof -
  note P = over_parts [OF assms(1), simplified]
  show ?thesis
    by (rule over_intro)
      (use assms(2) P in \<open>simp_all add: point_columns_def depth_append sql_texts_def\<close>)
qed

lemma over_result_columns:
  assumes "alias \<in> A" "\<And>f. f \<in> set (l_fields layout) \<Longrightarrow> f_column f \<in> A \<and> f_name f \<in> A"
    "fst ` set audit_columns \<subseteq> A" "snd ` set audit_columns \<subseteq> A"
    "''.'' \<in> W" "'' AS '' \<in> W" "set (sql_texts (point_columns [])) \<subseteq> W" "x \<in> set (record_columns layout alias)"
  shows "statement_over A W (bound x [] :: 'p bound_statement)"
proof -
  from assms(8) consider f where "f \<in> set (l_fields layout)" "x = field_column alias f"
    | a b where "(a, b) \<in> set audit_columns" "x = named_as (ident [alias, a]) b"
    by (auto simp: record_columns_def)
  then show ?thesis
  proof cases
    case 1
    then have n: "set [alias, f_column f] \<subseteq> A" "f_name f \<in> A" using assms(1,2) by simp_all
    have i: "statement_over A W (bound (ident [alias, f_column f]) [] :: 'p bound_statement)"
      by (rule over_column [OF n(1) assms(5)])
    show ?thesis unfolding 1(2) field_column_def
      using over_named [OF over_point_columns [OF i assms(7)] n(2) assms(6)] over_named [OF i n(2) assms(6)] by simp
  next
    case 2
    then have "a \<in> fst ` set audit_columns" "b \<in> snd ` set audit_columns" by force+
    then have "set [alias, a] \<subseteq> A" "b \<in> A" using assms(1,3,4) by auto
    from over_named [OF over_column [OF this(1) assms(5)] this(2) assms(6)] show ?thesis by (simp add: 2)
  qed
qed

lemma over_record_columns:
  assumes "(c, layout) \<in> set (resources s)" "alias \<in> query_names s q" "x \<in> set (record_columns layout alias)"
  shows "over_query s q (bound x [])"
proof (rule over_result_columns [OF assms(2) _ _ _ query_words(24) query_words(4) _ assms(3)])
  show "f_column f \<in> query_names s q \<and> f_name f \<in> query_names s q" if "f \<in> set (l_fields layout)" for f
    using layout_names(2,3) [OF assms(1) that] by blast
  show "fst ` set audit_columns \<subseteq> query_names s q" "snd ` set audit_columns \<subseteq> query_names s q"
    using fixed_names(3,4) by auto
  show "set (sql_texts (point_columns [])) \<subseteq> set query_texts" using query_words(22) by (simp add: raw_sql_texts)
qed

lemma over_named_compiled:
  assumes "and_then (compile T env v) (\<lambda>s. Inr (bound (named_as (command s) n) (params s))) = Inr x"
    "targets_in s env" "n \<in> query_names s q"
  shows "over_query s q x"
  using assms(1) over_named [OF compiled_over [OF _ assms(2)] assms(3) query_words(4)]
  by (auto simp: result_simps)

lemma value_alias_name: "p \<in> set (qo_projection q) \<Longrightarrow> value_alias i p \<in> query_names s q"
proof (cases "pj_alias p")
  case (Some a)
  assume "p \<in> set (qo_projection q)"
  with Some have "a \<in> query_names s q" by (auto intro!: names_union simp: request_names_def)
  then show ?thesis using Some indexed_names(2) [of i s q] by (cases a) (simp_all add: value_alias_def)
qed (use indexed_names(2) [of i s q] in \<open>simp add: value_alias_def\<close>)

lemma over_projected:
  assumes "projected_columns T env (qo_projection q) = Inr cols" "targets_in s env" "x \<in> set cols"
  shows "over_query s q x"
proof -
  let ?f = "\<lambda>(i, p). and_then (compile (tr_texts T) env (pj_expression p)) (\<lambda>s.
      Inr (bound (named_as (command s) (value_alias i p)) (params s)))"
  have "\<forall>x \<in> set cols. over_query s q x"
    using assms(1) [unfolded projected_columns_def]
  proof (rule traverse_all)
    fix ip y assume "ip \<in> set (zip [0..<length (qo_projection q)] (qo_projection q))" "?f ip = Inr y"
    moreover obtain i p where "ip = (i, p)" by (cases ip)
    ultimately show "over_query s q y"
      using over_named_compiled [of "tr_texts T" env "pj_expression p" "value_alias i p" y s q] assms(2)
        value_alias_name [of p q i s] by (auto dest: set_zip_rightD)
  qed
  then show ?thesis using assms(3) by blast
qed

definition over_order :: "pg_settings \<Rightarrow> query_operation \<Rightarrow> order_term list \<Rightarrow> bool" where
  "over_order s q order \<longleftrightarrow> (\<forall>t \<in> set order. over_query s q (ot_sql t))"

lemma over_order_of:
  assumes "order_of T env q layout = Inr order" "targets_in s env" "(c, layout) \<in> set (resources s)"
  shows "over_order s q order"
proof -
  from assms(1) obtain asked rest where
    a: "traverse (\<lambda>item. and_then (compile (tr_texts T) env (oi_expression item)) (\<lambda>s.
         Inr \<lparr>ot_sql = s, ot_direction = oi_direction item, ot_nulls = oi_nulls item\<rparr>)) (qo_order q) = Inr asked" and
    r: "traverse (identity_term layout)
         (filter (\<lambda>n. PStr n \<notin> set (represented layout q)) (l_identity layout)) = Inr rest" and
    o: "order = asked @ rest"
    by (auto simp: order_of_def result_simps)
  have "\<forall>t \<in> set asked. over_query s q (ot_sql t)"
    using a by (rule traverse_all) (auto simp: result_simps intro: compiled_over [OF _ assms(2)])
  moreover have "\<forall>t \<in> set rest. over_query s q (ot_sql t)"
    using r
  proof (rule traverse_all)
    fix n t assume "identity_term layout n = Inr t"
    then obtain f where f: "f \<in> set (l_fields layout)" "ot_sql t = bound (ident [''t0'', f_column f]) []"
      by (auto simp: identity_term_def result_simps dict_item_success field_map_def dest!: map_of_SomeD)
    have z: "nat_text 0 = ''0''" by (subst nat_text.simps) (simp add: digit_char_def)
    have "''t0'' \<in> query_names s q" using indexed_names(1) [of 0 s q] by (simp add: z)
    then have "set [''t0'', f_column f] \<subseteq> query_names s q" using layout_names(2) [OF assms(3) f(1), of q] by simp
    then show "over_query s q (ot_sql t)" unfolding f(2) by (rule over_column [OF _ query_words(24)])
  qed
  ultimately show ?thesis unfolding over_order_def o by auto
qed

lemma over_after:
  assumes "over_query s q (ot_sql t)" shows "over_query s q (after_sql t v)" "over_query s q (same_sql t v)"
proof -
  note P = over_parts [OF assms] depth_append query_words
  show "over_query s q (after_sql t v)"
    by (rule over_intro; cases "ot_nulls t"; cases "ot_direction t"; cases "v = PNone"; simp add: after_sql_def Let_def P)
  show "over_query s q (same_sql t v)"
    by (rule over_intro; simp add: same_sql_def P)
qed

lemma over_keyset:
  assumes "over_order s q order" shows "over_query s q (keyset_sql order vs)"
proof -
  have t: "over_query s q (ot_sql t)" if "(t, v) \<in> set (zip order vs)" for t v
    using that assms by (auto simp: over_order_def dest: set_zip_leftD)
  have "over_query s q (keyset_branch (zip order vs) i)" if i: "i < length (zip order vs)" for i
    unfolding keyset_branch_def
  proof (rule over_conjunction(1) [OF _ query_words(1)])
    fix x assume "x \<in> set (map (\<lambda>(t, v). same_sql t v) (take i (zip order vs)) @
        [case zip order vs ! i of (t, v) \<Rightarrow> after_sql t v])"
    then consider t v where "(t, v) \<in> set (zip order vs)" "x = same_sql t v"
      | t v where "(t, v) = zip order vs ! i" "x = after_sql t v"
      by (cases "zip order vs ! i") (auto dest: in_set_takeD)
    then show "over_query s q x"
      using t over_after nth_mem [OF i] by cases metis+
  qed
  then show ?thesis unfolding keyset_sql_def Let_def
    by (intro over_conjunction(2) [OF _ query_words(1)]) auto
qed

lemma over_order_sql:
  assumes "over_order s q order" shows "over_query s q (page_sql order n)"
proof -
  let ?item = "\<lambda>t. bound (command (ot_sql t) @ [Raw ((if ot_direction t = Asc then '' ASC'' else '' DESC'') @ '' NULLS '' @
      (if ot_nulls t = NullsLast then ''LAST'' else ''FIRST''))]) (params (ot_sql t))"
  have i: "over_query s q x" if "x \<in> set (map ?item order)" for x
  proof -
    from that obtain t where t: "t \<in> set order" "x = ?item t" by auto
    then have o: "over_query s q (ot_sql t)" using assms by (simp add: over_order_def)
    have w: "'' ASC NULLS LAST'' \<in> set query_texts" "'' ASC NULLS FIRST'' \<in> set query_texts"
      "'' DESC NULLS LAST'' \<in> set query_texts" "'' DESC NULLS FIRST'' \<in> set query_texts"
      by (simp_all add: query_texts_def)
    show ?thesis unfolding t(2)
      by (rule over_intro; cases "ot_direction t"; cases "ot_nulls t";
          simp add: over_parts [OF o] depth_append w)
  qed
  have r: "over_query s q (bound [Raw '' ORDER BY ''] [])" by (rule over_raw) (simp_all add: query_words)
  have l: "over_query s q (bound [Raw '' LIMIT '', Hole] [PInt (int n + 1)])"
    by (rule over_intro) (simp_all add: query_words)
  have eq: "page_sql order n = bound ([Raw '' ORDER BY ''] @ join_sql [Raw '', ''] (map command (map ?item order)) @
      [Raw '' LIMIT '', Hole]) ([] @ concat (map params (map ?item order)) @ [PInt (int n + 1)])"
    by (simp add: page_sql_def order_sql_def o_def)
  show ?thesis unfolding eq by (rule over_seq [OF r over_seq [OF over_joined [OF i] l]])
qed

lemma over_cursor_columns:
  assumes "over_order s q order" "x \<in> set (cursor_columns order)" shows "over_query s q x"
proof -
  from assms(2) obtain t n where z: "(t, n) \<in> set (zip order (cursor_fields order))"
    and x: "x = bound (named_as (command (ot_sql t)) n) (params (ot_sql t))"
    by (auto simp: cursor_columns_def)
  from set_zip_rightD [OF z] obtain i where "n = ''__cursor_'' @ nat_text i"
    unfolding cursor_fields_def by auto
  with set_zip_leftD [OF z] x have "t \<in> set order"
    "x = bound (named_as (command (ot_sql t)) (''__cursor_'' @ nat_text i)) (params (ot_sql t))" by auto
  then show ?thesis
    using over_named [of _ _ "ot_sql t", OF _ indexed_names(4) query_words(4), of s q i] assms(1)
    by (simp add: over_order_def)
qed

lemma over_record_projection:
  assumes "record_projection T env q layout alias order = Inr st" "targets_in s env"
    "(c, layout) \<in> set (resources s)" "alias \<in> query_names s q" "over_order s q order"
  shows "over_query s q st"
proof -
  from assms(1) obtain cols where
    c: "(if qo_projection q = [] then Inr (map (\<lambda>c. bound c []) (record_columns layout alias))
         else projected_columns T env (qo_projection q)) = Inr cols"
    and st: "st = select_list (cols @ cursor_columns order)"
    by (auto simp: record_projection_def and_then_success)
  have "over_query s q x" if x: "x \<in> set cols" for x
  proof (cases "qo_projection q = []")
    case True
    with c x obtain y where "y \<in> set (record_columns layout alias)" "x = bound y []" by auto
    then show ?thesis using over_record_columns [OF assms(3,4)] by simp
  next
    case False
    with c x show ?thesis using over_projected [OF _ assms(2)] by auto
  qed
  then show ?thesis unfolding st
    by (intro over_select_list) (use over_cursor_columns [OF assms(5)] in auto)
qed

lemma over_aggregate_projection:
  assumes "aggregate_projection T env q = Inr st" "targets_in s env" shows "over_query s q st"
proof -
  let ?g = "\<lambda>(i, g). and_then (compile (tr_texts T) env g) (\<lambda>s.
      Inr (bound (named_as (command s) (''group_'' @ nat_text i)) (params s)))"
  let ?a = "\<lambda>(name, a). and_then (compile (tr_texts T) env a) (\<lambda>s.
      Inr (bound (named_as (command s) name) (params s)))"
  from assms(1) obtain groups aggregates where
    g: "traverse ?g (zip [0..<length (qo_grouping q)] (qo_grouping q)) = Inr groups" and
    a: "traverse ?a (qo_aggregates q) = Inr aggregates" and st: "st = select_list (groups @ aggregates)"
    by (auto simp: aggregate_projection_def and_then_success)
  have "\<forall>x \<in> set groups. over_query s q x"
    using g by (rule traverse_all) (auto intro: over_named_compiled [OF _ assms(2) indexed_names(3)])
  moreover have "\<forall>x \<in> set aggregates. over_query s q x"
    using a
  proof (rule traverse_all)
    fix na y assume m: "na \<in> set (qo_aggregates q)" "?a na = Inr y"
    obtain n v where na: "na = (n, v)" by (cases na)
    have "n \<in> query_names s q" using m(1) by (force simp: na request_names_def intro!: names_union)
    then show "over_query s q y" using m(2) over_named_compiled [OF _ assms(2)] by (simp add: na)
  qed
  ultimately show ?thesis unfolding st by (intro over_select_list) auto
qed

lemma over_grouping:
  assumes "grouping_of T env q = Inr st" "targets_in s env" shows "over_query s q st"
proof (cases "qo_grouping q = []")
  case True
  then have st: "st = bound [] []" using assms(1) by (simp add: grouping_of_def)
  show ?thesis unfolding st by (rule over_intro) simp_all
next
  case False
  with assms(1) obtain items where i: "traverse (compile (tr_texts T) env) (qo_grouping q) = Inr items"
    and st: "st = bound ([Raw '' GROUP BY ''] @ join_sql [Raw '', ''] (map command items)) ([] @ concat (map params items))"
    by (auto simp: grouping_of_def and_then_success)
  have o: "over_query s q x" if "x \<in> set items" for x
    using traverse_all [OF i, of "over_query s q"] compiled_over [OF _ assms(2)] that by blast
  have r: "over_query s q (bound [Raw '' GROUP BY ''] [])" by (rule over_raw) (simp_all add: query_words)
  show ?thesis unfolding st by (rule over_seq [OF r over_joined [OF o]])
qed

lemma over_eta: "statement_over A W st \<Longrightarrow> statement_over A W (bound (command st) (params st))"
  by (simp add: statement_over_def sound_over_def arity_ok_def)

lemma over_source:
  assumes "source_of T env q layout alias = Inr st" "targets_in (tr_settings T) env"
    "(c, layout) \<in> set (resources (tr_settings T))" "alias \<in> query_names (tr_settings T) q"
  shows "over_query (tr_settings T) q st"
proof -
  let ?s = "tr_settings T"
  from assms(1) obtain joins where j: "traverse (join_sql_of T env) (qo_joins q) = Inr joins"
    and st: "st = bound ([Raw '' FROM ''] @ from_sql ?s layout alias @ concat (map command joins))
       ([] @ [] @ concat (map params joins))"
    by (auto simp: source_of_def and_then_success)
  have o: "over_query ?s q x" if "x \<in> set joins" for x
    using traverse_all [OF j, of "over_query ?s q"] over_join [OF _ assms(2)] that by blast
  have r: "over_query ?s q (bound [Raw '' FROM ''] [])" by (rule over_raw) (simp_all add: query_words)
  show ?thesis unfolding st by (rule over_seq [OF r over_seq [OF over_from [OF assms(3,4)] over_concat [OF o]]])
qed

lemma over_select:
  assumes "over_query s q sel" "over_query s q source" "over_query s q condition" "over_query s q rest"
  shows "over_query s q (select_sql sel source condition rest)"
proof -
  have w: "over_query s q (bound [Raw ''SELECT ''] [])" "over_query s q (bound [Raw '' WHERE ''] [])"
    by (rule over_raw; simp add: query_words)+
  note e = assms [THEN over_eta]
  from over_seq [OF w(1) over_seq [OF e(1) over_seq [OF e(2) over_seq [OF w(2) over_seq [OF e(3,4)]]]]]
  show ?thesis by (simp add: select_sql_def)
qed

lemma over_condition:
  assumes "record_condition T q ctx order condition = Inr st" "over_query s q condition" "over_order s q order"
  shows "over_query s q st"
  using assms(1,2) over_pair [OF assms(2) over_keyset [OF assms(3)]]
  by (auto simp: record_condition_def keyset_of_def result_simps split: if_splits option.splits)

section \<open>Compiled parameters\<close>

lemma parameter_names_distinct: "distinct (parameter_names n)"
  by (simp add: parameter_names_def distinct_map inj_on_def)

lemma compiled_parameters:
  "distinct (cq_order (compiled_of T ctx s q)) \<and>
   map (map_of (cq_parameters (compiled_of T ctx s q))) (cq_order (compiled_of T ctx s q)) = map Some (params s)"
proof -
  let ?ns = "parameter_names (length (params s))"
  have l: "length ?ns = length (params s)" by (simp add: parameter_names_def)
  have "dict_wf (zip ?ns (params s))"
    using parameter_names_distinct l by (simp add: dict_wf_def keys_def)
  then have "cq_parameters (compiled_of T ctx s q) = zip ?ns (params s)"
    by (simp add: compiled_of_def dict_of_id)
  moreover have "map (map_of (zip ?ns (params s))) ?ns = map Some (params s)"
    using l parameter_names_distinct by (intro nth_equalityI) (simp_all add: map_of_zip_nth)
  ultimately show ?thesis using parameter_names_distinct by (simp add: compiled_of_def)
qed

text \<open>A compiled query carries a statement: its text, and its values under the names in \<open>cq_order\<close>.\<close>

definition carries :: "translator \<Rightarrow> compiled_query \<Rightarrow> pyval bound_statement \<Rightarrow> bool" where
  "carries T cq s \<longleftrightarrow> cq_sql cq = render (tr_quote T) (tr_literal T) (command s) \<and>
     distinct (cq_order cq) \<and> map (map_of (cq_parameters cq)) (cq_order cq) = map Some (params s)"

lemma compiled_carries: "carries T (compiled_of T ctx s q) s"
  using compiled_parameters by (simp add: carries_def) (simp add: compiled_of_def)

lemma carries_update [simp]:
  "carries T (cq\<lparr>cq_empty := b\<rparr>) s = carries T cq s" "carries T (cq\<lparr>cq_single := b\<rparr>) s = carries T cq s"
  "carries T (cq\<lparr>cq_cursor_fields := fs\<rparr>) s = carries T cq s" "carries T (cq\<lparr>cq_internal := fs\<rparr>) s = carries T cq s"
  "carries T (cq\<lparr>cq_cursor_context := cc\<rparr>) s = carries T cq s"
  by (simp_all add: carries_def)

section \<open>Every compiled query\<close>

text \<open>The parts of a compiled select.\<close>

definition select_parts ::
  "translator \<Rightarrow> query_operation \<Rightarrow> translation_context \<Rightarrow> targets \<Rightarrow> string \<Rightarrow> resource_layout \<Rightarrow>
   pyval bound_statement \<Rightarrow> pyval bound_statement \<Rightarrow> pyval bound_statement \<Rightarrow> pyval bound_statement \<Rightarrow>
   pyval bound_statement \<Rightarrow> bool" where
  "select_parts T q ctx env alias layout sel source base condition rest \<longleftrightarrow>
     targets_of (tr_settings T) q = Inr env \<and> base_of env q = Inr (alias, layout) \<and>
     source_of T env q layout alias = Inr source \<and> where_of T env q alias = Inr base \<and>
     (if qo_operation q = ''aggregate''
      then aggregate_projection T env q = Inr sel \<and> grouping_of T env q = Inr rest \<and> condition = base
      else \<exists>order. order_of T env q layout = Inr order \<and> record_projection T env q layout alias order = Inr sel \<and>
             record_condition T q ctx order base = Inr condition \<and> rest = page_sql order (qo_size q))"

lemma compile_select_parts:
  assumes "compile_select T q ctx = Inr cq"
  shows "\<exists>env alias layout sel source base condition rest.
    select_parts T q ctx env alias layout sel source base condition rest \<and>
    carries T cq (select_sql sel source condition rest)"
proof -
  from assms obtain env al layout source base where
    p: "targets_of (tr_settings T) q = Inr env" "base_of env q = Inr (al, layout)"
      "source_of T env q layout al = Inr source" "where_of T env q al = Inr base"
    and r: "finish_select T q ctx env al layout source base = Inr cq"
    by (auto simp: compile_select_def and_then_success)
  show ?thesis
  proof (cases "qo_operation q = ''aggregate''")
    case True
    with r obtain sel group where s: "aggregate_projection T env q = Inr sel" "grouping_of T env q = Inr group"
      "cq = compiled_of T ctx (select_sql sel source base group) q"
        by (auto simp: finish_select_def aggregate_statement_def and_then_success)
    have "select_parts T q ctx env al layout sel source base base group"
      using True p s(1,2) by (simp add: select_parts_def)
    moreover have "carries T cq (select_sql sel source base group)" unfolding s(3) by (rule compiled_carries)
    ultimately show ?thesis by blast
  next
    case False
    with r obtain order sel condition where
      s: "order_of T env q layout = Inr order" "record_projection T env q layout al order = Inr sel"
        "record_condition T q ctx order base = Inr condition" and
      cq: "cq = (compiled_of T ctx (select_sql sel source condition (page_sql order (qo_size q))) q)
        \<lparr>cq_single := qo_operation q = ''get'', cq_cursor_fields := cursor_fields order,
         cq_internal := cursor_fields order,
         cq_cursor_context := Some \<lparr>cc_plan = cursor_plan_fingerprint T q, cc_schemas = tc_schemas ctx,
           cc_registry = tc_registry ctx, cc_scope = tc_scope ctx\<rparr>\<rparr>"
      by (auto simp: finish_select_def and_then_success)
    have "select_parts T q ctx env al layout sel source base condition (page_sql order (qo_size q))"
      using False p s by (auto simp: select_parts_def)
    moreover have "carries T cq (select_sql sel source condition (page_sql order (qo_size q)))"
      unfolding cq by (simp add: compiled_carries)
    ultimately show ?thesis by blast
  qed
qed

lemma base_in_targets:
  assumes "base_of env q = Inr (alias, layout)" "targets_in s env"
  shows "\<exists>c. (c, layout) \<in> set (resources s)" "alias \<in> query_names s q"
proof -
  from assms(1) obtain r :: resource_ref where "dict_item (r_canonical r) env = Inr (alias, layout)"
    by (auto simp: base_of_def split: list.splits)
  from targets_in_item [OF assms(2) this]
  show "\<exists>c. (c, layout) \<in> set (resources s)" "alias \<in> query_names s q" by blast+
qed

lemma over_select_parts:
  assumes "select_parts T q ctx env alias layout sel source base condition rest"
  shows "over_query (tr_settings T) q (select_sql sel source condition rest)"
proof -
  let ?s = "tr_settings T"
  note p = assms [unfolded select_parts_def]
  have t: "targets_in ?s env" by (rule targets_of_in) (use p in blast)
  from p have b: "base_of env q = Inr (alias, layout)" by blast
  obtain c where c: "(c, layout) \<in> set (resources ?s)" using base_in_targets(1) [OF b t] by blast
  have a: "alias \<in> query_names ?s q" by (rule base_in_targets(2) [OF b t])
  have source: "over_query ?s q source" by (rule over_source [OF _ t c a]) (use p in blast)
  have base: "over_query ?s q base" by (rule over_where [OF _ t a]) (use p in blast)
  show ?thesis
  proof (cases "qo_operation q = ''aggregate''")
    case True
    with p have s: "aggregate_projection T env q = Inr sel" "grouping_of T env q = Inr rest" "condition = base"
      by auto
    show ?thesis
      by (rule over_select [OF over_aggregate_projection [OF s(1) t] source _ over_grouping [OF s(2) t]])
        (simp add: s(3) base)
  next
    case False
    with p obtain order where s: "order_of T env q layout = Inr order"
      "record_projection T env q layout alias order = Inr sel"
      "record_condition T q ctx order base = Inr condition" "rest = page_sql order (qo_size q)" by auto
    have o: "over_order ?s q order" by (rule over_order_of [OF s(1) t c])
    show ?thesis unfolding s(4)
      by (rule over_select [OF over_record_projection [OF s(2) t c a o] source over_condition [OF s(3) base o]
          over_order_sql [OF o]])
  qed
qed

section \<open>Traversals\<close>

lemma over_edge:
  assumes "(c, layout) \<in> set (resources s)" "over_query s q scope"
  shows "over_query s q (edge_sql s forward ref layout scope)"
proof -
  have "set [physical_schema s, l_table layout] \<subseteq> query_names s q"
    using layout_names(1) [OF assms(1), of q] fixed_names(1) [of s q] by simp
  then have i: "over_query s q (bound (ident [physical_schema s, l_table layout]) [])"
    by (rule over_column [OF _ query_words(24)])
  have d: "depth_text (edge_text forward) n = Some n" for n by (cases forward) (simp_all add: edge_text_def)
  have h: "over_query s q (bound [Raw ''SELECT '', Hole, Raw (edge_text forward)] [PStr (r_canonical ref)])"
    by (rule over_intro) (simp_all add: query_words d)
  have w: "over_query s q (bound [Raw '' AS r WHERE ''] [])" by (rule over_raw) (simp_all add: query_words)
  from over_seq [OF h over_seq [OF i over_seq [OF w over_eta [OF assms(2)]]]]
  show ?thesis by (simp add: edge_sql_def)
qed

text \<open>The edges of one Relation Collection: its scope predicate, alone or with the caller's predicate.\<close>

lemma edges_of_parts:
  assumes "edges_of T tv ref = Inr es"
  shows "\<exists>layout scope rest. (r_canonical ref, layout) \<in> set (resources (tr_settings T)) \<and>
    l_relation layout \<noteq> None \<and>
    (scope = scope_predicate (tr_settings T) ''r'' \<or>
     scope = conjunction [scope_predicate (tr_settings T) ''r'', rest] \<and> over_query (tr_settings T) q rest) \<and>
    set es \<subseteq> {edge_sql (tr_settings T) b ref layout scope | b. True}"
proof -
  let ?s = "tr_settings T"
  from assms obtain layout relation scope where
    l: "layout_for ?s ref = Inr layout" "l_relation layout = Some relation" and
    sc: "(case dict_get (r_canonical ref) PNone (tv_predicates tv) of
         PNone \<Rightarrow> Inr (scope_predicate ?s ''r'')
       | predicate \<Rightarrow> and_then (compile (tr_texts T) [(r_canonical ref, ''r'', layout)] predicate) (\<lambda>p.
           Inr (conjunction [scope_predicate ?s ''r'', p]))) = Inr scope" and
    es: "es = (if tv_direction tv \<in> {''outbound'', ''any''} \<or> \<not> directed relation
          then [edge_sql ?s True ref layout scope] else []) @
         (if tv_direction tv \<in> {''inbound'', ''any''} \<or> \<not> directed relation
          then [edge_sql ?s False ref layout scope] else [])"
    unfolding edges_of_def Let_def and_then_success by (auto split: option.splits simp: and_then_success)
  have m: "(r_canonical ref, layout) \<in> set (resources ?s)"
    using l(1) by (auto simp: layout_for_def dict_item_success dest: map_of_SomeD)
  then have t: "targets_in ?s [(r_canonical ref, ''r'', layout)]" by (simp add: targets_in_def)
  have "scope = scope_predicate ?s ''r'' \<or>
     (\<exists>rest. scope = conjunction [scope_predicate ?s ''r'', rest] \<and> over_query ?s q rest)"
    using sc by (cases "dict_get (r_canonical ref) PNone (tv_predicates tv)")
      (auto simp: and_then_success intro: compiled_over [OF _ t])
  moreover have "set es \<subseteq> {edge_sql ?s b ref layout scope | b. True}" unfolding es by auto
  ultimately show ?thesis using m l(2) by blast
qed

lemma over_edges:
  assumes "edges_of T tv ref = Inr es" "e \<in> set es" shows "over_query (tr_settings T) q e"
proof -
  let ?s = "tr_settings T"
  have r: "over_query ?s q (scope_predicate ?s ''r'')" by (rule over_scope [OF fixed_names(5)])
  from edges_of_parts [OF assms(1), of q] obtain layout scope rest where
    p: "(r_canonical ref, layout) \<in> set (resources ?s)"
      "scope = scope_predicate ?s ''r'' \<or> scope = conjunction [scope_predicate ?s ''r'', rest] \<and> over_query ?s q rest"
      "set es \<subseteq> {edge_sql ?s b ref layout scope | b. True}" by blast
  from p(2) r have "over_query ?s q scope" using over_pair by blast
  from over_edge [OF p(1) this] show ?thesis using p(3) assms(2) by auto
qed

lemma walk_shape: "holes walk_sql = 8" "depth_sql walk_sql (Suc 0) = Some 0" "idents walk_sql = {}"
proof -
  show "holes walk_sql = 8" "idents walk_sql = {}" by (simp_all add: walk_sql_def)
  show "depth_sql walk_sql (Suc 0) = Some 0" by code_simp
qed

lemma over_traversal:
  assumes "\<And>e. e \<in> set es \<Longrightarrow> over_query s q e"
  shows "over_query s q (traversal_sql es (walk_params T q tv))"
proof -
  have d: "depth_text '' UNION ALL '' n = Some n" for n by simp
  note L = over_list [OF assms query_words(19) d]
  have "length (walk_params T q tv) = 8" by (simp add: walk_params_def Let_def)
  then show ?thesis
    by (intro over_intro) (simp_all add: traversal_sql_def L walk_shape depth_append query_words)
qed

lemma compile_traversal_parts:
  assumes "compile_traversal T q ctx = Inr cq"
  shows "\<exists>tv edges. qo_traversal q = Some tv \<and> traverse (edges_of T tv) (tv_relations tv) = Inr edges \<and>
    length (tv_relations tv) \<le> qb_relations (qo_budget q) \<and> tv_max_depth tv \<le> depth_limit q \<and>
    (tv_all_neighbors tv \<longrightarrow> tv_registry tv = Some (tc_registry ctx)) \<and> tv_resolved tv \<and>
    cq = compiled_of T ctx (traversal_sql (concat edges) (walk_params T q tv)) q"
  using assms unfolding compile_traversal_def by (auto simp: result_simps split: option.splits)

end
