(* ===== verification/Queries.thy ===== *)
theory Queries
  imports TranslatorLaws
begin

text \<open>
  The properties of the query translator: what a compiled query can contain, the scope it is restricted
  to, the bounds of a traversal, and what a cursor pins.
\<close>

section \<open>Injection\<close>

lemma compiled_query_over:
  assumes "compile_query T plan ctx = Inr cq" "qp_operation plan = Some q"
  shows "\<exists>s. carries T cq s \<and> over_query (tr_settings T) q s"
proof -
  have r: "(if qp_empty plan = Some True
      then Inr ((compiled_of T ctx (bound [Raw ''SELECT NULL WHERE FALSE''] []) q)\<lparr>cq_empty := True\<rparr>)
      else if qo_operation q = ''traverse'' then compile_traversal T q ctx
      else if qo_operation q \<notin> {''get'', ''scan'', ''search'', ''aggregate''} then Inl ValueError
      else compile_select T q ctx) = Inr cq"
    using assms by (auto simp: compile_query_def and_then_success)
  show ?thesis
  proof (cases "qp_empty plan = Some True")
    case True
    let ?e = "bound [Raw ''SELECT NULL WHERE FALSE''] [] :: pyval bound_statement"
    have "over_query (tr_settings T) q ?e" by (rule over_raw) (simp_all add: query_words)
    moreover have "carries T cq ?e" using True r compiled_carries [of T ctx ?e q] by auto
    ultimately show ?thesis by blast
  next
    case False
    show ?thesis
    proof (cases "qo_operation q = ''traverse''")
      case True
      with False r have "compile_traversal T q ctx = Inr cq" by simp
      from compile_traversal_parts [OF this] obtain tv edges where
        e: "traverse (edges_of T tv) (tv_relations tv) = Inr edges"
          "cq = compiled_of T ctx (traversal_sql (concat edges) (walk_params T q tv)) q" by blast
      have "over_query (tr_settings T) q x" if "x \<in> set (concat edges)" for x
        using traverse_all [OF e(1), of "\<lambda>es. \<forall>x \<in> set es. over_query (tr_settings T) q x"] over_edges that
        by auto
      from over_traversal [OF this] show ?thesis unfolding e(2) using compiled_carries by blast
    next
      case nt: False
      with False r have "compile_select T q ctx = Inr cq" by (simp split: if_splits)
      from compile_select_parts [OF this] over_select_parts [of T q ctx] show ?thesis by blast
    qed
  qed
qed

text \<open>
  C26. No injection through queries: whatever plan compiles, the SQL text is a sequence of the adapter's
  own fixed texts, quoted identifiers (of the binding's tables and columns, the adapter's aliases, and the
  result names that the request chose) and placeholders, with balanced parentheses and no inlined value;
  and the values are under the distinct parameter names of the command, one per placeholder, in order.
\<close>
theorem query_injection_free:
  assumes "compile_query T plan ctx = Inr cq" "qp_operation plan = Some q"
  shows "\<exists>c. cq_sql cq = render (tr_quote T) (tr_literal T) c \<and> balanced c \<and>
    set c \<subseteq> Raw ` set query_texts \<union> Ident ` query_names (tr_settings T) q \<union> {Hole} \<and>
    holes c = length (cq_order cq) \<and> distinct (cq_order cq) \<and> set (cq_order cq) \<subseteq> dom (map_of (cq_parameters cq))"
proof -
  from compiled_query_over [OF assms] obtain s where s: "carries T cq s" "over_query (tr_settings T) q s" by blast
  have p: "map (map_of (cq_parameters cq)) (cq_order cq) = map Some (params s)"
    using s(1) by (simp add: carries_def)
  have "set (command s) \<subseteq> Raw ` set query_texts \<union> Ident ` query_names (tr_settings T) q \<union> {Hole}"
    using over_parts(3,4) [OF s(2)] by (intro balanced_tokens over_balanced [OF s(2)]) (auto simp: raw_texts_def)
  moreover have "holes (command s) = length (cq_order cq)"
    using over_parts(1) [OF s(2)] map_eq_imp_length_eq [OF p] by simp
  moreover have "set (cq_order cq) \<subseteq> dom (map_of (cq_parameters cq))"
  proof
    fix n assume "n \<in> set (cq_order cq)"
    then have "map_of (cq_parameters cq) n \<in> set (map Some (params s))" unfolding p [symmetric] by simp
    then show "n \<in> dom (map_of (cq_parameters cq))" by auto
  qed
  ultimately show ?thesis using s over_balanced [OF s(2)] unfolding carries_def by blast
qed

section \<open>Scope\<close>

text \<open>A statement is a conjunct of another, through conjunctions of well-parenthesised parts.\<close>

inductive conjunct :: "'p bound_statement \<Rightarrow> 'p bound_statement \<Rightarrow> bool" where
  whole: "conjunct p p"
| part: "conjunct p x \<Longrightarrow> x \<in> set xs \<Longrightarrow> \<forall>y \<in> set xs. balanced (command y) \<Longrightarrow> conjunct p (conjunction xs)"

lemma conjunct_pair:
  "conjunct p x \<Longrightarrow> balanced (command x) \<Longrightarrow> balanced (command y) \<Longrightarrow> conjunct p (conjunction [x, y])"
  "conjunct p y \<Longrightarrow> balanced (command x) \<Longrightarrow> balanced (command y) \<Longrightarrow> conjunct p (conjunction [x, y])"
  using part [of p x "[x, y]"] part [of p y "[x, y]"] by simp_all

text \<open>A joined table with its ON clause.\<close>

definition scoped_join :: "pg_settings \<Rightarrow> pyval bound_statement \<Rightarrow> bool" where
  "scoped_join s c \<longleftrightarrow> (\<exists>t al layout p. command c = [Raw t] @ from_sql s layout al @ [Raw '' ON ''] @ command p \<and>
     params c = params p \<and> conjunct (scope_predicate s al) p)"

lemma join_scoped:
  assumes "join_sql_of T env j = Inr st" "targets_in (tr_settings T) env"
  shows "scoped_join (tr_settings T) st"
proof -
  let ?s = "tr_settings T"
  from assms(1) obtain al layout on_sql where
    t: "dict_item (r_canonical (j_target j)) env = Inr (al, layout)" and
    c: "compile (tr_texts T) env (j_on j) = Inr on_sql" and
    st: "st = bound ([Raw (if j_kind j = ''left'' then '' LEFT JOIN '' else '' INNER JOIN '')] @ from_sql ?s layout al @
        [Raw '' ON ''] @ command (conjunction [on_sql, scope_predicate ?s al]))
      (params (conjunction [on_sql, scope_predicate ?s al]))"
    by (auto simp: join_sql_of_def result_simps Let_def simp del: append.simps)
  have "balanced (command on_sql)" "balanced (command (scope_predicate ?s al))"
    using over_balanced [OF compiled_over [OF c assms(2)]] over_balanced [OF over_scope [OF targets_in_item(2) [OF assms(2) t]]]
    by blast+
  then have "conjunct (scope_predicate ?s al) (conjunction [on_sql, scope_predicate ?s al])"
    by (intro conjunct_pair(2) whole)
  then show ?thesis unfolding scoped_join_def st bound_simps by blast
qed

lemma where_scoped:
  assumes "where_of T env q alias = Inr st" "targets_in (tr_settings T) env" "alias \<in> query_names (tr_settings T) q"
  shows "conjunct (scope_predicate (tr_settings T) alias) st"
  using assms(1) over_balanced [OF over_scope [OF assms(3)]] over_balanced [OF compiled_over [OF _ assms(2)]]
  by (auto simp: where_of_def Let_def and_then_success whole split: option.splits
      intro!: conjunct_pair(1) [OF whole])

lemma select_scoped:
  assumes "select_parts T q ctx env alias layout sel source base condition rest"
  shows "conjunct (scope_predicate (tr_settings T) alias) condition \<and>
    (\<exists>joins. command source = [Raw '' FROM ''] @ from_sql (tr_settings T) layout alias @ concat (map command joins) \<and>
       params source = concat (map params joins) \<and>
       length joins = length (qo_joins q) \<and> (\<forall>c \<in> set joins. scoped_join (tr_settings T) c))"
proof -
  let ?s = "tr_settings T"
  note p = assms [unfolded select_parts_def]
  have t: "targets_in ?s env" by (rule targets_of_in) (use p in blast)
  from p have b: "base_of env q = Inr (alias, layout)" by blast
  obtain c where c: "(c, layout) \<in> set (resources ?s)" using base_in_targets(1) [OF b t] by blast
  have a: "alias \<in> query_names ?s q" by (rule base_in_targets(2) [OF b t])
  have w: "conjunct (scope_predicate ?s alias) base" by (rule where_scoped [OF _ t a]) (use p in blast)
  have bo: "over_query ?s q base" by (rule over_where [OF _ t a]) (use p in blast)
  have "conjunct (scope_predicate ?s alias) condition"
  proof (cases "qo_operation q = ''aggregate'' \<or> qo_cursor q = None")
    case True
    then show ?thesis using p w by (auto simp: record_condition_def split: if_splits)
  next
    case False
    with p obtain order where o: "order_of T env q layout = Inr order"
      "record_condition T q ctx order base = Inr condition" by auto
    with False obtain vs where k: "condition = conjunction [base, keyset_sql order vs]"
      by (auto simp: record_condition_def keyset_of_def and_then_success split: option.splits)
    have "over_query ?s q (keyset_sql order vs)" by (rule over_keyset [OF over_order_of [OF o(1) t c]])
    then show ?thesis unfolding k by (intro conjunct_pair(1) [OF w] over_balanced [OF bo] over_balanced)
  qed
  moreover from p obtain joins where j: "traverse (join_sql_of T env) (qo_joins q) = Inr joins"
    "source = bound ([Raw '' FROM ''] @ from_sql ?s layout alias @ concat (map command joins)) (concat (map params joins))"
    by (auto simp: source_of_def and_then_success)
  have "\<forall>c \<in> set joins. scoped_join ?s c"
    using traverse_all [OF j(1), of "scoped_join ?s"] join_scoped [OF _ t] by blast
  ultimately show ?thesis using j(2) traverse_length [OF j(1)] by auto
qed



section \<open>Cursors\<close>

text \<open>
  C29. Cursors are pinned: a page that continues at a cursor compiles only when the adapter's signer
  verifies the cursor and its payload was issued for the same operation (apart from the cursor and the
  deadline), the same Schemas, Registry revision and scope, and the same page size; otherwise the query
  is rejected.
\<close>
theorem cursor_pinned:
  assumes "compile_query T plan ctx = Inr cq" "qp_operation plan = Some q" "qo_cursor q = Some cursor"
    "qp_empty plan \<noteq> Some True" "qo_operation q \<in> {''get'', ''scan'', ''search''}"
  shows "\<exists>signer p. tr_signer T = Some signer \<and> verify signer cursor = Inr p \<and>
    cp_plan p = tr_fingerprint T (q\<lparr>qo_cursor := None, qo_budget := (qo_budget q)\<lparr>qb_deadline := 30000\<rparr>\<rparr>) \<and>
    map_of (cp_schemas p) = map_of (tc_schemas ctx) \<and> cp_registry p = tc_registry ctx \<and>
    cp_scope p = tc_scope ctx \<and> cp_size p = qo_size q"
proof -
  have "compile_select T q ctx = Inr cq"
    using assms by (auto simp: compile_query_def and_then_success split: if_splits)
  from compile_select_parts [OF this] obtain env al layout sel source base condition rest where
    p: "select_parts T q ctx env al layout sel source base condition rest" by blast
  with assms(3,5) obtain order k where "keyset_of T q ctx order = Inr k"
    by (auto simp: select_parts_def record_condition_def and_then_success split: if_splits)
  then show ?thesis using assms(3)
    by (auto simp: keyset_of_def cursor_plan_fingerprint_def dict_eq_maps and_then_success ensure_success
        split: option.splits)
qed

section \<open>Examples\<close>

definition knows_layout :: resource_layout where
  "knows_layout =
     sample_layout\<lparr>l_ref := \<lparr>r_catalog = ''structured'', r_canonical = ''structured:knows''\<rparr>, l_table := ''knows'',
       l_profile := ''relation'', l_relation := Some \<lparr>source_field = ''id'', target_field = ''nick'', directed = True,
         source_collections = [''structured:people''], target_collections = [''structured:people'']\<rparr>\<rparr>"

definition graph_settings :: pg_settings where
  "graph_settings = sample_settings\<lparr>resources :=
     [(''structured:knows'', knows_layout), (''structured:people'', sample_layout)]\<rparr>"

definition sample_payload :: "pyval list \<Rightarrow> cursor_payload" where
  "sample_payload vs = \<lparr>cp_plan = ''plan'', cp_schemas = [(''structured:people'', ''s1'')], cp_registry = ''r1'',
     cp_scope = ''scope'', cp_sort = vs, cp_size = 2\<rparr>"

definition sample_signer :: cursor_signer where
  "sample_signer =
     \<lparr>issue = (\<lambda>p. case cp_sort p of [PInt n] \<Rightarrow> nat_text (nat n) | _ \<Rightarrow> []),
      verify = (\<lambda>c. case map_of [(''1'', 1), (''2'', 2), (''3'', 3), (''4'', 4), (''5'', 5)] c of
                    Some n \<Rightarrow> Inr (sample_payload [PInt n])
                  | None \<Rightarrow> Inl ValueError)\<rparr>"

definition sample_translator :: translator where
  "sample_translator =
     \<lparr>tr_settings = graph_settings, tr_texts = sample_texts, tr_signer = Some sample_signer,
      tr_fingerprint = (\<lambda>_. ''plan''), tr_json = (\<lambda>_. ''1''),
      tr_quote = (\<lambda>n. [CHR 0x22] @ n @ [CHR 0x22]), tr_literal = (\<lambda>_. ''NULL'')\<rparr>"

definition sample_query :: query_operation where
  "sample_query =
     \<lparr>qo_operation = ''scan'', qo_consistency = ''strong'', qo_targets = [l_ref sample_layout], qo_joins = [],
      qo_filter = Some (nick_is ''eq'' (PStr ''x') OR (TRUE'')), qo_grouping = [], qo_aggregates = [], qo_order = [],
      qo_projection = [], qo_shape = ''records'', qo_total = False, qo_size = 2, qo_cursor = None,
      qo_point_in_time = False, qo_traversal = None,
      qo_budget = \<lparr>qb_deadline = 30000, qb_relations = 32, qb_depth = 8, qb_paths = 100, qb_values = 10000, qb_bytes = 1000\<rparr>\<rparr>"

definition sample_plan :: "query_operation \<Rightarrow> query_plan" where
  "sample_plan q = \<lparr>qp_operation = Some q, qp_binding = None, qp_registry = None, qp_empty = None\<rparr>"

definition sample_context :: translation_context where
  "sample_context = \<lparr>tc_binding = ''b'', tc_plan = ''plan'', tc_registry = ''r1'', tc_scope = ''scope'',
     tc_schemas = [(''structured:people'', ''s1'')], tc_deadline = 30000\<rparr>"

definition sample_walk :: query_operation where
  "sample_walk = sample_query\<lparr>qo_operation := ''traverse'', qo_filter := None, qo_traversal := Some
     \<lparr>tv_relations = [l_ref knows_layout], tv_resolved = True, tv_all_neighbors = False, tv_registry = None,
      tv_record_filter = None, tv_predicates = [], tv_direction = ''outbound'', tv_min_depth = 1, tv_max_depth = 3,
      tv_start_collection = ''structured:people'', tv_start_record = PInt 1\<rparr>\<rparr>"

definition compiles :: "query_operation \<Rightarrow> bool" where
  "compiles q = (case compile_query sample_translator (sample_plan q) sample_context of Inr _ \<Rightarrow> True | Inl _ \<Rightarrow> False)"

lemma sample_compiles:
  "compiles sample_query" "compiles sample_walk" "compiles (sample_query\<lparr>qo_cursor := Some ''2''\<rparr>)"
  by code_simp+

lemma compiles_obtain: "compiles q \<Longrightarrow> \<exists>cq. compile_query sample_translator (sample_plan q) sample_context = Inr cq"
  by (auto simp: compiles_def split: sum.splits)

lemma query_injection_free_witness:
  "\<exists>cq c. compile_query sample_translator (sample_plan sample_query) sample_context = Inr cq \<and> balanced c \<and>
     set c \<subseteq> Raw ` set query_texts \<union> Ident ` query_names graph_settings sample_query \<union> {Hole} \<and>
     holes c = length (cq_order cq)"
proof -
  obtain cq where c: "compile_query sample_translator (sample_plan sample_query) sample_context = Inr cq"
    using compiles_obtain [OF sample_compiles(1)] by blast
  have "qp_operation (sample_plan sample_query) = Some sample_query" by (simp add: sample_plan_def)
  from query_injection_free [OF c this] c show ?thesis by (auto simp: sample_translator_def)
qed



lemma cursor_pinned_witness:
  "\<exists>signer p. tr_signer sample_translator = Some signer \<and> verify signer ''2'' = Inr p \<and> cp_scope p = ''scope''"
proof -
  let ?q = "sample_query\<lparr>qo_cursor := Some ''2''\<rparr>"
  obtain cq where c: "compile_query sample_translator (sample_plan ?q) sample_context = Inr cq"
    using compiles_obtain [OF sample_compiles(3)] by blast
  have "qp_operation (sample_plan ?q) = Some ?q" "qo_cursor ?q = Some ''2''"
    "qp_empty (sample_plan ?q) \<noteq> Some True" "qo_operation ?q \<in> {''get'', ''scan'', ''search''}"
    by (simp_all add: sample_plan_def sample_query_def)
  from cursor_pinned [OF c this] show ?thesis by (auto simp: sample_context_def)
qed

end
