(* ===== verification/Pagination.thy ===== *)
theory Pagination
  imports Queries
begin

text \<open>
  Paging through a query: compile a page, let the database answer it, normalize the rows, continue at
  the cursor. When the database answers a page with the rows that its condition selects, in the order of
  its ORDER BY and cut at its LIMIT, following the cursors returns every row exactly once and ends.
\<close>

section \<open>Following the cursors\<close>

definition page_plan :: "query_plan \<Rightarrow> string option \<Rightarrow> query_plan" where
  "page_plan plan c = plan\<lparr>qp_operation := map_option (\<lambda>q. q\<lparr>qo_cursor := c\<rparr>) (qp_operation plan)\<rparr>"

definition fetch_page ::
  "translator \<Rightarrow> query_plan \<Rightarrow> translation_context \<Rightarrow> (compiled_query \<Rightarrow> pyval dict list) \<Rightarrow> string option \<Rightarrow>
   query_result result" where
  "fetch_page T plan ctx db c =
     and_then (compile_query T (page_plan plan c) ctx) (\<lambda>cq. normalize_result T cq (Some (db cq)))"

fun follow ::
  "nat \<Rightarrow> translator \<Rightarrow> query_plan \<Rightarrow> translation_context \<Rightarrow> (compiled_query \<Rightarrow> pyval dict list) \<Rightarrow>
   string option \<Rightarrow> query_result list result option" where
  "follow 0 T plan ctx db c = None"
| "follow (Suc fuel) T plan ctx db c =
     (case fetch_page T plan ctx db c of
        Inl e \<Rightarrow> Some (Inl e)
      | Inr page \<Rightarrow>
          (case qr_cursor page of
             None \<Rightarrow> Some (Inr [page])
           | Some c' \<Rightarrow> map_option (\<lambda>rest. and_then rest (\<lambda>pages. Inr (page # pages)))
                         (follow fuel T plan ctx db (Some c'))))"

definition page_rows :: "query_result \<Rightarrow> pyval dict list" where
  "page_rows r = (case qr_data r of Records rs \<Rightarrow> rs | OneRecord (Some x) \<Rightarrow> [x] | OneRecord None \<Rightarrow> [])"

section \<open>Order\<close>

lemma key_less_irrefl: "\<not> key_less d n x x"
  by (cases x) auto

lemma key_less_asym: "key_less d n x y \<Longrightarrow> \<not> key_less d n y x"
  by (induction d n x y rule: key_less.induct) (auto split: if_splits)

lemma tuple_less_irrefl: "\<not> tuple_less ts xs xs"
proof (induction ts arbitrary: xs)
  case (Cons t ts)
  then show ?case by (cases xs) (simp_all add: key_less_irrefl)
qed simp

lemma tuple_less_asym: "tuple_less ts xs ys \<Longrightarrow> \<not> tuple_less ts ys xs"
  by (induction ts xs ys rule: tuple_less.induct) (auto dest: key_less_asym simp: key_less_irrefl)

lemma filter_after:
  assumes "sorted_wrt lt rows" "k < length rows"
    "\<And>x. \<not> lt x x" "\<And>x y. lt x y \<Longrightarrow> \<not> lt y x"
  shows "filter (lt (rows ! k)) rows = drop (Suc k) rows"
proof -
  have "filter (lt (rows ! k)) (take (Suc k) rows) = []"
  proof -
    have "\<not> lt (rows ! k) (rows ! i)" if "i \<le> k" for i
      using that assms sorted_wrt_nth_less [OF assms(1), of i k] by (cases "i = k") auto
    then show ?thesis using assms(2) by (auto simp: filter_empty_conv in_set_conv_nth)
  qed
  moreover have "filter (lt (rows ! k)) (drop (Suc k) rows) = drop (Suc k) rows"
  proof -
    have "lt (rows ! k) (rows ! i)" if "k < i" "i < length rows" for i
      using sorted_wrt_nth_less [OF assms(1) that] .
    then show ?thesis using assms(2) by (auto simp: filter_id_conv in_set_conv_nth)
  qed
  ultimately show ?thesis
    by (metis append_Nil append_take_drop_id filter_append)
qed

section \<open>The database's part\<close>

text \<open>The sort tuple of a row, and the cursor payload issued for it.\<close>

definition page_tuple :: "order_term list \<Rightarrow> pyval dict \<Rightarrow> pyval list" where
  "page_tuple order r = map (\<lambda>f. dict_get f PNone r) (cursor_fields order)"

definition row_payload ::
  "translator \<Rightarrow> query_operation \<Rightarrow> translation_context \<Rightarrow> order_term list \<Rightarrow> pyval dict \<Rightarrow> cursor_payload" where
  "row_payload T q ctx order r =
     \<lparr>cp_plan = cursor_plan_fingerprint T q, cp_schemas = tc_schemas ctx, cp_registry = tc_registry ctx,
      cp_scope = tc_scope ctx, cp_sort = page_tuple order r, cp_size = qo_size q\<rparr>"

text \<open>
  The rows of the query in the order of its ORDER BY, each with the columns that the select list adds
  for the cursor; \<open>key r t\<close> is the value of an order term on a row, and \<open>val\<close> reads it from its column.
\<close>

definition ordered_rows ::
  "order_term list \<Rightarrow> (pyval \<Rightarrow> ('a :: linorder) option) \<Rightarrow> (pyval dict \<Rightarrow> order_term \<Rightarrow> 'a option) \<Rightarrow>
   pyval dict list \<Rightarrow> bool" where
  "ordered_rows order val key rows \<longleftrightarrow>
     sorted_wrt (\<lambda>r r'. tuple_less order (map (key r) order) (map (key r') order)) rows \<and>
     list_all (\<lambda>r. set (cursor_fields order) \<subseteq> set (keys r) \<and> map val (page_tuple order r) = map (key r) order \<and>
       list_all (\<lambda>v. (val v = None) = (v = PNone)) (page_tuple order r)) rows"

text \<open>The database's answer to a page: the rows that satisfy the keyset condition, up to the LIMIT.\<close>

definition answered ::
  "order_term list \<Rightarrow> (pyval \<Rightarrow> ('a :: linorder) option) \<Rightarrow> (pyval dict \<Rightarrow> order_term \<Rightarrow> 'a option) \<Rightarrow>
   pyval dict list \<Rightarrow> nat \<Rightarrow> pyval list option \<Rightarrow> pyval dict list" where
  "answered order val key rows n after =
     take (Suc n) (case after of
        None \<Rightarrow> rows
      | Some vs \<Rightarrow> filter (\<lambda>r. eval_cond (key r) val (keyset_cond_of order vs) = Some True) rows)"

definition visible_columns :: "order_term list \<Rightarrow> pyval dict \<Rightarrow> pyval dict" where
  "visible_columns order = filter (\<lambda>(k, v). k \<notin> set (cursor_fields order))"

lemma page_tuple_length: "length (page_tuple order r) = length order"
  by (simp add: page_tuple_def cursor_fields_def)

lemma answered_after:
  assumes "ordered_rows order val key rows" "k < length rows"
  shows "answered order val key rows n (Some (page_tuple order (rows ! k))) = take (Suc n) (drop (Suc k) rows)"
proof -
  let ?less = "\<lambda>r r'. tuple_less order (map (key r) order) (map (key r') order)"
  have m: "rows ! k \<in> set rows" using assms(2) by simp
  have r: "map val (page_tuple order (rows ! k)) = map (key (rows ! k)) order"
    "\<And>v. v \<in> set (page_tuple order (rows ! k)) \<Longrightarrow> (val v = None) = (v = PNone)"
    using assms(1) m by (auto simp: ordered_rows_def list_all_iff)
  have "(eval_cond (key x) val (keyset_cond_of order (page_tuple order (rows ! k))) = Some True) = ?less (rows ! k) x" for x
    using keyset_meaning [OF page_tuple_length r(2)] by (simp add: r(1))
  moreover have "filter (?less (rows ! k)) rows = drop (Suc k) rows"
    by (rule filter_after) (use assms in \<open>auto simp: ordered_rows_def tuple_less_irrefl dest: tuple_less_asym\<close>)
  ultimately show ?thesis by (simp add: answered_def)
qed

section \<open>Compiling the pages\<close>

definition plan_order :: "translator \<Rightarrow> query_operation \<Rightarrow> order_term list result" where
  "plan_order T q =
     and_then (targets_of (tr_settings T) q) (\<lambda>env.
     and_then (base_of env q) (\<lambda>(alias, layout). order_of T env q layout))"

lemma cursor_independent [simp]:
  "targets_of s (q\<lparr>qo_cursor := c\<rparr>) = targets_of s q"
  "base_of env (q\<lparr>qo_cursor := c\<rparr>) = base_of env q"
  "source_of T env (q\<lparr>qo_cursor := c\<rparr>) layout alias = source_of T env q layout alias"
  "where_of T env (q\<lparr>qo_cursor := c\<rparr>) alias = where_of T env q alias"
  "order_of T env (q\<lparr>qo_cursor := c\<rparr>) layout = order_of T env q layout"
  "record_projection T env (q\<lparr>qo_cursor := c\<rparr>) layout alias order = record_projection T env q layout alias order"
  "cursor_plan_fingerprint T (q\<lparr>qo_cursor := c\<rparr>) = cursor_plan_fingerprint T q"
  by (simp_all add: targets_of_def base_of_def source_of_def where_of_def order_of_def represented_def
      record_projection_def cursor_plan_fingerprint_def)

text \<open>A paged query: it compiles, reads records, and has this order.\<close>

definition paged ::
  "translator \<Rightarrow> query_plan \<Rightarrow> translation_context \<Rightarrow> query_operation \<Rightarrow> order_term list \<Rightarrow> bool" where
  "paged T plan ctx q order \<longleftrightarrow>
     (case compile_query T plan ctx of Inr _ \<Rightarrow> True | Inl _ \<Rightarrow> False) \<and> qp_operation plan = Some q \<and>
     qp_empty plan \<noteq> Some True \<and> qo_operation q \<in> {''scan'', ''search''} \<and> qo_cursor q = None \<and> 0 < qo_size q \<and>
     plan_order T q = Inr order"

lemma page_compiles:
  assumes "paged T plan ctx q order" "tr_signer T = Some signer"
    "c = None \<or> (\<exists>cur r. c = Some cur \<and> verify signer cur = Inr (row_payload T q ctx order r))"
  shows "\<exists>cq. compile_query T (page_plan plan c) ctx = Inr cq \<and> \<not> cq_empty cq \<and> \<not> cq_single cq \<and>
    cq_page_size cq = qo_size q \<and> cq_cursor_fields cq = cursor_fields order \<and> cq_internal cq = cursor_fields order \<and>
    cq_cursor_context cq = Some \<lparr>cc_plan = cursor_plan_fingerprint T q, cc_schemas = tc_schemas ctx,
      cc_registry = tc_registry ctx, cc_scope = tc_scope ctx\<rparr>"
proof -
  note P = assms(1) [unfolded paged_def]
  from P obtain cq0 where "compile_query T plan ctx = Inr cq0" by (auto split: sum.splits)
  with P have q: "qo_consistency q \<in> set (qc_consistency QUERY_CAPABILITIES)" "\<not> qo_point_in_time q" "\<not> qo_total q"
    "absent_or (qp_binding plan) (tc_binding ctx)" "absent_or (qp_registry plan) (tc_registry ctx)"
    and "compile_select T q ctx = Inr cq0"
    by (auto simp: compile_query_def and_then_success ensure_success split: if_splits)
  then obtain env al layout source base sel where
    s: "targets_of (tr_settings T) q = Inr env" "base_of env q = Inr (al, layout)"
      "source_of T env q layout al = Inr source" "where_of T env q al = Inr base"
    and r: "record_projection T env q layout al order = Inr sel" "order_of T env q layout = Inr order"
    using P by (auto simp: compile_select_def finish_select_def plan_order_def and_then_success split: if_splits)
  have "\<exists>condition. record_condition T (q\<lparr>qo_cursor := c\<rparr>) ctx order base = Inr condition"
  proof (cases c)
    case (Some cur)
    with assms(3) obtain r where v: "verify signer cur = Inr (row_payload T q ctx order r)" by auto
    have "length (page_tuple order r) = length order" by (rule page_tuple_length)
    then show ?thesis
      using Some v assms(2)
      by (simp add: record_condition_def keyset_of_def row_payload_def dict_eq_maps)
  qed (simp add: record_condition_def)
  then obtain condition where k: "record_condition T (q\<lparr>qo_cursor := c\<rparr>) ctx order base = Inr condition" by blast
  show ?thesis
    using P q s r k
    by (auto simp: compile_query_def page_plan_def compile_select_def finish_select_def compiled_of_def)
qed

section \<open>Every row once\<close>

text \<open>Where a page starts: at the beginning, or after the row before it.\<close>

definition position ::
  "translator \<Rightarrow> query_operation \<Rightarrow> translation_context \<Rightarrow> order_term list \<Rightarrow> cursor_signer \<Rightarrow> pyval dict list \<Rightarrow>
   nat \<Rightarrow> string option" where
  "position T q ctx order signer rows k =
     (if k = 0 then None else Some (issue signer (row_payload T q ctx order (rows ! (k - 1)))))"

text \<open>The signer verifies what it issued, and the database answers each page as its condition says.\<close>

definition cursors_verify ::
  "translator \<Rightarrow> query_operation \<Rightarrow> translation_context \<Rightarrow> order_term list \<Rightarrow> cursor_signer \<Rightarrow> pyval dict list \<Rightarrow> bool" where
  "cursors_verify T q ctx order signer rows \<longleftrightarrow>
     list_all (\<lambda>r. let p = row_payload T q ctx order r in verify signer (issue signer p) = Inr p) rows"

definition pages_answered ::
  "translator \<Rightarrow> query_plan \<Rightarrow> query_operation \<Rightarrow> translation_context \<Rightarrow> order_term list \<Rightarrow> cursor_signer \<Rightarrow>
   (pyval \<Rightarrow> ('a :: linorder) option) \<Rightarrow> (pyval dict \<Rightarrow> order_term \<Rightarrow> 'a option) \<Rightarrow> (compiled_query \<Rightarrow> pyval dict list) \<Rightarrow>
   pyval dict list \<Rightarrow> bool" where
  "pages_answered T plan q ctx order signer val key db rows \<longleftrightarrow>
     list_all (\<lambda>k.
       case compile_query T (page_plan plan (position T q ctx order signer rows k)) ctx of
         Inr cq \<Rightarrow> db cq = answered order val key rows (qo_size q)
                    (if k = 0 then None else Some (page_tuple order (rows ! (k - 1))))
       | Inl _ \<Rightarrow> True) [0..<Suc (length rows)]"

lemma one_page:
  assumes "paged T plan ctx q order" "tr_signer T = Some signer" "ordered_rows order val key rows"
    "cursors_verify T q ctx order signer rows" "pages_answered T plan q ctx order signer val key db rows"
    "k \<le> length rows"
  shows "\<exists>page. fetch_page T plan ctx db (position T q ctx order signer rows k) = Inr page \<and>
    page_rows page = map (visible_columns order) (take (qo_size q) (drop k rows)) \<and>
    qr_cursor page = (if k + qo_size q < length rows then position T q ctx order signer rows (k + qo_size q) else None)"
proof -
  let ?c = "position T q ctx order signer rows k" and ?n = "qo_size q"
  have n: "0 < ?n" using assms(1) by (simp add: paged_def)
  have v: "?c = None \<or> (\<exists>cur r. ?c = Some cur \<and> verify signer cur = Inr (row_payload T q ctx order r))"
    using assms(4,6) by (cases k) (auto simp: position_def cursors_verify_def list_all_iff Let_def)
  from page_compiles [OF assms(1,2) v] obtain cq where
    cq: "compile_query T (page_plan plan ?c) ctx = Inr cq" "\<not> cq_empty cq" "\<not> cq_single cq"
      "cq_page_size cq = ?n" "cq_cursor_fields cq = cursor_fields order" "cq_internal cq = cursor_fields order"
      "cq_cursor_context cq = Some \<lparr>cc_plan = cursor_plan_fingerprint T q, cc_schemas = tc_schemas ctx,
        cc_registry = tc_registry ctx, cc_scope = tc_scope ctx\<rparr>" by blast
  have db: "db cq = take (Suc ?n) (drop k rows)"
  proof -
    have "k \<in> set [0..<Suc (length rows)]" using assms(6) by auto
    from bspec [OF assms(5) [unfolded pages_answered_def list_all_iff] this]
    have "db cq = answered order val key rows ?n (if k = 0 then None else Some (page_tuple order (rows ! (k - 1))))"
      by (simp only: cq(1) sum.case)
    also have "\<dots> = take (Suc ?n) (drop k rows)"
      using answered_after [OF assms(3), of "k - 1" ?n] assms(6)
      by (cases k) (simp_all add: answered_def)
    finally show ?thesis .
  qed
  let ?rows = "take ?n (drop k rows)"
  have more: "length (db cq) > ?n \<longleftrightarrow> k + ?n < length rows" using db by auto
  have fields: "order \<noteq> []" if "k + ?n < length rows"
  proof
    assume "order = []"
    moreover have "tuple_less order (map (key (rows ! 0)) order) (map (key (rows ! 1)) order)"
    proof -
      have "sorted_wrt (\<lambda>r r'. tuple_less order (map (key r) order) (map (key r') order)) rows"
        using assms(3) by (simp add: ordered_rows_def)
      from sorted_wrt_nth_less [OF this, of 0 1] show ?thesis using that n by simp
    qed
    ultimately show False by simp
  qed
  have "next_cursor T cq ?rows (length (db cq) > ?n) =
    Inr (if k + ?n < length rows then position T q ctx order signer rows (k + ?n) else None)"
  proof (cases "k + ?n < length rows")
    case True
    have l: "last ?rows = rows ! (k + ?n - 1)" "?rows \<noteq> []"
      using True n by (auto simp: last_conv_nth)
    have "rows ! (k + ?n - 1) \<in> set rows" using True n by auto
    then have sub: "set (cursor_fields order) \<subseteq> set (keys (last ?rows))"
      using assms(3) l by (auto simp: ordered_rows_def list_all_iff)
    have "dict_item f (last ?rows) = Inr (dict_get f PNone (last ?rows))" if "f \<in> set (cursor_fields order)" for f
      using that sub map_of_keys [of "last ?rows" f] by (auto simp: dict_item_def dict_get_def split: option.splits)
    then have "traverse (\<lambda>f. dict_item f (last ?rows)) (cursor_fields order) = Inr (page_tuple order (last ?rows))"
      unfolding page_tuple_def by (rule traverse_Inr_map)
    then show ?thesis
      using True cq n l more assms(2) fields [OF True]
      by (simp add: next_cursor_def position_def row_payload_def cursor_fields_def)
  next
    case False
    then show ?thesis using more by (simp add: next_cursor_def)
  qed
  moreover have "map (filter (\<lambda>(k, v). k \<notin> set (cursor_fields order))) ?rows = map (visible_columns order) ?rows"
    by (simp add: visible_columns_def)
  moreover have "take ?n (db cq) = ?rows" by (simp add: db min_def)
  ultimately show ?thesis
    using cq by (simp add: fetch_page_def normalize_result_def Let_def page_rows_def)
qed

lemma follow_from:
  assumes "paged T plan ctx q order" "tr_signer T = Some signer" "ordered_rows order val key rows"
    "cursors_verify T q ctx order signer rows" "pages_answered T plan q ctx order signer val key db rows"
  shows "k \<le> length rows \<Longrightarrow> length rows - k < fuel \<Longrightarrow>
    \<exists>pages. follow fuel T plan ctx db (position T q ctx order signer rows k) = Some (Inr pages) \<and>
      concat (map page_rows pages) = map (visible_columns order) (drop k rows) \<and>
      (\<forall>p \<in> set pages. length (page_rows p) \<le> qo_size q)"
proof (induction fuel arbitrary: k)
  case (Suc fuel)
  let ?n = "qo_size q"
  have n: "0 < ?n" using assms(1) by (simp add: paged_def)
  from one_page [OF assms Suc.prems(1)] obtain page where
    p: "fetch_page T plan ctx db (position T q ctx order signer rows k) = Inr page"
      "page_rows page = map (visible_columns order) (take ?n (drop k rows))"
      "qr_cursor page = (if k + ?n < length rows then position T q ctx order signer rows (k + ?n) else None)" by blast
  show ?case
  proof (cases "k + ?n < length rows")
    case False
    then have "take ?n (drop k rows) = drop k rows" by simp
    with False p show ?thesis by auto
  next
    case True
    with n Suc.prems have "k + ?n \<le> length rows" "length rows - (k + ?n) < fuel" by linarith+
    from Suc.IH [OF this] obtain pages where
      r: "follow fuel T plan ctx db (position T q ctx order signer rows (k + ?n)) = Some (Inr pages)"
        "concat (map page_rows pages) = map (visible_columns order) (drop (k + ?n) rows)"
        "\<forall>p \<in> set pages. length (page_rows p) \<le> ?n" by blast
    obtain cur where c: "position T q ctx order signer rows (k + ?n) = Some cur"
      using n by (auto simp: position_def)
    have "concat (map page_rows (page # pages)) = map (visible_columns order) (take ?n (drop k rows) @ drop ?n (drop k rows))"
      using p(2) r(2) by (simp only: list.map concat.simps drop_drop map_append add.commute)
    then have "concat (map page_rows (page # pages)) = map (visible_columns order) (drop k rows)"
      by (simp only: append_take_drop_id)
    moreover have "follow (Suc fuel) T plan ctx db (position T q ctx order signer rows k) = Some (Inr (page # pages))"
      using p(1,3) True r(1) c by simp
    moreover have "\<forall>p \<in> set (page # pages). length (page_rows p) \<le> ?n" using p(2) r(3) by simp
    ultimately show ?thesis by blast
  qed
qed simp


section \<open>Examples\<close>

definition people_order :: "order_term list" where
  "people_order = [\<lparr>ot_sql = bound (ident [''t0'', ''id'']) [], ot_direction = Asc, ot_nulls = NullsLast\<rparr>]"

definition person :: "int \<Rightarrow> pyval dict" where
  "person n = [(''id'', PInt n), (''__cursor_0'', PInt n)]"

definition people :: "pyval dict list" where
  "people = map person [1, 2, 3, 4, 5]"

definition person_key :: "pyval dict \<Rightarrow> order_term \<Rightarrow> int option" where
  "person_key r t = sample_value (dict_get ''id'' PNone r)"

text \<open>A database of these rows: the query for a first page has four parameters, for a later one five.\<close>

definition people_db :: "compiled_query \<Rightarrow> pyval dict list" where
  "people_db cq =
     answered people_order sample_value person_key people 2
       (if length (cq_order cq) = 4 then None else Some [dict_get ''p3'' PNone (cq_parameters cq)])"

lemma people_paged:
  "paged sample_translator (sample_plan sample_query) sample_context sample_query people_order"
  "ordered_rows people_order sample_value person_key people"
  "cursors_verify sample_translator sample_query sample_context people_order sample_signer people"
  by code_simp+

lemma people_answered:
  "pages_answered sample_translator (sample_plan sample_query) sample_query sample_context people_order
     sample_signer sample_value person_key people_db people"
  by code_simp


section \<open>A bound that is not kept\<close>

text \<open>
  A traversal asks for one row more than the smaller of the page size and the budget's returned paths, but
  its result is cut at the page size only: when the budget is the smaller one, the result has one row more
  than the budget allows.
\<close>

definition wide_walk :: query_operation where
  "wide_walk = sample_walk\<lparr>qo_budget := (qo_budget sample_walk)\<lparr>qb_paths := 1\<rparr>\<rparr>"

definition walk_rows :: "pyval dict list" where
  "walk_rows = [[(''collectionRef'', PStr ''a'')], [(''collectionRef'', PStr ''b'')]]"

lemma traversal_exceeds_budget:
  "case compile_query sample_translator (sample_plan wide_walk) sample_context of
     Inl _ \<Rightarrow> False
   | Inr cq \<Rightarrow>
       map_of (cq_parameters cq) (last (cq_order cq)) = Some (PInt (int (length walk_rows))) \<and>
       (case normalize_result sample_translator cq (Some walk_rows) of
          Inl _ \<Rightarrow> False
        | Inr r \<Rightarrow> length (page_rows r) > qb_paths (qo_budget wide_walk))"
  by code_simp

end
