(* ===== verification/Dml.thy ===== *)
theory Dml
  imports Queries
begin

text \<open>
  The compiler of structured mutations in \<open>query/dml.py\<close> (\<open>DMLCompiler\<close>): get, put, patch, delete,
  append and the atomic claim, to one bound statement each (a batch of appends to several).

  A parameter is a driver value: the values of a filter are passed as the filter compiler
  left them (markers included), the values of a field are adapted here. \<open>parse_filter\<close> and the parsing of a record reference
  belong to the SPI package: \<open>dml_env\<close> holds them.
\<close>

record op_context =
  ctx_tenant :: "string option"
  ctx_scope :: "string dict"

record dml_env =
  de_settings :: pg_settings
  de_texts :: texts
  de_parse_filter :: "pyval \<Rightarrow> pyval option result"
  de_reference :: "pyval \<Rightarrow> string result"

record dml_command =
  dc_statement :: "driver_value bound_statement"
  dc_method :: string
  dc_layout :: resource_layout
  dc_single :: bool
  dc_conditional :: bool

datatype adapter_dml = OneCommand dml_command | AppendBatch "dml_command list"

section \<open>Parts\<close>

definition lift_params :: "pyval bound_statement \<Rightarrow> driver_value bound_statement" where
  "lift_params s = bound (command s) (map Plain (params s))"

definition scope_values :: "pg_settings \<Rightarrow> op_context \<Rightarrow> string list result" where
  "scope_values s ctx =
     (case ctx_tenant ctx of
        None \<Rightarrow> Inl ValueError
      | Some tenant \<Rightarrow>
          if set (scope_keys s) = set (keys (ctx_scope ctx))
          then and_then (traverse (\<lambda>k. dict_item k (ctx_scope ctx)) (scope_keys s)) (\<lambda>vs. Inr (tenant # vs))
          else Inl ValueError)"

definition table_of :: "pg_settings \<Rightarrow> resource_layout \<Rightarrow> sql" where
  "table_of s layout = ident [physical_schema s, l_table layout]"

definition key_columns :: "pg_settings \<Rightarrow> resource_layout \<Rightarrow> string list result" where
  "key_columns s layout =
     and_then (traverse (\<lambda>n. dict_item n (field_map layout)) (l_identity layout)) (\<lambda>fs.
       Inr (scope_columns s @ map f_column fs))"

definition returning :: "resource_layout \<Rightarrow> string \<Rightarrow> sql" where
  "returning layout alias = join_sql [Raw '', ''] (record_columns layout alias)"

text \<open>An object argument: its keys are strings, any other key is an unknown field.\<close>

definition object_arg :: "pyval \<Rightarrow> pyval dict result" where
  "object_arg v =
     (case v of
        PMap d \<Rightarrow> (case str_keys d of Some d' \<Rightarrow> Inr d' | None \<Rightarrow> Inl ValueError)
      | _ \<Rightarrow> Inl TypeError)"

definition field_value ::
  "texts \<Rightarrow> field_layout \<Rightarrow> pyval \<Rightarrow> driver_value bound_statement result" where
  "field_value T f v =
     (if v = PNone then (if f_nullable f then Inr (bound [Hole] [Plain PNone]) else Inl ValueError)
      else if json_field f then and_then (adapt_driver_value T f v) (\<lambda>x. Inr (bound [Hole] [x]))
      else if f_type f = LWgs84Point then
        and_then (wgs84_coordinates T v) (\<lambda>(x, y).
          Inr (bound [Raw ''ST_SetSRID(ST_MakePoint('', Hole, Raw '', '', Hole, Raw ''), 4326)::geography'']
                 [Plain (PFloat x), Plain (PFloat y)]))
      else if f_type f = LBytes then and_then (adapt_driver_value T f v) (\<lambda>x. Inr (bound [Hole] [x]))
      else Inr (bound [Hole] [Plain v]))"

definition named_value ::
  "dml_env \<Rightarrow> resource_layout \<Rightarrow> string \<times> pyval \<Rightarrow> (field_layout \<times> driver_value bound_statement) result" where
  "named_value E layout nv =
     and_then (dict_item (fst nv) (field_map layout)) (\<lambda>f.
     and_then (field_value (de_texts E) f (snd nv)) (\<lambda>s. Inr (f, s)))"

text \<open>The scope and identity of a row, and a filter over it.\<close>

definition scope_condition :: "pg_settings \<Rightarrow> string \<Rightarrow> string list \<Rightarrow> driver_value bound_statement" where
  "scope_condition s alias vs =
     bound (join_sql [Raw '' AND ''] (map (\<lambda>c. ident [alias, c] @ [Raw '' = '', Hole]) (scope_columns s)))
       (map (\<lambda>v. Plain (PStr v)) vs)"

definition row_condition ::
  "dml_env \<Rightarrow> resource_layout \<Rightarrow> pyval \<Rightarrow> op_context \<Rightarrow> string \<Rightarrow> driver_value bound_statement result" where
  "row_condition E layout filter_value ctx alias =
     and_then (scope_values (de_settings E) ctx) (\<lambda>vs.
     and_then (de_parse_filter E filter_value) (\<lambda>expression.
     let scope = scope_condition (de_settings E) alias vs in
     case expression of
       None \<Rightarrow> Inr scope
     | Some e \<Rightarrow>
         and_then (compile (de_texts E) [(r_canonical (l_ref layout), alias, layout)] e) (\<lambda>s.
           Inr (conjunction [scope, lift_params s]))))"

definition check_endpoint :: "dml_env \<Rightarrow> pyval dict \<Rightarrow> string \<Rightarrow> string list \<Rightarrow> unit result" where
  "check_endpoint E values n allowed =
     (case map_of values n of
        None \<Rightarrow> Inr ()
      | Some v \<Rightarrow>
          if is_mapping v
          then and_then (de_reference E v) (\<lambda>c. ensure (c \<in> set allowed) ValueError)
          else Inl TypeError)"

definition validate_relation_values :: "dml_env \<Rightarrow> resource_layout \<Rightarrow> pyval dict \<Rightarrow> unit result" where
  "validate_relation_values E layout values =
     (case l_relation layout of
        None \<Rightarrow> Inr ()
      | Some r \<Rightarrow>
          and_then (check_endpoint E values (source_field r) (source_collections r)) (\<lambda>_.
          check_endpoint E values (target_field r) (target_collections r)))"

definition set_list :: "(field_layout \<times> driver_value bound_statement) list \<Rightarrow> driver_value bound_statement" where
  "set_list fvs =
     bound (join_sql [Raw '', ''] (map (\<lambda>(f, s). [Ident (f_column f), Raw '' = ''] @ command s) fvs))
       (concat (map (params \<circ> snd) fvs))"

definition assignments :: "dml_env \<Rightarrow> resource_layout \<Rightarrow> pyval dict \<Rightarrow> driver_value bound_statement result" where
  "assignments E layout changes =
     and_then (ensure (changes \<noteq> []) ValueError) (\<lambda>_.
     and_then (ensure (list_all (\<lambda>n. case field_of layout n of
           None \<Rightarrow> False
         | Some f \<Rightarrow> n \<notin> set (l_identity layout) \<and> f_mutable f) (keys changes)) ValueError) (\<lambda>_.
     and_then (validate_relation_values E layout changes) (\<lambda>_.
     and_then (traverse (named_value E layout) changes) (\<lambda>fvs. Inr (set_list fvs)))))"

text \<open>The supplied fields of a new row: known ones, with every field that cannot be null.\<close>

definition complete_row :: "resource_layout \<Rightarrow> pyval dict \<Rightarrow> bool" where
  "complete_row layout values \<longleftrightarrow>
     set (keys values) \<subseteq> set (keys (field_map layout)) \<and>
     list_all (\<lambda>f. f_nullable f \<or> f_name f \<in> set (keys values)) (l_fields layout)"

section \<open>Statements\<close>

definition version_step :: sql where
  "version_step = [Raw '', __record_version = t.__record_version + 1, __updated_at = clock_timestamp()'']"

definition version_guard :: "pyval \<Rightarrow> driver_value bound_statement" where
  "version_guard expected =
     (if expected = PNone then bound [] []
      else bound [Raw '' AND t.__record_version = '', Hole] [Plain expected])"

definition insert_statement ::
  "pg_settings \<Rightarrow> resource_layout \<Rightarrow> string list \<Rightarrow> (field_layout \<times> driver_value bound_statement) list \<Rightarrow> sql \<Rightarrow>
   driver_value bound_statement" where
  "insert_statement s layout vs fvs conflict =
     bound ([Raw ''INSERT INTO ''] @ table_of s layout @ [Raw '' AS t (''] @
            join_sql [Raw '', ''] (map (\<lambda>c. [Ident c]) (scope_columns s @ map (\<lambda>(f, _). f_column f) fvs)) @
            [Raw '') VALUES (''] @
            join_sql [Raw '', ''] (map (\<lambda>_. [Hole]) vs @ map (\<lambda>(_, v). command v) fvs) @
            [Raw '')''] @ conflict @ [Raw '' RETURNING ''] @ returning layout ''t'')
       (map (\<lambda>v. Plain (PStr v)) vs @ concat (map (\<lambda>(_, v). params v) fvs))"

definition update_statement ::
  "pg_settings \<Rightarrow> resource_layout \<Rightarrow> driver_value bound_statement \<Rightarrow> sql \<Rightarrow> driver_value bound_statement \<Rightarrow>
   driver_value bound_statement \<Rightarrow> driver_value bound_statement" where
  "update_statement s layout sets step condition guard =
     bound ([Raw ''UPDATE ''] @ table_of s layout @ [Raw '' AS t SET ''] @ command sets @ step @
            [Raw '' WHERE ''] @ command condition @ command guard @ [Raw '' RETURNING ''] @ returning layout ''t'')
       (params sets @ params condition @ params guard)"

definition delete_statement ::
  "pg_settings \<Rightarrow> resource_layout \<Rightarrow> driver_value bound_statement \<Rightarrow> driver_value bound_statement \<Rightarrow>
   driver_value bound_statement" where
  "delete_statement s layout condition guard =
     bound ([Raw ''DELETE FROM ''] @ table_of s layout @ [Raw '' AS t WHERE ''] @ command condition @ command guard @
            [Raw '' RETURNING ''] @ returning layout ''t'')
       (params condition @ params guard)"

definition get_statement ::
  "pg_settings \<Rightarrow> resource_layout \<Rightarrow> driver_value bound_statement \<Rightarrow> driver_value bound_statement" where
  "get_statement s layout condition =
     bound ([Raw ''SELECT ''] @ returning layout ''t'' @ [Raw '' FROM ''] @ table_of s layout @ [Raw '' AS t WHERE ''] @
            command condition @ [Raw '' LIMIT 2''])
       (params condition)"

definition mutable_fields :: "resource_layout \<Rightarrow> field_layout list" where
  "mutable_fields layout = filter (\<lambda>f. f_mutable f \<and> f_name f \<notin> set (l_identity layout)) (l_fields layout)"

definition unchanged_step :: sql where
  "unchanged_step = [Raw ''__updated_at = t.__updated_at'']"

definition conflict_clause :: "resource_layout \<Rightarrow> string list \<Rightarrow> sql" where
  "conflict_clause layout cols =
     [Raw '' ON CONFLICT (''] @ join_sql [Raw '', ''] (map (\<lambda>c. [Ident c]) cols) @ [Raw '') DO UPDATE SET ''] @
     (if mutable_fields layout = [] then unchanged_step
      else join_sql [Raw '', ''] (map (\<lambda>f. [Ident (f_column f), Raw '' = EXCLUDED.'', Ident (f_column f)])
             (mutable_fields layout)) @ version_step)"

section \<open>Operations\<close>

definition command_of :: "string \<Rightarrow> resource_layout \<Rightarrow> bool \<Rightarrow> bool \<Rightarrow> driver_value bound_statement \<Rightarrow> dml_command" where
  "command_of m layout single conditional s =
     \<lparr>dc_statement = s, dc_method = m, dc_layout = layout, dc_single = single, dc_conditional = conditional\<rparr>"

definition object_of :: "pyval dict \<Rightarrow> pyval" where
  "object_of d = PMap (map (\<lambda>(k, v). (PStr k, v)) d)"

definition dml_append :: "dml_env \<Rightarrow> resource_layout \<Rightarrow> pyval \<Rightarrow> op_context \<Rightarrow> dml_command result" where
  "dml_append E layout row ctx =
     and_then (object_arg row) (\<lambda>values.
     and_then (ensure (complete_row layout values) ValueError) (\<lambda>_.
     and_then (scope_values (de_settings E) ctx) (\<lambda>vs.
     and_then (traverse (named_value E layout) values) (\<lambda>fvs.
       Inr (command_of ''append'' layout True False (insert_statement (de_settings E) layout vs fvs []))))))"

definition conditional_put ::
  "dml_env \<Rightarrow> resource_layout \<Rightarrow> pyval dict \<Rightarrow> pyval \<Rightarrow> op_context \<Rightarrow> dml_command result" where
  "conditional_put E layout values expected ctx =
     (let present = filter (\<lambda>n. n \<in> set (keys values)) (l_identity layout);
          identity = map (\<lambda>n. (n, dict_get n PNone values)) present in
      and_then (ensure (length identity = length (l_identity layout)) ValueError) (\<lambda>_.
      and_then (assignments E layout (filter (\<lambda>(n, _). n \<notin> set (l_identity layout)) values)) (\<lambda>sets.
      and_then (row_condition E layout (object_of identity) ctx ''t'') (\<lambda>condition.
        Inr (command_of ''put'' layout True True
          (update_statement (de_settings E) layout sets version_step condition (version_guard expected)))))))"

definition update_put ::
  "dml_env \<Rightarrow> resource_layout \<Rightarrow> pyval dict \<Rightarrow> op_context \<Rightarrow> dml_command result" where
  "update_put E layout values ctx =
     and_then (traverse (\<lambda>f. and_then (field_value (de_texts E) f (dict_get (f_name f) PNone values)) (\<lambda>s. Inr (f, s)))
         (mutable_fields layout)) (\<lambda>fvs.
     and_then (traverse (\<lambda>n. and_then (dict_item n values) (\<lambda>v. Inr (n, v))) (l_identity layout)) (\<lambda>identity.
     and_then (row_condition E layout (object_of identity) ctx ''t'') (\<lambda>condition.
       Inr (command_of ''put'' layout True True
         (if mutable_fields layout = []
          then update_statement (de_settings E) layout (bound unchanged_step []) [] condition (version_guard PNone)
          else update_statement (de_settings E) layout (set_list fvs) version_step condition (version_guard PNone))))))"

definition version_value :: "pyval \<Rightarrow> bool" where
  "version_value v \<longleftrightarrow> (case v of PNone \<Rightarrow> True | PStr _ \<Rightarrow> True | PInt _ \<Rightarrow> True | _ \<Rightarrow> False)"

definition dml_put :: "dml_env \<Rightarrow> resource_layout \<Rightarrow> pyval dict \<Rightarrow> op_context \<Rightarrow> dml_command result" where
  "dml_put E layout input ctx =
     (let expected = dict_get ''expectedVersion'' PNone input in
      case dict_get ''mode'' PNone input of
        PStr mode \<Rightarrow>
          and_then (ensure (mode \<in> {''if_absent'', ''update'', ''upsert''}) ValueError) (\<lambda>_.
          and_then (ensure (\<not> (mode = ''if_absent'' \<and> expected \<noteq> PNone)) ValueError) (\<lambda>_.
          and_then (ensure (version_value expected) TypeError) (\<lambda>_.
          and_then (object_arg (dict_get ''data'' PNone input)) (\<lambda>values.
          and_then (ensure (complete_row layout values) ValueError) (\<lambda>_.
          and_then (validate_relation_values E layout values) (\<lambda>_.
          and_then (scope_values (de_settings E) ctx) (\<lambda>vs.
          and_then (traverse (named_value E layout) values) (\<lambda>fvs.
            if expected \<noteq> PNone then conditional_put E layout values expected ctx
            else and_then (key_columns (de_settings E) layout) (\<lambda>cols.
              if mode = ''update'' then update_put E layout values ctx
              else Inr (command_of ''put'' layout True False
                (insert_statement (de_settings E) layout vs fvs
                  (if mode = ''upsert'' then conflict_clause layout cols else []))))))))))))
      | _ \<Rightarrow> Inl ValueError)"

definition dml_get :: "dml_env \<Rightarrow> resource_layout \<Rightarrow> pyval dict \<Rightarrow> op_context \<Rightarrow> dml_command result" where
  "dml_get E layout input ctx =
     (let w = dict_get ''where'' PNone input in
      and_then (ensure (is_mapping w) TypeError) (\<lambda>_.
      and_then (row_condition E layout w ctx ''t'') (\<lambda>condition.
        Inr (command_of ''get'' layout True False (get_statement (de_settings E) layout condition)))))"

definition dml_patch :: "dml_env \<Rightarrow> resource_layout \<Rightarrow> pyval dict \<Rightarrow> op_context \<Rightarrow> dml_command result" where
  "dml_patch E layout input ctx =
     (let w = dict_get ''where'' PNone input; changes = dict_get ''changes'' PNone input;
          expected = dict_get ''expectedVersion'' PNone input in
      and_then (ensure (is_mapping w \<and> is_mapping changes) TypeError) (\<lambda>_.
      and_then (object_arg changes) (\<lambda>changes.
      and_then (assignments E layout changes) (\<lambda>sets.
      and_then (row_condition E layout w ctx ''t'') (\<lambda>condition.
        Inr (command_of ''patch'' layout False (expected \<noteq> PNone)
          (update_statement (de_settings E) layout sets version_step condition (version_guard expected))))))))"

definition dml_delete :: "dml_env \<Rightarrow> resource_layout \<Rightarrow> pyval dict \<Rightarrow> op_context \<Rightarrow> dml_command result" where
  "dml_delete E layout input ctx =
     (let w = dict_get ''where'' PNone input; expected = dict_get ''expectedVersion'' PNone input in
      and_then (ensure (is_mapping w) TypeError) (\<lambda>_.
      and_then (row_condition E layout w ctx ''t'') (\<lambda>condition.
        Inr (command_of ''delete'' layout False (expected \<noteq> PNone)
          (delete_statement (de_settings E) layout condition (version_guard expected))))))"

definition appended :: "pyval dict \<Rightarrow> pyval" where
  "appended input = dict_get ''data'' (dict_get ''event'' PNone input) input"

definition dml_append_all ::
  "dml_env \<Rightarrow> resource_layout \<Rightarrow> pyval dict \<Rightarrow> op_context \<Rightarrow> adapter_dml result" where
  "dml_append_all E layout input ctx =
     (case appended input of
        PSeq rows \<Rightarrow>
          and_then (ensure (1 \<le> length rows \<and> length rows \<le> 10000) ValueError) (\<lambda>_.
          and_then (traverse (\<lambda>row. dml_append E layout row ctx) rows) (\<lambda>cs. Inr (AppendBatch cs)))
      | row \<Rightarrow> and_then (dml_append E layout row ctx) (\<lambda>c. Inr (OneCommand c)))"

definition dml_compile ::
  "dml_env \<Rightarrow> string \<Rightarrow> resource_ref \<Rightarrow> pyval dict \<Rightarrow> op_context \<Rightarrow> adapter_dml result" where
  "dml_compile E m ref input ctx =
     and_then (if m = ''get'' then Inr () else require_writable (de_settings E)) (\<lambda>_.
     and_then (layout_for (de_settings E) ref) (\<lambda>layout.
     let one = (\<lambda>r. and_then r (\<lambda>c. Inr (OneCommand c))) in
       if m = ''put'' then one (dml_put E layout input ctx)
       else if m = ''get'' then one (dml_get E layout input ctx)
       else if m = ''patch'' then one (dml_patch E layout input ctx)
       else if m = ''delete'' then one (dml_delete E layout input ctx)
       else if m = ''append'' then dml_append_all E layout input ctx
       else Inl ValueError))"

text \<open>The bounded claim over any Resource, with \<open>FOR UPDATE SKIP LOCKED\<close>.\<close>

definition claim_statement ::
  "pg_settings \<Rightarrow> resource_layout \<Rightarrow> string list \<Rightarrow> int \<Rightarrow> driver_value bound_statement \<Rightarrow>
   driver_value bound_statement \<Rightarrow> driver_value bound_statement" where
  "claim_statement s layout cols limit condition sets =
     (let names = join_sql [Raw '', ''] (map (\<lambda>c. [Ident c]) cols) in
      bound ([Raw ''WITH candidates AS (SELECT ''] @ names @ [Raw '' FROM ''] @ table_of s layout @
             [Raw '' AS c WHERE ''] @ command condition @ [Raw '' ORDER BY ''] @ names @
             [Raw '' FOR UPDATE SKIP LOCKED LIMIT '', Hole, Raw '') UPDATE ''] @ table_of s layout @
             [Raw '' AS t SET ''] @ command sets @ version_step @ [Raw '' FROM candidates AS c WHERE ''] @
             join_sql [Raw '' AND ''] (map (\<lambda>c. [Raw ''t.'', Ident c, Raw '' = c.'', Ident c]) cols) @
             [Raw '' RETURNING ''] @ returning layout ''t'')
        (params condition @ [Plain (PInt limit)] @ params sets))"

definition dml_atomic_claim ::
  "dml_env \<Rightarrow> resource_ref \<Rightarrow> pyval \<Rightarrow> pyval \<Rightarrow> pyval \<Rightarrow> op_context \<Rightarrow> dml_command result" where
  "dml_atomic_claim E ref w changes limit ctx =
     and_then (require_writable (de_settings E)) (\<lambda>_.
     and_then (case limit of PInt n \<Rightarrow> ensure (1 \<le> n \<and> n \<le> 500) ValueError | PBool _ \<Rightarrow> Inl ValueError | _ \<Rightarrow> Inl TypeError) (\<lambda>_.
     and_then (layout_for (de_settings E) ref) (\<lambda>layout.
     and_then (row_condition E layout w ctx ''c'') (\<lambda>condition.
     and_then (object_arg changes) (\<lambda>changes.
     and_then (assignments E layout changes) (\<lambda>sets.
     and_then (key_columns (de_settings E) layout) (\<lambda>cols.
       Inr (command_of ''atomicClaim'' layout False False
         (claim_statement (de_settings E) layout cols (case limit of PInt n \<Rightarrow> n | _ \<Rightarrow> 0) condition sets)))))))))"

end
