(* ===== verification/Registry.thy ===== *)
theory Registry
  imports SqlText Settings
begin

text \<open>
  The durable Schema registry of \<open>schema_registry.py\<close>: one checksummed row per tenant and scope, that
  holds a revision and the published Schemas. Publication and deprecation lock the row, so their
  transactions are serial; each is a function on the table.

  The Schema model of the core package is a parameter (\<open>schema_lib\<close>): parsing and printing of
  references, documents and publications, validation, compatibility, version order, fingerprints.
\<close>

section \<open>The core package\<close>

record schema_ref =
  sr_catalog :: string
  sr_namespace :: string
  sr_name :: string
  sr_version :: "string option"

record schema_doc =
  doc_ref :: schema_ref
  doc_definition :: pyval
  doc_fingerprint :: string

datatype schema_status = PUBLISHED | DEPRECATED

record published =
  pub_doc :: schema_doc
  pub_status :: schema_status
  pub_at :: string
  pub_deprecated :: "string option"

record registry_snapshot =
  rs_revision :: int
  rs_fingerprint :: string
  rs_schemas :: "published list"

record compat_report =
  rep_breaking :: bool
  rep_detail :: nat

record schema_lib =
  version_rank :: "string \<Rightarrow> nat list"
  validate_schema :: "schema_doc \<Rightarrow> unit result"
  classify_compatibility :: "schema_doc \<Rightarrow> schema_doc \<Rightarrow> compat_report"
  sha256_fingerprint :: "pyval \<Rightarrow> string"
  published_dict :: "published \<Rightarrow> pyval"
  ref_dict :: "schema_ref \<Rightarrow> pyval"
  parse_exact :: "pyval \<Rightarrow> schema_ref result"
  exact_ref :: "schema_ref \<Rightarrow> schema_ref result"
  doc_from_definition :: "schema_ref \<Rightarrow> pyval \<Rightarrow> schema_doc result"
  timestamp_aware :: "pyval \<Rightarrow> bool result"
  status_of :: "pyval \<Rightarrow> schema_status result"

definition pub_ref :: "published \<Rightarrow> schema_ref" where
  "pub_ref p = doc_ref (pub_doc p)"

definition rank_of :: "schema_lib \<Rightarrow> schema_ref \<Rightarrow> nat list" where
  "rank_of lib r = (case sr_version r of Some v \<Rightarrow> version_rank lib v | None \<Rightarrow> [])"

section \<open>Snapshots and their payload\<close>

definition schema_order :: "schema_lib \<Rightarrow> published \<Rightarrow> string \<times> string \<times> string \<times> nat list" where
  "schema_order lib p =
     (sr_catalog (pub_ref p), sr_namespace (pub_ref p), sr_name (pub_ref p), rank_of lib (pub_ref p))"

definition snapshot_of :: "schema_lib \<Rightarrow> int \<Rightarrow> published list \<Rightarrow> registry_snapshot" where
  "snapshot_of lib n schemas =
     (let ordered = sort_key (schema_order lib) schemas
      in \<lparr>rs_revision = n,
          rs_fingerprint = sha256_fingerprint lib
            (PMap [(PStr ''revision'', PInt n), (PStr ''schemas'', PSeq (map (published_dict lib) ordered)),
                   (PStr ''resources'', PSeq [])]),
          rs_schemas = ordered\<rparr>)"

text \<open>\<open>RegistrySnapshot.to_dict\<close> with the references added.\<close>

definition payload_of :: "schema_lib \<Rightarrow> registry_snapshot \<Rightarrow> pyval dict" where
  "payload_of lib s =
     [(''revision'', PInt (rs_revision s)), (''fingerprint'', PStr (rs_fingerprint s)),
      (''schemas'', PSeq (map (published_dict lib) (rs_schemas s))), (''resources'', PSeq []),
      (''references'', PSeq (map (\<lambda>p. ref_dict lib (pub_ref p)) (rs_schemas s)))]"

definition json_map :: "pyval dict \<Rightarrow> pyval" where
  "json_map d = PMap (map (\<lambda>(k, v). (PStr k, v)) d)"

definition same_schema :: "schema_ref \<Rightarrow> schema_ref \<Rightarrow> bool" where
  "same_schema a b \<longleftrightarrow> (sr_catalog a, sr_namespace a, sr_name a) = (sr_catalog b, sr_namespace b, sr_name b)"

section \<open>The table\<close>

record registry_row =
  row_revision :: int
  row_fingerprint :: string
  row_payload :: pyval

type_synonym registry_key = "string \<times> (string \<times> string) list"

record registry_db =
  registry_rows :: "registry_key \<rightharpoonup> registry_row"

definition store_registry :: "registry_key \<Rightarrow> registry_row \<Rightarrow> registry_db \<Rightarrow> registry_db" where
  "store_registry k r db = db\<lparr>registry_rows := (registry_rows db)(k \<mapsto> r)\<rparr>"

interpretation registry_tab: keyed_table registry_rows store_registry
  by unfold_locales (simp add: store_registry_def)

record repository =
  repo_namespace :: string
  repo_key :: registry_key
  repo_catalogs :: "string list"
  repo_timeout :: int

text \<open>
  \<open>__init__\<close>. The scope is compared as \<open>jsonb\<close>, whose objects are unordered: the key of the row
  is the sorted list of its entries.
\<close>

definition supported_catalogs :: "string list" where
  "supported_catalogs = [''structured'']"

definition new_repository ::
  "string \<Rightarrow> string option \<Rightarrow> (pyval \<times> pyval) list \<Rightarrow> string list option \<Rightarrow> pyval \<Rightarrow> repository result" where
  "new_repository namespace tenant scope catalogs timeout =
     and_then (ensure (is_identifier namespace) ValueError) (\<lambda>_.
     case catalogs of
       None \<Rightarrow> Inl ValueError
     | Some cs \<Rightarrow>
       and_then (ensure (cs \<noteq> [] \<and> distinct cs \<and> set cs \<subseteq> set supported_catalogs) ValueError) (\<lambda>_.
       and_then (ensure (tenant \<noteq> None \<and> tenant \<noteq> Some []) ValueError) (\<lambda>_.
       and_then (traverse (\<lambda>(k, v). case (k, v) of
            (PStr a, PStr b) \<Rightarrow> if a = [] \<or> b = [] then Inl ValueError else Inr (a, b)
          | _ \<Rightarrow> Inl ValueError) scope) (\<lambda>entries.
       case timeout of
         PInt ms \<Rightarrow>
           if ms < 1 then Inl ValueError
           else Inr \<lparr>repo_namespace = namespace,
                     repo_key = (case tenant of Some t \<Rightarrow> t | None \<Rightarrow> [], sort_key fst entries),
                     repo_catalogs = cs, repo_timeout = ms\<rparr>
       | _ \<Rightarrow> Inl ValueError))))"

definition check_catalog :: "repository \<Rightarrow> schema_ref \<Rightarrow> unit result" where
  "check_catalog repo r = ensure (sr_catalog r \<in> set (repo_catalogs repo)) ValueError"

definition statement_timeout :: "repository \<Rightarrow> real option \<Rightarrow> int result" where
  "statement_timeout repo remaining =
     (case remaining of
        None \<Rightarrow> Inr (repo_timeout repo)
      | Some s \<Rightarrow>
          if s \<le> 0 then Inl deadline_error
          else Inr (max 1 (min (repo_timeout repo) \<lfloor>s * 1000\<rfloor>)))"

section \<open>Storage verification\<close>

definition registry_table :: string where "registry_table = ''__meridian_schema_registry''"
definition migration_table :: string where "migration_table = ''__meridian_schema_registry_migration''"
definition registry_format :: string where "registry_format = ''meridian.postgresql.schema-registry.v1''"

definition storage_statements :: "string \<Rightarrow> 'p bound_statement list result" where
  "storage_statements namespace =
     and_then (ensure (is_identifier namespace) ValueError) (\<lambda>_. Inr
       [bound [Raw ''CREATE SCHEMA IF NOT EXISTS '', Ident namespace] [],
        bound ([Raw ''CREATE TABLE IF NOT EXISTS ''] @ ident [namespace, migration_table] @
               [Raw ('' (singleton boolean PRIMARY KEY CHECK (singleton), '' @
                     ''format text NOT NULL, fingerprint text NOT NULL)'')]) [],
        bound ([Raw ''CREATE TABLE IF NOT EXISTS ''] @ ident [namespace, registry_table] @
               [Raw ('' (tenant text NOT NULL, scope jsonb NOT NULL, '' @
                     ''revision bigint NOT NULL CHECK (revision >= 0), fingerprint text NOT NULL, '' @
                     ''payload jsonb NOT NULL, PRIMARY KEY (tenant, scope))'')]) []])"

text \<open>\<open>sql_text\<close> is how the driver prints a command.\<close>

definition migration_fingerprint :: "schema_lib \<Rightarrow> (sql \<Rightarrow> string) \<Rightarrow> string \<Rightarrow> string result" where
  "migration_fingerprint lib sql_text namespace =
     and_then (storage_statements namespace :: unit bound_statement list result) (\<lambda>ss.
       Inr (sha256_fingerprint lib
         (PMap [(PStr ''format'', PStr registry_format),
                (PStr ''statements'', PSeq (map (\<lambda>s. PStr (sql_text (command s))) ss))])))"

definition schema_registry_migration_statements ::
  "schema_lib \<Rightarrow> (sql \<Rightarrow> string) \<Rightarrow> string \<Rightarrow> 'p bound_statement list result" where
  "schema_registry_migration_statements lib sql_text namespace =
     and_then (storage_statements namespace) (\<lambda>ss.
     and_then (migration_fingerprint lib sql_text namespace) (\<lambda>fp.
       Inr (ss @ [bound ([Raw ''INSERT INTO ''] @ ident [namespace, migration_table] @
              [Raw '' (singleton, format, fingerprint) VALUES (true, '', Literal (PStr registry_format),
               Raw '', '', Literal (PStr fp), Raw '') ON CONFLICT (singleton) DO NOTHING'']) []])))"

text \<open>
  The catalog of the database as the verification reads it: for each table its columns (name, type,
  NOT NULL) and the definitions of its primary keys, when it exists, and the row of the marker table.
\<close>

record table_view =
  tv_columns :: "(string \<times> string \<times> bool) list"
  tv_primary :: "string list"

record registry_catalog =
  rc_tables :: "string \<rightharpoonup> table_view"
  rc_marker :: "(string \<times> string) option"

definition registry_shapes :: "(string \<times> (string \<times> string) list \<times> string) list" where
  "registry_shapes =
     [(migration_table, [(''singleton'', ''boolean''), (''format'', ''text''), (''fingerprint'', ''text'')],
       ''PRIMARY KEY (singleton)''),
      (registry_table, [(''tenant'', ''text''), (''scope'', ''jsonb''), (''revision'', ''bigint''),
        (''fingerprint'', ''text''), (''payload'', ''jsonb'')], ''PRIMARY KEY (tenant, scope)'')]"

abbreviation incompatible_storage :: py_error where
  "incompatible_storage \<equiv> MeridianError CompatibilityError PHYSICAL_FINGERPRINT"

definition verify_schema_repository ::
  "schema_lib \<Rightarrow> (sql \<Rightarrow> string) \<Rightarrow> string \<Rightarrow> registry_catalog \<Rightarrow> string result" where
  "verify_schema_repository lib sql_text namespace cat =
     (let table = (\<lambda>t. rc_tables cat (namespace @ ''.'' @ t)) in
      and_then (ensure (is_identifier namespace) ValueError) (\<lambda>_.
      and_then (ensure (table migration_table \<noteq> None \<and> table registry_table \<noteq> None)
                 incompatible_storage) (\<lambda>_.
      and_then (migration_fingerprint lib sql_text namespace) (\<lambda>expected.
      and_then (ensure (rc_marker cat = Some (registry_format, expected)) incompatible_storage) (\<lambda>_.
      and_then (traverse (\<lambda>(t, columns, primary).
          case table t of
            None \<Rightarrow> Inl incompatible_storage
          | Some v \<Rightarrow>
              and_then (ensure (tv_columns v = map (\<lambda>(n, k). (n, k, True)) columns)
                         incompatible_storage) (\<lambda>_.
                ensure (tv_primary v = [primary]) incompatible_storage)) registry_shapes) (\<lambda>_.
        Inr expected))))))"

text \<open>
  What the DDL of the migration does to the catalog: \<open>IF NOT EXISTS\<close> and \<open>ON CONFLICT DO NOTHING\<close>
  leave what is there.
\<close>

definition shape_view :: "string \<times> (string \<times> string) list \<times> string \<Rightarrow> table_view" where
  "shape_view s = (case s of (_, columns, primary) \<Rightarrow>
     \<lparr>tv_columns = map (\<lambda>(n, k). (n, k, True)) columns, tv_primary = [primary]\<rparr>)"

definition run_migration_ddl :: "string \<Rightarrow> string \<Rightarrow> registry_catalog \<Rightarrow> registry_catalog" where
  "run_migration_ddl namespace fp cat =
     (let add = (\<lambda>s tables. let k = namespace @ ''.'' @ fst s in
                  if tables k = None then tables(k \<mapsto> shape_view s) else tables)
      in cat\<lparr>rc_tables := fold add registry_shapes (rc_tables cat),
             rc_marker := (case rc_marker cat of None \<Rightarrow> Some (registry_format, fp) | Some m \<Rightarrow> Some m)\<rparr>)"

record migration_evidence =
  ev_plan :: string
  ev_observed :: string
  ev_applied :: bool

definition migrate_schema_repository ::
  "schema_lib \<Rightarrow> (sql \<Rightarrow> string) \<Rightarrow> string \<Rightarrow> registry_catalog \<Rightarrow>
   migration_evidence result \<times> registry_catalog" where
  "migrate_schema_repository lib sql_text namespace cat =
     (if \<not> is_identifier namespace then (Inl ValueError, cat)
      else if rc_tables cat (namespace @ ''.'' @ migration_table) \<noteq> None
      then (and_then (verify_schema_repository lib sql_text namespace cat) (\<lambda>fp.
              Inr \<lparr>ev_plan = fp, ev_observed = fp, ev_applied = False\<rparr>), cat)
      else case migration_fingerprint lib sql_text namespace of
        Inl e \<Rightarrow> (Inl e, cat)
      | Inr fp \<Rightarrow>
          (let cat' = run_migration_ddl namespace fp cat in
           case verify_schema_repository lib sql_text namespace cat' of
             Inl e \<Rightarrow> (Inl e, cat)
           | Inr fp \<Rightarrow> (Inr \<lparr>ev_plan = fp, ev_observed = fp, ev_applied = True\<rparr>, cat')))"

section \<open>Reading and writing the row\<close>

fun caught :: "py_error \<Rightarrow> bool" where
  "caught KeyError = True" | "caught TypeError = True" | "caught ValueError = True"
| "caught AttributeError = True" | "caught (MeridianError _ _) = True" | "caught _ = False"

fun json_get :: "string \<Rightarrow> pyval \<Rightarrow> pyval result" where
  "json_get k (PMap d) = (case map_of d (PStr k) of Some v \<Rightarrow> Inr v | None \<Rightarrow> Inl KeyError)"
| "json_get k _ = Inl TypeError"

fun json_list :: "pyval \<Rightarrow> pyval list result" where
  "json_list (PSeq xs) = Inr xs" | "json_list _ = Inl TypeError"

fun text_or_none :: "pyval \<Rightarrow> string option result" where
  "text_or_none PNone = Inr None" | "text_or_none (PStr s) = Inr (Some s)"
| "text_or_none _ = Inl TypeError"

definition check_timestamp :: "schema_lib \<Rightarrow> pyval \<Rightarrow> unit result" where
  "check_timestamp lib t =
     (if t = PNone then Inr ()
      else and_then (timestamp_aware lib t) (\<lambda>aware. ensure aware ValueError))"

text \<open>The body of the loop of \<open>_read\<close>: one publication with its address.\<close>

definition read_entry :: "schema_lib \<Rightarrow> repository \<Rightarrow> pyval \<times> pyval \<Rightarrow> published result" where
  "read_entry lib repo ea =
     (case ea of (entry, address) \<Rightarrow>
        and_then (json_get ''schema'' entry) (\<lambda>document.
        and_then (parse_exact lib address) (\<lambda>reference.
        and_then (doc_from_definition lib reference document) (\<lambda>parsed.
        and_then (check_catalog repo (doc_ref parsed)) (\<lambda>_.
        and_then (validate_schema lib parsed) (\<lambda>_.
        and_then (json_get ''status'' entry) (\<lambda>raw.
        and_then (status_of lib raw) (\<lambda>status.
        and_then (json_get ''publishedAt'' entry) (\<lambda>made.
        and_then (json_get ''deprecatedAt'' entry) (\<lambda>gone.
        and_then (check_timestamp lib made) (\<lambda>_.
        and_then (check_timestamp lib gone) (\<lambda>_.
        and_then (text_or_none made) (\<lambda>made.
        and_then (text_or_none gone) (\<lambda>gone.
        and_then (ensure (made \<noteq> None \<and> made \<noteq> Some [] \<and>
                          (status = DEPRECATED) = (gone \<noteq> None)) ValueError) (\<lambda>_.
          (let publication = \<lparr>pub_doc = parsed, pub_status = status,
                              pub_at = (case made of Some t \<Rightarrow> t | None \<Rightarrow> []), pub_deprecated = gone\<rparr>
           in and_then (ensure (py_eq (published_dict lib publication) entry \<and>
                                py_eq (ref_dict lib reference) address) ValueError) (\<lambda>_.
                Inr publication)))))))))))))))))"

fun payload_keys :: "pyval \<Rightarrow> string list option" where
  "payload_keys (PMap d) = map_option keys (str_keys d)"
| "payload_keys _ = None"

definition parse_row :: "schema_lib \<Rightarrow> repository \<Rightarrow> registry_row \<Rightarrow> registry_snapshot result" where
  "parse_row lib repo row =
     (let payload = row_payload row in
      and_then (ensure (row_revision row \<ge> 0 \<and> is_mapping payload) ValueError) (\<lambda>_.
      and_then (ensure (map_option set (payload_keys payload) =
          Some {''revision'', ''fingerprint'', ''schemas'', ''resources'', ''references''}) ValueError) (\<lambda>_.
      and_then (and_then (json_get ''schemas'' payload) json_list) (\<lambda>entries.
      and_then (and_then (json_get ''references'' payload) json_list) (\<lambda>addresses.
      and_then (traverse (read_entry lib repo) (zip entries addresses)) (\<lambda>publications.
      and_then (ensure (length entries = length addresses) ValueError) (\<lambda>_.
      (let snapshot = snapshot_of lib (row_revision row) publications in
       and_then (ensure (distinct (map pub_ref publications) \<and>
                         py_eq (json_map (payload_of lib snapshot)) payload \<and>
                         sha256_fingerprint lib payload = row_fingerprint row) ValueError) (\<lambda>_.
         Inr snapshot)))))))))"

definition read_row :: "schema_lib \<Rightarrow> repository \<Rightarrow> registry_row option \<Rightarrow> registry_snapshot result" where
  "read_row lib repo row =
     (case row of
        None \<Rightarrow> Inr (snapshot_of lib 0 [])
      | Some r \<Rightarrow>
          (case parse_row lib repo r of
             Inl e \<Rightarrow> Inl (if caught e then incompatible_storage else e)
           | Inr s \<Rightarrow> Inr s))"

definition row_of :: "schema_lib \<Rightarrow> registry_snapshot \<Rightarrow> registry_row" where
  "row_of lib s =
     \<lparr>row_revision = rs_revision s, row_fingerprint = sha256_fingerprint lib (json_map (payload_of lib s)),
      row_payload = json_map (payload_of lib s)\<rparr>"

definition insert_empty :: "schema_lib \<Rightarrow> repository \<Rightarrow> registry_db \<Rightarrow> registry_db" where
  "insert_empty lib repo db =
     (case registry_rows db (repo_key repo) of
        None \<Rightarrow> store_registry (repo_key repo) (row_of lib (snapshot_of lib 0 [])) db
      | Some _ \<Rightarrow> db)"

definition read_registry ::
  "schema_lib \<Rightarrow> repository \<Rightarrow> bool \<Rightarrow> registry_db \<Rightarrow> registry_snapshot result \<times> registry_db" where
  "read_registry lib repo locking db =
     (let db = (if locking then insert_empty lib repo db else db)
      in (read_row lib repo (registry_rows db (repo_key repo)), db))"

definition write_registry :: "schema_lib \<Rightarrow> repository \<Rightarrow> registry_snapshot \<Rightarrow> registry_db \<Rightarrow> registry_db" where
  "write_registry lib repo s db =
     (case registry_rows db (repo_key repo) of
        None \<Rightarrow> db
      | Some _ \<Rightarrow> store_registry (repo_key repo) (row_of lib s) db)"

fun revision_check :: "pyval \<Rightarrow> int \<Rightarrow> unit result" where
  "revision_check PNone observed = Inr ()"
| "revision_check (PInt n) observed =
     (if n < 0 then Inl ValueError
      else if n \<noteq> observed then Inl RegistryRevisionConflict else Inr ())"
| "revision_check _ observed = Inl ValueError"

section \<open>Publication\<close>

record publish_result =
  pr_schema :: published
  pr_existing :: bool
  pr_revision :: int
  pr_report :: "compat_report option"

text \<open>The decision on the locked snapshot: the result, and the snapshot to write if there is one.\<close>

definition publish_on ::
  "schema_lib \<Rightarrow> schema_doc \<Rightarrow> pyval \<Rightarrow> bool \<Rightarrow> string \<Rightarrow> registry_snapshot \<Rightarrow>
   (publish_result \<times> registry_snapshot option) result" where
  "publish_on lib doc expected allow now before =
     and_then (revision_check expected (rs_revision before)) (\<lambda>_.
     (let versions = filter (\<lambda>p. same_schema (pub_ref p) (doc_ref doc)) (rs_schemas before);
          publication = \<lparr>pub_doc = doc, pub_status = PUBLISHED, pub_at = now, pub_deprecated = None\<rparr>;
          after = snapshot_of lib (rs_revision before + 1) (rs_schemas before @ [publication])
      in case find (\<lambda>p. pub_ref p = doc_ref doc) versions of
           Some existing \<Rightarrow>
             if doc_fingerprint (pub_doc existing) = doc_fingerprint doc
             then Inr (\<lparr>pr_schema = existing, pr_existing = True, pr_revision = rs_revision before,
                        pr_report = None\<rparr>, None)
             else Inl SchemaVersionConflict
         | None \<Rightarrow>
             if versions = []
             then Inr (\<lparr>pr_schema = publication, pr_existing = False, pr_revision = rs_revision after,
                        pr_report = None\<rparr>, Some after)
             else (let previous = last versions;
                       report = classify_compatibility lib (pub_doc previous) doc
                   in if rank_of lib (doc_ref doc) \<le> rank_of lib (pub_ref previous)
                      then Inl SchemaVersionConflict
                      else if rep_breaking report \<and> \<not> allow then Inl IncompatibleSchema
                      else Inr (\<lparr>pr_schema = publication, pr_existing = False,
                                 pr_revision = rs_revision after, pr_report = Some report\<rparr>, Some after))))"

definition deprecate_on ::
  "schema_lib \<Rightarrow> schema_ref \<Rightarrow> pyval \<Rightarrow> string \<Rightarrow> registry_snapshot \<Rightarrow>
   (published \<times> registry_snapshot option) result" where
  "deprecate_on lib reference expected now before =
     and_then (revision_check expected (rs_revision before)) (\<lambda>_.
       case find (\<lambda>p. pub_ref p = reference) (rs_schemas before) of
         None \<Rightarrow> Inl ResourceNotFound
       | Some item \<Rightarrow>
           if pub_status item = DEPRECATED then Inr (item, None)
           else (let result = item\<lparr>pub_status := DEPRECATED, pub_deprecated := Some now\<rparr>
                 in Inr (result, Some (snapshot_of lib (rs_revision before + 1)
                      (map (\<lambda>old. if pub_ref old = reference then result else old) (rs_schemas before))))))"

text \<open>
  A transaction on the locked row: read, decide, write. \<open>opened\<close> is the outcome of opening the
  connection (deadline, statement timeout, storage verification); an exception rolls everything back.
\<close>

definition open_repository ::
  "schema_lib \<Rightarrow> (sql \<Rightarrow> string) \<Rightarrow> repository \<Rightarrow> real option \<Rightarrow> registry_catalog \<Rightarrow> unit result" where
  "open_repository lib sql_text repo remaining cat =
     and_then (statement_timeout repo remaining) (\<lambda>_.
     and_then (verify_schema_repository lib sql_text (repo_namespace repo) cat) (\<lambda>_. Inr ()))"

definition locked_update ::
  "schema_lib \<Rightarrow> repository \<Rightarrow> (registry_snapshot \<Rightarrow> ('r \<times> registry_snapshot option) result) \<Rightarrow>
   registry_db \<Rightarrow> 'r result \<times> registry_db" where
  "locked_update lib repo decide db =
     (case read_registry lib repo True db of
        (Inl e, _) \<Rightarrow> (Inl e, db)
      | (Inr before, db1) \<Rightarrow>
          (case decide before of
             Inl e \<Rightarrow> (Inl e, db)
           | Inr (r, None) \<Rightarrow> (Inr r, db1)
           | Inr (r, Some after) \<Rightarrow> (Inr r, write_registry lib repo after db1)))"

fun flag_of :: "pyval \<Rightarrow> bool result" where
  "flag_of (PBool b) = Inr b" | "flag_of _ = Inl ValueError"

definition publish_schema ::
  "schema_lib \<Rightarrow> repository \<Rightarrow> unit result \<Rightarrow> schema_doc \<Rightarrow> pyval \<Rightarrow> pyval \<Rightarrow> string \<Rightarrow> registry_db \<Rightarrow>
   publish_result result \<times> registry_db" where
  "publish_schema lib repo opened doc expected allow now db =
     (case and_then (check_catalog repo (doc_ref doc)) (\<lambda>_.
           and_then (validate_schema lib doc) (\<lambda>_.
           and_then (flag_of allow) (\<lambda>allow. and_then opened (\<lambda>_. Inr allow)))) of
        Inl e \<Rightarrow> (Inl e, db)
      | Inr allow \<Rightarrow> locked_update lib repo (publish_on lib doc expected allow now) db)"

definition deprecate_schema ::
  "schema_lib \<Rightarrow> repository \<Rightarrow> unit result \<Rightarrow> schema_ref \<Rightarrow> pyval \<Rightarrow> string \<Rightarrow> registry_db \<Rightarrow>
   published result \<times> registry_db" where
  "deprecate_schema lib repo opened reference expected now db =
     (case and_then (exact_ref lib reference) (\<lambda>r.
           and_then (check_catalog repo r) (\<lambda>_. and_then opened (\<lambda>_. Inr r))) of
        Inl e \<Rightarrow> (Inl e, db)
      | Inr r \<Rightarrow> locked_update lib repo (deprecate_on lib r expected now) db)"

section \<open>Reads\<close>

definition snapshot ::
  "schema_lib \<Rightarrow> repository \<Rightarrow> unit result \<Rightarrow> registry_db \<Rightarrow> registry_snapshot result" where
  "snapshot lib repo opened db = and_then opened (\<lambda>_. fst (read_registry lib repo False db))"

definition list_schema_versions ::
  "schema_lib \<Rightarrow> repository \<Rightarrow> unit result \<Rightarrow> schema_ref \<Rightarrow> bool \<Rightarrow> registry_db \<Rightarrow> published list result" where
  "list_schema_versions lib repo opened reference include_deprecated db =
     and_then (check_catalog repo reference) (\<lambda>_.
     and_then (snapshot lib repo opened db) (\<lambda>s.
       Inr (filter (\<lambda>p. same_schema (pub_ref p) reference \<and>
              (include_deprecated \<or> pub_status p = PUBLISHED)) (rs_schemas s))))"

definition get_schema ::
  "schema_lib \<Rightarrow> repository \<Rightarrow> unit result \<Rightarrow> schema_ref \<Rightarrow> bool \<Rightarrow> registry_db \<Rightarrow> published result" where
  "get_schema lib repo opened reference include_deprecated db =
     and_then (list_schema_versions lib repo opened reference include_deprecated db) (\<lambda>candidates.
       case find (\<lambda>p. sr_version reference = None \<or> sr_version (pub_ref p) = sr_version reference)
              (rev candidates) of
         Some p \<Rightarrow> Inr p
       | None \<Rightarrow> Inl ResourceNotFound)"

end
