(* ===== verification/Operation.thy ===== *)
theory Operation
  imports Dml Registry
begin

text \<open>
  The dispatch of \<open>_operation.py\<close> (\<open>OperationCompiler\<close>): an admitted operation of the Meridian core to a
  mutation, a compiled query or a Schema publication.

  \<open>query_lib\<close> holds what the code calls in the query and semantics packages: the parsing of a carried
  plan, the constructors of the abstract syntax with their own validation, the Resources of a query, the
  fingerprint and the default values of a query operation.
\<close>

record core_operation =
  op_catalog :: string
  op_contract :: string
  op_version :: string
  op_read_only :: bool
  op_idempotent :: bool
  op_resources :: "resource_ref list"
  op_input :: "pyval dict"
  op_fingerprint :: string

record exec_request =
  rq_binding :: string
  rq_registry :: string
  rq_operation :: core_operation
  rq_context :: op_context
  rq_principal :: pyval
  rq_idempotency :: pyval
  rq_remaining :: "rat option"

record query_lib =
  ql_defaults :: query_operation
  ql_traversal :: traversal
  ql_valid :: "query_operation \<Rightarrow> query_operation result"
  ql_from_mapping :: "pyval \<Rightarrow> query_operation result"
  ql_resources :: "query_operation \<Rightarrow> resource_ref list"
  ql_field :: "string \<Rightarrow> pyval"
  ql_full_text :: "string \<Rightarrow> string list \<Rightarrow> pyval"
  ql_and :: "pyval \<Rightarrow> pyval \<Rightarrow> pyval"
  ql_aggregate :: "string \<Rightarrow> pyval option \<Rightarrow> bool \<Rightarrow> pyval"
  ql_page :: "int \<Rightarrow> pyval \<Rightarrow> (nat \<times> string option) result"
  ql_sort :: "pyval \<Rightarrow> pyval \<Rightarrow> (direction \<times> nulls) result"
  ql_reference :: "pyval \<Rightarrow> (string \<times> pyval) result"
  ql_sha256 :: "pyval \<Rightarrow> string"
  ql_document :: "string \<Rightarrow> string \<Rightarrow> string \<Rightarrow> (pyval \<times> pyval) list \<Rightarrow> schema_doc result"

datatype adapter_command =
    Mutation adapter_dml
  | RunQuery compiled_query
  | Publish schema_doc pyval bool

record compiler =
  cm_dml :: dml_env
  cm_translator :: translator
  cm_lib :: query_lib

abbreviation cm_settings :: "compiler \<Rightarrow> pg_settings" where
  "cm_settings C \<equiv> de_settings (cm_dml C)"

section \<open>Query operations from arguments\<close>

text \<open>\<open>_deadline_ms\<close>: the remaining time in milliseconds, at least one and at most the fallback.\<close>

definition deadline_ms :: "rat option \<Rightarrow> int \<Rightarrow> int" where
  "deadline_ms left fallback = (case left of None \<Rightarrow> fallback | Some r \<Rightarrow> max 1 (min fallback \<lfloor>r * 1000\<rfloor>))"

definition scope_fingerprint :: "query_lib \<Rightarrow> op_context \<Rightarrow> string" where
  "scope_fingerprint L ctx =
     ql_sha256 L (PMap
       [(PStr ''tenant'', case ctx_tenant ctx of Some t \<Rightarrow> PStr t | None \<Rightarrow> PNone),
        (PStr ''scope'', PMap (map (\<lambda>(k, v). (PStr k, PStr v)) (sort_key fst (ctx_scope ctx))))])"

definition int_arg :: "string \<Rightarrow> int \<Rightarrow> pyval dict \<Rightarrow> int result" where
  "int_arg k fallback values =
     (case dict_get k (PInt fallback) values of PInt n \<Rightarrow> Inr n | _ \<Rightarrow> Inl TypeError)"

text \<open>An array argument: a sequence, but not text.\<close>

definition array_arg :: "string \<Rightarrow> pyval dict \<Rightarrow> pyval list result" where
  "array_arg k values = (case dict_get k (PSeq []) values of PSeq xs \<Rightarrow> Inr xs | _ \<Rightarrow> Inl TypeError)"

fun string_item :: "pyval \<Rightarrow> string result" where
  "string_item (PStr s) = Inr s"
| "string_item _ = Inl TypeError"

definition only_keys :: "string list \<Rightarrow> (pyval \<times> pyval) list \<Rightarrow> bool" where
  "only_keys ks d \<longleftrightarrow> list_all (\<lambda>k. k \<in> set (map PStr ks)) (keys d)"

definition sort_item :: "query_lib \<Rightarrow> resource_layout \<Rightarrow> pyval \<Rightarrow> order_item result" where
  "sort_item L layout v =
     (case v of
        PMap d \<Rightarrow>
          and_then (ensure (only_keys [''field'', ''direction'', ''nulls''] d) ValueError) (\<lambda>_.
          (case optional ''field'' d of
             PStr n \<Rightarrow>
               and_then (ensure (field_of layout n \<noteq> None) ValueError) (\<lambda>_.
               and_then (ql_sort L (dict_get (PStr ''direction'') (PStr ''asc'') d) (dict_get (PStr ''nulls'') (PStr ''last'') d)) (\<lambda>(dir, nl).
               Inr \<lparr>oi_expression = ql_field L n, oi_direction = dir, oi_nulls = nl\<rparr>))
           | _ \<Rightarrow> Inl ValueError))
      | _ \<Rightarrow> Inl ValueError)"

definition structured_query ::
  "query_lib \<Rightarrow> pyval dict \<Rightarrow> resource_ref \<Rightarrow> pyval option \<Rightarrow> query_budget \<Rightarrow> resource_layout \<Rightarrow>
   query_operation result" where
  "structured_query L values target predicate budget layout =
     and_then (array_arg ''select'' values) (\<lambda>select.
     and_then (array_arg ''orderBy'' values) (\<lambda>order_by.
     and_then (int_arg ''limit'' 50 values) (\<lambda>limit.
     and_then (traverse string_item select) (\<lambda>names.
     and_then (traverse (sort_item L layout) order_by) (\<lambda>sorts.
     and_then (ql_page L limit (dict_get ''cursor'' PNone values)) (\<lambda>(size, cursor).
     ql_valid L ((ql_defaults L)\<lparr>qo_operation := ''scan'', qo_targets := [target], qo_shape := ''records'',
       qo_projection := map (\<lambda>n. \<lparr>pj_expression = ql_field L n, pj_alias = Some n\<rparr>) names,
       qo_filter := predicate, qo_order := sorts, qo_size := size, qo_cursor := cursor, qo_budget := budget\<rparr>)))))))"

definition full_text_fields :: "resource_layout \<Rightarrow> string list" where
  "full_text_fields layout = concat (map (\<lambda>i. if i_kind i = FullText then i_fields i else []) (l_indexes layout))"

definition search_terms :: "string list \<Rightarrow> pyval \<Rightarrow> (pyval \<times> pyval list) result" where
  "search_terms available q =
     (case q of
        PMap d \<Rightarrow>
          (case dict_get (PStr ''fields'') (PSeq (map PStr available)) d of
             PSeq xs \<Rightarrow> Inr (optional ''text'' d, xs)
           | _ \<Rightarrow> Inl TypeError)
      | t \<Rightarrow> Inr (t, map PStr available))"

definition hashable :: "pyval \<Rightarrow> bool" where
  "hashable v \<longleftrightarrow> (case v of PSeq _ \<Rightarrow> False | PMap _ \<Rightarrow> False | _ \<Rightarrow> True)"

definition search_fields :: "string list \<Rightarrow> pyval list \<Rightarrow> string list result" where
  "search_fields available xs =
     and_then (ensure (xs \<noteq> []) ValueError) (\<lambda>_.
     and_then (ensure (list_all hashable xs) TypeError) (\<lambda>_.
     and_then (ensure (distinct xs \<and> list_all (\<lambda>x. x \<in> set (map PStr available)) xs) ValueError) (\<lambda>_.
     traverse string_item xs)))"

definition structured_search ::
  "query_lib \<Rightarrow> pyval dict \<Rightarrow> resource_ref \<Rightarrow> pyval option \<Rightarrow> query_budget \<Rightarrow> resource_layout \<Rightarrow>
   query_operation result" where
  "structured_search L values target predicate budget layout =
     (let available = full_text_fields layout in
      and_then (ensure (\<not> truthy (dict_get ''facets'' PNone values) \<and> \<not> truthy (dict_get ''highlights'' PNone values)) ValueError) (\<lambda>_.
      and_then (ensure (available \<noteq> []) ValueError) (\<lambda>_.
      and_then (search_terms available (dict_get ''query'' PNone values)) (\<lambda>(text, selected).
      and_then (string_item text) (\<lambda>text.
      and_then (search_fields available selected) (\<lambda>fs.
      and_then (int_arg ''limit'' 50 values) (\<lambda>limit.
      and_then (ql_page L limit (dict_get ''cursor'' PNone values)) (\<lambda>(size, cursor).
      let match = ql_full_text L text fs in
      ql_valid L ((ql_defaults L)\<lparr>qo_operation := ''search'', qo_targets := [target], qo_shape := ''search'',
        qo_filter := Some (case predicate of None \<Rightarrow> match | Some p \<Rightarrow> ql_and L p match),
        qo_size := size, qo_cursor := cursor, qo_budget := budget\<rparr>)))))))))"

definition metric_of :: "query_lib \<Rightarrow> pyval \<Rightarrow> (string \<times> pyval) result" where
  "metric_of L v =
     (case v of
        PMap d \<Rightarrow>
          and_then (ensure (only_keys [''name'', ''function'', ''field'', ''distinct''] d) ValueError) (\<lambda>_.
          and_then (string_item (optional ''name'' d)) (\<lambda>name.
          and_then (string_item (optional ''function'' d)) (\<lambda>fn.
          and_then (case dict_get (PStr ''distinct'') (PBool False) d of PBool b \<Rightarrow> Inr b | _ \<Rightarrow> Inl TypeError) (\<lambda>distinct_rows.
          and_then (case optional ''field'' d of PNone \<Rightarrow> Inr None
                    | f \<Rightarrow> and_then (string_item f) (\<lambda>n. Inr (Some (ql_field L n)))) (\<lambda>operand.
          Inr (name, ql_aggregate L fn operand distinct_rows))))))
      | _ \<Rightarrow> Inl ValueError)"

definition structured_aggregate ::
  "query_lib \<Rightarrow> pyval dict \<Rightarrow> resource_ref \<Rightarrow> pyval option \<Rightarrow> query_budget \<Rightarrow> query_operation result" where
  "structured_aggregate L values target predicate budget =
     and_then (array_arg ''groupBy'' values) (\<lambda>grouping.
     and_then (array_arg ''metrics'' values) (\<lambda>metrics.
     and_then (traverse string_item grouping) (\<lambda>names.
     and_then (traverse (metric_of L) metrics) (\<lambda>aggregates.
     ql_valid L ((ql_defaults L)\<lparr>qo_operation := ''aggregate'', qo_targets := [target], qo_shape := ''aggregate'',
       qo_filter := predicate, qo_grouping := map (ql_field L) names, qo_aggregates := aggregates,
       qo_budget := budget\<rparr>)))))"

definition structured_traverse ::
  "query_lib \<Rightarrow> resource_ref list \<Rightarrow> pyval dict \<Rightarrow> resource_ref \<Rightarrow> query_budget \<Rightarrow>
   query_operation result" where
  "structured_traverse L relations values target budget =
     and_then (ensure (is_mapping (dict_get ''start'' PNone values)) TypeError) (\<lambda>_.
     and_then (int_arg ''maxDepth'' 1 values) (\<lambda>max_depth.
     and_then (ql_reference L (dict_get ''start'' PNone values)) (\<lambda>(collection, record_id).
     let all_neighbors = (dict_get ''allNeighbors'' PNone values = PBool True) in
     and_then (ensure (0 \<le> max_depth) ValueError) (\<lambda>_.
     ql_valid L ((ql_defaults L)\<lparr>qo_operation := ''traverse'', qo_targets := [target], qo_shape := ''records'',
       qo_traversal := Some ((ql_traversal L)\<lparr>tv_start_collection := collection, tv_start_record := record_id,
         tv_relations := relations, tv_all_neighbors := all_neighbors, tv_max_depth := nat max_depth,
         tv_registry := (if all_neighbors then (case dict_get ''registryFingerprint'' PNone values of PStr r \<Rightarrow> Some r | _ \<Rightarrow> None)
                         else None)\<rparr>),
       qo_size := min (qb_paths budget) 500, qo_budget := budget\<rparr>)))))"

definition byte_limit :: int where
  "byte_limit = 16 * 1024 * 1024"

definition query_operation_of :: "compiler \<Rightarrow> exec_request \<Rightarrow> string \<Rightarrow> query_operation result" where
  "query_operation_of C rq m =
     (let L = cm_lib C; values = op_input (rq_operation rq); plan = dict_get ''queryPlan'' PNone values in
      if plan \<noteq> PNone then (if is_mapping plan then ql_from_mapping L plan else Inl TypeError)
      else (case op_resources (rq_operation rq) of
        [] \<Rightarrow> Inl OtherException
      | target # relations \<Rightarrow>
          and_then (layout_for (cm_settings C) target) (\<lambda>layout.
          let w = dict_get ''where'' (PMap []) values in
          and_then (ensure (is_mapping w) TypeError) (\<lambda>_.
          and_then (de_parse_filter (cm_dml C) w) (\<lambda>predicate.
          let limit = (case dict_get ''resultByteLimit'' (PInt byte_limit) values of PInt n \<Rightarrow> n | _ \<Rightarrow> byte_limit);
              budget = (qo_budget (ql_defaults L))\<lparr>qb_deadline := deadline_ms (rq_remaining rq) 30000,
                qb_values := 10000, qb_bytes := min limit byte_limit\<rparr> in
            if m = ''query'' then structured_query L values target predicate budget layout
            else if m = ''search'' then structured_search L values target predicate budget layout
            else if m = ''aggregate'' then structured_aggregate L values target predicate budget
            else if m = ''traverse'' then structured_traverse L relations values target budget
            else Inl ValueError)))))"

section \<open>Schema publication\<close>

definition publication_keys :: "string list" where
  "publication_keys = [''namespace'', ''name'', ''version'', ''definition'', ''allowBreaking'']"

definition registry_pinned :: "compiler \<Rightarrow> core_operation \<Rightarrow> bool result" where
  "registry_pinned C rq_op =
     (case op_resources rq_op of
        [r] \<Rightarrow>
          if op_catalog rq_op \<noteq> ''structured'' \<or> op_read_only rq_op \<or> r_canonical r \<noteq> ''structured:meridian.registry''
          then Inr False
          else and_then (layout_for (cm_settings C) r) (\<lambda>layout. Inr (l_profile layout = ''metadata-registry''))
      | _ \<Rightarrow> Inr False)"

definition publish_command :: "compiler \<Rightarrow> exec_request \<Rightarrow> adapter_command result" where
  "publish_command C rq =
     (let values = op_input (rq_operation rq); expected = dict_get ''expectedRegistryRevision'' PNone values in
      and_then (scope_values (cm_settings C) (rq_context rq)) (\<lambda>_.
      and_then (registry_pinned C (rq_operation rq)) (\<lambda>pinned.
      and_then (ensure pinned ValueError) (\<lambda>_.
      and_then (ensure (set publication_keys \<subseteq> set (keys values) \<and>
          set (keys values) \<subseteq> set (''expectedRegistryRevision'' # publication_keys)) ValueError) (\<lambda>_.
      (case (dict_get ''namespace'' PNone values, dict_get ''name'' PNone values, dict_get ''version'' PNone values,
             dict_get ''definition'' PNone values, dict_get ''allowBreaking'' PNone values) of
         (PStr ns, PStr n, PStr v, PMap d, PBool allow) \<Rightarrow>
           and_then (ensure (case expected of PNone \<Rightarrow> True | PInt k \<Rightarrow> 0 \<le> k | _ \<Rightarrow> False) ValueError) (\<lambda>_.
           and_then (ql_document (cm_lib C) ns n v d) (\<lambda>doc. Inr (Publish doc expected allow)))
       | _ \<Rightarrow> Inl ValueError))))))"

section \<open>Admission\<close>

definition read_methods :: "string list" where
  "read_methods = [''get'', ''query'', ''aggregate'', ''search'', ''traverse'']"

definition allowed_methods :: "string \<Rightarrow> string list" where
  "allowed_methods catalog =
     (if catalog = ''structured''
      then [''aggregate'', ''create_resource'', ''delete'', ''get'', ''patch'', ''publish_schema'', ''put'', ''query'',
            ''search'', ''traverse'']
      else [''append'', ''query''])"

definition contract_prefix :: "string \<Rightarrow> string" where
  "contract_prefix catalog = ''meridian.'' @ catalog @ ''.''"

definition method_of :: "core_operation \<Rightarrow> string" where
  "method_of rq_op = drop (length (contract_prefix (op_catalog rq_op))) (op_contract rq_op)"

definition required_version :: "string \<Rightarrow> string \<Rightarrow> string" where
  "required_version catalog m = (if catalog = ''structured'' \<and> m = ''put'' then ''2.0.0'' else ''1.0.0'')"

definition has_plan :: "core_operation \<Rightarrow> bool" where
  "has_plan rq_op \<longleftrightarrow> ''queryPlan'' \<in> set (keys (op_input rq_op))"

definition admit :: "compiler \<Rightarrow> core_operation \<Rightarrow> string result" where
  "admit C rq_op =
     (let m = method_of rq_op in
      and_then (ensure (op_catalog rq_op \<in> {''structured'', ''evidence''}) ValueError) (\<lambda>_.
      and_then (ensure (starts_with (contract_prefix (op_catalog rq_op)) (op_contract rq_op)) ValueError) (\<lambda>_.
      and_then (if read_only (cm_settings C) \<and> (\<not> op_read_only rq_op \<or> m \<notin> set read_methods)
                then require_writable (cm_settings C) else Inr ()) (\<lambda>_.
      and_then (ensure (m \<in> set (allowed_methods (op_catalog rq_op))) ValueError) (\<lambda>_.
      and_then (ensure (op_version rq_op = required_version (op_catalog rq_op) m) ValueError) (\<lambda>_.
      and_then (ensure (\<not> (m = ''put'' \<and> has_plan rq_op)) ValueError) (\<lambda>_.
      and_then (ensure (m \<noteq> ''create_resource'') ValueError) (\<lambda>_.
      and_then (ensure (op_resources rq_op \<noteq> []) ValueError) (\<lambda>_.
      and_then (ensure (list_all (\<lambda>r. r_catalog r = op_catalog rq_op) (op_resources rq_op)) ValueError) (\<lambda>_.
      and_then (ensure (m = ''traverse'' \<or> has_plan rq_op \<or> length (op_resources rq_op) = 1) ValueError) (\<lambda>_.
      Inr m)))))))))))"

definition not_registry :: "compiler \<Rightarrow> resource_ref list \<Rightarrow> unit result" where
  "not_registry C refs =
     and_then (traverse (\<lambda>r. and_then (layout_for (cm_settings C) r) (\<lambda>layout.
         ensure (l_profile layout \<noteq> ''metadata-registry'') ValueError)) refs) (\<lambda>_. Inr ())"

definition query_command :: "compiler \<Rightarrow> exec_request \<Rightarrow> string \<Rightarrow> adapter_command result" where
  "query_command C rq m =
     and_then (scope_values (cm_settings C) (rq_context rq)) (\<lambda>_.
     and_then (query_operation_of C rq m) (\<lambda>q.
     and_then (ensure (set (ql_resources (cm_lib C) q) = set (op_resources (rq_operation rq))) ValueError) (\<lambda>_.
     and_then (traverse (\<lambda>r. and_then (layout_for (cm_settings C) r) (\<lambda>layout.
         Inr (r_canonical r, l_schema_fingerprint layout))) (ql_resources (cm_lib C) q)) (\<lambda>schemas.
     let ctx = \<lparr>tc_binding = rq_binding rq, tc_plan = tr_fingerprint (cm_translator C) q,
                tc_registry = rq_registry rq, tc_scope = scope_fingerprint (cm_lib C) (rq_context rq),
                tc_schemas = dict_of schemas, tc_deadline = deadline_ms (rq_remaining rq) (qb_deadline (qo_budget q))\<rparr>;
         plan = \<lparr>qp_operation = Some q, qp_binding = None, qp_registry = None, qp_empty = None\<rparr> in
     and_then (compile_query (cm_translator C) plan ctx) (\<lambda>cq. Inr (RunQuery cq))))))"

definition compile_operation :: "compiler \<Rightarrow> exec_request \<Rightarrow> adapter_command result" where
  "compile_operation C rq =
     (let rq_op = rq_operation rq in
      and_then (admit C rq_op) (\<lambda>m.
        if m = ''publish_schema'' then publish_command C rq
        else and_then (not_registry C (op_resources rq_op)) (\<lambda>_.
          if m \<in> {''put'', ''get'', ''patch'', ''delete'', ''append''} \<and> \<not> has_plan rq_op
          then and_then (dml_compile (cm_dml C) m (hd (op_resources rq_op)) (op_input rq_op) (rq_context rq)) (\<lambda>d.
            Inr (Mutation d))
          else query_command C rq m)))"

end
