(* ===== verification/DmlLaws.thy ===== *)
theory DmlLaws
  imports Dml
begin

text \<open>
  The properties of the mutation compiler: no injection, the caller's scope in every statement, and what
  a mutation can assign.
\<close>

section \<open>Injection\<close>

definition dml_texts :: "string list" where
  "dml_texts = vocabulary @
     [''SELECT '', '' FROM '', '' AS '', '' WHERE '', '' AND '', '' = '', ''INSERT INTO '', '' AS t ('', '') VALUES ('',
      '' ON CONFLICT ('', '') DO UPDATE SET '', '' = EXCLUDED.'', '' RETURNING '', ''UPDATE '', '' AS t SET '',
      ''DELETE FROM '', '' AS t WHERE '', '' AND t.__record_version = '', '' LIMIT 2'',
      '', __record_version = t.__record_version + 1, __updated_at = clock_timestamp()'',
      ''__updated_at = t.__updated_at''] @ sql_texts (point_columns [])"

definition dml_names :: "pg_settings \<Rightarrow> string set" where
  "dml_names s = insert ''t'' (insert ''c'' (binding_names s))"

abbreviation over_dml :: "pg_settings \<Rightarrow> driver_value bound_statement \<Rightarrow> bool" where
  "over_dml s \<equiv> statement_over (dml_names s) (set dml_texts)"

lemma dml_words:
  "set vocabulary \<subseteq> set dml_texts" "set (sql_texts (point_columns [])) \<subseteq> set dml_texts"
  unfolding dml_texts_def set_append by blast+

lemma dml_word_list [simp]:
  "''SELECT '' \<in> set dml_texts" "'' FROM '' \<in> set dml_texts" "'' AS '' \<in> set dml_texts" "'' WHERE '' \<in> set dml_texts"
  "'' AND '' \<in> set dml_texts" "'' = '' \<in> set dml_texts" "''INSERT INTO '' \<in> set dml_texts" "'' AS t ('' \<in> set dml_texts"
  "'') VALUES ('' \<in> set dml_texts" "'' ON CONFLICT ('' \<in> set dml_texts" "'') DO UPDATE SET '' \<in> set dml_texts"
  "'' = EXCLUDED.'' \<in> set dml_texts" "'' RETURNING '' \<in> set dml_texts" "''UPDATE '' \<in> set dml_texts"
  "'' AS t SET '' \<in> set dml_texts" "''DELETE FROM '' \<in> set dml_texts" "'' AS t WHERE '' \<in> set dml_texts"
  "'' AND t.__record_version = '' \<in> set dml_texts" "'' LIMIT 2'' \<in> set dml_texts"
  "'', __record_version = t.__record_version + 1, __updated_at = clock_timestamp()'' \<in> set dml_texts"
  "''__updated_at = t.__updated_at'' \<in> set dml_texts"
  by (simp_all add: dml_texts_def)

lemma dml_vocabulary [simp]:
  "''.'' \<in> set dml_texts" "'', '' \<in> set dml_texts" "'')'' \<in> set dml_texts"
  "''ST_SetSRID(ST_MakePoint('' \<in> set dml_texts" "''), 4326)::geography'' \<in> set dml_texts"
  by (rule subsetD [OF dml_words(1)], rule words)+

lemma dml_layout_names:
  assumes "(c, layout) \<in> set (resources s)"
  shows "l_table layout \<in> dml_names s"
    "f \<in> set (l_fields layout) \<Longrightarrow> f_column f \<in> dml_names s" "f \<in> set (l_fields layout) \<Longrightarrow> f_name f \<in> dml_names s"
proof -
  have "insert (l_table layout) (f_column ` set (l_fields layout) \<union> f_name ` set (l_fields layout)) \<subseteq> binding_names s"
    unfolding binding_names_def using UN_upper [OF assms, of "\<lambda>(c, layout).
        insert (l_table layout) (f_column ` set (l_fields layout) \<union> f_name ` set (l_fields layout))"] by auto
  then show "l_table layout \<in> dml_names s" "f \<in> set (l_fields layout) \<Longrightarrow> f_column f \<in> dml_names s"
    "f \<in> set (l_fields layout) \<Longrightarrow> f_name f \<in> dml_names s"
    unfolding dml_names_def by auto
qed

lemma dml_fixed_names:
  "physical_schema s \<in> dml_names s" "c \<in> set (scope_columns s) \<Longrightarrow> c \<in> dml_names s"
  "fst ` set audit_columns \<subseteq> dml_names s" "snd ` set audit_columns \<subseteq> dml_names s"
  "''t'' \<in> dml_names s" "''c'' \<in> dml_names s"
  unfolding dml_names_def binding_names_def by auto

lemma concat_nil [simp]: "concat (map (\<lambda>x. []) xs) = []"
  by (induction xs) simp_all

lemma dml_table:
  assumes "(c, layout) \<in> set (resources s)" shows "over_dml s (bound (table_of s layout) [])"
  unfolding table_of_def
  by (rule over_column) (use dml_layout_names(1) [OF assms] dml_fixed_names(1) in simp_all)

lemma dml_returning:
  assumes "(c, layout) \<in> set (resources s)" "alias \<in> dml_names s"
  shows "over_dml s (bound (returning layout alias) [])"
proof -
  have x: "over_dml s (bound x [])" if "x \<in> set (record_columns layout alias)" for x
    by (rule over_result_columns [OF assms(2) _ dml_fixed_names(3,4) _ _ dml_words(2) that])
      (use dml_layout_names(2,3) [OF assms(1)] in auto)
  let ?cols = "map (\<lambda>x. bound x [] :: driver_value bound_statement) (record_columns layout alias)"
  have "over_dml s (bound (join_sql [Raw '', ''] (map command ?cols)) (concat (map params ?cols)))"
    by (rule over_commas) (use x in auto)
  then show ?thesis by (simp add: returning_def o_def)
qed

lemma dml_scope:
  assumes "alias \<in> dml_names s" "length vs = length (scope_columns s)"
  shows "over_dml s (scope_condition s alias vs)"
proof -
  let ?item = "\<lambda>(c, v). bound (ident [alias, c] @ [Raw '' = '', Hole]) [Plain (PStr v)]"
  have i: "over_dml s x" if x: "x \<in> set (map ?item (zip (scope_columns s) vs))" for x
  proof -
    from x obtain c v where c: "c \<in> set (scope_columns s)" "x = ?item (c, v)" by (auto dest: set_zip_leftD)
    have n: "set [alias, c] \<subseteq> dml_names s" using assms(1) dml_fixed_names(2) [OF c(1)] by simp
    note P = column_parts [OF n dml_vocabulary(1)]
    show ?thesis unfolding c(2) by (rule over_intro) (use n in \<open>simp_all add: P depth_append\<close>)
  qed
  have d: "depth_text '' AND '' n = Some n" for n by simp
  note L = over_list [OF i dml_word_list(5) d]
  have "map command (map ?item (zip cs ws)) = map (\<lambda>c. ident [alias, c] @ [Raw '' = '', Hole]) cs \<and>
      concat (map params (map ?item (zip cs ws))) = map (\<lambda>v. Plain (PStr v)) ws" if "length ws = length cs" for cs ws
    using that by (induction ws cs rule: list_induct2) auto
  from this [OF assms(2)]
  have eq: "scope_condition s alias vs =
      bound (join_sql [Raw '' AND ''] (map command (map ?item (zip (scope_columns s) vs))))
        (concat (map params (map ?item (zip (scope_columns s) vs))))"
    by (simp add: scope_condition_def)
  show ?thesis unfolding eq by (rule over_intro) (simp_all only: bound_simps L)
qed

lemma scope_values_length:
  "scope_values s ctx = Inr vs \<Longrightarrow> length vs = length (scope_columns s)"
  by (auto simp: scope_values_def scope_columns_def and_then_success dest: traverse_length split: option.splits if_splits)

lemma over_lift: "statement_over A W s \<Longrightarrow> statement_over A W (lift_params s)"
  by (simp add: lift_params_def statement_over_def sound_over_def arity_ok_def)

lemma dml_filter:
  assumes "compile T [(c, alias, layout)] e = Inr st" "(d, layout) \<in> set (resources s)" "alias \<in> dml_names s"
  shows "over_dml s (lift_params st)"
proof (rule over_lift, rule over_safe [OF safe_text.closed_compile [OF assms(1)] _ dml_words(1)])
  show "target_idents [(c, alias, layout)] \<subseteq> dml_names s"
    using dml_layout_names(2) [OF assms(2)] assms(3) by (auto simp: target_idents_def)
qed

lemma dml_row_condition:
  assumes "row_condition E layout w ctx alias = Inr st" "(d, layout) \<in> set (resources (de_settings E))"
    "alias \<in> dml_names (de_settings E)"
  shows "over_dml (de_settings E) st \<and> (\<exists>vs. scope_values (de_settings E) ctx = Inr vs \<and>
    conjunct (scope_condition (de_settings E) alias vs) st)"
proof -
  from assms(1) obtain vs expression where v: "scope_values (de_settings E) ctx = Inr vs"
    "de_parse_filter E w = Inr expression" and
    r: "(case expression of None \<Rightarrow> Inr (scope_condition (de_settings E) alias vs)
      | Some e \<Rightarrow> and_then (compile (de_texts E) [(r_canonical (l_ref layout), alias, layout)] e) (\<lambda>s.
           Inr (conjunction [scope_condition (de_settings E) alias vs, lift_params s]))) = Inr st"
    by (auto simp: row_condition_def Let_def and_then_success)
  have sc: "over_dml (de_settings E) (scope_condition (de_settings E) alias vs)"
    by (rule dml_scope [OF assms(3) scope_values_length [OF v(1)]])
  show ?thesis
  proof (cases expression)
    case None
    with r sc v(1) whole show ?thesis by auto
  next
    case (Some e)
    with r obtain x where x: "compile (de_texts E) [(r_canonical (l_ref layout), alias, layout)] e = Inr x"
      "st = conjunction [scope_condition (de_settings E) alias vs, lift_params x]"
      by (auto simp: and_then_success)
    have o: "over_dml (de_settings E) (lift_params x)" by (rule dml_filter [OF x(1) assms(2,3)])
    have "over_dml (de_settings E) st" unfolding x(2)
      by (rule over_conjunction(1) [OF _ dml_words(1)]) (use sc o in auto)
    moreover have "conjunct (scope_condition (de_settings E) alias vs) st"
      unfolding x(2) by (rule conjunct_pair(1) [OF whole over_balanced [OF sc] over_balanced [OF o]])
    ultimately show ?thesis using v(1) by blast
  qed
qed

lemma dml_value: "field_value T f v = Inr st \<Longrightarrow> over_dml s st"
  by (auto simp: field_value_def and_then_success split: if_splits intro!: over_intro)

lemma named_value_parts:
  assumes "named_value E layout nv = Inr (f, st)"
  shows "f \<in> set (l_fields layout)" "f_name f = fst nv" "over_dml s st"
  using assms dml_value [of "de_texts E" f "snd nv" st s]
  by (auto simp: named_value_def and_then_success dict_item_success field_map_def dest!: map_of_SomeD)

section \<open>Statements\<close>

lemma dml_idents: "set cols \<subseteq> dml_names s \<Longrightarrow> over_dml s (bound (join_sql [Raw '', ''] (map (\<lambda>c. [Ident c]) cols)) [])"
proof -
  assume c: "set cols \<subseteq> dml_names s"
  let ?cols = "map (\<lambda>c. bound [Ident c] [] :: driver_value bound_statement) cols"
  have "over_dml s (bound (join_sql [Raw '', ''] (map command ?cols)) (concat (map params ?cols)))"
    by (rule over_commas) (use c in \<open>auto intro!: over_intro\<close>)
  then show ?thesis by (simp add: o_def)
qed

lemma dml_raw: "t \<in> set dml_texts \<Longrightarrow> depth_text t 0 = Some 0 \<Longrightarrow> over_dml s (bound [Raw t] [])"
  by (rule over_raw)

lemma over_wrap:
  assumes "statement_over A W st" "a \<in> W" "b \<in> W" "depth_text a 0 = Some 1" "depth_text b 1 = Some 0"
  shows "statement_over A W (bound ([Raw a] @ command st @ [Raw b]) (params st))"
  by (rule over_intro) (use assms over_parts [OF assms(1)] in \<open>simp_all add: depth_append\<close>)

lemma dml_sets:
  assumes "\<And>f st. (f, st) \<in> set fvs \<Longrightarrow> f_column f \<in> dml_names s \<and> over_dml s st"
  shows "over_dml s (set_list fvs)"
proof -
  let ?items = "map (\<lambda>(f, st). bound ([Ident (f_column f), Raw '' = ''] @ command st) (params st)) fvs"
  have i: "over_dml s x" if x: "x \<in> set ?items" for x
  proof -
    from x obtain f st where f: "(f, st) \<in> set fvs" "x = bound ([Ident (f_column f), Raw '' = ''] @ command st) (params st)"
      by auto
    note P = over_parts [OF conjunct2 [OF assms [OF f(1)]]]
    show ?thesis unfolding f(2) by (rule over_intro) (use assms [OF f(1)] P in \<open>simp_all\<close>)
  qed
  have "over_dml s (bound (join_sql [Raw '', ''] (map command ?items)) (concat (map params ?items)))"
    by (rule over_commas [OF i]) simp_all
  moreover have "map command ?items = map (\<lambda>(f, st). [Ident (f_column f), Raw '' = ''] @ command st) fvs"
    "map params ?items = map (params \<circ> snd) fvs"
    by (simp_all add: case_prod_unfold o_def)
  ultimately show ?thesis by (simp only: set_list_def)
qed

lemma dml_named_values:
  assumes "traverse (named_value E layout) values = Inr fvs" "(c, layout) \<in> set (resources s)" "(f, st) \<in> set fvs"
  shows "f_column f \<in> dml_names s \<and> over_dml s st"
proof -
  from assms(1,3) obtain nv where "named_value E layout nv = Inr (f, st)"
    using traverse_all [OF assms(1), of "\<lambda>y. \<exists>nv. named_value E layout nv = Inr y"] by blast
  from named_value_parts [OF this] show ?thesis using dml_layout_names(2) [OF assms(2)] by blast
qed

lemma dml_assignments:
  assumes "assignments E layout changes = Inr sets" "(c, layout) \<in> set (resources s)"
  shows "over_dml s sets"
  using assms(1) dml_named_values [OF _ assms(2)]
  by (auto simp: assignments_def and_then_success intro!: dml_sets)

lemma dml_guard: "over_dml s (version_guard v)" "over_dml s (bound version_step [])" "over_dml s (bound unchanged_step [])"
  by (auto simp: version_guard_def version_step_def unchanged_step_def intro!: over_intro)

lemma dml_update:
  assumes "(c, layout) \<in> set (resources s)" "over_dml s sets" "over_dml s (bound step [])" "over_dml s condition"
  shows "over_dml s (update_statement s layout sets step condition (version_guard v))"
proof -
  have w: "over_dml s (bound [Raw ''UPDATE ''] [])" "over_dml s (bound [Raw '' AS t SET ''] [])"
    "over_dml s (bound [Raw '' WHERE ''] [])" "over_dml s (bound [Raw '' RETURNING ''] [])"
    by (rule dml_raw; simp)+
  from over_seq [OF w(1) over_seq [OF dml_table [OF assms(1)] over_seq [OF w(2) over_seq [OF over_eta [OF assms(2)]
      over_seq [OF assms(3) over_seq [OF w(3) over_seq [OF over_eta [OF assms(4)] over_seq [OF over_eta [OF dml_guard(1)]
      over_seq [OF w(4) dml_returning [OF assms(1) dml_fixed_names(5)]]]]]]]]]]
  show ?thesis by (simp add: update_statement_def)
qed

lemma dml_delete_over:
  assumes "(c, layout) \<in> set (resources s)" "over_dml s condition"
  shows "over_dml s (delete_statement s layout condition (version_guard v))"
proof -
  have w: "over_dml s (bound [Raw ''DELETE FROM ''] [])" "over_dml s (bound [Raw '' AS t WHERE ''] [])"
    "over_dml s (bound [Raw '' RETURNING ''] [])"
    by (rule dml_raw; simp)+
  from over_seq [OF w(1) over_seq [OF dml_table [OF assms(1)] over_seq [OF w(2) over_seq [OF over_eta [OF assms(2)]
      over_seq [OF over_eta [OF dml_guard(1)] over_seq [OF w(3) dml_returning [OF assms(1) dml_fixed_names(5)]]]]]]]
  show ?thesis by (simp add: delete_statement_def)
qed

lemma dml_get_over:
  assumes "(c, layout) \<in> set (resources s)" "over_dml s condition"
  shows "over_dml s (get_statement s layout condition)"
proof -
  have w: "over_dml s (bound [Raw ''SELECT ''] [])" "over_dml s (bound [Raw '' FROM ''] [])"
    "over_dml s (bound [Raw '' AS t WHERE ''] [])" "over_dml s (bound [Raw '' LIMIT 2''] [])"
    by (rule dml_raw; simp)+
  from over_seq [OF w(1) over_seq [OF dml_returning [OF assms(1) dml_fixed_names(5)] over_seq [OF w(2)
      over_seq [OF dml_table [OF assms(1)] over_seq [OF w(3) over_seq [OF over_eta [OF assms(2)] w(4)]]]]]]
  show ?thesis by (simp add: get_statement_def)
qed

lemma dml_conflict:
  assumes "(c, layout) \<in> set (resources s)" "set cols \<subseteq> dml_names s"
  shows "over_dml s (bound (conflict_clause layout cols) [])"
proof -
  have n: "over_dml s (bound (join_sql [Raw '', ''] (map (\<lambda>c. [Ident c]) cols)) [])" by (rule dml_idents [OF assms(2)])
  have a: "over_dml s (bound ([Raw '' ON CONFLICT (''] @ join_sql [Raw '', ''] (map (\<lambda>c. [Ident c]) cols) @
      [Raw '') DO UPDATE SET '']) [])"
    using over_wrap [OF n, of "'' ON CONFLICT (''" "'') DO UPDATE SET ''"] by simp
  let ?items = "map (\<lambda>f. bound [Ident (f_column f), Raw '' = EXCLUDED.'', Ident (f_column f)] [] :: driver_value bound_statement)
      (mutable_fields layout)"
  have "over_dml s (bound (join_sql [Raw '', ''] (map command ?items)) (concat (map params ?items)))"
    by (rule over_commas) (use dml_layout_names(2) [OF assms(1)] in \<open>auto simp: mutable_fields_def intro!: over_intro\<close>)
  then have m: "over_dml s (bound (join_sql [Raw '', ''] (map (\<lambda>f. [Ident (f_column f), Raw '' = EXCLUDED.'', Ident (f_column f)])
      (mutable_fields layout))) [])" by (simp add: o_def)
  show ?thesis
    using over_seq [OF a dml_guard(3)] over_seq [OF a over_seq [OF m dml_guard(2)]]
    by (simp add: conflict_clause_def)
qed

lemma dml_insert:
  assumes "(c, layout) \<in> set (resources s)" "\<And>f st. (f, st) \<in> set fvs \<Longrightarrow> f_column f \<in> dml_names s \<and> over_dml s st"
    "over_dml s (bound conflict [])"
  shows "over_dml s (insert_statement s layout vs fvs conflict)"
proof -
  have cols: "over_dml s (bound (join_sql [Raw '', ''] (map (\<lambda>c. [Ident c])
      (scope_columns s @ map (\<lambda>(f, _). f_column f) fvs))) [])"
    by (rule dml_idents) (use assms(2) dml_fixed_names(2) in auto)
  have hole: "over_dml s (bound [Hole] [x])" for x by (rule over_intro) simp_all
  let ?items = "map (\<lambda>v. bound [Hole] [Plain (PStr v)]) vs @ map snd fvs"
  have "over_dml s (bound (join_sql [Raw '', ''] (map command ?items)) (concat (map params ?items)))"
    by (rule over_commas) (use assms(2) hole in auto)
  moreover have "map command ?items = map (\<lambda>_. [Hole]) vs @ map (\<lambda>(_, v). command v) fvs"
    "concat (map params ?items) = map (\<lambda>v. Plain (PStr v)) vs @ concat (map (\<lambda>(_, v). params v) fvs)"
  proof -
    have "concat (map params (map (\<lambda>v. bound [Hole] [Plain (PStr v)]) ws)) = map (\<lambda>v. Plain (PStr v)) ws" for ws
      by (induction ws) simp_all
    then show "concat (map params ?items) = map (\<lambda>v. Plain (PStr v)) vs @ concat (map (\<lambda>(_, v). params v) fvs)"
      by (simp add: case_prod_unfold o_def)
  qed (simp add: case_prod_unfold o_def)
  ultimately have vals: "over_dml s (bound (join_sql [Raw '', ''] (map (\<lambda>_. [Hole]) vs @ map (\<lambda>(_, v). command v) fvs))
      (map (\<lambda>v. Plain (PStr v)) vs @ concat (map (\<lambda>(_, v). params v) fvs)))" by (simp only:)
  have w: "over_dml s (bound [Raw ''INSERT INTO ''] [])" "over_dml s (bound [Raw '' RETURNING ''] [])"
    by (rule dml_raw; simp)+
  have body: "over_dml s (bound ([Raw '' AS t (''] @ join_sql [Raw '', ''] (map (\<lambda>c. [Ident c])
      (scope_columns s @ map (\<lambda>(f, _). f_column f) fvs)) @ [Raw '') VALUES (''] @
      join_sql [Raw '', ''] (map (\<lambda>_. [Hole]) vs @ map (\<lambda>(_, v). command v) fvs) @ [Raw '')''])
      (map (\<lambda>v. Plain (PStr v)) vs @ concat (map (\<lambda>(_, v). params v) fvs)))"
    by (rule over_intro)
      (use over_parts [OF cols, unfolded bound_simps] over_parts [OF vals, unfolded bound_simps] in
        \<open>simp_all only: bound_simps, simp_all add: depth_append\<close>)
  from over_seq [OF w(1) over_seq [OF dml_table [OF assms(1)] over_seq [OF body over_seq [OF assms(3)
      over_seq [OF w(2) dml_returning [OF assms(1) dml_fixed_names(5)]]]]]]
  show ?thesis by (simp add: insert_statement_def)
qed

section \<open>The shapes of a mutation\<close>

fun dml_commands :: "adapter_dml \<Rightarrow> dml_command list" where
  "dml_commands (OneCommand c) = [c]"
| "dml_commands (AppendBatch cs) = cs"

text \<open>
  What a compiled command can be, for a binding, a layout, the caller's scope values and the expected
  version: a read, a removal or a change of rows of the scope; or the insertion of a row of the scope,
  whose conflict target, if any, is the key within the scope. A change assigns mutable fields outside the
  identity and steps the record version; the expected version, if any, guards it.
\<close>

inductive dml_shape ::
  "pg_settings \<Rightarrow> resource_layout \<Rightarrow> string list \<Rightarrow> pyval \<Rightarrow> driver_value bound_statement \<Rightarrow> bool"
  for s layout vs expected where
    reads: "conjunct (scope_condition s ''t'' vs) condition \<Longrightarrow>
      dml_shape s layout vs expected (get_statement s layout condition)"
  | removes: "conjunct (scope_condition s ''t'' vs) condition \<Longrightarrow>
      dml_shape s layout vs expected (delete_statement s layout condition (version_guard expected))"
  | changes: "conjunct (scope_condition s ''t'' vs) condition \<Longrightarrow> fvs \<noteq> [] \<Longrightarrow>
      fst ` set fvs \<subseteq> set (mutable_fields layout) \<Longrightarrow>
      dml_shape s layout vs expected
        (update_statement s layout (set_list fvs) version_step condition (version_guard expected))"
  | keeps: "conjunct (scope_condition s ''t'' vs) condition \<Longrightarrow> mutable_fields layout = [] \<Longrightarrow> expected = PNone \<Longrightarrow>
      dml_shape s layout vs expected
        (update_statement s layout (bound unchanged_step []) [] condition (version_guard PNone))"
  | inserts: "fst ` set fvs \<subseteq> set (l_fields layout) \<Longrightarrow> expected = PNone \<Longrightarrow>
      conflict = [] \<or> (\<exists>cols. key_columns s layout = Inr cols \<and> conflict = conflict_clause layout cols) \<Longrightarrow>
      dml_shape s layout vs expected (insert_statement s layout vs fvs conflict)"

abbreviation dml_settled :: "dml_env \<Rightarrow> resource_layout \<Rightarrow> op_context \<Rightarrow> pyval \<Rightarrow> dml_command \<Rightarrow> bool" where
  "dml_settled E layout ctx expected c \<equiv> over_dml (de_settings E) (dc_statement c) \<and>
     (\<exists>vs. scope_values (de_settings E) ctx = Inr vs \<and>
       dml_shape (de_settings E) layout vs expected (dc_statement c))"

lemma key_columns_names:
  assumes "key_columns s layout = Inr cols" "(c, layout) \<in> set (resources s)" shows "set cols \<subseteq> dml_names s"
proof -
  from assms(1) obtain fs where f: "traverse (\<lambda>n. dict_item n (field_map layout)) (l_identity layout) = Inr fs"
    "cols = scope_columns s @ map f_column fs"
    by (auto simp: key_columns_def and_then_success)
  have "\<forall>f \<in> set fs. f_column f \<in> dml_names s"
    using f(1) by (rule traverse_all)
      (auto simp: dict_item_success field_map_def intro: dml_layout_names(2) [OF assms(2)] dest!: map_of_SomeD)
  then show ?thesis unfolding f(2) using dml_fixed_names(2) by auto
qed

lemma command_of_parts [simp]:
  "dc_statement (command_of m layout a b st) = st" "dc_method (command_of m layout a b st) = m"
  "dc_layout (command_of m layout a b st) = layout"
  by (simp_all add: command_of_def)

lemma assignments_mutable:
  assumes "assignments E layout values = Inr sets"
  shows "\<exists>fvs. sets = set_list fvs \<and> fvs \<noteq> [] \<and> fst ` set fvs \<subseteq> set (mutable_fields layout)"
proof -
  from assms obtain fvs where n: "values \<noteq> []" "sets = set_list fvs" "traverse (named_value E layout) values = Inr fvs"
    and ok: "list_all (\<lambda>n. case field_of layout n of None \<Rightarrow> False
         | Some f \<Rightarrow> n \<notin> set (l_identity layout) \<and> f_mutable f) (keys values)"
    by (auto simp: assignments_def and_then_success ensure_success)
  have "\<forall>y \<in> set fvs. fst y \<in> set (mutable_fields layout)"
    using n(3)
  proof (rule traverse_all)
    fix nv y assume m: "nv \<in> set values" "named_value E layout nv = Inr y"
    then have f: "map_of (field_map layout) (fst nv) = Some (fst y)"
      by (auto simp: named_value_def and_then_success dict_item_success)
    from m(1) have "fst nv \<in> set (keys values)" by (simp add: keys_def)
    with ok f have k: "fst nv \<notin> set (l_identity layout)" "f_mutable (fst y)"
      by (auto simp: list_all_iff field_of_def)
    have "f_name (fst y) = fst nv" "fst y \<in> set (l_fields layout)"
      using f by (auto simp: field_map_def dest!: map_of_SomeD)
    with k show "fst y \<in> set (mutable_fields layout)" by (simp add: mutable_fields_def)
  qed
  moreover have "fvs \<noteq> []" using n(1) traverse_length [OF n(3)] by auto
  ultimately show ?thesis using n(2) by blast
qed

lemma settled_update:
  assumes "(d, layout) \<in> set (resources (de_settings E))" "assignments E layout values = Inr sets"
    "row_condition E layout w ctx ''t'' = Inr condition"
  shows "dml_settled E layout ctx expected (command_of m layout a b
    (update_statement (de_settings E) layout sets version_step condition (version_guard expected)))"
proof -
  from dml_row_condition [OF assms(3,1) dml_fixed_names(5)] obtain vs where
    c: "over_dml (de_settings E) condition" "scope_values (de_settings E) ctx = Inr vs"
      "conjunct (scope_condition (de_settings E) ''t'' vs) condition" by blast
  from assignments_mutable [OF assms(2)] obtain fvs where
    "sets = set_list fvs" "fvs \<noteq> []" "fst ` set fvs \<subseteq> set (mutable_fields layout)" by blast
  then show ?thesis
    using c changes [OF c(3)] dml_update [OF assms(1) dml_assignments [OF assms(2,1)] dml_guard(2) c(1)] by auto
qed

lemma named_values_fields:
  "traverse (named_value E layout) values = Inr fvs \<Longrightarrow> fst ` set fvs \<subseteq> set (l_fields layout)"
  using traverse_all [of "named_value E layout" "values" fvs "\<lambda>y. fst y \<in> set (l_fields layout)"] named_value_parts(1)
  by fastforce

lemma settled_insert:
  assumes "(d, layout) \<in> set (resources (de_settings E))" "traverse (named_value E layout) values = Inr fvs"
    "scope_values (de_settings E) ctx = Inr vs"
    "conflict = [] \<or> (\<exists>cols. key_columns (de_settings E) layout = Inr cols \<and> conflict = conflict_clause layout cols)"
  shows "dml_settled E layout ctx PNone (command_of m layout a b (insert_statement (de_settings E) layout vs fvs conflict))"
proof -
  have "over_dml (de_settings E) (bound conflict [])"
    using assms(4)
  proof
    assume "conflict = []"
    then show ?thesis by (auto intro: over_intro)
  next
    assume "\<exists>cols. key_columns (de_settings E) layout = Inr cols \<and> conflict = conflict_clause layout cols"
    then show ?thesis using dml_conflict [OF assms(1)] key_columns_names assms(1) by blast
  qed
  from dml_insert [OF assms(1) dml_named_values [OF assms(2,1)] this, of fvs vs]
    inserts [OF named_values_fields [OF assms(2)] refl assms(4)] assms(3)
  show ?thesis by auto
qed

lemma settled_append:
  assumes "dml_append E layout row ctx = Inr c" "(d, layout) \<in> set (resources (de_settings E))"
  shows "dml_settled E layout ctx PNone c"
proof -
  from assms(1) obtain vs row_values fvs where
    v: "scope_values (de_settings E) ctx = Inr vs" "traverse (named_value E layout) row_values = Inr fvs"
      "c = command_of ''append'' layout True False (insert_statement (de_settings E) layout vs fvs [])"
    by (auto simp: dml_append_def and_then_success)
  show ?thesis unfolding v(3) by (rule settled_insert [OF assms(2) v(2,1)]) simp
qed

lemma settled_conditional_put:
  assumes "conditional_put E layout row_values expected ctx = Inr c" "(d, layout) \<in> set (resources (de_settings E))"
  shows "dml_settled E layout ctx expected c"
proof -
  from assms(1) obtain changed sets identity condition where
    "assignments E layout changed = Inr sets" "row_condition E layout identity ctx ''t'' = Inr condition"
    "c = command_of ''put'' layout True True
       (update_statement (de_settings E) layout sets version_step condition (version_guard expected))"
    unfolding conditional_put_def Let_def and_then_success by auto
  then show ?thesis using settled_update [OF assms(2)] by blast
qed

lemma settled_update_put:
  assumes "update_put E layout row_values ctx = Inr c" "(d, layout) \<in> set (resources (de_settings E))"
  shows "dml_settled E layout ctx PNone c"
proof -
  let ?s = "de_settings E"
  from assms(1) obtain fvs identity condition where
    f: "traverse (\<lambda>f. and_then (field_value (de_texts E) f (dict_get (f_name f) PNone row_values)) (\<lambda>s. Inr (f, s)))
         (mutable_fields layout) = Inr fvs" and
    r: "row_condition E layout identity ctx ''t'' = Inr condition" and
    c: "c = command_of ''put'' layout True True
       (if mutable_fields layout = []
        then update_statement ?s layout (bound unchanged_step []) [] condition (version_guard PNone)
        else update_statement ?s layout (set_list fvs) version_step condition (version_guard PNone))"
    unfolding update_put_def and_then_success by blast
  from dml_row_condition [OF r assms(2) dml_fixed_names(5)] obtain vs where
    v: "over_dml ?s condition" "scope_values ?s ctx = Inr vs" "conjunct (scope_condition ?s ''t'' vs) condition" by blast
  have each: "\<forall>y \<in> set fvs. fst y \<in> set (mutable_fields layout) \<and> over_dml ?s (snd y)"
    using f by (rule traverse_all) (auto simp: and_then_success intro: dml_value)
  have m: "over_dml ?s (set_list fvs)"
    by (rule dml_sets) (use each dml_layout_names(2) [OF assms(2)] in \<open>force simp: mutable_fields_def\<close>)
  have e: "over_dml ?s (bound [] [])" by (rule over_intro) simp_all
  show ?thesis
  proof (cases "mutable_fields layout = []")
    case True
    then show ?thesis unfolding c
      using v keeps [OF v(3)] dml_update [OF assms(2) dml_guard(3) e v(1), of PNone] by simp
  next
    case False
    then have "fvs \<noteq> []" using traverse_length [OF f] by auto
    moreover have "fst ` set fvs \<subseteq> set (mutable_fields layout)" using each by auto
    ultimately show ?thesis unfolding c
      using False v changes [OF v(3), of fvs] dml_update [OF assms(2) m dml_guard(2) v(1), of PNone] by simp
  qed
qed

lemma settled_put:
  assumes "dml_put E layout input ctx = Inr c" "(d, layout) \<in> set (resources (de_settings E))"
  shows "dml_settled E layout ctx (dict_get ''expectedVersion'' PNone input) c"
proof -
  let ?expected = "dict_get ''expectedVersion'' PNone input"
  from assms(1) obtain mode where m: "dict_get ''mode'' PNone input = PStr mode"
    by (auto simp: dml_put_def Let_def split: pyval.splits)
  with assms(1) obtain row_values vs fvs where
    v: "scope_values (de_settings E) ctx = Inr vs" "traverse (named_value E layout) row_values = Inr fvs" and
    r: "(if ?expected \<noteq> PNone then conditional_put E layout row_values ?expected ctx
       else and_then (key_columns (de_settings E) layout) (\<lambda>cols.
         if mode = ''update'' then update_put E layout row_values ctx
         else Inr (command_of ''put'' layout True False
           (insert_statement (de_settings E) layout vs fvs
             (if mode = ''upsert'' then conflict_clause layout cols else []))))) = Inr c"
    unfolding dml_put_def Let_def m pyval.case and_then_success by blast
  show ?thesis
  proof (cases "?expected = PNone")
    case False
    with r show ?thesis using settled_conditional_put [OF _ assms(2)] by simp
  next
    case True
    with r obtain cols where k: "key_columns (de_settings E) layout = Inr cols" and
      c: "(if mode = ''update'' then update_put E layout row_values ctx
         else Inr (command_of ''put'' layout True False
           (insert_statement (de_settings E) layout vs fvs
             (if mode = ''upsert'' then conflict_clause layout cols else [])))) = Inr c"
      by (auto simp: and_then_success)
    show ?thesis
    proof (cases "mode = ''update''")
      case update: True
      with c show ?thesis unfolding True using settled_update_put [OF _ assms(2)] by simp
    next
      case False
      with c have "c = command_of ''put'' layout True False (insert_statement (de_settings E) layout vs fvs
          (if mode = ''upsert'' then conflict_clause layout cols else []))" by simp
      then show ?thesis unfolding True using settled_insert [OF assms(2) v(2,1)] k by auto
    qed
  qed
qed

lemma settled_read:
  assumes "(d, layout) \<in> set (resources (de_settings E))" "row_condition E layout w ctx ''t'' = Inr condition"
  shows "dml_settled E layout ctx expected (command_of m layout a b (get_statement (de_settings E) layout condition))"
    "dml_settled E layout ctx expected
       (command_of m layout a b (delete_statement (de_settings E) layout condition (version_guard expected)))"
proof -
  from dml_row_condition [OF assms(2,1) dml_fixed_names(5)] obtain vs where
    c: "over_dml (de_settings E) condition" "scope_values (de_settings E) ctx = Inr vs"
      "conjunct (scope_condition (de_settings E) ''t'' vs) condition" by blast
  from reads [OF c(3)] removes [OF c(3)] dml_get_over [OF assms(1) c(1)] dml_delete_over [OF assms(1) c(1)] c(2)
  show "dml_settled E layout ctx expected (command_of m layout a b (get_statement (de_settings E) layout condition))"
    "dml_settled E layout ctx expected
       (command_of m layout a b (delete_statement (de_settings E) layout condition (version_guard expected)))"
    by auto
qed

text \<open>The version that a mutation expects: none for a read and for an append.\<close>

definition expected_version :: "string \<Rightarrow> pyval dict \<Rightarrow> pyval" where
  "expected_version m input =
     (if m \<in> {''put'', ''patch'', ''delete''} then dict_get ''expectedVersion'' PNone input else PNone)"

lemma dml_settled:
  assumes "dml_compile E m ref input ctx = Inr out"
  shows "\<exists>layout. layout_for (de_settings E) ref = Inr layout \<and>
    (\<forall>c \<in> set (dml_commands out). dml_settled E layout ctx (expected_version m input) c)"
proof -
  from assms obtain layout where l: "layout_for (de_settings E) ref = Inr layout"
    by (auto simp: dml_compile_def and_then_success)
  then have d: "(r_canonical ref, layout) \<in> set (resources (de_settings E))"
    by (auto simp: layout_for_def dict_item_success dest: map_of_SomeD)
  from assms l consider
      c where "m = ''put''" "dml_put E layout input ctx = Inr c" "out = OneCommand c"
    | c where "m = ''get''" "dml_get E layout input ctx = Inr c" "out = OneCommand c"
    | c where "m = ''patch''" "dml_patch E layout input ctx = Inr c" "out = OneCommand c"
    | c where "m = ''delete''" "dml_delete E layout input ctx = Inr c" "out = OneCommand c"
    | "m = ''append''" "dml_append_all E layout input ctx = Inr out"
    by (auto simp: dml_compile_def Let_def and_then_success split: if_splits)
  then have "\<forall>c \<in> set (dml_commands out). dml_settled E layout ctx (expected_version m input) c"
  proof cases
    case 1 then show ?thesis using settled_put [OF _ d] by (simp add: expected_version_def)
  next
    case 2
    then show ?thesis using settled_read(1) [OF d] by (auto simp: dml_get_def Let_def and_then_success)
  next
    case 3
    then show ?thesis using settled_update [OF d]
      by (auto simp: expected_version_def dml_patch_def Let_def and_then_success)
  next
    case 4
    then show ?thesis using settled_read(2) [OF d]
      by (auto simp: expected_version_def dml_delete_def Let_def and_then_success)
  next
    case 5
    have e: "expected_version m input = PNone" using 5(1) by (simp add: expected_version_def)
    from 5(2) consider rows cs where "traverse (\<lambda>row. dml_append E layout row ctx) rows = Inr cs" "out = AppendBatch cs"
      | row c where "dml_append E layout row ctx = Inr c" "out = OneCommand c"
      by (cases "appended input") (auto simp: dml_append_all_def and_then_success)
    then show ?thesis
    proof cases
      case 1
      from traverse_all [OF 1(1), of "dml_settled E layout ctx PNone"] settled_append [OF _ d]
      show ?thesis unfolding e 1(2) by auto
    next
      case 2
      then show ?thesis unfolding e using settled_append [OF _ d] by simp
    qed
  qed
  with l show ?thesis by blast
qed

lemma dml_compile_scope:
  assumes "dml_compile E m ref input ctx = Inr out"
  shows "\<exists>vs. scope_values (de_settings E) ctx = Inr vs"
proof -
  from dml_settled [OF assms] obtain layout where
    l: "\<forall>c \<in> set (dml_commands out). dml_settled E layout ctx (expected_version m input) c" by blast
  have "dml_commands out \<noteq> []"
    using assms by (auto simp: dml_compile_def dml_append_all_def Let_def and_then_success ensure_success
        dest!: traverse_length split: if_splits pyval.splits)
  then show ?thesis using l by (cases "dml_commands out") auto
qed

text \<open>
  C25. No injection through mutations: every command that compiles has a text of the adapter's own fixed
  texts, quoted names of the binding and placeholders only, with balanced parentheses, and one parameter
  per placeholder.
\<close>
theorem dml_injection_free:
  assumes "dml_compile E m ref input ctx = Inr out" "c \<in> set (dml_commands out)"
  shows "set (command (dc_statement c)) \<subseteq> Raw ` set dml_texts \<union> Ident ` dml_names (de_settings E) \<union> {Hole} \<and>
    balanced (command (dc_statement c)) \<and> holes (command (dc_statement c)) = length (params (dc_statement c))"
proof -
  have o: "over_dml (de_settings E) (dc_statement c)" using dml_settled [OF assms(1)] assms(2) by blast
  have "set (command (dc_statement c)) \<subseteq> Raw ` set dml_texts \<union> Ident ` dml_names (de_settings E) \<union> {Hole}"
    using over_parts(3,4) [OF o] by (intro balanced_tokens over_balanced [OF o]) (auto simp: raw_texts_def)
  then show ?thesis using over_balanced [OF o] over_parts(1) [OF o] by blast
qed


section \<open>Examples\<close>

definition born_field :: field_layout where
  "born_field = \<lparr>f_name = ''born'', f_column = ''born'', f_type = LString, f_nullable = False,
     f_mutable = False, f_cardinality = One, f_precision = None, f_scale = None\<rparr>"

definition archive_layout :: resource_layout where
  "archive_layout = sample_layout\<lparr>l_ref := \<lparr>r_catalog = ''structured'', r_canonical = ''structured:archive''\<rparr>,
     l_table := ''archive'', l_fields := l_fields sample_layout @ [born_field]\<rparr>"

definition equals :: "string \<Rightarrow> pyval \<Rightarrow> pyval" where
  "equals n v =
     PMap [(PStr ''kind'', PStr ''eq''),
           (PStr ''left'', PMap [(PStr ''kind'', PStr ''field''), (PStr ''name'', PStr n)]),
           (PStr ''right'', PMap [(PStr ''kind'', PStr ''literal''), (PStr ''value'', v)])]"

definition sample_dml :: dml_env where
  "sample_dml =
     \<lparr>de_settings = graph_settings\<lparr>resources := (''structured:archive'', archive_layout) # resources graph_settings\<rparr>,
      de_texts = sample_texts,
      de_parse_filter = (\<lambda>w. case w of
          PMap [] \<Rightarrow> Inr None
        | PMap [(PStr n, v)] \<Rightarrow> Inr (Some (equals n v))
        | _ \<Rightarrow> Inl ValueError),
      de_reference = (\<lambda>_. Inr ''structured:people'')\<rparr>"

definition sample_ctx :: op_context where
  "sample_ctx = \<lparr>ctx_tenant = Some ''acme'', ctx_scope = [(''workspace'', ''w1'')]\<rparr>"

definition put_input :: "pyval dict \<Rightarrow> pyval \<Rightarrow> pyval dict" where
  "put_input fields_supplied expected =
     [(''mode'', PStr ''upsert''), (''expectedVersion'', expected), (''data'', object_of fields_supplied)]"

definition nick_put :: "pyval dict" where
  "nick_put = put_input [(''id'', PStr ''7''), (''nick'', PStr ''x'')] (PInt 3)"

lemma nick_put_compiles:
  "case dml_compile sample_dml ''put'' (l_ref sample_layout) nick_put sample_ctx of
     Inr (OneCommand c) \<Rightarrow> True | _ \<Rightarrow> False"
  by code_simp

lemma nick_put_command: "\<exists>c. dml_compile sample_dml ''put'' (l_ref sample_layout) nick_put sample_ctx = Inr (OneCommand c)"
  using nick_put_compiles by (auto split: sum.splits adapter_dml.splits)

lemma dml_injection_free_witness:
  "\<exists>c. dml_compile sample_dml ''put'' (l_ref sample_layout) nick_put sample_ctx = Inr (OneCommand c) \<and>
     holes (command (dc_statement c)) = length (params (dc_statement c))"
proof -
  obtain c where c: "dml_compile sample_dml ''put'' (l_ref sample_layout) nick_put sample_ctx = Inr (OneCommand c)"
    using nick_put_command by blast
  have "c \<in> set (dml_commands (OneCommand c))" by simp
  from dml_injection_free [OF c this] c show ?thesis by blast
qed


text \<open>
  A put with an expected version must supply the required fields and may not name an immutable one: for a
  layout with a required immutable field outside the identity, no version-checked put is accepted,
  although the same put without the version is.
\<close>

lemma version_checked_put_rejected:
  "dml_compile sample_dml ''put'' (l_ref archive_layout)
     (put_input [(''id'', PStr ''7''), (''nick'', PStr ''x''), (''born'', PStr ''y'')] (PInt 3)) sample_ctx = Inl ValueError \<and>
   dml_compile sample_dml ''put'' (l_ref archive_layout)
     (put_input [(''id'', PStr ''7''), (''nick'', PStr ''x'')] (PInt 3)) sample_ctx = Inl ValueError \<and>
   (case dml_compile sample_dml ''put'' (l_ref archive_layout)
      (put_input [(''id'', PStr ''7''), (''nick'', PStr ''x''), (''born'', PStr ''y'')] PNone) sample_ctx of
      Inr _ \<Rightarrow> True | Inl _ \<Rightarrow> False)"
  by code_simp

end
