(* ===== verification/OperationLaws.thy ===== *)
theory OperationLaws
  imports Operation DmlLaws
begin

text \<open>What an admitted operation guarantees, whatever its kind.\<close>

definition reads_only :: "adapter_command \<Rightarrow> bool" where
  "reads_only cmd \<longleftrightarrow>
     (case cmd of RunQuery _ \<Rightarrow> True | Mutation (OneCommand c) \<Rightarrow> dc_method c = ''get'' | _ \<Rightarrow> False)"

lemma starts_with_split: "starts_with p s \<Longrightarrow> s = p @ drop (length p) s"
  unfolding starts_with_def by (metis append_take_drop_id)

lemma admit_parts:
  assumes "admit C rq_op = Inr m"
  shows "m = method_of rq_op \<and> op_catalog rq_op \<in> {''structured'', ''evidence''} \<and>
    op_contract rq_op = contract_prefix (op_catalog rq_op) @ m \<and>
    m \<in> set (allowed_methods (op_catalog rq_op)) \<and> m \<noteq> ''create_resource'' \<and>
    op_version rq_op = required_version (op_catalog rq_op) m \<and> op_resources rq_op \<noteq> [] \<and>
    (\<forall>r \<in> set (op_resources rq_op). r_catalog r = op_catalog rq_op) \<and>
    (read_only (cm_settings C) \<longrightarrow> op_read_only rq_op \<and> m \<in> set read_methods)"
proof -
  have rw: "require_writable s = Inr u \<longleftrightarrow> \<not> read_only s" for s u
    by (auto simp: require_writable_def ensure_success)
  from assms show ?thesis
    unfolding admit_def Let_def
    by (auto simp: and_then_success ensure_success list_all_iff rw method_of_def
        split: if_splits intro: starts_with_split)
qed

lemma not_registry_parts:
  assumes "not_registry C refs = Inr u" "r \<in> set refs"
  shows "\<exists>layout. layout_for (cm_settings C) r = Inr layout \<and> l_profile layout \<noteq> ''metadata-registry''"
proof -
  from assms(1) obtain us where "traverse (\<lambda>r. and_then (layout_for (cm_settings C) r) (\<lambda>layout.
      ensure (l_profile layout \<noteq> ''metadata-registry'') ValueError)) refs = Inr us"
    by (auto simp: not_registry_def and_then_success)
  from traverse_each [OF this assms(2)] show ?thesis by (auto simp: and_then_success ensure_success)
qed

lemma dml_get_method:
  "dml_compile E ''get'' ref input ctx = Inr out \<Longrightarrow> \<exists>c. out = OneCommand c \<and> dc_method c = ''get''"
  by (auto simp: dml_compile_def dml_get_def Let_def and_then_success)

lemma publish_parts:
  assumes "publish_command C rq = Inr cmd" "admit C (rq_operation rq) = Inr m"
  shows "(\<exists>vs. scope_values (cm_settings C) (rq_context rq) = Inr vs) \<and> \<not> op_read_only (rq_operation rq) \<and>
    (\<exists>r layout. op_resources (rq_operation rq) = [r] \<and> r_canonical r = ''structured:meridian.registry'' \<and>
       layout_for (cm_settings C) r = Inr layout \<and> l_profile layout = ''metadata-registry'')"
proof -
  from assms(1) have v: "\<exists>vs. scope_values (cm_settings C) (rq_context rq) = Inr vs"
    and "\<exists>p. registry_pinned C (rq_operation rq) = Inr p \<and> p"
    unfolding publish_command_def Let_def and_then_success by (auto simp: ensure_success)
  then have "registry_pinned C (rq_operation rq) = Inr True" by auto
  then have "\<not> op_read_only (rq_operation rq) \<and>
    (\<exists>r layout. op_resources (rq_operation rq) = [r] \<and> r_canonical r = ''structured:meridian.registry'' \<and>
       layout_for (cm_settings C) r = Inr layout \<and> l_profile layout = ''metadata-registry'')"
    by (auto simp: registry_pinned_def and_then_success split: list.splits if_splits)
  with v show ?thesis by blast
qed

text \<open>
  C21. Admission: an operation compiles only when its contract is its catalog's and one the adapter offers,
  in the version that the adapter implements, over Resources of that catalog with a physical mapping in the
  binding (the metadata registry only through Schema publication), for a context with a tenant and exactly
  the binding's scope keys; and on a read-compatibility binding it is declared read-only, is a read method
  and compiles to a query or a get.
\<close>
theorem operation_admitted:
  assumes "compile_operation C rq = Inr cmd"
  shows "\<exists>m vs. op_contract (rq_operation rq) = contract_prefix (op_catalog (rq_operation rq)) @ m \<and>
    m \<in> set (allowed_methods (op_catalog (rq_operation rq))) \<and> m \<noteq> ''create_resource'' \<and>
    op_version (rq_operation rq) = required_version (op_catalog (rq_operation rq)) m \<and>
    op_resources (rq_operation rq) \<noteq> [] \<and>
    (\<forall>r \<in> set (op_resources (rq_operation rq)). r_catalog r = op_catalog (rq_operation rq) \<and>
       (\<exists>layout. layout_for (cm_settings C) r = Inr layout \<and>
          (l_profile layout = ''metadata-registry'' \<longleftrightarrow> m = ''publish_schema''))) \<and>
    scope_values (cm_settings C) (rq_context rq) = Inr vs \<and>
    (read_only (cm_settings C) \<longrightarrow>
       op_read_only (rq_operation rq) \<and> m \<in> set read_methods \<and> reads_only cmd)"
proof -
  let ?op = "rq_operation rq"
  from assms obtain m where m: "admit C ?op = Inr m" and
    r: "(if m = ''publish_schema'' then publish_command C rq
        else and_then (not_registry C (op_resources ?op)) (\<lambda>_.
          if m \<in> {''put'', ''get'', ''patch'', ''delete'', ''append''} \<and> \<not> has_plan ?op
          then and_then (dml_compile (cm_dml C) m (hd (op_resources ?op)) (op_input ?op) (rq_context rq)) (\<lambda>d.
            Inr (Mutation d))
          else query_command C rq m)) = Inr cmd"
    by (auto simp: compile_operation_def Let_def and_then_success)
  note A = admit_parts [OF m]
  show ?thesis
  proof (cases "m = ''publish_schema''")
    case True
    with r have p: "publish_command C rq = Inr cmd" by simp
    from publish_parts [OF p m] A True show ?thesis by auto
  next
    case False
    with r have n: "not_registry C (op_resources ?op) = Inr ()" by (auto simp: and_then_success)
    have bound_refs: "\<exists>layout. layout_for (cm_settings C) x = Inr layout \<and>
        (l_profile layout = ''metadata-registry'' \<longleftrightarrow> m = ''publish_schema'')" if "x \<in> set (op_resources ?op)" for x
      using not_registry_parts [OF n that] False by auto
    have "(\<exists>vs. scope_values (cm_settings C) (rq_context rq) = Inr vs) \<and>
        (m \<in> set read_methods \<longrightarrow> reads_only cmd)"
    proof (cases "m \<in> {''put'', ''get'', ''patch'', ''delete'', ''append''} \<and> \<not> has_plan ?op")
      case True
      with r n False obtain d where d: "cmd = Mutation d"
        "dml_compile (cm_dml C) m (hd (op_resources ?op)) (op_input ?op) (rq_context rq) = Inr d"
        by (auto simp: and_then_success)
      have "reads_only cmd" if "m \<in> set read_methods"
      proof -
        have "m = ''get''" using that True by (auto simp: read_methods_def)
        with dml_get_method d show ?thesis by (fastforce simp: reads_only_def)
      qed
      then show ?thesis using dml_compile_scope [OF d(2)] by blast
    next
      case q: False
      with r n False have "query_command C rq m = Inr cmd" by auto
      then show ?thesis unfolding query_command_def Let_def and_then_success reads_only_def by auto
    qed
    with A bound_refs show ?thesis by blast
  qed
qed

section \<open>Examples\<close>

definition sample_lib_query :: query_lib where
  "sample_lib_query =
     \<lparr>ql_defaults = sample_query\<lparr>qo_filter := None\<rparr>,
      ql_traversal = \<lparr>tv_relations = [], tv_resolved = True, tv_all_neighbors = False, tv_registry = None,
        tv_record_filter = None, tv_predicates = [], tv_direction = ''outbound'', tv_min_depth = 1, tv_max_depth = 1,
        tv_start_collection = [], tv_start_record = PNone\<rparr>,
      ql_valid = Inr, ql_from_mapping = (\<lambda>_. Inl ValueError), ql_resources = qo_targets,
      ql_field = (\<lambda>n. PMap [(PStr ''kind'', PStr ''field''), (PStr ''name'', PStr n)]),
      ql_full_text = (\<lambda>t fs. PMap [(PStr ''kind'', PStr ''fullText''), (PStr ''query'', PStr t),
        (PStr ''fields'', PSeq (map PStr fs))]),
      ql_and = (\<lambda>a b. PMap [(PStr ''kind'', PStr ''and''), (PStr ''operands'', PSeq [a, b])]),
      ql_aggregate = (\<lambda>f v d. PMap [(PStr ''kind'', PStr ''aggregate''), (PStr ''function'', PStr f),
        (PStr ''operand'', case v of Some x \<Rightarrow> x | None \<Rightarrow> PNone), (PStr ''distinct'', PBool d)]),
      ql_page = (\<lambda>n c. if n < 1 then Inl ValueError
        else Inr (nat n, case c of PStr t \<Rightarrow> Some t | _ \<Rightarrow> None)),
      ql_sort = (\<lambda>d n. Inr (if d = PStr ''desc'' then Desc else Asc, if n = PStr ''first'' then NullsFirst else NullsLast)),
      ql_reference = (\<lambda>v. Inr (''structured:people'', v)), ql_sha256 = (\<lambda>_. ''scope''),
      ql_document = (\<lambda>_ _ _ _. Inl ValueError)\<rparr>"

definition sample_compiler :: compiler where
  "sample_compiler = \<lparr>cm_dml = sample_dml, cm_translator = sample_translator, cm_lib = sample_lib_query\<rparr>"

definition sample_request :: "string \<Rightarrow> string \<Rightarrow> pyval dict \<Rightarrow> exec_request" where
  "sample_request contract version input =
     \<lparr>rq_binding = ''b'', rq_registry = ''r1'',
      rq_operation = \<lparr>op_catalog = ''structured'', op_contract = contract, op_version = version, op_read_only = False,
        op_idempotent = False, op_resources = [l_ref sample_layout], op_input = input, op_fingerprint = ''f''\<rparr>,
      rq_context = sample_ctx, rq_principal = PNone, rq_idempotency = PNone, rq_remaining = None\<rparr>"

definition sample_find :: exec_request where
  "sample_find = sample_request ''meridian.structured.query'' ''1.0.0''
     [(''where'', PMap [(PStr ''nick'', PStr ''x'')]), (''select'', PSeq [PStr ''id'']),
      (''orderBy'', PSeq [PMap [(PStr ''field'', PStr ''nick''), (PStr ''direction'', PStr ''desc'')]]), (''limit'', PInt 10)]"

lemma sample_find_compiles: "case compile_operation sample_compiler sample_find of Inr (RunQuery _) \<Rightarrow> True | _ \<Rightarrow> False"
  by code_simp

lemma operation_admitted_witness:
  "\<exists>cmd vs. compile_operation sample_compiler sample_find = Inr cmd \<and>
     scope_values (cm_settings sample_compiler) (rq_context sample_find) = Inr vs"
proof -
  obtain cmd where c: "compile_operation sample_compiler sample_find = Inr cmd"
    using sample_find_compiles by (auto split: sum.splits)
  from operation_admitted [OF c] c show ?thesis by blast
qed

end
