(* ===== verification/PgErrors.thy ===== *)
theory PgErrors
  imports Prelude
begin

text \<open>
  The SQLSTATE mapping of \<open>_errors.py\<close>: a driver exception becomes a Meridian error whose
  class is chosen by its SQLSTATE, in the order of the tests of the code.
\<close>

text \<open>
  An exception as the mapping sees it. \<open>exc_text\<close> stands for everything the driver puts in
  the exception besides its type and SQLSTATE (the statement, values, host names).
\<close>

record driver_exception =
  exc_type :: string
  exc_sqlstate :: "string option"
  exc_text :: string

record error_details =
  det_operation_contract :: "string option"
  det_request_id :: "string option"
  det_execution_id :: "string option"
  det_provenance :: "(string \<times> string) list"
  det_cause :: "string \<times> string option"

record mapped_error =
  me_class :: meridian_class
  me_code :: error_code
  me_message :: string
  me_retryable :: "bool option"
  me_details :: error_details

definition error_details_of ::
  "driver_exception \<Rightarrow> string option \<Rightarrow> string option \<Rightarrow> string option \<Rightarrow> error_details" where
  "error_details_of exc oc rid eid =
     \<lparr>det_operation_contract = oc, det_request_id = rid, det_execution_id = eid,
      det_provenance = (''adapter'', ''postgresql'') #
        (case exc_sqlstate exc of Some s \<Rightarrow> [(''sqlstate'', s)] | None \<Rightarrow> []),
      det_cause = (exc_type exc, exc_sqlstate exc)\<rparr>"

definition mk_error ::
  "meridian_class \<Rightarrow> error_code \<Rightarrow> string \<Rightarrow> bool option \<Rightarrow> error_details \<Rightarrow> mapped_error" where
  "mk_error c k m r d =
     \<lparr>me_class = c, me_code = k, me_message = m, me_retryable = r, me_details = d\<rparr>"

definition map_postgresql_error ::
  "driver_exception \<Rightarrow> string option \<Rightarrow> string option \<Rightarrow> string option \<Rightarrow> mapped_error" where
  "map_postgresql_error exc oc rid eid =
     (let state = exc_sqlstate exc;
          details = error_details_of exc oc rid eid;
          prefixed = (\<lambda>p. case state of Some s \<Rightarrow> starts_with p s | None \<Rightarrow> False)
      in if state \<in> {Some ''28P01'', Some ''28000''}
         then mk_error AuthenticationError ADAPTER_FAILURE
                ''PostgreSQL authentication failed'' None details
         else if state = Some ''42501''
         then mk_error AuthorizationError ADAPTER_FAILURE
                ''PostgreSQL authorization failed'' None details
         else if state = Some ''23505''
         then mk_error ConflictError IDEMPOTENCY_CONFLICT
                ''a unique value already exists'' None details
         else if prefixed ''23''
         then mk_error ConstraintError OPERATION_INVALID
                ''a PostgreSQL constraint rejected the operation'' None details
         else if state \<in> {Some ''40001'', Some ''40P01'', Some ''55P03''}
         then mk_error TransientError ADAPTER_FAILURE
                ''the PostgreSQL transaction must be retried'' None details
         else if state = Some ''57014''
         then mk_error MeridianTimeoutError DEADLINE_EXCEEDED
                ''the PostgreSQL statement deadline expired'' None details
         else if prefixed ''08''
         then mk_error UnavailableError ADAPTER_FAILURE
                ''the PostgreSQL service is unavailable'' (Some True) details
         else if prefixed ''25''
         then mk_error TransactionError TRANSACTION_STATE
                ''PostgreSQL transaction state is invalid'' None details
         else if state \<in> {Some ''42P01'', Some ''42703'', Some ''42883''}
         then mk_error ValidationError PHYSICAL_FINGERPRINT
                ''the pinned PostgreSQL physical schema is absent or incompatible'' None details
         else mk_error UnavailableError ADAPTER_FAILURE
                ''PostgreSQL rejected the adapter operation'' None details)"

text \<open>The exception that the components below see when a driver error is mapped.\<close>

definition mapped :: "string option \<Rightarrow> py_error" where
  "mapped state =
     (let m = map_postgresql_error \<lparr>exc_type = [], exc_sqlstate = state, exc_text = []\<rparr> None None None
      in MeridianError (me_class m) (me_code m))"

lemma mapped_unique: "mapped (Some ''23505'') = MeridianError ConflictError IDEMPOTENCY_CONFLICT"
  by (simp add: mapped_def map_postgresql_error_def mk_error_def Let_def)

lemma mapped_canceled: "mapped (Some ''57014'') = deadline_error"
  by (simp add: mapped_def map_postgresql_error_def mk_error_def Let_def starts_with_def)

text \<open>The fixed texts a mapped error can carry.\<close>

definition public_messages :: "string list" where
  "public_messages =
     [''PostgreSQL authentication failed'', ''PostgreSQL authorization failed'',
      ''a unique value already exists'', ''a PostgreSQL constraint rejected the operation'',
      ''the PostgreSQL transaction must be retried'',
      ''the PostgreSQL statement deadline expired'', ''the PostgreSQL service is unavailable'',
      ''PostgreSQL transaction state is invalid'',
      ''the pinned PostgreSQL physical schema is absent or incompatible'',
      ''PostgreSQL rejected the adapter operation'']"

definition is_public :: "mapped_error \<Rightarrow> bool" where
  "is_public m \<longleftrightarrow> me_message m \<in> set public_messages"

lemma is_public_if: "is_public x \<Longrightarrow> is_public y \<Longrightarrow> is_public (if b then x else y)"
  by simp

lemma is_public_mk: "m \<in> set public_messages \<Longrightarrow> is_public (mk_error c k m r d)"
  by (simp add: is_public_def mk_error_def)

lemma map_message_public: "is_public (map_postgresql_error exc oc rid eid)"
  unfolding map_postgresql_error_def Let_def
  by (intro is_public_if is_public_mk) (simp_all add: public_messages_def)

lemma map_details:
  "me_details (map_postgresql_error exc oc rid eid) = error_details_of exc oc rid eid"
  by (simp add: map_postgresql_error_def mk_error_def Let_def)

lemma map_ignores_text:
  "map_postgresql_error (exc\<lparr>exc_text := t\<rparr>) oc rid eid = map_postgresql_error exc oc rid eid"
  by (simp add: map_postgresql_error_def error_details_of_def)

text \<open>
  No leak through mapped errors: the statement text, values, host or credential that a driver
  exception carries never reaches the mapped Meridian error, whose message is one of ten fixed
  texts, and whose provenance holds the adapter name and the SQLSTATE only.
\<close>
theorem mapped_error_redacted:
  "map_postgresql_error (exc\<lparr>exc_text := t\<rparr>) oc rid eid = map_postgresql_error exc oc rid eid \<and>
   me_message (map_postgresql_error exc oc rid eid) \<in> set public_messages \<and>
   snd ` set (det_provenance (me_details (map_postgresql_error exc oc rid eid)))
     \<subseteq> insert ''postgresql'' (set_option (exc_sqlstate exc))"
  using map_message_public
  by (auto simp: map_ignores_text is_public_def map_details error_details_of_def
           split: option.splits)

text \<open>The class of a mapped error by SQLSTATE.\<close>

definition sqlstate_class :: "string option \<Rightarrow> meridian_class" where
  "sqlstate_class state =
     me_class (map_postgresql_error \<lparr>exc_type = [], exc_sqlstate = state, exc_text = []\<rparr> None None None)"

lemma map_class: "me_class (map_postgresql_error exc oc rid eid) = sqlstate_class (exc_sqlstate exc)"
  by (simp add: sqlstate_class_def map_postgresql_error_def mk_error_def Let_def)

end
