(* ===== verification/RegistryLaws.thy ===== *)
theory RegistryLaws
  imports Registry
begin

text \<open>
  The laws of the Schema registry: a compare-and-set cell of revisions (the interface of \<open>Prelude\<close>),
  immutable and increasing versions along every history of requests, a row that reads back what was
  written and nothing else, and transactions on the table that refine the decisions on snapshots.
\<close>

section \<open>Requests on a snapshot\<close>

datatype registry_request =
    PublishSchema schema_doc pyval bool string
  | DeprecateSchema schema_ref pyval string

fun request_expected :: "registry_request \<Rightarrow> int option" where
  "request_expected (PublishSchema _ (PInt n) _ _) = Some n"
| "request_expected (DeprecateSchema _ (PInt n) _) = Some n"
| "request_expected _ = None"

definition settled :: "registry_snapshot \<Rightarrow> ('r \<times> registry_snapshot option) \<Rightarrow> registry_snapshot" where
  "settled s d = (case snd d of None \<Rightarrow> s | Some s' \<Rightarrow> s')"

fun apply_request :: "schema_lib \<Rightarrow> registry_request \<Rightarrow> registry_snapshot \<Rightarrow> registry_snapshot result" where
  "apply_request lib (PublishSchema doc expected allow now) s =
     and_then (publish_on lib doc expected allow now s) (\<lambda>d. Inr (settled s d))"
| "apply_request lib (DeprecateSchema r expected now) s =
     and_then (deprecate_on lib r expected now s) (\<lambda>d. Inr (settled s d))"

lemma snapshot_simps [simp]:
  "rs_revision (snapshot_of lib n ps) = n"
  "rs_schemas (snapshot_of lib n ps) = sort_key (schema_order lib) ps"
  by (simp_all add: snapshot_of_def Let_def)

lemma revision_check_success:
  "revision_check v n = Inr u \<longleftrightarrow> v = PNone \<or> v = PInt n \<and> 0 \<le> n"
  by (cases v) auto

lemma publish_on_cases:
  assumes "publish_on lib doc expected allow now s = Inr (r, o')"
  shows "revision_check expected (rs_revision s) = Inr () \<and>
    (case o' of
       None \<Rightarrow> pr_existing r \<and> pr_schema r \<in> set (rs_schemas s) \<and> pub_ref (pr_schema r) = doc_ref doc \<and>
               doc_fingerprint (pub_doc (pr_schema r)) = doc_fingerprint doc \<and> pr_revision r = rs_revision s
     | Some s' \<Rightarrow> \<not> pr_existing r \<and> doc_ref doc \<notin> pub_ref ` set (rs_schemas s) \<and>
         pr_schema r = \<lparr>pub_doc = doc, pub_status = PUBLISHED, pub_at = now, pub_deprecated = None\<rparr> \<and>
         s' = snapshot_of lib (rs_revision s + 1) (rs_schemas s @ [pr_schema r]) \<and> pr_revision r = rs_revision s' \<and>
         (let versions = filter (\<lambda>p. same_schema (pub_ref p) (doc_ref doc)) (rs_schemas s)
          in versions \<noteq> [] \<longrightarrow> rank_of lib (pub_ref (last versions)) < rank_of lib (doc_ref doc) \<and>
               (rep_breaking (classify_compatibility lib (pub_doc (last versions)) doc) \<longrightarrow> allow)))"
proof -
  let ?vs = "filter (\<lambda>p. same_schema (pub_ref p) (doc_ref doc)) (rs_schemas s)"
  from assms have rev: "revision_check expected (rs_revision s) = Inr ()"
    unfolding publish_on_def and_then_success by auto
  show ?thesis
  proof (cases "find (\<lambda>p. pub_ref p = doc_ref doc) ?vs")
    case (Some x)
    then have "x \<in> set (rs_schemas s)" "pub_ref x = doc_ref doc"
      by (auto simp: find_Some_iff dest: nth_mem)
    then show ?thesis using assms rev Some
      by (auto simp: publish_on_def Let_def split: if_splits)
  next
    case None
    then have new: "doc_ref doc \<notin> pub_ref ` set (rs_schemas s)"
      by (auto simp: find_None_iff same_schema_def)
    show ?thesis using assms rev None new
      by (auto simp: publish_on_def Let_def split: if_splits)
  qed
qed

lemma deprecate_on_cases:
  assumes "deprecate_on lib reference expected now s = Inr (p', o')"
  shows "revision_check expected (rs_revision s) = Inr () \<and>
    (\<exists>p \<in> set (rs_schemas s). pub_ref p = reference \<and>
       (case o' of
          None \<Rightarrow> pub_status p = DEPRECATED \<and> p' = p
        | Some s' \<Rightarrow> pub_status p \<noteq> DEPRECATED \<and>
            p' = p\<lparr>pub_status := DEPRECATED, pub_deprecated := Some now\<rparr> \<and>
            s' = snapshot_of lib (rs_revision s + 1)
                   (map (\<lambda>old. if pub_ref old = reference then p' else old) (rs_schemas s))))"
proof -
  from assms have rev: "revision_check expected (rs_revision s) = Inr ()"
    unfolding deprecate_on_def and_then_success by auto
  with assms obtain x where x: "find (\<lambda>p. pub_ref p = reference) (rs_schemas s) = Some x"
    by (auto simp: deprecate_on_def split: option.splits)
  then have "x \<in> set (rs_schemas s)" "pub_ref x = reference"
    by (auto simp: find_Some_iff dest: nth_mem)
  then show ?thesis using assms rev x
    by (intro conjI bexI [of _ x]) (auto simp: deprecate_on_def Let_def split: if_splits)
qed

lemma apply_request_cases:
  assumes "apply_request lib q s = Inr s'"
  obtains (publish) doc v allow now r o' where "q = PublishSchema doc v allow now"
      "publish_on lib doc v allow now s = Inr (r, o')" "s' = (case o' of None \<Rightarrow> s | Some x \<Rightarrow> x)"
  | (deprecate) ref v now r o' where "q = DeprecateSchema ref v now"
      "deprecate_on lib ref v now s = Inr (r, o')" "s' = (case o' of None \<Rightarrow> s | Some x \<Rightarrow> x)"
proof (cases q)
  case (PublishSchema doc v allow now)
  with assms obtain d where "publish_on lib doc v allow now s = Inr d" "s' = settled s d"
    by (auto simp: and_then_success)
  then show thesis using publish [OF PublishSchema, of "fst d" "snd d"] by (simp add: settled_def)
next
  case (DeprecateSchema ref v now)
  with assms obtain d where "deprecate_on lib ref v now s = Inr d" "s' = settled s d"
    by (auto simp: and_then_success)
  then show thesis using deprecate [OF DeprecateSchema, of "fst d" "snd d"] by (simp add: settled_def)
qed

lemma apply_request_revision:
  assumes "apply_request lib q s = Inr s'"
  shows "s' = s \<or> rs_revision s' = rs_revision s + 1"
  using assms
proof (cases rule: apply_request_cases)
  case (publish doc v allow now r o')
  then show ?thesis using publish_on_cases [OF publish(2)] by (cases o') auto
next
  case (deprecate ref v now r o')
  then show ?thesis using deprecate_on_cases [OF deprecate(2)] by (cases o') auto
qed

lemma apply_request_expected:
  assumes "request_expected q = Some n" "apply_request lib q s = Inr s'"
  shows "n = rs_revision s"
  using assms(2)
proof (cases rule: apply_request_cases)
  case (publish doc v allow now r o')
  then have "revision_check v (rs_revision s) = Inr ()" using publish_on_cases by blast
  then show ?thesis using publish(1) assms(1) by (auto simp: revision_check_success)
next
  case (deprecate ref v now r o')
  then have "revision_check v (rs_revision s) = Inr ()" using deprecate_on_cases by blast
  then show ?thesis using deprecate(1) assms(1) by (auto simp: revision_check_success)
qed

interpretation registry: cas_cell rs_revision request_expected "apply_request lib" for lib
  by unfold_locales (fact apply_request_revision, fact apply_request_expected)

text \<open>
  C16. Compare-and-set of the Schema registry: of two requests (publications or deprecations) that
  expect the same revision, once one has changed the registry the other fails, whatever other
  requests ran in between; and revisions never decrease.
\<close>
theorem registry_no_lost_update:
  assumes "request_expected q = Some n" "apply_request lib q s = Inr s'" "s' \<noteq> s"
    and "request_expected q' = Some n"
  shows "(\<exists>e. apply_request lib q' (registry.run lib qs s') = Inl e) \<and> rs_revision s < rs_revision (registry.run lib qs s')"
  using registry.no_lost_update [OF assms(1-4)] registry.run_mono [of s' lib qs]
    apply_request_revision [OF assms(2)] assms(3)
  by auto

section \<open>Histories\<close>

definition status_ok :: "published \<Rightarrow> bool" where
  "status_ok p \<longleftrightarrow> (pub_status p = DEPRECATED) = (pub_deprecated p \<noteq> None)"

definition registry_wf :: "schema_lib \<Rightarrow> registry_snapshot \<Rightarrow> bool" where
  "registry_wf lib s \<longleftrightarrow> s = snapshot_of lib (rs_revision s) (rs_schemas s) \<and> 0 \<le> rs_revision s \<and>
     distinct (map (schema_order lib) (rs_schemas s)) \<and> list_all status_ok (rs_schemas s)"

lemma registry_wf_sorted:
  "registry_wf lib s \<Longrightarrow> sorted (map (schema_order lib) (rs_schemas s))"
  unfolding registry_wf_def by (metis snapshot_simps(2) sorted_sort_key)

lemma snapshot_of_sorted:
  "snapshot_of lib n (sort_key (schema_order lib) ps) = snapshot_of lib n ps"
proof -
  have "sort_key (schema_order lib) (sort_key (schema_order lib) ps) = sort_key (schema_order lib) ps"
    by (simp add: sort_key_id_if_sorted)
  then show ?thesis by (simp add: snapshot_of_def)
qed

lemma registry_wf_snapshot:
  assumes "0 \<le> n" "distinct (map (schema_order lib) ps)" "\<And>p. p \<in> set ps \<Longrightarrow> status_ok p"
  shows "registry_wf lib (snapshot_of lib n ps)"
proof -
  have "distinct (map (schema_order lib) (sort_key (schema_order lib) ps))"
    using assms(2) by (simp add: distinct_map)
  then show ?thesis using assms by (simp add: registry_wf_def snapshot_of_sorted list_all_iff)
qed

lemma sorted_last_max:
  assumes "sorted (map f xs)" "x \<in> set (filter P xs)"
  shows "f x \<le> f (last (filter P xs))"
proof -
  have s: "sorted (map f (filter P xs))" using assms(1) by (rule sorted_filter)
  from assms(2) have "filter P xs \<noteq> []" by (metis empty_iff empty_set)
  then obtain ys where ys: "filter P xs = ys @ [last (filter P xs)]"
    by (metis append_butlast_last_id)
  from s have "\<forall>y \<in> set ys. f y \<le> f (last (filter P xs))"
    by (subst (asm) ys) (auto simp: sorted_append)
  moreover from assms(2) have "x \<in> set ys \<or> x = last (filter P xs)"
    by (subst (asm) ys) auto
  ultimately show ?thesis by blast
qed

text \<open>A new version ranks above every version of its Schema.\<close>

lemma publish_on_rank:
  assumes wf: "registry_wf lib s" and "publish_on lib doc v allow now s = Inr (r, Some s')"
    and p: "p \<in> set (rs_schemas s)" "same_schema (pub_ref p) (doc_ref doc)"
  shows "rank_of lib (pub_ref p) < rank_of lib (doc_ref doc)"
proof -
  let ?P = "\<lambda>p. same_schema (pub_ref p) (doc_ref doc)"
  let ?vs = "filter ?P (rs_schemas s)"
  have pin: "p \<in> set ?vs" using p by simp
  then have ne: "?vs \<noteq> []" by (metis empty_iff empty_set)
  then have "last ?vs \<in> set ?vs" by (rule last_in_set)
  then have l: "?P (last ?vs)" by simp
  have "schema_order lib p \<le> schema_order lib (last ?vs)"
    using sorted_last_max [OF registry_wf_sorted [OF wf] pin] .
  then have "rank_of lib (pub_ref p) \<le> rank_of lib (pub_ref (last ?vs))"
    using p(2) l by (auto simp: schema_order_def same_schema_def)
  moreover have "rank_of lib (pub_ref (last ?vs)) < rank_of lib (doc_ref doc)"
    using publish_on_cases [OF assms(2)] ne by (simp add: Let_def)
  ultimately show ?thesis by (rule le_less_trans)
qed

lemma publish_on_wf:
  assumes wf: "registry_wf lib s" and p: "publish_on lib doc v allow now s = Inr (r, Some s')"
  shows "registry_wf lib s' \<and> set (rs_schemas s') = insert (pr_schema r) (set (rs_schemas s))"
proof -
  note C = publish_on_cases [OF p, simplified]
  let ?n = "pr_schema r"
  have ref: "pub_ref ?n = doc_ref doc" using C by (simp add: pub_ref_def)
  have "schema_order lib ?n \<noteq> schema_order lib q" if q: "q \<in> set (rs_schemas s)" for q
  proof (cases "same_schema (pub_ref q) (doc_ref doc)")
    case True
    from publish_on_rank [OF wf p q this] show ?thesis by (auto simp: schema_order_def ref)
  next
    case False
    then show ?thesis by (auto simp: schema_order_def ref same_schema_def)
  qed
  then have d: "distinct (map (schema_order lib) (rs_schemas s @ [?n]))"
    using wf by (auto simp: registry_wf_def)
  have ok: "status_ok ?n" using C by (simp add: status_ok_def)
  have s': "s' = snapshot_of lib (rs_revision s + 1) (rs_schemas s @ [?n])" using C by simp
  have "registry_wf lib s'" unfolding s'
    by (rule registry_wf_snapshot [OF _ d]) (use wf ok in \<open>auto simp: registry_wf_def list_all_iff\<close>)
  then show ?thesis by (simp add: s')
qed

text \<open>What the registry promises for a publication: its document and date stay, a deprecated one is final.\<close>

definition kept :: "published \<Rightarrow> published \<Rightarrow> bool" where
  "kept p p' \<longleftrightarrow> pub_doc p' = pub_doc p \<and> pub_at p' = pub_at p \<and> (pub_status p = DEPRECATED \<longrightarrow> p' = p)"

lemma kept_refl [simp]: "kept p p"
  by (simp add: kept_def)

lemma kept_trans: "kept p q \<Longrightarrow> kept q r \<Longrightarrow> kept p r"
  by (auto simp: kept_def)

lemma deprecate_on_wf:
  assumes wf: "registry_wf lib s" and d: "deprecate_on lib ref v now s = Inr (r, Some s')"
  shows "registry_wf lib s' \<and>
    set (rs_schemas s') = (\<lambda>old. if pub_ref old = ref then r else old) ` set (rs_schemas s) \<and>
    (\<forall>p \<in> set (rs_schemas s). pub_ref p = ref \<longrightarrow> kept p r \<and> pub_ref r = ref)"
proof -
  from deprecate_on_cases [OF d] obtain p where P: "p \<in> set (rs_schemas s)" "pub_ref p = ref"
    "pub_status p \<noteq> DEPRECATED" "r = p\<lparr>pub_status := DEPRECATED, pub_deprecated := Some now\<rparr>"
    "s' = snapshot_of lib (rs_revision s + 1)
            (map (\<lambda>old. if pub_ref old = ref then r else old) (rs_schemas s))"
    by auto
  let ?f = "\<lambda>old. if pub_ref old = ref then r else old"
  have r: "pub_ref r = ref" "schema_order lib r = schema_order lib p"
    using P(2,4) by (simp_all add: pub_ref_def schema_order_def)
  have same: "q = p" if "q \<in> set (rs_schemas s)" "pub_ref q = ref" for q
  proof -
    have "inj_on (schema_order lib) (set (rs_schemas s))"
      using wf by (simp add: registry_wf_def distinct_map)
    moreover have "schema_order lib q = schema_order lib p"
      using that(2) P(2) by (simp add: schema_order_def)
    ultimately show ?thesis using that(1) P(1) by (rule inj_onD)
  qed
  have "map (schema_order lib) (map ?f (rs_schemas s)) = map (schema_order lib) (rs_schemas s)"
    using r(2) P(2) by (auto simp: schema_order_def r)
  moreover have "distinct (map (schema_order lib) (rs_schemas s))"
    using wf by (simp add: registry_wf_def)
  ultimately have dist: "distinct (map (schema_order lib) (map ?f (rs_schemas s)))"
    by (simp only:)
  have "registry_wf lib s'" unfolding P(5)
    by (rule registry_wf_snapshot [OF _ dist])
      (use wf P(4) in \<open>auto simp: registry_wf_def list_all_iff status_ok_def\<close>)
  moreover have "kept q r" if "q \<in> set (rs_schemas s)" "pub_ref q = ref" for q
    using same [OF that] P(3,4) by (simp add: kept_def)
  ultimately show ?thesis using r(1) by (simp add: P(5))
qed

lemma apply_request_wf:
  assumes "registry_wf lib s" "apply_request lib q s = Inr s'"
  shows "registry_wf lib s' \<and> (\<forall>p \<in> set (rs_schemas s). \<exists>p' \<in> set (rs_schemas s'). kept p p')"
  using assms(2)
proof (cases rule: apply_request_cases)
  case (publish doc v allow now r o')
  then show ?thesis using publish_on_wf [OF assms(1), of doc v allow now r] assms(1)
    by (cases o') (auto intro: kept_refl)
next
  case (deprecate ref v now r o')
  show ?thesis
  proof (cases o')
    case None
    then show ?thesis using deprecate assms(1) by (auto intro: kept_refl)
  next
    case (Some x)
    note D = deprecate_on_wf [OF assms(1) deprecate(2) [unfolded Some]]
    have "s' = x" using deprecate(3) Some by simp
    have "\<exists>p' \<in> set (rs_schemas x). kept p p'" if p: "p \<in> set (rs_schemas s)" for p
    proof (cases "pub_ref p = ref")
      case True
      then have "r \<in> set (rs_schemas x)" using D p by force
      then show ?thesis using D p True by blast
    next
      case False
      then have "p \<in> set (rs_schemas x)" using D p by force
      then show ?thesis by (auto intro: kept_refl)
    qed
    with D \<open>s' = x\<close> show ?thesis by blast
  qed
qed

lemma registry_wf_empty: "registry_wf lib (snapshot_of lib 0 [])"
  by (rule registry_wf_snapshot) simp_all

lemma registry_run_wf:
  "registry_wf lib s \<Longrightarrow> registry_wf lib (registry.run lib qs s) \<and>
     (\<forall>p \<in> set (rs_schemas s). \<exists>p' \<in> set (rs_schemas (registry.run lib qs s)). kept p p')"
proof (induction qs arbitrary: s)
  case (Cons q qs)
  show ?case
  proof (cases "apply_request lib q s")
    case (Inl e)
    then show ?thesis using Cons by simp
  next
    case (Inr t)
    note T = apply_request_wf [OF Cons.prems Inr]
    then show ?thesis using Cons.IH [of t] Inr by (simp, meson kept_trans)
  qed
qed (auto intro: kept_refl)

text \<open>
  C15. Published Schemas are immutable: whatever sequence of publications and deprecations runs, every
  publication keeps its document, fingerprint and date, a deprecated one never changes again, no two
  publications share Schema and version rank, they stay in canonical order, and a publication is
  DEPRECATED exactly when it has a deprecation date.
\<close>
theorem registry_immutable:
  assumes "registry_wf lib s"
  shows "let t = registry.run lib qs s in
    (\<forall>p \<in> set (rs_schemas s). \<exists>p' \<in> set (rs_schemas t).
       pub_doc p' = pub_doc p \<and> pub_at p' = pub_at p \<and> (pub_status p = DEPRECATED \<longrightarrow> p' = p)) \<and>
    sorted (map (schema_order lib) (rs_schemas t)) \<and> distinct (map (schema_order lib) (rs_schemas t)) \<and>
    (\<forall>p \<in> set (rs_schemas t). (pub_status p = DEPRECATED) = (pub_deprecated p \<noteq> None))"
  using registry_run_wf [OF assms, of qs] registry_wf_sorted [of lib "registry.run lib qs s"]
  unfolding Let_def kept_def by (simp add: registry_wf_def list_all_iff status_ok_def)

text \<open>
  C17. A publication that adds a version adds exactly it, under the next revision: its version ranks
  above every version of its Schema, a breaking change was explicitly allowed, an expected revision
  was the observed one; one that finds its version reports the existing equal document and writes
  nothing.
\<close>
theorem publish_decision:
  assumes "registry_wf lib s" "publish_on lib doc expected allow now s = Inr (r, o')"
  shows "(expected = PNone \<or> expected = PInt (rs_revision s)) \<and>
    (case o' of
       None \<Rightarrow> pr_existing r \<and> pr_schema r \<in> set (rs_schemas s) \<and> pub_ref (pr_schema r) = doc_ref doc \<and>
               doc_fingerprint (pub_doc (pr_schema r)) = doc_fingerprint doc
     | Some s' \<Rightarrow> pub_doc (pr_schema r) = doc \<and> pub_status (pr_schema r) = PUBLISHED \<and>
         rs_revision s' = rs_revision s + 1 \<and> pr_revision r = rs_revision s' \<and>
         set (rs_schemas s') = insert (pr_schema r) (set (rs_schemas s)) \<and>
         (\<forall>p \<in> set (rs_schemas s). same_schema (pub_ref p) (doc_ref doc) \<longrightarrow>
            rank_of lib (pub_ref p) < rank_of lib (doc_ref doc)) \<and>
         (let versions = filter (\<lambda>p. same_schema (pub_ref p) (doc_ref doc)) (rs_schemas s)
          in versions \<noteq> [] \<and> rep_breaking (classify_compatibility lib (pub_doc (last versions)) doc) \<longrightarrow> allow))"
proof -
  note C = publish_on_cases [OF assms(2)]
  show ?thesis
  proof (cases o')
    case None
    then show ?thesis using C by (auto simp: revision_check_success)
  next
    case (Some s')
    note W = publish_on_wf [OF assms(1) assms(2) [unfolded Some]]
    note R = publish_on_rank [OF assms(1) assms(2) [unfolded Some]]
    from C Some W R show ?thesis by (simp add: revision_check_success Let_def) blast
  qed
qed

section \<open>The row\<close>

text \<open>
  What the registry relies on of the core package: printing a publication and a reference can be
  parsed back, and printing adds no NaN.
\<close>

definition schema_laws :: "schema_lib \<Rightarrow> bool" where
  "schema_laws lib \<longleftrightarrow>
     (\<forall>p. json_get ''schema'' (published_dict lib p) = Inr (doc_definition (pub_doc p)) \<and>
        and_then (json_get ''status'' (published_dict lib p)) (status_of lib) = Inr (pub_status p) \<and>
        json_get ''publishedAt'' (published_dict lib p) = Inr (PStr (pub_at p)) \<and>
        json_get ''deprecatedAt'' (published_dict lib p) =
          Inr (case pub_deprecated p of None \<Rightarrow> PNone | Some t \<Rightarrow> PStr t) \<and>
        (nan_free (doc_definition (pub_doc p)) \<longrightarrow> nan_free (published_dict lib p))) \<and>
     (\<forall>r. sr_version r \<noteq> None \<longrightarrow> parse_exact lib (ref_dict lib r) = Inr r \<and> nan_free (ref_dict lib r))"

text \<open>A document of the core package that the repository accepts, published at a proper time.\<close>

definition doc_valid :: "schema_lib \<Rightarrow> repository \<Rightarrow> schema_doc \<Rightarrow> bool" where
  "doc_valid lib repo d \<longleftrightarrow>
     doc_from_definition lib (doc_ref d) (doc_definition d) = Inr d \<and> validate_schema lib d = Inr () \<and>
     sr_version (doc_ref d) \<noteq> None \<and> sr_catalog (doc_ref d) \<in> set (repo_catalogs repo) \<and>
     nan_free (doc_definition d)"

definition time_valid :: "schema_lib \<Rightarrow> string \<Rightarrow> bool" where
  "time_valid lib t \<longleftrightarrow> t \<noteq> [] \<and> timestamp_aware lib (PStr t) = Inr True"

definition publication_valid :: "schema_lib \<Rightarrow> repository \<Rightarrow> published \<Rightarrow> bool" where
  "publication_valid lib repo p \<longleftrightarrow> doc_valid lib repo (pub_doc p) \<and> time_valid lib (pub_at p) \<and>
     (case pub_deprecated p of None \<Rightarrow> True | Some t \<Rightarrow> time_valid lib t)"

definition registry_valid :: "schema_lib \<Rightarrow> repository \<Rightarrow> registry_snapshot \<Rightarrow> bool" where
  "registry_valid lib repo s \<longleftrightarrow> registry_wf lib s \<and> list_all (publication_valid lib repo) (rs_schemas s)"

lemma json_map_get: "json_get k (json_map d) = (case map_of d k of Some v \<Rightarrow> Inr v | None \<Rightarrow> Inl KeyError)"
proof -
  have "map_of (map (\<lambda>(k, v). (PStr k, v)) d) (PStr k) = map_of d k"
    by (induction d) auto
  then show ?thesis by (simp add: json_map_def)
qed

lemma json_map_keys: "payload_keys (json_map d) = Some (keys d)"
proof -
  have "str_keys (map (\<lambda>(k, v). (PStr k, v)) d) = Some d"
    by (induction d) auto
  then show ?thesis by (simp add: json_map_def)
qed

lemma traverse_back: "(\<And>x. x \<in> set xs \<Longrightarrow> f (h x) = Inr x) \<Longrightarrow> traverse f (map h xs) = Inr xs"
  by (induction xs) auto

lemma read_entry_back:
  assumes laws: "schema_laws lib" and ok: "publication_valid lib repo p" "status_ok p"
  shows "read_entry lib repo (published_dict lib p, ref_dict lib (pub_ref p)) = Inr p"
proof -
  have L: "json_get ''schema'' (published_dict lib p) = Inr (doc_definition (pub_doc p))"
    "json_get ''publishedAt'' (published_dict lib p) = Inr (PStr (pub_at p))"
    "json_get ''deprecatedAt'' (published_dict lib p) =
       Inr (case pub_deprecated p of None \<Rightarrow> PNone | Some t \<Rightarrow> PStr t)"
    and S: "and_then (json_get ''status'' (published_dict lib p)) (status_of lib) = Inr (pub_status p)"
    using laws by (auto simp: schema_laws_def)
  from S obtain v where v: "json_get ''status'' (published_dict lib p) = Inr v" "status_of lib v = Inr (pub_status p)"
    by (auto simp: and_then_success)
  have d: "doc_valid lib repo (pub_doc p)" and t: "time_valid lib (pub_at p)"
    using ok(1) by (simp_all add: publication_valid_def)
  have r: "parse_exact lib (ref_dict lib (pub_ref p)) = Inr (pub_ref p)" "nan_free (ref_dict lib (pub_ref p))"
    "nan_free (published_dict lib p)"
    using laws d by (auto simp: schema_laws_def doc_valid_def pub_ref_def)
  have gone: "check_timestamp lib (case pub_deprecated p of None \<Rightarrow> PNone | Some t \<Rightarrow> PStr t) = Inr ()"
    "text_or_none (case pub_deprecated p of None \<Rightarrow> PNone | Some t \<Rightarrow> PStr t) = Inr (pub_deprecated p)"
    using ok(1) by (auto simp: publication_valid_def check_timestamp_def time_valid_def split: option.splits)
  have doc: "doc_from_definition lib (pub_ref p) (doc_definition (pub_doc p)) = Inr (pub_doc p)"
    "check_catalog repo (doc_ref (pub_doc p)) = Inr ()" "validate_schema lib (pub_doc p) = Inr ()"
    using d by (auto simp: doc_valid_def check_catalog_def pub_ref_def)
  have made: "check_timestamp lib (PStr (pub_at p)) = Inr ()" "pub_at p \<noteq> []"
    using t by (auto simp: check_timestamp_def time_valid_def)
  have st: "(pub_status p = DEPRECATED) = (pub_deprecated p \<noteq> None)" using ok(2) by (simp add: status_ok_def)
  have eta: "\<lparr>pub_doc = pub_doc p, pub_status = pub_status p, pub_at = pub_at p,
      pub_deprecated = pub_deprecated p\<rparr> = p" by simp
  show ?thesis
    using made(2) st py_eq_refl [OF r(2)] py_eq_refl [OF r(3)]
    by (simp add: read_entry_def L v r(1) gone doc made(1) Let_def eta)
qed

lemma payload_nan_free:
  assumes "schema_laws lib" "registry_valid lib repo s"
  shows "nan_free (json_map (payload_of lib s))"
  using assms
  by (auto simp: json_map_def payload_of_def list_all_iff registry_valid_def publication_valid_def
      doc_valid_def schema_laws_def pub_ref_def)

text \<open>Reading the row that was written for a registry gives that registry back.\<close>

lemma read_back:
  assumes laws: "schema_laws lib" and ok: "registry_valid lib repo s"
  shows "read_row lib repo (Some (row_of lib s)) = Inr s"
proof -
  let ?pay = "json_map (payload_of lib s)"
  have wf: "registry_wf lib s" using ok by (simp add: registry_valid_def)
  then have canon: "snapshot_of lib (rs_revision s) (rs_schemas s) = s" "0 \<le> rs_revision s"
    by (simp_all add: registry_wf_def)
  have "inj_on (schema_order lib) (set (rs_schemas s))" "distinct (rs_schemas s)"
    using wf by (simp_all add: registry_wf_def distinct_map)
  then have refs: "distinct (map pub_ref (rs_schemas s))"
    by (auto simp: distinct_map schema_order_def inj_on_def)
  have entries: "traverse (read_entry lib repo)
      (zip (map (published_dict lib) (rs_schemas s)) (map (\<lambda>p. ref_dict lib (pub_ref p)) (rs_schemas s)))
    = Inr (rs_schemas s)"
    unfolding zip_map_map zip_same_conv_map map_map
    by (rule traverse_back)
      (use ok wf in \<open>auto simp: registry_valid_def registry_wf_def list_all_iff intro: read_entry_back [OF laws]\<close>)
  have keys: "payload_keys ?pay =
      Some [''revision'', ''fingerprint'', ''schemas'', ''resources'', ''references'']"
    by (simp add: json_map_keys keys_def payload_of_def)
  have gets: "json_get ''schemas'' ?pay = Inr (PSeq (map (published_dict lib) (rs_schemas s)))"
    "json_get ''references'' ?pay = Inr (PSeq (map (\<lambda>p. ref_dict lib (pub_ref p)) (rs_schemas s)))"
    by (simp_all add: json_map_get payload_of_def)
  have m: "is_mapping ?pay" by (simp add: json_map_def)
  have "parse_row lib repo (row_of lib s) = Inr s"
    using refs py_eq_refl [OF payload_nan_free [OF laws ok]] canon
    by (simp add: parse_row_def row_of_def Let_def keys gets entries m)
  then show ?thesis by (simp add: read_row_def)
qed

section \<open>An example\<close>

fun sample_parse :: "pyval \<Rightarrow> schema_ref result" where
  "sample_parse (PSeq [PStr c, PStr n, PStr m, PStr v]) =
     Inr \<lparr>sr_catalog = c, sr_namespace = n, sr_name = m, sr_version = Some v\<rparr>"
| "sample_parse _ = Inl ValueError"

definition sample_lib :: schema_lib where
  "sample_lib =
     \<lparr>version_rank = map of_char, validate_schema = (\<lambda>_. Inr ()),
      classify_compatibility = (\<lambda>_ _. \<lparr>rep_breaking = False, rep_detail = 0\<rparr>),
      sha256_fingerprint = (\<lambda>_. ''fp''),
      published_dict = (\<lambda>p. PMap [(PStr ''schema'', doc_definition (pub_doc p)),
        (PStr ''status'', PBool (pub_status p = PUBLISHED)), (PStr ''publishedAt'', PStr (pub_at p)),
        (PStr ''deprecatedAt'', case pub_deprecated p of None \<Rightarrow> PNone | Some t \<Rightarrow> PStr t)]),
      ref_dict = (\<lambda>r. PSeq [PStr (sr_catalog r), PStr (sr_namespace r), PStr (sr_name r),
        case sr_version r of None \<Rightarrow> PNone | Some v \<Rightarrow> PStr v]),
      parse_exact = sample_parse,
      exact_ref = (\<lambda>r. if sr_version r = None then Inl ValueError else Inr r),
      doc_from_definition = (\<lambda>r d. Inr \<lparr>doc_ref = r, doc_definition = d, doc_fingerprint = ''fp''\<rparr>),
      timestamp_aware = (\<lambda>_. Inr True),
      status_of = (\<lambda>v. if v = PBool True then Inr PUBLISHED else if v = PBool False then Inr DEPRECATED
                       else Inl ValueError)\<rparr>"

lemma sample_lib_laws: "schema_laws sample_lib"
  by (auto simp: schema_laws_def sample_lib_def and_then_def split: option.splits schema_status.splits)
    (metis schema_status.exhaust)+

definition sample_doc :: "string \<Rightarrow> schema_doc" where
  "sample_doc v =
     \<lparr>doc_ref = \<lparr>sr_catalog = ''structured'', sr_namespace = ''a'', sr_name = ''b'', sr_version = Some v\<rparr>,
      doc_definition = PInt 1, doc_fingerprint = ''fp''\<rparr>"

definition sample_registry :: registry_snapshot where
  "sample_registry = snapshot_of sample_lib 1
     [\<lparr>pub_doc = sample_doc ''1'', pub_status = PUBLISHED, pub_at = ''t'', pub_deprecated = None\<rparr>]"

definition sample_repository :: repository where
  "sample_repository = \<lparr>repo_namespace = ''meridian'', repo_key = (''tenant'', []),
     repo_catalogs = [''structured''], repo_timeout = 1000\<rparr>"

lemma sample_registry_valid: "registry_valid sample_lib sample_repository sample_registry"
proof -
  have "registry_wf sample_lib sample_registry"
    unfolding sample_registry_def by (rule registry_wf_snapshot) (auto simp: status_ok_def)
  then show ?thesis
    by (simp add: registry_valid_def sample_registry_def publication_valid_def doc_valid_def time_valid_def
        sample_repository_def sample_doc_def sample_lib_def)
qed

lemma sample_publish:
  "\<exists>r s'. publish_on sample_lib (sample_doc ''2'') (PInt 1) False ''t'' sample_registry = Inr (r, Some s') \<and>
     \<not> pr_existing r"
proof -
  have "case publish_on sample_lib (sample_doc ''2'') (PInt 1) False ''t'' sample_registry of
      Inr (r, Some s') \<Rightarrow> \<not> pr_existing r | _ \<Rightarrow> False" by code_simp
  then show ?thesis by (auto split: sum.splits option.splits)
qed

lemma registry_no_lost_update_witness:
  "\<exists>s' e. apply_request sample_lib (PublishSchema (sample_doc ''2'') (PInt 1) False ''t'') sample_registry = Inr s' \<and>
     apply_request sample_lib (DeprecateSchema (doc_ref (sample_doc ''1'')) (PInt 1) ''t'') s' = Inl e"
proof -
  from sample_publish obtain r s' where
    p: "publish_on sample_lib (sample_doc ''2'') (PInt 1) False ''t'' sample_registry = Inr (r, Some s')"
    by blast
  then have a: "apply_request sample_lib (PublishSchema (sample_doc ''2'') (PInt 1) False ''t'') sample_registry = Inr s'"
    by (simp add: settled_def)
  have "rs_revision s' \<noteq> rs_revision sample_registry" using publish_on_cases [OF p] by simp
  then have "s' \<noteq> sample_registry" by auto
  from registry_no_lost_update [OF _ a this, of 1 "DeprecateSchema (doc_ref (sample_doc ''1'')) (PInt 1) ''t''" "[]"]
  show ?thesis using a by auto
qed

lemma registry_immutable_witness:
  "\<exists>p \<in> set (rs_schemas (registry.run sample_lib
       [DeprecateSchema (doc_ref (sample_doc ''1'')) PNone ''t''] sample_registry)). pub_doc p = sample_doc ''1''"
proof -
  have "registry_wf sample_lib sample_registry" using sample_registry_valid by (simp add: registry_valid_def)
  from registry_immutable [OF this, of "[DeprecateSchema (doc_ref (sample_doc ''1'')) PNone ''t'']"]
  show ?thesis unfolding Let_def by (auto simp: sample_registry_def)
qed

lemma publish_decision_witness:
  "\<exists>r s'. publish_on sample_lib (sample_doc ''2'') (PInt 1) False ''t'' sample_registry = Inr (r, Some s') \<and>
     rs_revision s' = rs_revision sample_registry + 1 \<and> pub_doc (pr_schema r) = sample_doc ''2''"
proof -
  from sample_publish obtain r s' where
    p: "publish_on sample_lib (sample_doc ''2'') (PInt 1) False ''t'' sample_registry = Inr (r, Some s')"
    by blast
  have "registry_wf sample_lib sample_registry" using sample_registry_valid by (simp add: registry_valid_def)
  from publish_decision [OF this p] p show ?thesis by simp
qed

end
