(* ===== verification/RegistryStore.thy ===== *)
theory RegistryStore
  imports RegistryLaws
begin

text \<open>
  The Schema registry on its table: publication and deprecation as transactions that refine the
  decisions on snapshots and touch one row, what a successful read has verified, and the migration
  that creates the tables.
\<close>

section \<open>Transactions\<close>

definition registry_holds :: "schema_lib \<Rightarrow> repository \<Rightarrow> registry_db \<Rightarrow> registry_snapshot \<Rightarrow> bool" where
  "registry_holds lib repo db s \<longleftrightarrow> registry_valid lib repo s \<and>
     (case registry_rows db (repo_key repo) of
        None \<Rightarrow> s = snapshot_of lib 0 [] | Some row \<Rightarrow> row = row_of lib s)"

lemma registry_valid_empty: "registry_valid lib repo (snapshot_of lib 0 [])"
  by (simp add: registry_valid_def registry_wf_empty)

lemma holds_read:
  assumes "schema_laws lib" "registry_holds lib repo db s"
  shows "read_row lib repo (registry_rows db (repo_key repo)) = Inr s"
  using assms read_back [OF assms(1), of repo s]
  by (auto simp: registry_holds_def read_row_def split: option.splits)

lemma holds_insert_empty:
  assumes "registry_holds lib repo db s"
  shows "registry_holds lib repo (insert_empty lib repo db) s"
    "registry_rows (insert_empty lib repo db) (repo_key repo) \<noteq> None"
    "k \<noteq> repo_key repo \<Longrightarrow> registry_rows (insert_empty lib repo db) k = registry_rows db k"
  using assms by (auto simp: registry_holds_def insert_empty_def registry_tab.lookup_store split: option.splits)

lemma holds_write:
  assumes "registry_rows db (repo_key repo) \<noteq> None" "registry_valid lib repo s"
  shows "registry_holds lib repo (write_registry lib repo s db) s"
    "k \<noteq> repo_key repo \<Longrightarrow> registry_rows (write_registry lib repo s db) k = registry_rows db k"
  using assms by (auto simp: registry_holds_def write_registry_def registry_tab.lookup_store split: option.splits)

lemma locked_update_refines:
  assumes laws: "schema_laws lib" and holds: "registry_holds lib repo db s"
    and valid: "\<And>r s'. decide s = Inr (r, Some s') \<Longrightarrow> registry_valid lib repo s'"
    and run: "locked_update lib repo decide db = (res, db')"
  shows "(case decide s of
       Inl e \<Rightarrow> res = Inl e \<and> db' = db
     | Inr d \<Rightarrow> res = Inr (fst d) \<and> registry_holds lib repo db' (settled s d)) \<and>
    (\<forall>k. k \<noteq> repo_key repo \<longrightarrow> registry_rows db' k = registry_rows db k)"
proof -
  let ?db = "insert_empty lib repo db"
  note I = holds_insert_empty [OF holds]
  have read: "read_registry lib repo True db = (Inr s, ?db)"
    using holds_read [OF laws I(1)] by (simp add: read_registry_def)
  show ?thesis
  proof (cases "decide s")
    case (Inl e)
    then show ?thesis using run by (simp add: locked_update_def read)
  next
    case (Inr d)
    obtain r o' where d: "d = (r, o')" by (cases d)
    show ?thesis
    proof (cases o')
      case None
      then show ?thesis using run I Inr by (simp add: locked_update_def read d settled_def)
    next
      case (Some s')
      from valid have v: "registry_valid lib repo s'" using Inr d Some by simp
      have "db' = write_registry lib repo s' ?db" "res = Inr r"
        using run Inr d Some by (simp_all add: locked_update_def read)
      then show ?thesis using holds_write [OF I(2) v] I(3) Inr d Some by (simp add: settled_def)
    qed
  qed
qed

lemma publish_valid:
  assumes "registry_valid lib repo s" "doc_valid lib repo doc" "time_valid lib now"
    and p: "publish_on lib doc expected allow now s = Inr (r, Some s')"
  shows "registry_valid lib repo s'"
proof -
  have "registry_wf lib s" using assms(1) by (simp add: registry_valid_def)
  note W = publish_on_wf [OF this p]
  have "publication_valid lib repo (pr_schema r)"
    using publish_on_cases [OF p] assms(2,3) by (simp add: publication_valid_def)
  then show ?thesis using W assms(1) by (simp add: registry_valid_def list_all_iff)
qed

lemma deprecate_valid:
  assumes "registry_valid lib repo s" "time_valid lib now"
    and d: "deprecate_on lib ref expected now s = Inr (r, Some s')"
  shows "registry_valid lib repo s'"
proof -
  have "registry_wf lib s" using assms(1) by (simp add: registry_valid_def)
  note W = deprecate_on_wf [OF this d]
  from deprecate_on_cases [OF d] obtain p where "p \<in> set (rs_schemas s)"
    "r = p\<lparr>pub_status := DEPRECATED, pub_deprecated := Some now\<rparr>" by auto
  then have "publication_valid lib repo r"
    using assms(1,2) by (auto simp: registry_valid_def list_all_iff publication_valid_def)
  then show ?thesis using W assms(1) by (auto simp: registry_valid_def list_all_iff)
qed

lemma find_same_ref:
  assumes "p \<in> set ps" "P p" "\<And>q. q \<in> set ps \<Longrightarrow> P q \<Longrightarrow> q = p"
  shows "find P ps = Some p"
proof (cases "find P ps")
  case None
  then show ?thesis using assms(1,2) by (auto simp: find_None_iff)
next
  case (Some q)
  then have "q \<in> set ps" "P q" by (auto simp: find_Some_iff dest: nth_mem)
  then show ?thesis using assms(3) Some by simp
qed

text \<open>
  C14. A publication transaction refines the decision on the registry that the row holds: an error
  leaves the database as it was; otherwise the answer is the decision's, the row holds the decided
  registry, every other tenant and scope keeps its row, and the published version can be got back.
\<close>
theorem publish_transaction:
  assumes laws: "schema_laws lib" and holds: "registry_holds lib repo db s"
    and ok: "doc_valid lib repo doc" "time_valid lib now"
    and run: "publish_schema lib repo (Inr ()) doc expected (PBool allow) now db = (res, db')"
  shows "(case publish_on lib doc expected allow now s of
       Inl e \<Rightarrow> res = Inl e \<and> db' = db
     | Inr d \<Rightarrow> res = Inr (fst d) \<and> snapshot lib repo (Inr ()) db' = Inr (settled s d) \<and>
         (\<not> pr_existing (fst d) \<longrightarrow>
            get_schema lib repo (Inr ()) (doc_ref doc) False db' = Inr (pr_schema (fst d)))) \<and>
    (\<forall>k. k \<noteq> repo_key repo \<longrightarrow> registry_rows db' k = registry_rows db k)"
proof -
  have valid: "registry_valid lib repo s" using holds by (simp add: registry_holds_def)
  have run': "locked_update lib repo (publish_on lib doc expected allow now) db = (res, db')"
    using run ok(1) by (simp add: publish_schema_def doc_valid_def check_catalog_def)
  have v: "registry_valid lib repo s'"
    if "publish_on lib doc expected allow now s = Inr (x, Some s')" for x s'
    using that by (rule publish_valid [OF valid ok])
  note R = locked_update_refines [OF laws holds v run']
  show ?thesis
  proof (cases "publish_on lib doc expected allow now s")
    case (Inl e)
    then show ?thesis using R by simp
  next
    case (Inr d)
    obtain r o' where d: "d = (r, o')" by (cases d)
    have snap: "snapshot lib repo (Inr ()) db' = Inr (settled s d)"
      using R Inr holds_read [OF laws] by (simp add: snapshot_def read_registry_def)
    have "get_schema lib repo (Inr ()) (doc_ref doc) False db' = Inr (pr_schema r)" if new: "\<not> pr_existing r"
    proof -
      from publish_on_cases [OF Inr [unfolded d]] new obtain s' where
        C: "o' = Some s'" "pub_doc (pr_schema r) = doc" "pub_status (pr_schema r) = PUBLISHED"
        "doc_ref doc \<notin> pub_ref ` set (rs_schemas s)"
        by (auto split: option.splits)
      have "registry_wf lib s" using valid by (simp add: registry_valid_def)
      note W = publish_on_wf [OF this Inr [unfolded d C(1)]]
      have ref: "pub_ref (pr_schema r) = doc_ref doc" using C(2) by (simp add: pub_ref_def)
      let ?c = "filter (\<lambda>p. same_schema (pub_ref p) (doc_ref doc) \<and> pub_status p = PUBLISHED) (rs_schemas s')"
      have "find (\<lambda>p. sr_version (doc_ref doc) = None \<or> sr_version (pub_ref p) = sr_version (doc_ref doc)) (rev ?c)
          = Some (pr_schema r)"
      proof (rule find_same_ref)
        fix q assume "q \<in> set (rev ?c)"
          "sr_version (doc_ref doc) = None \<or> sr_version (pub_ref q) = sr_version (doc_ref doc)"
        then have "q \<in> set (rs_schemas s')" "pub_ref q = doc_ref doc"
          using ok(1) by (auto simp: same_schema_def doc_valid_def)
        then show "q = pr_schema r" using W C(4) by (auto simp: image_iff)
      qed (use W C ref in \<open>auto simp: same_schema_def\<close>)
      moreover have "check_catalog repo (doc_ref doc) = Inr ()"
        using ok(1) by (simp add: doc_valid_def check_catalog_def)
      ultimately show ?thesis
        by (simp add: get_schema_def list_schema_versions_def snap d settled_def C(1))
    qed
    then show ?thesis using R Inr snap d by simp
  qed
qed

text \<open>
  A deprecation transaction refines the decision on the registry that the row holds, and touches
  no other tenant or scope.
\<close>
theorem deprecate_transaction:
  assumes laws: "schema_laws lib" and holds: "registry_holds lib repo db s"
    and ok: "exact_ref lib reference = Inr r" "sr_catalog r \<in> set (repo_catalogs repo)" "time_valid lib now"
    and run: "deprecate_schema lib repo (Inr ()) reference expected now db = (res, db')"
  shows "(case deprecate_on lib r expected now s of
       Inl e \<Rightarrow> res = Inl e \<and> db' = db
     | Inr d \<Rightarrow> res = Inr (fst d) \<and> pub_status (fst d) = DEPRECATED \<and>
         snapshot lib repo (Inr ()) db' = Inr (settled s d)) \<and>
    (\<forall>k. k \<noteq> repo_key repo \<longrightarrow> registry_rows db' k = registry_rows db k)"
proof -
  have valid: "registry_valid lib repo s" using holds by (simp add: registry_holds_def)
  have run': "locked_update lib repo (deprecate_on lib r expected now) db = (res, db')"
    using run ok by (simp add: deprecate_schema_def check_catalog_def)
  have v: "registry_valid lib repo s'"
    if "deprecate_on lib r expected now s = Inr (x, Some s')" for x s'
    using that by (rule deprecate_valid [OF valid ok(3)])
  note R = locked_update_refines [OF laws holds v run']
  show ?thesis
  proof (cases "deprecate_on lib r expected now s")
    case (Inl e)
    then show ?thesis using R by simp
  next
    case (Inr d)
    have "pub_status (fst d) = DEPRECATED"
      using deprecate_on_cases [of lib r expected now s "fst d" "snd d"] Inr
      by (auto split: option.splits)
    then show ?thesis using R Inr holds_read [OF laws] by (simp add: snapshot_def read_registry_def)
  qed
qed

section \<open>Verified reads\<close>

text \<open>
  C18. What a successful read has verified: the row's fingerprint is that of its payload, the payload is
  the canonical one of the returned registry, whose revision is the row's; every document parses back
  to an installed Catalog and validates, no reference occurs twice, and a publication is DEPRECATED
  exactly when it has a deprecation date.
\<close>
theorem registry_read_verified:
  assumes "read_row lib repo (Some row) = Inr s"
  shows "sha256_fingerprint lib (row_payload row) = row_fingerprint row \<and>
    py_eq (json_map (payload_of lib s)) (row_payload row) \<and> rs_revision s = row_revision row \<and>
    0 \<le> rs_revision s \<and> distinct (map pub_ref (rs_schemas s)) \<and>
    sorted (map (schema_order lib) (rs_schemas s)) \<and>
    (\<forall>p \<in> set (rs_schemas s). validate_schema lib (pub_doc p) = Inr () \<and>
       sr_catalog (pub_ref p) \<in> set (repo_catalogs repo) \<and> status_ok p \<and> pub_at p \<noteq> [])"
proof -
  from assms have p: "parse_row lib repo row = Inr s"
    by (auto simp: read_row_def split: sum.splits)
  then obtain entries addresses ps where e: "traverse (read_entry lib repo) (zip entries addresses) = Inr ps"
    and c: "0 \<le> row_revision row" "s = snapshot_of lib (row_revision row) ps" "distinct (map pub_ref ps)"
      "py_eq (json_map (payload_of lib s)) (row_payload row)"
      "sha256_fingerprint lib (row_payload row) = row_fingerprint row"
    unfolding parse_row_def Let_def by (auto simp: result_simps)
  have each: "validate_schema lib (pub_doc x) = Inr () \<and>
       sr_catalog (pub_ref x) \<in> set (repo_catalogs repo) \<and> status_ok x \<and> pub_at x \<noteq> []"
    if "read_entry lib repo ea = Inr x" for ea x
    using that unfolding read_entry_def split_beta Let_def check_catalog_def
    by (auto simp: result_simps status_ok_def pub_ref_def)
  have "\<forall>x \<in> set ps. validate_schema lib (pub_doc x) = Inr () \<and>
       sr_catalog (pub_ref x) \<in> set (repo_catalogs repo) \<and> status_ok x \<and> pub_at x \<noteq> []"
    by (rule traverse_all [OF e]) (rule each)
  moreover have "distinct (map pub_ref (sort_key (schema_order lib) ps))"
    using c(3) by (simp add: distinct_map)
  ultimately show ?thesis using c by simp
qed

section \<open>Migration\<close>

lemma verify_success:
  "verify_schema_repository lib sql_text ns cat = Inr fp \<longleftrightarrow>
     is_identifier ns \<and> migration_fingerprint lib sql_text ns = Inr fp \<and>
     rc_marker cat = Some (registry_format, fp) \<and>
     rc_tables cat (ns @ ''.'' @ migration_table) = Some (shape_view (registry_shapes ! 0)) \<and>
     rc_tables cat (ns @ ''.'' @ registry_table) = Some (shape_view (registry_shapes ! 1))"
  by (auto simp: verify_schema_repository_def Let_def result_simps registry_shapes_def shape_view_def
      split: option.splits)

text \<open>
  The registry migration: on a database without its tables it creates storage that verifies and
  reports the change; run again it changes nothing and reports the same fingerprint; and it never
  alters a database whose marker table is already there.
\<close>
theorem registry_migration:
  assumes "is_identifier ns"
    and "rc_tables cat (ns @ ''.'' @ migration_table) = None" "rc_tables cat (ns @ ''.'' @ registry_table) = None"
    and "rc_marker cat = None"
  shows "\<exists>fp cat'. migration_fingerprint lib sql_text ns = Inr fp \<and>
     migrate_schema_repository lib sql_text ns cat = (Inr \<lparr>ev_plan = fp, ev_observed = fp, ev_applied = True\<rparr>, cat') \<and>
     verify_schema_repository lib sql_text ns cat' = Inr fp \<and>
     migrate_schema_repository lib sql_text ns cat' =
       (Inr \<lparr>ev_plan = fp, ev_observed = fp, ev_applied = False\<rparr>, cat') \<and>
     (\<forall>t. t \<notin> {ns @ ''.'' @ migration_table, ns @ ''.'' @ registry_table} \<longrightarrow> rc_tables cat' t = rc_tables cat t)"
proof -
  obtain fp where fp: "migration_fingerprint lib sql_text ns = Inr fp"
    using assms(1) by (simp add: migration_fingerprint_def storage_statements_def)
  let ?cat = "run_migration_ddl ns fp cat"
  have names: "migration_table \<noteq> registry_table" by (simp add: migration_table_def registry_table_def)
  have tabs: "rc_tables ?cat = (rc_tables cat)
      (ns @ ''.'' @ migration_table \<mapsto> shape_view (registry_shapes ! 0),
       ns @ ''.'' @ registry_table \<mapsto> shape_view (registry_shapes ! 1))"
    using assms(2,3) names by (simp add: run_migration_ddl_def registry_shapes_def Let_def)
  have mark: "rc_marker ?cat = Some (registry_format, fp)"
    using assms(4) by (simp add: run_migration_ddl_def)
  have v: "verify_schema_repository lib sql_text ns ?cat = Inr fp"
    using assms(1) fp tabs mark names by (simp add: verify_success)
  have "migrate_schema_repository lib sql_text ns cat =
      (Inr \<lparr>ev_plan = fp, ev_observed = fp, ev_applied = True\<rparr>, ?cat)"
    using assms(1,2) fp v by (simp add: migrate_schema_repository_def Let_def)
  moreover have "migrate_schema_repository lib sql_text ns ?cat =
      (Inr \<lparr>ev_plan = fp, ev_observed = fp, ev_applied = False\<rparr>, ?cat)"
    using assms(1) v tabs by (simp add: migrate_schema_repository_def)
  ultimately show ?thesis using fp v tabs by (intro exI conjI) auto
qed

section \<open>An example\<close>

definition sample_rows :: registry_db where
  "sample_rows = \<lparr>registry_rows = [repo_key sample_repository \<mapsto> row_of sample_lib sample_registry]\<rparr>"

lemma sample_holds: "registry_holds sample_lib sample_repository sample_rows sample_registry"
  by (simp add: registry_holds_def sample_registry_valid sample_rows_def)

lemma sample_doc_valid:
  "doc_valid sample_lib sample_repository (sample_doc v)" "time_valid sample_lib ''t''"
  by (simp_all add: doc_valid_def time_valid_def sample_lib_def sample_doc_def sample_repository_def)

lemma publish_transaction_witness:
  "\<exists>r db'. publish_schema sample_lib sample_repository (Inr ()) (sample_doc ''2'') (PInt 1) (PBool False) ''t''
       sample_rows = (Inr r, db') \<and>
     get_schema sample_lib sample_repository (Inr ()) (doc_ref (sample_doc ''2'')) False db' = Inr (pr_schema r)"
proof -
  obtain res db' where run: "publish_schema sample_lib sample_repository (Inr ()) (sample_doc ''2'') (PInt 1)
      (PBool False) ''t'' sample_rows = (res, db')" by fastforce
  from sample_publish obtain r s' where
    "publish_on sample_lib (sample_doc ''2'') (PInt 1) False ''t'' sample_registry = Inr (r, Some s')"
    "\<not> pr_existing r" by blast
  with publish_transaction [OF sample_lib_laws sample_holds sample_doc_valid run] run show ?thesis by simp
qed

lemma deprecate_transaction_witness:
  "\<exists>p db'. deprecate_schema sample_lib sample_repository (Inr ()) (doc_ref (sample_doc ''1'')) PNone ''t'' sample_rows
     = (Inr p, db') \<and> pub_status p = DEPRECATED"
proof -
  obtain res db' where run: "deprecate_schema sample_lib sample_repository (Inr ()) (doc_ref (sample_doc ''1'')) PNone ''t''
      sample_rows = (res, db')" by fastforce
  have e: "exact_ref sample_lib (doc_ref (sample_doc ''1'')) = Inr (doc_ref (sample_doc ''1''))"
    "sr_catalog (doc_ref (sample_doc ''1'')) \<in> set (repo_catalogs sample_repository)"
    by (simp_all add: sample_lib_def sample_doc_def sample_repository_def)
  have "\<not> isl (deprecate_on sample_lib (doc_ref (sample_doc ''1'')) PNone ''t'' sample_registry)" by code_simp
  then obtain d where "deprecate_on sample_lib (doc_ref (sample_doc ''1'')) PNone ''t'' sample_registry = Inr d"
    by (cases "deprecate_on sample_lib (doc_ref (sample_doc ''1'')) PNone ''t'' sample_registry") auto
  with deprecate_transaction [OF sample_lib_laws sample_holds e sample_doc_valid(2) run] run
  show ?thesis by auto
qed

lemma registry_read_verified_witness:
  "rs_revision sample_registry = row_revision (row_of sample_lib sample_registry) \<and> 0 \<le> rs_revision sample_registry"
  using registry_read_verified [of sample_lib sample_repository "row_of sample_lib sample_registry" sample_registry]
    read_back [OF sample_lib_laws sample_registry_valid] by blast

lemma registry_migration_witness:
  "\<exists>ev cat'. migrate_schema_repository sample_lib (\<lambda>_. ''sql'') ''meridian''
      \<lparr>rc_tables = Map.empty, rc_marker = None\<rparr> = (Inr ev, cat') \<and> ev_applied ev"
proof -
  have n: "is_identifier ''meridian''" by code_simp
  obtain fp cat' where "migrate_schema_repository sample_lib (\<lambda>_. ''sql'') ''meridian''
      \<lparr>rc_tables = Map.empty, rc_marker = None\<rparr> = (Inr \<lparr>ev_plan = fp, ev_observed = fp, ev_applied = True\<rparr>, cat')"
    using registry_migration [OF n, of "\<lparr>rc_tables = Map.empty, rc_marker = None\<rparr>" sample_lib "\<lambda>_. ''sql''",
      simplified registry_catalog.simps, OF refl TrueI refl] by blast
  then show ?thesis
    by (intro exI [of _ "\<lparr>ev_plan = fp, ev_observed = fp, ev_applied = True\<rparr>"] exI [of _ cat'] conjI) simp_all
qed

end
