(* ===== verification/Execution.thy ===== *)
theory Execution
  imports OperationLaws PgErrors RegistryStore
begin

text \<open>
  The execution of one request on a session's connection, from \<open>transactions/__init__.py\<close> (\<open>_execute\<close>
  and the private methods it calls; \<open>Session\<close> models the connection's life around it): compile, bound the
  statement time, run the command, bound the result, map the error.

  The database is the evidence replay table, the schema registry, and the tables of the binding, which
  belong to the driver and the server: \<open>exec_env\<close> holds what they answer to a statement with a time limit.
  A savepoint keeps the database of its start when its body fails.
\<close>

record 'd pg_database =
  replays :: "string \<rightharpoonup> string \<times> pyval option"
  registry :: registry_db
  tables :: 'd

record 'd exec_env =
  ex_compiler :: compiler
  ex_binding :: string
  ex_transactional :: bool
  ex_timeout :: int
  ex_max_bytes :: int
  ex_mutate :: "int \<Rightarrow> driver_value bound_statement \<Rightarrow> 'd \<Rightarrow> (pyval dict list \<times> 'd) result"
  ex_select :: "int \<Rightarrow> string \<Rightarrow> driver_value list \<Rightarrow> 'd \<Rightarrow> pyval dict list result"
  ex_json_size :: "pyval \<Rightarrow> int"
  ex_sha256 :: "pyval \<Rightarrow> string"
  ex_operation_data :: "query_result \<Rightarrow> pyval"
  ex_schema_lib :: schema_lib
  ex_sql_text :: "sql \<Rightarrow> string"
  ex_catalog :: registry_catalog
  ex_registry_left :: "real option"
  ex_now :: string
  ex_publish_data :: "publish_result \<Rightarrow> pyval"
  ex_core_error :: "py_error \<Rightarrow> bool"

abbreviation ex_texts :: "'d exec_env \<Rightarrow> texts" where
  "ex_texts X \<equiv> tr_texts (cm_translator (ex_compiler X))"

type_synonym outcome = "pyval \<times> string dict"

section \<open>Rows\<close>

definition json_row :: "texts \<Rightarrow> pyval dict \<Rightarrow> pyval dict" where
  "json_row T r = map (\<lambda>(k, v). (k, jsonable T v)) r"

definition execute_dml :: "'d exec_env \<Rightarrow> int \<Rightarrow> dml_command \<Rightarrow> 'd \<Rightarrow> (outcome \<times> 'd) result" where
  "execute_dml X timeout c d =
     and_then (ex_mutate X timeout (dc_statement c) d) (\<lambda>(fetched, d').
     let rows = map (\<lambda>r. object_of (json_row (ex_texts X) r)) fetched in
     and_then (ensure (\<not> (dc_conditional c \<and> rows = [])) (MeridianError ConflictError IDEMPOTENCY_CONFLICT)) (\<lambda>_.
     and_then (ensure (\<not> (dc_method c = ''get'' \<and> length rows > 1)) (MeridianError ConflictError OPERATION_INVALID)) (\<lambda>_.
     Inr ((if dc_single c then (case rows of r # _ \<Rightarrow> r | [] \<Rightarrow> PNone) else PSeq rows, [(''mutation'', dc_method c)]), d'))))"

section \<open>Queries\<close>

definition scope_parameter :: "op_context \<Rightarrow> string \<Rightarrow> string result" where
  "scope_parameter ctx column =
     (if column = ''__tenant'' then (case ctx_tenant ctx of Some t \<Rightarrow> Inr t | None \<Rightarrow> Inl ValueError)
      else if \<not> starts_with ''__scope_'' column then Inl ValueError
      else (case map_of (ctx_scope ctx) (drop (length ''__scope_'') column) of
              Some v \<Rightarrow> Inr v | None \<Rightarrow> Inl ValueError))"

definition bind_parameter :: "texts \<Rightarrow> op_context \<Rightarrow> pyval \<Rightarrow> driver_value result" where
  "bind_parameter T ctx v =
     (case v of
        PMap d \<Rightarrow>
          if has_keys [''$scope''] d
          then and_then (scope_parameter ctx (key_string T (optional ''$scope'' d))) (\<lambda>s. decode_query_value T (PStr s))
          else decode_query_value T v
      | _ \<Rightarrow> decode_query_value T v)"

definition bind_parameters ::
  "texts \<Rightarrow> op_context \<Rightarrow> compiled_query \<Rightarrow> driver_value list result" where
  "bind_parameters T ctx cq =
     traverse (\<lambda>n. and_then (dict_item n (cq_parameters cq)) (bind_parameter T ctx)) (cq_order cq)"

definition execute_query ::
  "'d exec_env \<Rightarrow> int \<Rightarrow> compiled_query \<Rightarrow> op_context \<Rightarrow> 'd \<Rightarrow> outcome result" where
  "execute_query X timeout cq ctx d =
     and_then (bind_parameters (ex_texts X) ctx cq) (\<lambda>ps.
     and_then (ex_select X timeout (cq_sql cq) ps d) (\<lambda>fetched.
     and_then (normalize_result (cm_translator (ex_compiler X)) cq (Some (map (json_row (ex_texts X)) fetched))) (\<lambda>r.
     Inr (ex_operation_data X r, qr_provenance r))))"

section \<open>Evidence appends\<close>

text \<open>The time left at the i-th command, in seconds: of the operation, and of the context if it has a deadline.\<close>

record append_clock =
  op_left :: "nat \<Rightarrow> rat"
  ctx_left :: "nat \<Rightarrow> rat option"

definition time_left :: "append_clock \<Rightarrow> nat \<Rightarrow> rat" where
  "time_left k i = (case ctx_left k i of None \<Rightarrow> op_left k i | Some c \<Rightarrow> min (op_left k i) c)"

definition identity_of :: "(pyval \<times> pyval) list \<Rightarrow> (pyval \<times> pyval) list" where
  "identity_of d =
     concat (map (\<lambda>n. case entry n d of Some v \<Rightarrow> [(PStr n, v)] | None \<Rightarrow> []) [''evidenceId'', ''checkpointKey''])"

definition record_identities :: "pyval \<Rightarrow> pyval" where
  "record_identities raw =
     (let records = (case raw of PMap d \<Rightarrow> [raw] | PSeq xs \<Rightarrow> xs | _ \<Rightarrow> []);
          identities = concat (map (\<lambda>v. case v of PMap d \<Rightarrow> [identity_of d] | _ \<Rightarrow> []) records) in
      if records \<noteq> [] \<and> length identities = length records \<and> list_all (\<lambda>i. i \<noteq> []) identities
      then PMap [(PStr ''recordIdentities'', PSeq (map PMap identities))] else PNone)"

definition idempotency_key :: "exec_request \<Rightarrow> pyval" where
  "idempotency_key rq =
     (let input = op_input (rq_operation rq); asked = dict_get ''idempotencyKey'' PNone input;
          key = (if truthy asked then asked else rq_idempotency rq) in
      if key = PNone \<and> op_idempotent (rq_operation rq) then record_identities (dict_get ''data'' PNone input) else key)"

definition replay_key :: "'d exec_env \<Rightarrow> exec_request \<Rightarrow> string \<Rightarrow> string option" where
  "replay_key X rq resource =
     (let key = idempotency_key rq; ctx = rq_context rq in
      if key = PNone then None
      else Some (ex_sha256 X (PMap
        [(PStr ''binding'', PStr (rq_binding rq)), (PStr ''principal'', rq_principal rq),
         (PStr ''tenant'', case ctx_tenant ctx of Some t \<Rightarrow> PStr t | None \<Rightarrow> PNone),
         (PStr ''scope'', PMap (map (\<lambda>(k, v). (PStr k, PStr v)) (ctx_scope ctx))),
         (PStr ''resource'', PStr resource), (PStr ''contract'', PStr (op_contract (rq_operation rq))),
         (PStr ''key'', key)])))"

fun append_rows ::
  "'d exec_env \<Rightarrow> append_clock \<Rightarrow> nat \<Rightarrow> dml_command list \<Rightarrow> 'd \<Rightarrow> (pyval list \<times> 'd) result" where
  "append_rows X k i [] d = Inr ([], d)"
| "append_rows X k i (c # cs) d =
     and_then (ensure (time_left k i > 0) deadline_error) (\<lambda>_.
     and_then (execute_dml X (max 1 \<lfloor>time_left k i * 1000\<rfloor>) c d) (\<lambda>((x, _), d').
     and_then (append_rows X k (Suc i) cs d') (\<lambda>(xs, d''). Inr (x # xs, d''))))"

definition savepoint :: "('s \<Rightarrow> ('a \<times> 's) result) \<Rightarrow> 's \<Rightarrow> 'a result \<times> 's" where
  "savepoint f s = (case f s of Inl e \<Rightarrow> (Inl e, s) | Inr (x, s') \<Rightarrow> (Inr x, s'))"

text \<open>The rows of the append, then the stored result of a keyed one.\<close>

definition append_body ::
  "'d exec_env \<Rightarrow> append_clock \<Rightarrow> exec_request \<Rightarrow> adapter_dml \<Rightarrow> string option \<Rightarrow> 'd pg_database \<Rightarrow>
   (outcome \<times> 'd pg_database) result" where
  "append_body X k rq cmd key db =
     and_then (append_rows X k 0 (dml_commands cmd) (tables db)) (\<lambda>(rows, d).
     let result = (case cmd of AppendBatch _ \<Rightarrow> PSeq rows | OneCommand _ \<Rightarrow> hd rows) in
     and_then (ensure (ex_json_size X result \<le> ex_max_bytes X) (MeridianError ValidationError OPERATION_RESULT_LIMIT)) (\<lambda>_.
     Inr ((result, [(''mutation'', ''append'')]),
          db\<lparr>tables := d,
             replays := (case key of None \<Rightarrow> replays db
                         | Some r \<Rightarrow> (replays db)(r \<mapsto> (op_fingerprint (rq_operation rq), Some result)))\<rparr>)))"

definition claim_replay ::
  "'d exec_env \<Rightarrow> append_clock \<Rightarrow> exec_request \<Rightarrow> adapter_dml \<Rightarrow> string option \<Rightarrow> 'd pg_database \<Rightarrow>
   (outcome \<times> 'd pg_database) result" where
  "claim_replay X k rq cmd key db =
     (case key of
        None \<Rightarrow> append_body X k rq cmd None db
      | Some r \<Rightarrow>
          (case replays db r of
             None \<Rightarrow>
               append_body X k rq cmd key
                 (db\<lparr>replays := (replays db)(r \<mapsto> (op_fingerprint (rq_operation rq), None))\<rparr>)
           | Some (fp, previous) \<Rightarrow>
               (case previous of
                  Some result \<Rightarrow>
                    if result = PNone \<or> fp \<noteq> op_fingerprint (rq_operation rq)
                    then Inl (MeridianError ConflictError IDEMPOTENCY_CONFLICT)
                    else Inr ((result, [(''mutation'', ''append''), (''replay'', ''true'')]), db)
                | None \<Rightarrow> Inl (MeridianError ConflictError IDEMPOTENCY_CONFLICT))))"

definition execute_append ::
  "'d exec_env \<Rightarrow> append_clock \<Rightarrow> exec_request \<Rightarrow> adapter_dml \<Rightarrow> 'd pg_database \<Rightarrow>
   outcome result \<times> 'd pg_database" where
  "execute_append X k rq cmd db =
     (if dict_get ''requireAtomic'' PNone (op_input (rq_operation rq)) = PBool True \<and> \<not> ex_transactional X
      then (Inl (MeridianError TransactionError TRANSACTION_STATE), db)
      else (case dml_commands cmd of
        [] \<Rightarrow> (Inl OtherException, db)
      | c # _ \<Rightarrow>
          savepoint (claim_replay X k rq cmd (replay_key X rq (r_canonical (l_ref (dc_layout c))))) db))"

interpretation append_run: transactional "execute_append X k rq cmd" for X k rq cmd
  by unfold_locales (auto simp: execute_append_def savepoint_def split: sum.splits list.splits if_splits)


section \<open>One request\<close>

record execution_result =
  er_data :: pyval
  er_bytes :: int
  er_provenance :: "string dict"

definition int_text :: "int \<Rightarrow> string" where
  "int_text n = (if n < 0 then ''-'' @ nat_text (nat (- n)) else nat_text (nat n))"

definition publish_locked ::
  "'d exec_env \<Rightarrow> op_context \<Rightarrow> int \<Rightarrow> schema_doc \<Rightarrow> pyval \<Rightarrow> bool \<Rightarrow> registry_db \<Rightarrow>
   publish_result result \<times> registry_db" where
  "publish_locked X ctx timeout doc expected allow db =
     (let lib = ex_schema_lib X in
      case new_repository (physical_schema (cm_settings (ex_compiler X))) (ctx_tenant ctx)
             (map (\<lambda>(k, v). (PStr k, PStr v)) (ctx_scope ctx)) (Some [''structured'']) (PInt timeout) of
        Inl e \<Rightarrow> (Inl e, db)
      | Inr repo \<Rightarrow>
          publish_schema lib repo (open_repository lib (ex_sql_text X) repo (ex_registry_left X) (ex_catalog X))
            doc expected (PBool allow) (ex_now X) db)"

definition execute_publish ::
  "'d exec_env \<Rightarrow> op_context \<Rightarrow> int \<Rightarrow> schema_doc \<Rightarrow> pyval \<Rightarrow> bool \<Rightarrow> 'd pg_database \<Rightarrow> outcome result \<times> 'd pg_database" where
  "execute_publish X ctx timeout doc expected allow db =
     (case publish_locked X ctx timeout doc expected allow (registry db) of
        (Inl e, r) \<Rightarrow> (Inl e, db\<lparr>registry := r\<rparr>)
      | (Inr p, r) \<Rightarrow>
          (Inr (ex_publish_data X p,
             [(''schemaFingerprint'', doc_fingerprint (pub_doc (pr_schema p))),
              (''registryRevision'', int_text (pr_revision p))]), db\<lparr>registry := r\<rparr>))"

definition run_command ::
  "'d exec_env \<Rightarrow> append_clock \<Rightarrow> exec_request \<Rightarrow> int \<Rightarrow> adapter_command \<Rightarrow> 'd pg_database \<Rightarrow>
   outcome result \<times> 'd pg_database" where
  "run_command X k rq timeout cmd db =
     (case cmd of
        Publish doc expected allow \<Rightarrow> execute_publish X (rq_context rq) timeout doc expected allow db
      | RunQuery cq \<Rightarrow> (execute_query X timeout cq (rq_context rq) (tables db), db)
      | Mutation (AppendBatch cs) \<Rightarrow> execute_append X k rq (AppendBatch cs) db
      | Mutation (OneCommand c) \<Rightarrow>
          if dc_method c = ''append'' then execute_append X k rq (OneCommand c) db
          else (case execute_dml X timeout c (tables db) of
                  Inl e \<Rightarrow> (Inl e, db)
                | Inr (out, d) \<Rightarrow> (Inr out, db\<lparr>tables := d\<rparr>)))"

text \<open>The exceptions: Meridian's own pass, argument errors are invalid operations, the rest is mapped.\<close>

definition execution_error :: "'d exec_env \<Rightarrow> py_error \<Rightarrow> py_error" where
  "execution_error X e =
     (case e of
        MeridianError _ _ \<Rightarrow> e
      | CommitOutcomeError _ \<Rightarrow> e
      | ValueError \<Rightarrow> MeridianError ValidationError OPERATION_INVALID
      | TypeError \<Rightarrow> MeridianError ValidationError OPERATION_INVALID
      | KeyError \<Rightarrow> MeridianError ValidationError OPERATION_INVALID
      | DriverError state \<Rightarrow> mapped state
      | _ \<Rightarrow> if ex_core_error X e then e else mapped None)"

definition statement_limit :: "'d exec_env \<Rightarrow> rat option \<Rightarrow> adapter_command \<Rightarrow> int" where
  "statement_limit X left cmd =
     (let base = (case left of None \<Rightarrow> ex_timeout X | Some r \<Rightarrow> max 1 (min (ex_timeout X) \<lfloor>r * 1000\<rfloor>)) in
      case cmd of RunQuery cq \<Rightarrow> max 1 (min base (cq_deadline cq)) | _ \<Rightarrow> base)"

definition result_limit :: "'d exec_env \<Rightarrow> adapter_command \<Rightarrow> int" where
  "result_limit X cmd = (case cmd of RunQuery cq \<Rightarrow> min (ex_max_bytes X) (cq_bytes cq) | _ \<Rightarrow> ex_max_bytes X)"

definition finish_execution ::
  "'d exec_env \<Rightarrow> adapter_command \<Rightarrow> outcome \<Rightarrow> execution_result result" where
  "finish_execution X cmd out =
     and_then (ensure (ex_json_size X (fst out) \<le> result_limit X cmd) (MeridianError ValidationError OPERATION_RESULT_LIMIT)) (\<lambda>_.
     Inr \<lparr>er_data = fst out, er_bytes = ex_json_size X (fst out),
          er_provenance = fold (\<lambda>(k, v). dict_set k v) (snd out)
            [(''adapter'', ''postgresql''), (''consistency'', ''strong''), (''transactionIsolation'', ''read-committed'')]\<rparr>)"

definition execute_request ::
  "'d exec_env \<Rightarrow> append_clock \<Rightarrow> exec_request \<Rightarrow> 'd pg_database \<Rightarrow> execution_result result \<times> 'd pg_database" where
  "execute_request X k rq db =
     (if (case rq_remaining rq of Some r \<Rightarrow> r \<le> 0 | None \<Rightarrow> False) then (Inl deadline_error, db)
      else (case and_then (ensure (rq_binding rq = ex_binding X) ValueError) (\<lambda>_. compile_operation (ex_compiler X) rq) of
        Inl e \<Rightarrow> (Inl (execution_error X e), db)
      | Inr cmd \<Rightarrow>
          (case run_command X k rq (statement_limit X (rq_remaining rq) cmd) cmd db of
             (Inl e, db') \<Rightarrow> (Inl (execution_error X e), db')
           | (Inr out, db') \<Rightarrow>
               (case finish_execution X cmd out of
                  Inl e \<Rightarrow> (Inl (execution_error X e), db')
                | Inr r \<Rightarrow> (Inr r, db')))))"

end
