(* ===== verification/ExecutionLaws.thy ===== *)
theory ExecutionLaws
  imports Execution
begin

text \<open>
  What the execution of requests guarantees: a keyed evidence append happens once, whatever runs between
  its repetitions; a failure leaves the database as it was; every statement runs within the time that the
  request has left; the scope tags of a query become the values that a mutation binds.
\<close>

section \<open>Stored results persist\<close>

definition append_resource :: "adapter_dml \<Rightarrow> string" where
  "append_resource cmd = r_canonical (l_ref (dc_layout (hd (dml_commands cmd))))"

text \<open>An append as its two outcomes: a savepoint that stood, or a failure that changed nothing.\<close>

lemma append_outcome:
  assumes "execute_append X k rq cmd db = (res, db')"
  shows "(\<exists>e. res = Inl e \<and> db' = db) \<or>
    (\<exists>out. res = Inr out \<and> dml_commands cmd \<noteq> [] \<and>
       claim_replay X k rq cmd (replay_key X rq (append_resource cmd)) db = Inr (out, db'))"
proof (cases "dict_get ''requireAtomic'' PNone (op_input (rq_operation rq)) = PBool True \<and> \<not> ex_transactional X")
  case True
  then show ?thesis using assms by (auto simp: execute_append_def)
next
  case admitted: False
  show ?thesis
  proof (cases "dml_commands cmd")
    case Nil
    then show ?thesis using assms admitted by (auto simp: execute_append_def)
  next
    case (Cons c cs)
    let ?r = "claim_replay X k rq cmd (replay_key X rq (append_resource cmd)) db"
    have "(res, db') = savepoint (\<lambda>d. claim_replay X k rq cmd (replay_key X rq (append_resource cmd)) d) db"
      using assms admitted Cons by (simp only: execute_append_def if_False list.case append_resource_def list.sel)
    then show ?thesis using Cons by (cases ?r) (auto simp: savepoint_def)
  qed
qed

lemma append_body_replays:
  assumes "append_body X k rq cmd key db = Inr (out, db')"
  shows "replays db' = (case key of None \<Rightarrow> replays db
      | Some r \<Rightarrow> (replays db)(r \<mapsto> (op_fingerprint (rq_operation rq), Some (fst out)))) \<and>
    ex_json_size X (fst out) \<le> ex_max_bytes X"
proof -
  from assms obtain rows d where
    "(let result = (case cmd of AppendBatch _ \<Rightarrow> PSeq rows | OneCommand _ \<Rightarrow> hd rows) in
      and_then (ensure (ex_json_size X result \<le> ex_max_bytes X) (MeridianError ValidationError OPERATION_RESULT_LIMIT)) (\<lambda>_.
      Inr ((result, [(''mutation'', ''append'')]),
          db\<lparr>tables := d,
             replays := (case key of None \<Rightarrow> replays db
                         | Some r \<Rightarrow> (replays db)(r \<mapsto> (op_fingerprint (rq_operation rq), Some result)))\<rparr>)))
      = Inr (out, db')"
    by (cases "append_rows X k 0 (dml_commands cmd) (tables db)") (auto simp: append_body_def)
  then show ?thesis
    by (cases "ex_json_size X (case cmd of AppendBatch _ \<Rightarrow> PSeq rows | OneCommand _ \<Rightarrow> hd rows) \<le> ex_max_bytes X")
      (auto simp: Let_def split: option.splits)
qed

lemma claim_replay_cases:
  assumes "claim_replay X k rq cmd (Some r) db = Inr (out, db')"
  obtains (fresh) "replays db r = None" "replays db' = (replays db)(r \<mapsto> (op_fingerprint (rq_operation rq), Some (fst out)))"
  | (again) "replays db r = Some (op_fingerprint (rq_operation rq), Some (fst out))" "fst out \<noteq> PNone" "db' = db"
proof (cases "replays db r")
  case None
  with assms have "append_body X k rq cmd (Some r)
      (db\<lparr>replays := (replays db)(r \<mapsto> (op_fingerprint (rq_operation rq), None))\<rparr>) = Inr (out, db')"
    by (simp add: claim_replay_def)
  from append_body_replays [OF this] None show ?thesis by (intro fresh) simp_all
next
  case (Some p)
  with assms show ?thesis by (intro again) (auto simp: claim_replay_def split: prod.splits option.splits if_splits)
qed

lemma append_stores:
  assumes "execute_append X k rq cmd db = (Inr (data, prov), db')"
    and "replay_key X rq (append_resource cmd) = Some r"
  shows "replays db' r = Some (op_fingerprint (rq_operation rq), Some data)"
proof -
  from append_outcome [OF assms(1)] assms(2) have "claim_replay X k rq cmd (Some r) db = Inr ((data, prov), db')"
    by auto
  then show ?thesis by (cases rule: claim_replay_cases) auto
qed

lemma append_keeps:
  assumes "execute_append X k rq cmd db = (res, db')" and "replays db r = Some (fp, Some v)"
  shows "replays db' r = Some (fp, Some v)"
  using append_outcome [OF assms(1)]
proof (elim disjE exE conjE)
  fix out assume c: "claim_replay X k rq cmd (replay_key X rq (append_resource cmd)) db = Inr (out, db')"
  show ?thesis
  proof (cases "replay_key X rq (append_resource cmd)")
    case None
    with c have "append_body X k rq cmd None db = Inr (out, db')" by (simp add: claim_replay_def)
    from append_body_replays [OF this] assms(2) show ?thesis by simp
  next
    case (Some r')
    from c [unfolded Some] assms(2) show ?thesis by (cases rule: claim_replay_cases) auto
  qed
qed (use assms(2) in simp)

lemma publish_keeps: "replays (snd (execute_publish X ctx timeout doc expected allow db)) = replays db"
  by (simp add: execute_publish_def split: prod.split sum.split)

text \<open>What runs for a command: the append path, or one that leaves the replay table alone.\<close>

definition appends :: "adapter_command \<Rightarrow> adapter_dml option" where
  "appends cmd =
     (case cmd of
        Mutation (AppendBatch cs) \<Rightarrow> Some (AppendBatch cs)
      | Mutation (OneCommand c) \<Rightarrow> if dc_method c = ''append'' then Some (OneCommand c) else None
      | _ \<Rightarrow> None)"

lemma run_append: "appends cmd = Some a \<Longrightarrow> run_command X k rq timeout cmd db = execute_append X k rq a db"
  by (auto simp: appends_def run_command_def split: adapter_command.splits adapter_dml.splits if_splits)

lemma run_other: "appends cmd = None \<Longrightarrow> replays (snd (run_command X k rq timeout cmd db)) = replays db"
  by (auto simp: appends_def run_command_def publish_keeps
      split: adapter_command.splits adapter_dml.splits if_splits sum.splits)

lemma command_keeps:
  assumes "replays db r = Some (fp, Some v)"
  shows "replays (snd (run_command X k rq timeout cmd db)) r = Some (fp, Some v)"
proof (cases "appends cmd")
  case None
  then show ?thesis using assms by (simp add: run_other)
next
  case (Some a)
  show ?thesis unfolding run_append [OF Some] by (rule append_keeps [OF surjective_pairing assms])
qed

text \<open>A request as its phases: refused, failed in the command, over the result limit, or answered.\<close>

definition admitted_command :: "'d exec_env \<Rightarrow> exec_request \<Rightarrow> adapter_command result" where
  "admitted_command X rq =
     and_then (ensure (rq_binding rq = ex_binding X) ValueError) (\<lambda>_. compile_operation (ex_compiler X) rq)"

lemma request_cases:
  assumes "execute_request X k rq db = (res, db')"
  obtains (late) "res = Inl deadline_error" "db' = db"
  | (refused) e where "admitted_command X rq = Inl e" "res = Inl (execution_error X e)" "db' = db"
  | (failed) cmd e where "admitted_command X rq = Inr cmd"
      "run_command X k rq (statement_limit X (rq_remaining rq) cmd) cmd db = (Inl e, db')"
      "res = Inl (execution_error X e)"
  | (over) cmd out e where "admitted_command X rq = Inr cmd"
      "run_command X k rq (statement_limit X (rq_remaining rq) cmd) cmd db = (Inr out, db')"
      "finish_execution X cmd out = Inl e" "res = Inl (execution_error X e)"
  | (answered) cmd out r where "admitted_command X rq = Inr cmd"
      "run_command X k rq (statement_limit X (rq_remaining rq) cmd) cmd db = (Inr out, db')"
      "finish_execution X cmd out = Inr r" "res = Inr r"
proof (cases "case rq_remaining rq of Some r \<Rightarrow> r \<le> 0 | None \<Rightarrow> False")
  case True
  then show ?thesis using assms by (intro late) (auto simp: execute_request_def)
next
  case False
  note run = assms [unfolded execute_request_def admitted_command_def [symmetric] if_not_P [OF False]]
  show ?thesis
  proof (cases "admitted_command X rq")
    case (Inl e)
    then show ?thesis using run by (intro refused) auto
  next
    case admitted: (Inr cmd)
    obtain o' d where c: "run_command X k rq (statement_limit X (rq_remaining rq) cmd) cmd db = (o', d)"
      by (cases "run_command X k rq (statement_limit X (rq_remaining rq) cmd) cmd db") auto
    show ?thesis
    proof (cases o')
      case (Inl e)
      then show ?thesis using run c admitted by (intro failed [of cmd e]) auto
    next
      case answer: (Inr out)
      show ?thesis
      proof (cases "finish_execution X cmd out")
        case (Inl e)
        then show ?thesis using run c answer by (intro over [of cmd out e]) (auto simp: admitted)
      next
        case (Inr r)
        then show ?thesis using run c answer by (intro answered [of cmd out r]) (auto simp: admitted)
      qed
    qed
  qed
qed

lemma request_keeps:
  assumes "replays db r = Some (fp, Some v)"
  shows "replays (snd (execute_request X k rq db)) r = Some (fp, Some v)"
proof -
  obtain res db' where e: "execute_request X k rq db = (res, db')" by (cases "execute_request X k rq db")
  have keeps: "replays d r = Some (fp, Some v)" if "run_command X k rq t cmd db = (o', d)" for t cmd o' d
    using command_keeps [OF assms, of X k rq t cmd] that by simp
  from e show ?thesis by (cases rule: request_cases) (use e assms keeps in auto)
qed

type_synonym 'd step = "'d exec_env \<times> append_clock \<times> exec_request"

definition run_requests :: "'d step list \<Rightarrow> 'd pg_database \<Rightarrow> 'd pg_database" where
  "run_requests steps db = fold (\<lambda>(X, k, rq) d. snd (execute_request X k rq d)) steps db"

lemma requests_keep:
  "replays db r = Some (fp, Some v) \<Longrightarrow> replays (run_requests steps db) r = Some (fp, Some v)"
proof (induction steps arbitrary: db)
  case Nil
  then show ?case by (simp add: run_requests_def)
next
  case (Cons s steps)
  obtain X k rq where s: "s = (X, k, rq)" by (cases s)
  have "replays (snd (execute_request X k rq db)) r = Some (fp, Some v)"
    by (rule request_keeps [OF Cons.prems])
  from Cons.IH [OF this] show ?case by (simp add: run_requests_def s)
qed


section \<open>Failures\<close>

text \<open>Only a result limit can stop a command that has already changed the database.\<close>

lemma publish_failed: "execute_publish X ctx timeout doc expected allow db = (Inl e, db') \<Longrightarrow> db' = db"
proof -
  assume f: "execute_publish X ctx timeout doc expected allow db = (Inl e, db')"
  have locked: "locked_update lib repo decide reg = (Inl e', reg') \<Longrightarrow> reg' = reg"
    for lib repo decide reg e' reg'
    by (auto simp: locked_update_def split: prod.splits sum.splits option.splits)
  have "publish_locked X ctx timeout doc expected allow (registry db) = (Inl e', reg') \<Longrightarrow> reg' = registry db"
    for e' reg'
    by (auto simp: publish_locked_def Let_def publish_schema_def dest: locked split: sum.splits)
  with f show ?thesis by (auto simp: execute_publish_def split: prod.splits sum.splits)
qed

lemma command_failed: "run_command X k rq timeout cmd db = (Inl e, db') \<Longrightarrow> db' = db"
proof (cases "appends cmd")
  case (Some a)
  assume "run_command X k rq timeout cmd db = (Inl e, db')"
  then have "execute_append X k rq a db = (Inl e, db')" unfolding run_append [OF Some] .
  from append_outcome [OF this] show ?thesis by auto
next
  case None
  assume "run_command X k rq timeout cmd db = (Inl e, db')"
  with None show ?thesis
    by (auto simp: appends_def run_command_def dest: publish_failed
        split: adapter_command.splits adapter_dml.splits if_splits sum.splits)
qed

lemma finish_failed:
  "finish_execution X cmd out = Inl e \<longleftrightarrow>
     ex_json_size X (fst out) > result_limit X cmd \<and> e = MeridianError ValidationError OPERATION_RESULT_LIMIT"
  by (auto simp: finish_execution_def result_simps)

lemma finish_answered:
  "finish_execution X cmd out = Inr r \<Longrightarrow>
     er_data r = fst out \<and> er_bytes r = ex_json_size X (fst out) \<and> er_bytes r \<le> result_limit X cmd"
  by (auto simp: finish_execution_def result_simps)

definition typed_error :: "'d exec_env \<Rightarrow> py_error \<Rightarrow> bool" where
  "typed_error X e \<longleftrightarrow>
     (case e of MeridianError _ _ \<Rightarrow> True | CommitOutcomeError _ \<Rightarrow> True
      | ValueError \<Rightarrow> False | TypeError \<Rightarrow> False | KeyError \<Rightarrow> False | DriverError _ \<Rightarrow> False
      | _ \<Rightarrow> ex_core_error X e)"

lemma execution_error_typed: "typed_error X (execution_error X e)"
proof -
  have "typed_error X (mapped state)" for state
    by (simp add: typed_error_def mapped_def Let_def)
  then show ?thesis by (cases e) (auto simp: execution_error_def typed_error_def)
qed

text \<open>An append with a result over the limit has not run: a stored result was returned.\<close>

lemma oversized_append:
  assumes "execute_append X k rq a db = (Inr out, db')" "ex_json_size X (fst out) > ex_max_bytes X"
  shows "db' = db"
proof -
  from append_outcome [OF assms(1)]
  have c: "claim_replay X k rq a (replay_key X rq (append_resource a)) db = Inr (out, db')" by auto
  show ?thesis
  proof (cases "replay_key X rq (append_resource a)")
    case None
    with c have "append_body X k rq a None db = Inr (out, db')" by (simp add: claim_replay_def)
    from append_body_replays [OF this] assms(2) show ?thesis by simp
  next
    case (Some r)
    show ?thesis
    proof (cases "replays db r")
      case None
      with c Some have "append_body X k rq a (Some r)
          (db\<lparr>replays := (replays db)(r \<mapsto> (op_fingerprint (rq_operation rq), None))\<rparr>) = Inr (out, db')"
        by (simp add: claim_replay_def)
      from append_body_replays [OF this] assms(2) show ?thesis by simp
    next
      case (Some p)
      with c [unfolded \<open>replay_key X rq (append_resource a) = _\<close>] show ?thesis
        by (cases rule: claim_replay_cases) auto
    qed
  qed
qed

text \<open>
  C22. A request that fails leaves the database as it was, unless it is a mutation other than an append, or a
  Schema publication, whose result exceeds the configured limit (the session then rolls back); and the
  exception is one of Meridian's: argument errors and the driver's are never raised as they are.
\<close>
theorem execution_atomic:
  assumes "execute_request X k rq db = (Inl e, db')"
  shows "typed_error X e \<and>
    (db' = db \<or>
     e = MeridianError ValidationError OPERATION_RESULT_LIMIT \<and>
     (\<exists>cmd. admitted_command X rq = Inr cmd \<and>
        (case cmd of RunQuery _ \<Rightarrow> False | Mutation (AppendBatch _) \<Rightarrow> False
         | Mutation (OneCommand c) \<Rightarrow> dc_method c \<noteq> ''append'' | Publish _ _ _ \<Rightarrow> True)))"
  using assms
proof (cases rule: request_cases)
  case late
  then show ?thesis by (simp add: typed_error_def)
next
  case (refused e0)
  then show ?thesis using execution_error_typed by auto
next
  case (failed cmd e0)
  then show ?thesis using execution_error_typed command_failed [OF failed(2)] by simp
next
  case (over cmd out e0)
  from over(3) have limit: "e0 = MeridianError ValidationError OPERATION_RESULT_LIMIT"
    and big: "ex_json_size X (fst out) > result_limit X cmd" by (simp_all add: finish_failed)
  from over(4) limit have e: "e = MeridianError ValidationError OPERATION_RESULT_LIMIT"
    by (simp add: execution_error_def)
  show ?thesis
  proof (cases "appends cmd")
    case None
    have "db' = db" if "cmd = RunQuery cq" for cq using that over(2) by (simp add: run_command_def)
    with None over(1) e show ?thesis
      by (auto simp: typed_error_def appends_def split: adapter_command.splits adapter_dml.splits if_splits)
  next
    case (Some a)
    have "result_limit X cmd = ex_max_bytes X"
      using Some by (auto simp: appends_def result_limit_def split: adapter_command.splits)
    moreover have "execute_append X k rq a db = (Inr out, db')" using over(2) unfolding run_append [OF Some] .
    ultimately have "db' = db" using oversized_append big by metis
    with e show ?thesis by (simp add: typed_error_def)
  qed
qed simp

section \<open>Statement time\<close>

definition time_bound :: "'d exec_env \<Rightarrow> rat option \<Rightarrow> int" where
  "time_bound X left = (case left of None \<Rightarrow> ex_timeout X | Some r \<Rightarrow> max 1 (min (ex_timeout X) \<lfloor>r * 1000\<rfloor>))"

text \<open>A clock that starts with the operation: no later reading leaves more time than there was.\<close>

definition clock_runs :: "'d exec_env \<Rightarrow> rat option \<Rightarrow> append_clock \<Rightarrow> bool" where
  "clock_runs X left k \<longleftrightarrow>
     (\<forall>i. op_left k i * 1000 \<le> of_int (ex_timeout X) \<and>
        (case left of None \<Rightarrow> True | Some r \<Rightarrow> (case ctx_left k i of None \<Rightarrow> False | Some c \<Rightarrow> c \<le> r)))"

definition in_time :: "'d exec_env \<Rightarrow> rat option \<Rightarrow> int \<Rightarrow> bool" where
  "in_time X left t \<longleftrightarrow> 1 \<le> t \<and> t \<le> time_bound X left"

lemma clock_in_time:
  assumes "clock_runs X left k" "1 \<le> ex_timeout X"
  shows "in_time X left (max 1 \<lfloor>time_left k i * 1000\<rfloor>)"
proof -
  have op: "op_left k i * 1000 \<le> of_int (ex_timeout X)" using assms(1) by (simp add: clock_runs_def)
  have "time_left k i \<le> op_left k i" by (simp add: time_left_def split: option.split)
  with op have "\<lfloor>time_left k i * 1000\<rfloor> \<le> ex_timeout X" by (simp add: floor_le_iff)
  moreover have "\<lfloor>time_left k i * 1000\<rfloor> \<le> \<lfloor>r * 1000\<rfloor>" if "left = Some r" for r
  proof -
    from assms(1) that obtain c where "ctx_left k i = Some c" "c \<le> r"
      by (auto simp: clock_runs_def split: option.splits)
    then show ?thesis by (intro floor_mono) (simp add: time_left_def)
  qed
  ultimately show ?thesis using assms(2) by (auto simp: in_time_def time_bound_def split: option.split)
qed

lemma limit_in_time: "1 \<le> ex_timeout X \<Longrightarrow> in_time X left (statement_limit X left cmd)"
  by (auto simp: in_time_def time_bound_def statement_limit_def Let_def split: option.split adapter_command.split)

text \<open>The two answers of the server, changed outside a time limit.\<close>

abbreviation served ::
  "'d exec_env \<Rightarrow> (int \<Rightarrow> driver_value bound_statement \<Rightarrow> 'd \<Rightarrow> (pyval dict list \<times> 'd) result) \<Rightarrow>
   (int \<Rightarrow> string \<Rightarrow> driver_value list \<Rightarrow> 'd \<Rightarrow> pyval dict list result) \<Rightarrow> 'd exec_env" where
  "served X mutate select \<equiv> X\<lparr>ex_mutate := mutate, ex_select := select\<rparr>"

definition agree_in_time ::
  "'d exec_env \<Rightarrow> rat option \<Rightarrow> (int \<Rightarrow> driver_value bound_statement \<Rightarrow> 'd \<Rightarrow> (pyval dict list \<times> 'd) result) \<Rightarrow>
   (int \<Rightarrow> string \<Rightarrow> driver_value list \<Rightarrow> 'd \<Rightarrow> pyval dict list result) \<Rightarrow> bool" where
  "agree_in_time X left mutate select \<longleftrightarrow>
     (\<forall>t. in_time X left t \<longrightarrow> mutate t = ex_mutate X t \<and> select t = ex_select X t)"

lemma same_dml:
  "agree_in_time X left m q \<Longrightarrow> in_time X left t \<Longrightarrow> execute_dml (served X m q) t c d = execute_dml X t c d"
  by (simp add: execute_dml_def agree_in_time_def Let_def)

lemma same_query:
  "agree_in_time X left m q \<Longrightarrow> in_time X left t \<Longrightarrow>
   execute_query (served X m q) t cq ctx d = execute_query X t cq ctx d"
  by (simp add: execute_query_def agree_in_time_def)

lemma same_rows:
  assumes "agree_in_time X left m q" "clock_runs X left k" "1 \<le> ex_timeout X"
  shows "append_rows (served X m q) k i cs d = append_rows X k i cs d"
proof (induction cs arbitrary: i d)
  case (Cons c cs)
  show ?case
    by (simp add: same_dml [OF assms(1) clock_in_time [OF assms(2,3)]] Cons.IH cong: and_then_cong)
qed simp

lemma same_append:
  assumes "agree_in_time X left m q" "clock_runs X left k" "1 \<le> ex_timeout X"
  shows "execute_append (served X m q) k rq cmd db = execute_append X k rq cmd db"
proof -
  have body: "append_body (served X m q) k rq cmd key d = append_body X k rq cmd key d" for key d
    by (simp add: append_body_def same_rows [OF assms] Let_def)
  have "claim_replay (served X m q) k rq cmd key = claim_replay X k rq cmd key" for key
    by (rule ext) (simp add: claim_replay_def body split: option.split)
  moreover have "replay_key (served X m q) rq r = replay_key X rq r" for r by (simp add: replay_key_def Let_def)
  ultimately show ?thesis by (simp add: execute_append_def split: list.split)
qed


section \<open>Scope values\<close>

lemma scope_key_bound:
  "dict_item k (ctx_scope ctx) = Inr v \<Longrightarrow>
   bind_parameter T ctx (scope_marker (''__scope_'' @ k)) = Inr (Plain (PStr v))"
  by (simp add: bind_parameter_def scope_marker_def has_keys_def keys_def optional_def entry_def key_string_def
      scope_parameter_def starts_with_def decode_query_value_def dict_item_def split: option.splits)

text \<open>
  C24. The scope of a query is the scope of a mutation: for a context that a mutation accepts, the scope
  predicate of a query has the same text as a mutation's, and the execution replaces its tags by exactly
  the parameters that the mutation binds, the tenant and the values of the scope keys in their order.
\<close>
theorem scope_binding:
  assumes "scope_values s ctx = Inr vs"
  shows "command (scope_predicate s al) = command (scope_condition s al vs) \<and>
    traverse (bind_parameter T ctx) (params (scope_predicate s al)) = Inr (params (scope_condition s al vs))"
proof -
  from assms obtain tenant ws where v: "ctx_tenant ctx = Some tenant" "vs = tenant # ws"
    and ws: "traverse (\<lambda>k. dict_item k (ctx_scope ctx)) (scope_keys s) = Inr ws"
    by (auto simp: scope_values_def and_then_success split: option.splits if_splits)
  have tenant: "bind_parameter T ctx (scope_marker ''__tenant'') = Inr (Plain (PStr tenant))"
    using v(1) by (simp add: bind_parameter_def scope_marker_def has_keys_def keys_def optional_def entry_def
        key_string_def scope_parameter_def decode_query_value_def)
  have "traverse (\<lambda>k. dict_item k (ctx_scope ctx)) ks = Inr ws \<Longrightarrow>
      traverse (bind_parameter T ctx) (map (\<lambda>k. scope_marker (''__scope_'' @ k)) ks) =
        Inr (map (\<lambda>v. Plain (PStr v)) ws)" for ks ws
    by (induction ks arbitrary: ws) (auto simp: and_then_success scope_key_bound simp del: append_Cons)
  from this [OF ws] tenant v(2) show ?thesis
    by (simp add: scope_predicate_def scope_condition_def scope_columns_def comp_def)
qed

section \<open>Examples\<close>

text \<open>The tables of the example are a counter: every mutation adds one and returns a row with the count.\<close>

definition sample_exec :: "nat exec_env" where
  "sample_exec =
     \<lparr>ex_compiler = sample_compiler, ex_binding = ''b'', ex_transactional = True, ex_timeout = 1000, ex_max_bytes = 100,
      ex_mutate = (\<lambda>_ _ n. Inr ([[(''n'', PInt (int (Suc n)))]], Suc n)), ex_select = (\<lambda>_ _ _ _. Inl (DriverError None)),
      ex_json_size = (\<lambda>_. 5), ex_sha256 = (\<lambda>v. ''h''), ex_operation_data = (\<lambda>_. PNone), ex_schema_lib = sample_lib,
      ex_sql_text = (\<lambda>_. []), ex_catalog = \<lparr>rc_tables = Map.empty, rc_marker = None\<rparr>,
      ex_registry_left = None, ex_now = [], ex_publish_data = (\<lambda>_. PNone), ex_core_error = (\<lambda>_. False)\<rparr>"

definition sample_clock :: append_clock where
  "sample_clock = \<lparr>op_left = (\<lambda>_. 1), ctx_left = (\<lambda>_. None)\<rparr>"

definition sample_append :: adapter_dml where
  "sample_append = OneCommand \<lparr>dc_statement = bound [] [], dc_method = ''append'', dc_layout = sample_layout,
     dc_single = True, dc_conditional = False\<rparr>"

definition keyed :: exec_request where
  "keyed = sample_request ''meridian.evidence.append'' ''1.0.0'' [(''idempotencyKey'', PStr ''k1'')]"

definition empty_db :: "nat pg_database" where
  "empty_db = \<lparr>replays = Map.empty, registry = \<lparr>registry_rows = Map.empty\<rparr>, tables = 0\<rparr>"

definition sample_row :: pyval where
  "sample_row = PMap [(PStr ''n'', PInt 1)]"

lemma keyed_appended:
  "execute_append sample_exec sample_clock keyed sample_append empty_db =
     (Inr (sample_row, [(''mutation'', ''append'')]),
      empty_db\<lparr>tables := 1, replays := [''h'' \<mapsto> (''f'', Some sample_row)]\<rparr>)"
  by (simp add: execute_append_def sample_append_def keyed_def sample_request_def dict_get_def replay_key_def
      idempotency_key_def sample_exec_def savepoint_def claim_replay_def empty_db_def append_body_def
      sample_clock_def time_left_def execute_dml_def json_row_def object_of_def sample_row_def Let_def)

lemma keyed_replay: "replay_key sample_exec keyed r = Some ''h''"
  by (simp add: keyed_def sample_request_def dict_get_def replay_key_def idempotency_key_def
      sample_exec_def Let_def)


lemma execution_atomic_witness:
  "typed_error sample_exec (MeridianError ValidationError OPERATION_INVALID) \<and>
   execute_request sample_exec sample_clock (keyed\<lparr>rq_binding := ''other''\<rparr>) empty_db =
     (Inl (MeridianError ValidationError OPERATION_INVALID), empty_db)"
proof -
  have e: "execute_request sample_exec sample_clock (keyed\<lparr>rq_binding := ''other''\<rparr>) empty_db =
      (Inl (MeridianError ValidationError OPERATION_INVALID), empty_db)"
    by (simp add: execute_request_def keyed_def sample_request_def sample_exec_def execution_error_def)
  from execution_atomic [OF e] e show ?thesis by simp
qed


lemma scope_binding_witness:
  "traverse (bind_parameter sample_texts sample_ctx) (params (scope_predicate sample_settings ''t0'')) =
     Inr (map (\<lambda>v. Plain (PStr v)) [''acme'', ''w1''])"
proof -
  have "scope_values sample_settings sample_ctx = Inr [''acme'', ''w1'']" by code_simp
  from scope_binding [OF this, of "''t0''" sample_texts] show ?thesis by (simp add: scope_condition_def)
qed

section \<open>Filters with encoded values\<close>

text \<open>
  The compiler of filters wraps a value for a JSON or bytes field in a marker that the query path decodes
  when it binds the parameters. The mutation path passes the filter's parameters as they are: the driver
  gets the marker.
\<close>

definition tagged_layout :: resource_layout where
  "tagged_layout = sample_layout\<lparr>l_fields := l_fields sample_layout @ [sample_json_field]\<rparr>"

definition tagged_dml :: dml_env where
  "tagged_dml = sample_dml\<lparr>de_settings := graph_settings\<lparr>resources := [(''structured:people'', tagged_layout)]\<rparr>\<rparr>"

lemma filter_marker_undecoded:
  "case dml_compile tagged_dml ''delete'' (l_ref tagged_layout)
       [(''where'', PMap [(PStr (f_name sample_json_field), PInt 4)])] sample_ctx of
     Inr (OneCommand c) \<Rightarrow> Plain (marker ''jsonb'' (PInt 4)) \<in> set (params (dc_statement c)) \<and>
       bind_parameter sample_texts sample_ctx (marker ''jsonb'' (PInt 4)) = Inr (Jsonb (PInt 4))
   | _ \<Rightarrow> False"
  by code_simp

text \<open>A literal with the shape of a scope tag is taken for one: its value is the scope's, not the request's.\<close>

lemma scope_literal_replaced:
  "bind_parameter sample_texts sample_ctx (PMap [(PStr ''$scope'', PStr ''__scope_workspace'')]) =
     Inr (Plain (PStr ''w1''))"
  by code_simp

end
