(* ===== verification/SchemaDdl.thy ===== *)
theory SchemaDdl
  imports RegistryStore OutboxStore Dml
begin

text \<open>
  The compiler of the physical schema in \<open>schema/__init__.py\<close>: settings to the list of DDL statements
  of a migration plan, with its fingerprints.

  A statement is kept as data (\<open>ddl\<close>) beside its text (\<open>ddl_statement\<close>, the typed SQL that the source
  composes), so that \<open>Migration\<close> can say what the server does with it. The driver's printing of a command
  and the digest of a compact JSON text are \<open>schema_env\<close>.
\<close>

section \<open>Columns\<close>

definition simple_types :: "(logical_type \<times> string) list" where
  "simple_types =
     [(LBoolean, ''boolean''), (LInt8, ''smallint''), (LInt16, ''smallint''), (LInt32, ''integer''),
      (LInt64, ''bigint''), (LFloat64, ''double precision''), (LString, ''text''), (LBytes, ''bytea''),
      (LUuid, ''uuid''), (LUtcTimestamp, ''timestamp with time zone''), (LDate, ''date''),
      (LDuration, ''interval''), (LEnum, ''text''), (LJson, ''jsonb''), (LRecordRef, ''jsonb''),
      (LObjectRef, ''jsonb''), (LWgs84Point, ''geography(Point,4326)'')]"

text \<open>\<open>or_else\<close> is Python's \<open>or\<close> on an optional number: absent and zero take the default.\<close>

definition or_else :: "int option \<Rightarrow> int \<Rightarrow> int" where
  "or_else v n = (case v of Some x \<Rightarrow> if x = 0 then n else x | None \<Rightarrow> n)"

definition sql_type :: "field_layout \<Rightarrow> sql result" where
  "sql_type f =
     (if f_cardinality f = Many then Inr [Raw ''jsonb'']
      else if f_type f = LDecimal then
        (let precision = or_else (f_precision f) 38; scale = or_else (f_scale f) 0 in
         if 1 \<le> precision \<and> precision \<le> 1000 \<and> 0 \<le> scale \<and> scale \<le> precision
         then Inr [Raw ''numeric('', Literal (PInt precision), Raw '', '', Literal (PInt scale), Raw '')'']
         else Inl ValueError)
      else (case map_of simple_types (f_type f) of Some t \<Rightarrow> Inr [Raw t] | None \<Rightarrow> Inl ValueError))"

text \<open>A column: name, type, NOT NULL, and what follows (a default, or the expression of a generated column).\<close>

record column_def =
  cd_name :: string
  cd_type :: sql
  cd_not_null :: bool
  cd_tail :: sql
  cd_generated :: bool

definition column_sql :: "column_def \<Rightarrow> sql" where
  "column_sql c =
     [Ident (cd_name c), Raw '' ''] @ cd_type c @ (if cd_not_null c then [Raw '' NOT NULL''] else []) @ cd_tail c"

definition plain_column :: "string \<Rightarrow> string \<Rightarrow> sql \<Rightarrow> column_def" where
  "plain_column n t tail = \<lparr>cd_name = n, cd_type = [Raw t], cd_not_null = True, cd_tail = tail, cd_generated = False\<rparr>"

definition column_definition :: "field_layout \<Rightarrow> column_def result" where
  "column_definition f =
     and_then (sql_type f) (\<lambda>t.
       Inr \<lparr>cd_name = f_column f, cd_type = t, cd_not_null = \<not> f_nullable f, cd_tail = [], cd_generated = False\<rparr>)"

definition collection_text :: "string \<Rightarrow> sql" where
  "collection_text c =
     [Raw ''((('', Ident c, Raw '' -> 'collectionRef' ->> 'catalog') || ':' || ('', Ident c,
      Raw '' -> 'collectionRef' ->> 'namespace') || '.' || ('', Ident c,
      Raw '' -> 'collectionRef' ->> 'name')))'']"

definition record_text :: "string \<Rightarrow> sql" where
  "record_text c = [Raw ''(('', Ident c, Raw '' -> 'recordId')::text)'']"

definition generated_column :: "string \<Rightarrow> sql \<Rightarrow> column_def" where
  "generated_column n e =
     \<lparr>cd_name = n, cd_type = [Raw ''text''], cd_not_null = False,
      cd_tail = [Raw '' GENERATED ALWAYS AS ''] @ e @ [Raw '' STORED''], cd_generated = True\<rparr>"

definition relation_generated_columns :: "resource_layout \<Rightarrow> column_def list result" where
  "relation_generated_columns layout =
     (case l_relation layout of
        None \<Rightarrow> Inr []
      | Some r \<Rightarrow>
          and_then (dict_item (source_field r) (field_map layout)) (\<lambda>sf.
          and_then (dict_item (target_field r) (field_map layout)) (\<lambda>tf.
          let source = f_column sf; target = f_column tf in
          Inr [generated_column ''__source_collection'' (collection_text source),
               generated_column ''__source_record_id'' (record_text source),
               generated_column ''__target_collection'' (collection_text target),
               generated_column ''__target_record_id'' (record_text target)])))"

section \<open>Statements\<close>

datatype index_shape =
    Gist string
  | FullTextIndex string
  | Keys bool string "string list"
  | Endpoint "string list"

datatype ddl =
    PostgisExtension
  | NewSchema string
  | InternalTable string string "(string \<times> string \<times> string) list"
  | ResourceTable string string "column_def list" "string list"
  | AddColumn string string column_def
  | NewIndex string string string index_shape
  | Given "unit bound_statement"

definition commas :: "string list \<Rightarrow> sql" where
  "commas ns = join_sql [Raw '', ''] (map (\<lambda>n. [Ident n]) ns)"

definition index_on :: "index_shape \<Rightarrow> sql" where
  "index_on i =
     (case i of
        Gist c \<Rightarrow> [Raw '' USING gist ('', Ident c, Raw '')'']
      | FullTextIndex c \<Rightarrow> [Raw '' USING gin (to_tsvector('simple', coalesce('', Ident c,
           Raw ('', '' @ [CHR 0x27, CHR 0x27] @ '')))'')]
      | Keys _ m cs \<Rightarrow> [Raw ('' USING '' @ m @ '' ('')] @ commas cs @ [Raw '')'']
      | Endpoint cs \<Rightarrow> [Raw '' (''] @ commas cs @ [Raw '')''])"

fun ddl_sql :: "ddl \<Rightarrow> sql" where
  "ddl_sql PostgisExtension = [Raw ''CREATE EXTENSION IF NOT EXISTS postgis'']"
| "ddl_sql (NewSchema n) = [Raw ''CREATE SCHEMA IF NOT EXISTS '', Ident n]"
| "ddl_sql (InternalTable n t cs) =
     [Raw ''CREATE TABLE IF NOT EXISTS ''] @ ident [n, t] @ [Raw '' (''] @
     join_sql [Raw '', ''] (map (\<lambda>(c, k, constraint). [Raw (c @ '' '' @ k @ constraint)]) cs) @ [Raw '')'']"
| "ddl_sql (ResourceTable n t cs primary) =
     [Raw ''CREATE TABLE IF NOT EXISTS ''] @ ident [n, t] @ [Raw '' (''] @
     join_sql [Raw '', ''] (map column_sql cs @ [[Raw ''PRIMARY KEY (''] @ commas primary @ [Raw '')'']]) @ [Raw '')'']"
| "ddl_sql (AddColumn n t c) =
     [Raw ''ALTER TABLE ''] @ ident [n, t] @ [Raw '' ADD COLUMN IF NOT EXISTS ''] @ column_sql c"
| "ddl_sql (NewIndex n t i shape) =
     [Raw ''CREATE ''] @ (case shape of Keys True _ _ \<Rightarrow> [Raw ''UNIQUE ''] | _ \<Rightarrow> []) @
     [Raw ''INDEX IF NOT EXISTS '', Ident i, Raw '' ON ''] @ ident [n, t] @ index_on shape"
| "ddl_sql (Given s) = command s"

definition ddl_statement :: "ddl \<Rightarrow> unit bound_statement" where
  "ddl_statement d = bound (ddl_sql d) []"

definition metadata_table :: "string \<Rightarrow> ddl" where
  "metadata_table n = InternalTable n ''__meridian_resources''
     [(''resource_ref'', ''text'', '' PRIMARY KEY''), (''resource_fingerprint'', ''text'', '' NOT NULL''),
      (''schema_fingerprint'', ''text'', '' NOT NULL''), (''profile'', ''text'', '' NOT NULL''),
      (''physical_fingerprint'', ''text'', '' NOT NULL''),
      (''updated_at'', ''timestamp with time zone'', '' NOT NULL DEFAULT clock_timestamp()'')]"

definition plans_table :: "string \<Rightarrow> ddl" where
  "plans_table n = InternalTable n ''__meridian_migrations''
     [(''plan_fingerprint'', ''text'', '' PRIMARY KEY''),
      (''applied_at'', ''timestamp with time zone'', '' NOT NULL DEFAULT clock_timestamp()'')]"

definition evidence_replay_table :: "string \<Rightarrow> ddl" where
  "evidence_replay_table n = InternalTable n ''__meridian_evidence_replay''
     [(''replay_key'', ''text'', '' PRIMARY KEY''), (''request_fingerprint'', ''text'', '' NOT NULL''),
      (''result'', ''jsonb'', [])]"

section \<open>A Resource\<close>

definition resource_columns :: "pg_settings \<Rightarrow> resource_layout \<Rightarrow> column_def list result" where
  "resource_columns s layout =
     and_then (traverse column_definition (l_fields layout)) (\<lambda>cs.
     and_then (relation_generated_columns layout) (\<lambda>gs.
     Inr (map (\<lambda>c. plain_column c ''text'' []) (scope_columns s) @ cs @
       [plain_column ''__record_version'' ''bigint'' [Raw '' DEFAULT 1''],
        plain_column ''__created_at'' ''timestamp with time zone'' [Raw '' DEFAULT clock_timestamp()''],
        plain_column ''__updated_at'' ''timestamp with time zone'' [Raw '' DEFAULT clock_timestamp()'']] @ gs)))"

definition index_shape_of :: "pg_settings \<Rightarrow> index_layout \<Rightarrow> string list \<Rightarrow> index_shape result" where
  "index_shape_of s i cols =
     (if i_kind i = Geospatial then (case cols of c # _ \<Rightarrow> Inr (Gist c) | [] \<Rightarrow> Inl OtherException)
      else if i_kind i = FullText then (case cols of c # _ \<Rightarrow> Inr (FullTextIndex c) | [] \<Rightarrow> Inl OtherException)
      else if i_kind i = Hash then Inr (Keys (i_unique i) ''hash'' cols)
      else Inr (Keys (i_unique i) ''btree'' (scope_columns s @ cols)))"

definition index_statement :: "pg_settings \<Rightarrow> resource_layout \<Rightarrow> index_layout \<Rightarrow> ddl result" where
  "index_statement s layout i =
     and_then (traverse (\<lambda>n. dict_item n (field_map layout)) (i_fields i)) (\<lambda>fs.
     and_then (index_shape_of s i (map f_column fs)) (\<lambda>shape.
     Inr (NewIndex (physical_schema s) (l_table layout) (l_table layout @ ''_'' @ i_name i) shape)))"

definition endpoint_indexes :: "pg_settings \<Rightarrow> resource_layout \<Rightarrow> ddl list" where
  "endpoint_indexes s layout =
     (if l_relation layout = None then []
      else map (\<lambda>(suffix, cs). NewIndex (physical_schema s) (l_table layout)
             (l_table layout @ ''__'' @ suffix @ ''_endpoint'') (Endpoint (scope_columns s @ cs)))
           [(''source'', [''__source_collection'', ''__source_record_id'']),
            (''target'', [''__target_collection'', ''__target_record_id''])])"

text \<open>The generated endpoint indexes stand for a relation-endpoint index.\<close>

definition resource_ddl :: "pg_settings \<Rightarrow> resource_layout \<Rightarrow> ddl list result" where
  "resource_ddl s layout =
     and_then (resource_columns s layout) (\<lambda>cs.
     and_then (key_columns s layout) (\<lambda>primary.
     and_then (traverse (index_statement s layout) (filter (\<lambda>i. i_kind i \<noteq> RelationEndpoint) (l_indexes layout))) (\<lambda>indexes.
     Inr ([ResourceTable (physical_schema s) (l_table layout) cs primary] @
          map (AddColumn (physical_schema s) (l_table layout)) cs @ indexes @ endpoint_indexes s layout))))"

section \<open>The plan\<close>

record schema_env =
  se_text :: "sql \<Rightarrow> string"
  se_digest :: "pyval \<Rightarrow> string"
  se_registry :: schema_lib

record migration_plan =
  mp_statements :: "ddl list"
  mp_plan :: string
  mp_physical :: string
  mp_resources :: "(string \<times> string) list"

definition layout_ddl :: "schema_env \<Rightarrow> pg_settings \<Rightarrow> resource_layout \<Rightarrow> ddl list result" where
  "layout_ddl E s layout =
     (if l_profile layout = ''metadata-registry''
      then and_then (schema_registry_migration_statements (se_registry E) (se_text E) (physical_schema s)) (\<lambda>ss.
        Inr (map Given ss))
      else resource_ddl s layout)"

definition layouts :: "pg_settings \<Rightarrow> resource_layout list" where
  "layouts s = map snd (resources s)"

definition physical_digest :: "schema_env \<Rightarrow> ddl list \<Rightarrow> string" where
  "physical_digest E ds = ''sha256:'' @ se_digest E (PSeq (map (\<lambda>d. PStr (se_text E (ddl_sql d))) ds))"

definition plan_digest :: "schema_env \<Rightarrow> pg_settings \<Rightarrow> string \<Rightarrow> string" where
  "plan_digest E s physical = ''sha256:'' @ se_digest E (PMap
     [(PStr ''physicalFingerprint'', PStr physical),
      (PStr ''resources'', PSeq (map (\<lambda>l. PMap
         [(PStr ''profile'', PStr (l_profile l)), (PStr ''ref'', PStr (r_canonical (l_ref l))),
          (PStr ''resourceFingerprint'', PStr (l_resource_fingerprint l)),
          (PStr ''schemaFingerprint'', PStr (l_schema_fingerprint l))]) (layouts s)))])"

definition compile_schema :: "schema_env \<Rightarrow> pg_settings \<Rightarrow> migration_plan result" where
  "compile_schema E s =
     (let n = physical_schema s; outboxes = filter is_outbox (layouts s) in
      and_then (require_writable s) (\<lambda>_.
      and_then (traverse validate_layout outboxes) (\<lambda>_.
      and_then (traverse (layout_ddl E s) (layouts s)) (\<lambda>dss.
      let ds = [PostgisExtension, NewSchema n, metadata_table n, plans_table n] @
               (if list_ex (\<lambda>l. r_catalog (l_ref l) = ''evidence'') (layouts s) then [evidence_replay_table n] else []) @
               (if outboxes = [] then [] else map Given (outbox_migration_statements n)) @ concat dss;
          physical = physical_digest E ds in
      Inr \<lparr>mp_statements = ds, mp_plan = plan_digest E s physical, mp_physical = physical,
           mp_resources = map (\<lambda>l. (r_canonical (l_ref l), l_resource_fingerprint l)) (layouts s)\<rparr>))))"

end
