(* ===== verification/Migration.thy ===== *)
theory Migration
  imports SchemaDdl Execution
begin

text \<open>
  The platform's hooks in \<open>migration/__init__.py\<close>: the executor of a migration plan
  (\<open>MigrationExecutor\<close>) and the logical export and import of rows (\<open>LogicalTransfer\<close>).

  The server's side of the DDL is stated here from its documentation: \<open>IF NOT EXISTS\<close> looks for a
  relation of that name in the schema (tables and indexes share their names), a name is cut at 63 bytes, a
  primary key has an index \<open><table>_pkey\<close>, a missing table is an error. A transaction whose body fails
  leaves the database as it was (\<open>savepoint\<close>).
\<close>

section \<open>The server's catalog\<close>

type_synonym column_row = "string \<times> string \<times> bool \<times> string"

record table_info =
  ti_columns :: "column_row list"
  ti_primary :: "string list"
  ti_indexes :: "string list"

type_synonym physical_tables = "(string \<times> table_info) list"

definition shortened :: "string \<Rightarrow> string" where
  "shortened n = take 63 n"

definition type_text :: "sql \<Rightarrow> string" where
  "type_text t = concat (map (\<lambda>x. case x of Raw s \<Rightarrow> s | Literal (PInt n) \<Rightarrow> int_text n | _ \<Rightarrow> []) t)"

fun unspaced :: "string \<Rightarrow> string" where
  "unspaced [] = []"
| "unspaced [c] = [c]"
| "unspaced (c # d # s) = (if c = CHR '','' \<and> d = CHR '' '' then c # unspaced s else c # unspaced (d # s))"

definition column_row_of :: "column_def \<Rightarrow> column_row" where
  "column_row_of c =
     (shortened (cd_name c), unspaced (type_text (cd_type c)), cd_not_null c, if cd_generated c then ''s'' else [])"

definition relation_exists :: "string \<Rightarrow> physical_tables \<Rightarrow> bool" where
  "relation_exists n ts \<longleftrightarrow> list_ex (\<lambda>(t, i). t = n \<or> n \<in> set (ti_indexes i)) ts"

definition primary_index :: "string \<Rightarrow> string" where
  "primary_index t = take 58 t @ ''_pkey''"

definition add_table :: "string \<Rightarrow> column_row list \<Rightarrow> string list \<Rightarrow> physical_tables \<Rightarrow> physical_tables" where
  "add_table t cs primary ts =
     (if relation_exists t ts then ts
      else ts @ [(t, \<lparr>ti_columns = cs, ti_primary = primary, ti_indexes = [primary_index t]\<rparr>)])"

definition alter_table :: "string \<Rightarrow> (table_info \<Rightarrow> table_info) \<Rightarrow> physical_tables \<Rightarrow> physical_tables result" where
  "alter_table t f ts =
     (if t \<in> set (keys ts) then Inr (map (\<lambda>(u, i). (u, if u = t then f i else i)) ts)
      else Inl (DriverError (Some ''42P01'')))"

definition with_column :: "column_row \<Rightarrow> table_info \<Rightarrow> table_info" where
  "with_column c i = (if fst c \<in> set (map fst (ti_columns i)) then i else i\<lparr>ti_columns := ti_columns i @ [c]\<rparr>)"

definition with_index :: "string \<Rightarrow> table_info \<Rightarrow> table_info" where
  "with_index n i = i\<lparr>ti_indexes := ti_indexes i @ [n]\<rparr>"

fun run_ddl :: "ddl \<Rightarrow> physical_tables \<Rightarrow> physical_tables result" where
  "run_ddl (InternalTable n t cs) ts =
     Inr (add_table t (map (\<lambda>(c, k, x). (c, k, x \<noteq> [], [])) cs)
            (map fst (filter (\<lambda>(c, k, x). x = '' PRIMARY KEY'') cs)) ts)"
| "run_ddl (ResourceTable n t cs primary) ts = Inr (add_table t (map column_row_of cs) (map shortened primary) ts)"
| "run_ddl (AddColumn n t c) ts = alter_table t (with_column (column_row_of c)) ts"
| "run_ddl (NewIndex n t i shape) ts =
     (if t \<in> set (keys ts) \<and> relation_exists (shortened i) ts then Inr ts
      else alter_table t (with_index (shortened i)) ts)"
| "run_ddl _ ts = Inr ts"

fun run_all :: "ddl list \<Rightarrow> physical_tables \<Rightarrow> physical_tables result" where
  "run_all [] ts = Inr ts"
| "run_all (d # ds) ts = and_then (run_ddl d ts) (run_all ds)"

section \<open>Applying a plan\<close>

record resource_row =
  rr_resource :: string
  rr_schema :: string
  rr_profile :: string
  rr_physical :: string

record migration_db =
  md_tables :: physical_tables
  md_registry :: registry_catalog
  md_resources :: "(string \<times> resource_row) list"
  md_plans :: "string list"

record migration_outcome =
  mo_plan :: string
  mo_physical :: string
  mo_applied :: bool

definition has_registry :: "pg_settings \<Rightarrow> bool" where
  "has_registry s \<longleftrightarrow> list_ex (\<lambda>l. l_profile l = ''metadata-registry'') (layouts s)"

definition verify_registry :: "schema_env \<Rightarrow> pg_settings \<Rightarrow> migration_db \<Rightarrow> unit result" where
  "verify_registry E s db =
     (if has_registry s
      then and_then (verify_schema_repository (se_registry E) (se_text E) (physical_schema s) (md_registry db)) (\<lambda>_. Inr ())
      else Inr ())"

definition run_statements :: "schema_env \<Rightarrow> pg_settings \<Rightarrow> migration_plan \<Rightarrow> migration_db \<Rightarrow> migration_db result" where
  "run_statements E s plan db =
     and_then (run_all (mp_statements plan) (md_tables db)) (\<lambda>ts.
     if has_registry s
     then and_then (migration_fingerprint (se_registry E) (se_text E) (physical_schema s)) (\<lambda>fp.
       Inr (db\<lparr>md_tables := ts, md_registry := run_migration_ddl (physical_schema s) fp (md_registry db)\<rparr>))
     else Inr (db\<lparr>md_tables := ts\<rparr>))"

definition current_fingerprint :: "migration_db \<Rightarrow> string option result" where
  "current_fingerprint db =
     (if \<not> relation_exists ''__meridian_resources'' (md_tables db) then Inr None
      else (case remdups (map (rr_physical \<circ> snd) (md_resources db)) of
              [] \<Rightarrow> Inr None
            | [p] \<Rightarrow> Inr (Some p)
            | _ \<Rightarrow> Inl RuntimeError))"

definition check_expected :: "string option \<Rightarrow> migration_db \<Rightarrow> unit result" where
  "check_expected expected db =
     (case expected of
        None \<Rightarrow> Inr ()
      | Some x \<Rightarrow> and_then (current_fingerprint db) (\<lambda>p. ensure (p = None \<or> p = Some x) RuntimeError))"

definition plan_applied :: "migration_plan \<Rightarrow> migration_db \<Rightarrow> bool" where
  "plan_applied plan db \<longleftrightarrow> relation_exists ''__meridian_migrations'' (md_tables db) \<and> mp_plan plan \<in> set (md_plans db)"

definition pinned_row :: "pg_settings \<Rightarrow> migration_plan \<Rightarrow> string \<times> string \<Rightarrow> (string \<times> resource_row) result" where
  "pinned_row s plan rf =
     and_then (dict_item (fst rf) (resources s)) (\<lambda>layout.
       Inr (fst rf, \<lparr>rr_resource = snd rf, rr_schema = l_schema_fingerprint layout, rr_profile = l_profile layout,
                     rr_physical = mp_physical plan\<rparr>))"

definition outcome_of :: "migration_plan \<Rightarrow> bool \<Rightarrow> migration_outcome" where
  "outcome_of plan applied = \<lparr>mo_plan = mp_plan plan, mo_physical = mp_physical plan, mo_applied = applied\<rparr>"

definition migration_body ::
  "schema_env \<Rightarrow> pg_settings \<Rightarrow> migration_plan \<Rightarrow> string option \<Rightarrow> migration_db \<Rightarrow>
   (migration_outcome \<times> migration_db) result" where
  "migration_body E s plan expected db =
     and_then (require_writable s) (\<lambda>_.
     and_then (check_expected expected db) (\<lambda>_.
     if plan_applied plan db then and_then (verify_registry E s db) (\<lambda>_. Inr (outcome_of plan False, db))
     else
       and_then (run_statements E s plan db) (\<lambda>db1.
       and_then (verify_registry E s db1) (\<lambda>_.
       and_then (traverse (pinned_row s plan) (mp_resources plan)) (\<lambda>rows.
       Inr (outcome_of plan True,
            db1\<lparr>md_resources := fold (\<lambda>(k, v). dict_set k v) rows (md_resources db1),
                md_plans := md_plans db1 @ [mp_plan plan]\<rparr>))))))"

definition apply_migration ::
  "schema_env \<Rightarrow> pg_settings \<Rightarrow> migration_plan \<Rightarrow> string option \<Rightarrow> migration_db \<Rightarrow>
   migration_outcome result \<times> migration_db" where
  "apply_migration E s plan expected db = savepoint (migration_body E s plan expected) db"

interpretation migration_run: transactional "apply_migration E s plan expected" for E s plan expected
  by unfold_locales (auto simp: apply_migration_def savepoint_def split: sum.splits)

section \<open>Logical export\<close>

text \<open>
  A line is the JSON text of an object with the Resource and the row's values: it is the value here. The
  export is a generator: the lines before a failure have been delivered, the result is the whole run's.
\<close>

definition transfer_scope :: "pg_settings \<Rightarrow> string \<Rightarrow> string dict \<Rightarrow> string list result" where
  "transfer_scope s tenant scope =
     (if tenant = [] \<or> set (scope_keys s) \<noteq> set (keys scope) then Inl ValueError
      else and_then (traverse (\<lambda>k. dict_item k scope) (scope_keys s)) (\<lambda>vs. Inr (tenant # vs)))"

definition export_column :: "field_layout \<Rightarrow> sql" where
  "export_column f =
     (if f_type f = LWgs84Point \<and> f_cardinality f = One
      then [Raw ''jsonb_build_object('longitude', ST_X(('', Ident (f_column f), Raw '')::geometry), 'latitude', ST_Y(('',
            Ident (f_column f), Raw '')::geometry))'']
      else [Ident (f_column f)]) @ [Raw '' AS '', Ident (f_name f)]"

definition export_statement :: "pg_settings \<Rightarrow> resource_layout \<Rightarrow> string list \<Rightarrow> driver_value bound_statement result" where
  "export_statement s layout vs =
     and_then (traverse (\<lambda>n. dict_item n (field_map layout)) (l_identity layout)) (\<lambda>fs. Inr (bound
       ([Raw ''SELECT ''] @ join_sql [Raw '', ''] (map export_column (l_fields layout)) @
        [Raw '' FROM ''] @ table_of s layout @ [Raw '' WHERE ''] @
        join_sql [Raw '' AND ''] (map (\<lambda>c. [Ident c, Raw '' = '', Hole]) (scope_columns s)) @
        [Raw '' ORDER BY ''] @ commas (map f_column fs))
       (map (\<lambda>v. Plain (PStr v)) vs)))"

definition export_line :: "texts \<Rightarrow> string \<Rightarrow> pyval dict \<Rightarrow> pyval" where
  "export_line T ref row = PMap [(PStr ''resource'', PStr ref), (PStr ''values'', object_of (json_row T row))]"

definition export_resource ::
  "texts \<Rightarrow> pg_settings \<Rightarrow> (driver_value bound_statement \<Rightarrow> pyval dict list result) \<Rightarrow> string list \<Rightarrow> string \<Rightarrow> pyval list result" where
  "export_resource T s fetch vs ref =
     and_then (dict_item ref (resources s)) (\<lambda>layout.
     and_then (ensure (l_profile layout \<noteq> ''metadata-registry'') ValueError) (\<lambda>_.
     and_then (export_statement s layout vs) (\<lambda>q.
     and_then (fetch q) (\<lambda>rows. Inr (map (export_line T ref) rows)))))"

definition export_rows ::
  "texts \<Rightarrow> pg_settings \<Rightarrow> (driver_value bound_statement \<Rightarrow> pyval dict list result) \<Rightarrow> string list \<Rightarrow> string \<Rightarrow> string dict \<Rightarrow>
   pyval list result" where
  "export_rows T s fetch refs tenant scope =
     and_then (transfer_scope s tenant scope) (\<lambda>vs.
     and_then (traverse (export_resource T s fetch vs) refs) (\<lambda>ls. Inr (concat ls)))"

section \<open>Logical import\<close>

definition import_parts :: "pyval \<Rightarrow> (pyval \<times> (pyval \<times> pyval) list) result" where
  "import_parts v =
     (case v of
        PMap d \<Rightarrow>
          if \<not> has_keys [''resource'', ''values''] d then Inl ValueError
          else (case optional ''values'' d of PMap vs \<Rightarrow> Inr (optional ''resource'' d, vs) | _ \<Rightarrow> Inl ValueError)
      | PSeq _ \<Rightarrow> Inl ValueError | PStr _ \<Rightarrow> Inl ValueError | _ \<Rightarrow> Inl TypeError)"

definition import_layout :: "pg_settings \<Rightarrow> pyval \<Rightarrow> resource_layout result" where
  "import_layout s ref =
     (case ref of
        PStr r \<Rightarrow> dict_item r (resources s)
      | _ \<Rightarrow> if hashable ref then Inl KeyError else Inl TypeError)"

definition import_update :: "resource_layout \<Rightarrow> sql result" where
  "import_update layout =
     (case mutable_fields layout of
        [] \<Rightarrow>
          (case l_identity layout of
             [] \<Rightarrow> Inl OtherException
           | n # _ \<Rightarrow> and_then (dict_item n (field_map layout)) (\<lambda>f.
               Inr [Ident (f_column f), Raw '' = '', Ident (l_table layout), Raw ''.'', Ident (f_column f)]))
      | fs \<Rightarrow> Inr (join_sql [Raw '', ''] (map (\<lambda>f. [Ident (f_column f), Raw '' = EXCLUDED.'', Ident (f_column f)]) fs)))"

definition import_statement ::
  "pg_settings \<Rightarrow> resource_layout \<Rightarrow> string list \<Rightarrow> (field_layout \<times> driver_value bound_statement) list \<Rightarrow>
   string list \<Rightarrow> sql \<Rightarrow> driver_value bound_statement" where
  "import_statement s layout vs fvs cols update =
     bound ([Raw ''INSERT INTO ''] @ table_of s layout @ [Raw '' (''] @
            commas (scope_columns s @ map (\<lambda>(f, _). f_column f) fvs) @ [Raw '') VALUES (''] @
            join_sql [Raw '', ''] (map (\<lambda>_. [Hole]) vs @ map (\<lambda>(_, v). command v) fvs) @
            [Raw '') ON CONFLICT (''] @ commas cols @ [Raw '') DO UPDATE SET ''] @ update)
       (map (\<lambda>v. Plain (PStr v)) vs @ concat (map (\<lambda>(_, v). params v) fvs))"

definition import_row :: "dml_env \<Rightarrow> string list \<Rightarrow> pyval \<Rightarrow> driver_value bound_statement result" where
  "import_row E vs line =
     (let s = de_settings E in
      and_then (import_parts line) (\<lambda>(ref, raw).
      and_then (import_layout s ref) (\<lambda>layout.
      and_then (ensure (l_profile layout \<noteq> ''metadata-registry'') ValueError) (\<lambda>_.
      and_then (case str_keys raw of Some d \<Rightarrow> Inr d | None \<Rightarrow> Inl ValueError) (\<lambda>values.
      and_then (ensure (set (keys values) = set (field_names layout)) ValueError) (\<lambda>_.
      and_then (validate_relation_values E layout values) (\<lambda>_.
      and_then (traverse (named_value E layout) values) (\<lambda>fvs.
      and_then (key_columns s layout) (\<lambda>cols.
      and_then (import_update layout) (\<lambda>update.
      Inr (import_statement s layout vs fvs cols update)))))))))))"

fun import_all ::
  "dml_env \<Rightarrow> (driver_value bound_statement \<Rightarrow> 'd \<Rightarrow> 'd result) \<Rightarrow> string list \<Rightarrow> pyval list \<Rightarrow> 'd \<Rightarrow> (nat \<times> 'd) result" where
  "import_all E run vs [] d = Inr (0, d)"
| "import_all E run vs (l # ls) d =
     and_then (import_row E vs l) (\<lambda>st.
     and_then (run st d) (\<lambda>d'.
     and_then (import_all E run vs ls d') (\<lambda>(n, d''). Inr (Suc n, d''))))"

definition import_rows ::
  "dml_env \<Rightarrow> (driver_value bound_statement \<Rightarrow> 'd \<Rightarrow> 'd result) \<Rightarrow> pyval list \<Rightarrow> string \<Rightarrow> string dict \<Rightarrow> 'd \<Rightarrow>
   nat result \<times> 'd" where
  "import_rows E run ls tenant scope d =
     savepoint (\<lambda>d.
       and_then (require_writable (de_settings E)) (\<lambda>_.
       and_then (transfer_scope (de_settings E) tenant scope) (\<lambda>vs. import_all E run vs ls d))) d"

interpretation import_run: transactional "import_rows E run ls tenant scope" for E run ls tenant scope
  by unfold_locales (auto simp: import_rows_def savepoint_def split: sum.splits)

end
