(* ===== verification/Probe.thy ===== *)
theory Probe
  imports Migration Descriptor
begin

text \<open>
  The readiness probe and the read-only verification of \<open>probe/__init__.py\<close> (\<open>ProbeService\<close>): what the
  server must answer before the adapter is ready, the comparison of the pinned resources with the metadata
  and the catalog, and the privileges of the runtime identity.

  \<open>server_facts\<close> holds the answers of the probe's queries, \<open>physical_view\<close> those of the verification; an
  exception of the driver on one of them passes through and is not modelled (the feature probes, whose
  exceptions are caught, are).
\<close>

section \<open>Readiness\<close>

record probe_row =
  pb_version_num :: int
  pb_version :: string
  pb_postgis :: string
  pb_database :: string
  pb_recovery :: bool
  pb_isolation :: string
  pb_read_only :: string

record server_facts =
  sf_protocol :: int
  sf_extension :: bool
  sf_row :: "probe_row option"
  sf_tls :: bool
  sf_standbys :: int
  sf_connect :: bool
  sf_usage :: bool
  sf_feature :: "string \<Rightarrow> bool option"
  sf_unassigned :: bool

record health_status =
  hs_ready :: bool
  hs_role :: string
  hs_major :: string
  hs_postgis :: string
  hs_tls :: bool
  hs_standbys :: int

record adapter_probe =
  ap_manifest :: capability_manifest
  ap_evidence :: "string dict"
  ap_observed :: string

definition dotted :: "string \<Rightarrow> bool" where
  "dotted s \<longleftrightarrow> list_all (\<lambda>p. p \<noteq> [] \<and> list_all (\<lambda>c. c \<in> set ''0123456789'') p) (split_on CHR ''.'' s)"

text \<open>The groups of the legacy version pin, when the engine version has that form.\<close>

definition pinned_versions :: "string \<Rightarrow> (string \<times> string) option" where
  "pinned_versions v =
     (let a = takeWhile (\<lambda>c. c \<noteq> CHR ''-'') v; rest = drop (length a) v; b = drop (length ''-postgis-'') rest in
      if starts_with ''-postgis-'' rest \<and> dotted a \<and> dotted b then Some (a, b) else None)"

definition version_matches :: "string \<Rightarrow> string \<Rightarrow> bool" where
  "version_matches selected observed \<longleftrightarrow>
     take (length (split_on CHR ''.'' selected)) (split_on CHR ''.'' observed) = split_on CHR ''.'' selected"

definition version_pin_holds :: "string \<Rightarrow> string \<Rightarrow> string \<Rightarrow> bool" where
  "version_pin_holds engine_version server postgis \<longleftrightarrow>
     (case pinned_versions engine_version of
        None \<Rightarrow> True
      | Some (a, b) \<Rightarrow> version_matches a server \<and> version_matches b postgis)"

definition required_features :: "(string \<times> string) list" where
  "required_features =
     [(''PostGIS geography distance'',
       ''SELECT ST_DWithin(ST_SetSRID(ST_MakePoint(0, 0), 4326)::geography, '' @
       ''ST_SetSRID(ST_MakePoint(0, 0), 4326)::geography, 1) AS passed''),
      (''JSONB mutation'',
       ''SELECT jsonb_set('{\"a\": 1}'::jsonb, '{a}', '2'::jsonb) '' @ ''= '{\"a\": 2}'::jsonb AS passed''),
      (''recursive traversal'',
       ''WITH RECURSIVE walk(n) AS (VALUES (1) UNION ALL '' @
       ''SELECT n + 1 FROM walk WHERE n < 2) SELECT max(n) = 2 AS passed FROM walk''),
      (''migration lock hashing'',
       ''SELECT hashtextextended('meridian-feature-probe', 0) IS NOT NULL AS passed'')]"

definition verify_required_features :: "server_facts \<Rightarrow> unit result" where
  "verify_required_features f =
     and_then (traverse (\<lambda>(_, statement). ensure (sf_feature f statement = Some True) RuntimeError) required_features)
       (\<lambda>_. Inr ())"

definition flag_text :: "bool \<Rightarrow> string \<Rightarrow> string \<Rightarrow> string" where
  "flag_text b yes no = (if b then yes else no)"

definition probe_evidence ::
  "pg_settings \<Rightarrow> string \<Rightarrow> server_facts \<Rightarrow> probe_row \<Rightarrow> string \<Rightarrow> string dict" where
  "probe_evidence s engine_version f row server =
     [(''adapter'', ''postgresql''), (''database'', pb_database row), (''engineProfile'', engine_profile s),
      (''engineVersion'', engine_version), (''selectedEngineVersion'', engine_version),
      (''observedEngineVersion'', server @ ''-postgis-'' @ pb_postgis row), (''postgresqlVersion'', server),
      (''requiredFeatures'', ''passed''), (''protocolVersion'', int_text (sf_protocol f)),
      (''postgisVersion'', pb_postgis row), (''role'', flag_text (pb_recovery row) ''standby'' ''primary''),
      (''rollbackProbe'', ''passed''), (''serverMajor'', int_text (pb_version_num row div 10000)),
      (''streamingStandbys'', int_text (sf_standbys f)), (''tls'', flag_text (sf_tls f) ''enabled'' ''disabled''),
      (''accessMode'', flag_text (read_only s) ''read-only'' ''read-write'')]"

definition probe_checks :: "pg_settings \<Rightarrow> string \<Rightarrow> server_facts \<Rightarrow> probe_row \<Rightarrow> string \<Rightarrow> bool list" where
  "probe_checks s engine_version f row server =
     [version_pin_holds engine_version server (pb_postgis row),
      pb_isolation row = ''read committed'',
      \<not> (require_tls s \<and> \<not> sf_tls f),
      sf_connect f \<and> sf_usage f,
      \<not> pb_recovery row,
      \<not> (read_only s \<and> pb_read_only row \<noteq> ''on''),
      \<not> (\<not> read_only s \<and> pb_read_only row \<noteq> ''off''),
      \<not> (ends_with ''cluster'' (engine_profile s) \<and> sf_standbys f < expected_standbys s),
      \<not> (ends_with ''local-single-primary'' (engine_profile s) \<and> sf_standbys f \<noteq> 0)]"

definition probe ::
  "(query_capabilities \<Rightarrow> string) \<Rightarrow> pg_settings \<Rightarrow> string \<Rightarrow> server_facts \<Rightarrow> (adapter_probe \<times> health_status) result" where
  "probe fingerprint s engine_version f =
     and_then (ensure (sf_protocol f = 3) RuntimeError) (\<lambda>_.
     and_then (ensure (sf_extension f) RuntimeError) (\<lambda>_.
     case sf_row f of
       None \<Rightarrow> Inl RuntimeError
     | Some row \<Rightarrow>
         (let server = takeWhile (\<lambda>c. c \<noteq> CHR '' '') (pb_version row) in
          and_then (ensure (list_all id (probe_checks s engine_version f row server)) RuntimeError) (\<lambda>_.
          and_then (verify_required_features f) (\<lambda>_.
          and_then (ensure (sf_unassigned f) RuntimeError) (\<lambda>_.
          Inr (\<lparr>ap_manifest = capability_manifest_of fingerprint (engine_profile s) engine_version,
                ap_evidence = probe_evidence s engine_version f row server,
                ap_observed = server @ ''-postgis-'' @ pb_postgis row\<rparr>,
               \<lparr>hs_ready = True, hs_role = flag_text (pb_recovery row) ''standby'' ''primary'',
                hs_major = int_text (pb_version_num row div 10000), hs_postgis = pb_postgis row,
                hs_tls = sf_tls f, hs_standbys = sf_standbys f\<rparr>)))))))"

section \<open>Physical verification\<close>

record physical_view =
  pv_metadata :: "string \<Rightarrow> resource_row option"
  pv_exists :: "string \<Rightarrow> bool"
  pv_columns :: "string \<Rightarrow> column_row list"
  pv_indexes :: "string \<Rightarrow> string list"
  pv_registry :: registry_catalog
  pv_catalog :: catalog_view

record physical_resource =
  ph_ref :: resource_ref
  ph_resource :: string
  ph_schema :: string
  ph_profile :: string

record physical_verification =
  pf_fingerprint :: string
  pf_mappings :: "string dict"
  pf_evidence :: "string dict"

definition expected_columns :: "pg_settings \<Rightarrow> resource_layout \<Rightarrow> column_row list result" where
  "expected_columns s layout =
     and_then (traverse (\<lambda>f. and_then (sql_type f) (\<lambda>t.
         Inr (f_column f, unspaced (type_text t), \<not> f_nullable f, []))) (l_fields layout)) (\<lambda>cs.
     Inr ([(''__tenant'', ''text'', True, [])] @ map (\<lambda>k. (''__scope_'' @ k, ''text'', True, [])) (scope_keys s) @ cs @
       [(''__record_version'', ''bigint'', True, []), (''__created_at'', ''timestamp with time zone'', True, []),
        (''__updated_at'', ''timestamp with time zone'', True, [])] @
       (if l_relation layout = None then []
        else [(''__source_collection'', ''text'', False, ''s''), (''__source_record_id'', ''text'', False, ''s''),
              (''__target_collection'', ''text'', False, ''s''), (''__target_record_id'', ''text'', False, ''s'')])))"

definition expected_indexes :: "resource_layout \<Rightarrow> string list" where
  "expected_indexes layout =
     [l_table layout @ ''_pkey''] @
     map (\<lambda>i. l_table layout @ ''_'' @ i_name i) (filter (\<lambda>i. i_kind i \<noteq> RelationEndpoint) (l_indexes layout)) @
     (if l_relation layout = None then []
      else [l_table layout @ ''__source_endpoint'', l_table layout @ ''__target_endpoint''])"

definition column_value :: "column_row \<Rightarrow> pyval" where
  "column_value c = (case c of (n, t, not_null, g) \<Rightarrow> PSeq [PStr n, PStr t, PBool not_null, PStr g])"

definition strings :: "string list \<Rightarrow> pyval" where
  "strings xs = PSeq (map PStr xs)"

definition verify_table_shape :: "schema_env \<Rightarrow> pg_settings \<Rightarrow> physical_view \<Rightarrow> resource_layout \<Rightarrow> pyval result" where
  "verify_table_shape E s view layout =
     (if l_profile layout = ''metadata-registry''
      then and_then (verify_schema_repository (se_registry E) (se_text E) (physical_schema s) (pv_registry view)) (\<lambda>fp.
        Inr (PMap [(PStr ''resourceRef'', PStr (r_canonical (l_ref layout))), (PStr ''migrationFingerprint'', PStr fp)]))
      else
        and_then (expected_columns s layout) (\<lambda>expected.
        let observed = sort (pv_columns view (l_table layout)); indexes = pv_indexes view (l_table layout) in
        and_then (ensure (observed = sort expected) RuntimeError) (\<lambda>_.
        and_then (ensure (set indexes = set (expected_indexes layout)) RuntimeError) (\<lambda>_.
        Inr (PMap [(PStr ''resourceRef'', PStr (r_canonical (l_ref layout))),
                   (PStr ''columns'', PSeq (map column_value observed)), (PStr ''indexes'', strings indexes)])))))"

definition stored_fingerprint :: "core_api \<Rightarrow> pg_settings \<Rightarrow> resource_layout \<Rightarrow> string \<Rightarrow> string" where
  "stored_fingerprint api s layout canonical =
     (case map_of (read_compatibility s) canonical of
        None \<Rightarrow> l_resource_fingerprint layout
      | Some proof \<Rightarrow> definition_fingerprint api (stored_resource proof))"

definition metadata_matches ::
  "core_api \<Rightarrow> pg_settings \<Rightarrow> resource_layout \<Rightarrow> physical_resource \<Rightarrow> resource_row \<Rightarrow> bool" where
  "metadata_matches api s layout expected row \<longleftrightarrow>
     rr_resource row = stored_fingerprint api s layout (r_canonical (ph_ref expected)) \<and>
     ph_resource expected = l_resource_fingerprint layout \<and>
     rr_schema row = ph_schema expected \<and> ph_schema expected = l_schema_fingerprint layout \<and>
     rr_profile row = ph_profile expected \<and> ph_profile expected = l_profile layout"

definition verify_resource ::
  "schema_env \<Rightarrow> core_api \<Rightarrow> pg_settings \<Rightarrow> physical_view \<Rightarrow> physical_resource \<Rightarrow> (resource_row \<times> pyval \<times> string \<times> string) result" where
  "verify_resource E api s view expected =
     (let canonical = r_canonical (ph_ref expected) in
      case pv_metadata view canonical of
        None \<Rightarrow> Inl RuntimeError
      | Some row \<Rightarrow>
          and_then (dict_item canonical (resources s)) (\<lambda>layout.
          and_then (ensure (pv_exists view (physical_schema s @ ''.'' @ l_table layout)) RuntimeError) (\<lambda>_.
          and_then (verify_table_shape E s view layout) (\<lambda>shape.
          and_then (ensure (metadata_matches api s layout expected row) RuntimeError) (\<lambda>_.
          Inr (row, shape, canonical, physical_schema s @ ''.'' @ l_table layout))))))"

definition row_value :: "string \<Rightarrow> resource_row \<Rightarrow> pyval" where
  "row_value canonical r =
     PMap [(PStr ''resource_ref'', PStr canonical), (PStr ''resource_fingerprint'', PStr (rr_resource r)),
           (PStr ''schema_fingerprint'', PStr (rr_schema r)), (PStr ''profile'', PStr (rr_profile r)),
           (PStr ''physical_fingerprint'', PStr (rr_physical r))]"

definition verify_physical ::
  "schema_env \<Rightarrow> core_api \<Rightarrow> pg_settings \<Rightarrow> physical_view \<Rightarrow> physical_resource list \<Rightarrow> physical_verification result" where
  "verify_physical E api s view rs =
     (let names = map (\<lambda>r. r_canonical (ph_ref r)) rs in
      and_then (ensure (distinct names) ValueError) (\<lambda>_.
      and_then (ensure (set names \<subseteq> set (keys (resources s))) ValueError) (\<lambda>_.
      and_then (traverse (verify_resource E api s view) (sort_key (\<lambda>r. r_canonical (ph_ref r)) rs)) (\<lambda>found.
      let state = ''sha256:'' @ se_digest E (PMap
            [(PStr ''metadata'', PSeq (map (\<lambda>(row, _, c, _). row_value c row) found)),
             (PStr ''physicalShapes'', PSeq (map (\<lambda>(_, shape, _, _). shape) found))]);
          plans = remdups (map (\<lambda>(row, _). rr_physical row) found) in
      Inr \<lparr>pf_fingerprint = (case plans of [p] \<Rightarrow> p | _ \<Rightarrow> state),
           pf_mappings = map (\<lambda>(_, _, c, table). (c, table)) found,
           pf_evidence =
             [(''adapter'', ''postgresql''),
              (''physicalPlan'', case plans of [] \<Rightarrow> state | [p] \<Rightarrow> p | _ \<Rightarrow> ''divergent''),
              (''resourceCount'', nat_text (length found)), (''stateFingerprint'', state),
              (''verification'', ''read-only''),
              (''readCompatibility'', flag_text (read_only s) ''structured.put.v1-v2'' ''none'')]\<rparr>))))"

section \<open>Privileges\<close>

definition check_privileges :: "catalog_view \<Rightarrow> string \<Rightarrow> string list \<Rightarrow> unit result" where
  "check_privileges cv qualified ps =
     and_then (traverse (\<lambda>p. ensure (cv_privilege cv qualified p) RuntimeError) ps) (\<lambda>_. Inr ())"

definition verify_evidence_replay :: "pg_settings \<Rightarrow> catalog_view \<Rightarrow> unit result" where
  "verify_evidence_replay s cv =
     (let qualified = physical_schema s @ ''.__meridian_evidence_replay'' in
      and_then (ensure (cv_columns cv qualified =
          [(''replay_key'', ''text'', True), (''request_fingerprint'', ''text'', True), (''result'', ''jsonb'', False)])
          RuntimeError) (\<lambda>_.
      and_then (ensure (cv_primary cv qualified = Some ''PRIMARY KEY (replay_key)'') RuntimeError) (\<lambda>_.
      check_privileges cv qualified [''SELECT'', ''INSERT'', ''UPDATE''])))"

definition layout_privileges :: "schema_env \<Rightarrow> pg_settings \<Rightarrow> physical_view \<Rightarrow> string list \<Rightarrow> resource_layout \<Rightarrow> unit result" where
  "layout_privileges E s view privileges layout =
     (let qualified = physical_schema s @ ''.'' @ l_table layout in
      if l_profile layout = ''metadata-registry''
      then and_then (verify_schema_repository (se_registry E) (se_text E) (physical_schema s) (pv_registry view)) (\<lambda>_.
           and_then (check_privileges (pv_catalog view) (physical_schema s @ ''.'' @ migration_table) [''SELECT'']) (\<lambda>_.
           check_privileges (pv_catalog view) qualified [''SELECT'', ''INSERT'', ''UPDATE'']))
      else check_privileges (pv_catalog view) qualified (if read_only s then [''SELECT''] else privileges))"

definition validate_table_privileges ::
  "schema_env \<Rightarrow> pg_settings \<Rightarrow> physical_view \<Rightarrow> string list \<Rightarrow> unit result" where
  "validate_table_privileges E s view privileges =
     and_then (if list_ex (\<lambda>l. r_catalog (l_ref l) = ''evidence'') (layouts s)
               then verify_evidence_replay s (pv_catalog view) else Inr ()) (\<lambda>_.
     and_then (if list_ex is_outbox (layouts s) then verify_storage (pv_catalog view) (physical_schema s) else Inr ()) (\<lambda>_.
     and_then (traverse (layout_privileges E s view privileges) (layouts s)) (\<lambda>_. Inr ())))"

definition table_privileges :: "string list" where
  "table_privileges = [''SELECT'', ''INSERT'', ''UPDATE'', ''DELETE'']"

end
