(* ===== verification/Semantics.thy ===== *)
theory Semantics
  imports Probe
begin

text \<open>
  The semantics facade of \<open>semantics/__init__.py\<close> (\<open>PostgreSQLSemanticsAdapter\<close>): validation of a Schema
  against the pinned layout, planning and applying an activation, the registry revision, the encoding of a
  record, and the logical transfer envelopes.

  Schema and Collection documents, references and record validation belong to the semantics package: the
  documents are records of what the facade reads of them, and \<open>semantics_lib\<close> holds the functions. Text of
  the JSON codec is kept as the value that it encodes (\<open>sm_json\<close> is dumping and loading).
\<close>

section \<open>The semantics package\<close>

record semantic_field =
  sm_name :: string
  sm_type :: string
  sm_cardinality :: string
  sm_nullable :: bool
  sm_mutable :: bool
  sm_precision :: "int option"
  sm_scale :: "int option"

record semantic_index =
  si_name :: string
  si_kind :: string
  si_fields :: "string list"
  si_unique :: bool

text \<open>The profile of a Schema, when it is the Relation profile.\<close>

record relation_profile =
  rp_source :: string
  rp_target :: string
  rp_directed :: bool
  rp_sources :: "string list"
  rp_targets :: "string list"

record semantic_schema =
  ss_ref :: schema_ref
  ss_fingerprint :: string
  ss_kind :: string
  ss_identity :: "string list"
  ss_fields :: "semantic_field list"
  ss_indexes :: "semantic_index list"
  ss_relation :: "relation_profile option"

record collection_document =
  co_catalog :: string
  co_namespace :: string
  co_ref :: resource_ref
  co_profile :: string
  co_active :: schema_ref

record semantics_lib =
  sm_valid :: "semantic_schema \<Rightarrow> unit result"
  sm_record :: "semantic_schema \<Rightarrow> pyval \<Rightarrow> pyval result"
  sm_parse :: "pyval \<Rightarrow> resource_ref result"
  sm_ref_value :: "resource_ref \<Rightarrow> pyval"
  sm_canonical :: "pyval \<Rightarrow> unit result"
  sm_json :: "pyval \<Rightarrow> pyval result"
  sm_digest :: "pyval \<Rightarrow> string"

section \<open>Validation against the layout\<close>

definition type_name :: "logical_type \<Rightarrow> string" where
  "type_name t = (case find (\<lambda>(_, k). k = t) logical_types of Some (n, _) \<Rightarrow> n | None \<Rightarrow> [])"

definition kind_name :: "index_kind \<Rightarrow> string" where
  "kind_name t = (case find (\<lambda>(_, k). k = t) index_kinds of Some (n, _) \<Rightarrow> n | None \<Rightarrow> [])"

definition cardinality_name :: "cardinality \<Rightarrow> string" where
  "cardinality_name c = (case c of One \<Rightarrow> ''one'' | Many \<Rightarrow> ''many'')"

definition field_agrees :: "semantic_field \<Rightarrow> field_layout \<Rightarrow> bool" where
  "field_agrees logical physical \<longleftrightarrow>
     sm_type logical = type_name (f_type physical) \<and>
     sm_cardinality logical = cardinality_name (f_cardinality physical) \<and>
     sm_nullable logical = f_nullable physical \<and> sm_mutable logical = f_mutable physical \<and>
     (f_type physical = LDecimal \<longrightarrow>
        sm_precision logical = f_precision physical \<and> sm_scale logical = f_scale physical)"

definition logical_index :: "semantic_index \<Rightarrow> string \<times> string \<times> string list \<times> bool" where
  "logical_index i = (si_name i, si_kind i, si_fields i, si_unique i)"

definition physical_index :: "index_layout \<Rightarrow> string \<times> string \<times> string list \<times> bool" where
  "physical_index i = (i_name i, kind_name (i_kind i), i_fields i, i_unique i)"

definition validate_relation_profile :: "semantic_schema \<Rightarrow> resource_layout \<Rightarrow> unit result" where
  "validate_relation_profile schema layout =
     (case (l_relation layout, ss_relation schema) of
        (None, None) \<Rightarrow> Inr ()
      | (Some r, Some p) \<Rightarrow>
          ensure (rp_source p = source_field r \<and> rp_target p = target_field r \<and> rp_directed p = directed r \<and>
                  rp_sources p = source_collections r \<and> rp_targets p = target_collections r) ValueError
      | _ \<Rightarrow> Inl ValueError)"

definition resolve_layout ::
  "pg_settings \<Rightarrow> semantic_schema \<Rightarrow> collection_document option \<Rightarrow> resource_layout result" where
  "resolve_layout s schema resource =
     (case resource of
        Some c \<Rightarrow>
          and_then (ensure (co_catalog c = sr_catalog (ss_ref schema) \<and> co_namespace c = sr_namespace (ss_ref schema)) ValueError) (\<lambda>_.
          and_then (layout_for s (co_ref c)) (\<lambda>layout.
          and_then (ensure (co_profile c = l_profile layout) ValueError) (\<lambda>_. Inr layout)))
      | None \<Rightarrow>
          (case filter (\<lambda>l. l_schema_fingerprint l = ss_fingerprint schema) (layouts s) of
             [layout] \<Rightarrow> Inr layout
           | _ \<Rightarrow> Inl ValueError))"

definition semantic_field_map :: "semantic_schema \<Rightarrow> (string \<times> semantic_field) list" where
  "semantic_field_map schema = map (\<lambda>f. (sm_name f, f)) (ss_fields schema)"

definition fields_agree :: "semantic_schema \<Rightarrow> resource_layout \<Rightarrow> bool" where
  "fields_agree schema layout \<longleftrightarrow>
     list_all (\<lambda>(n, physical). case map_of (semantic_field_map schema) n of
         Some logical \<Rightarrow> field_agrees logical physical | None \<Rightarrow> False) (field_map layout)"

definition validate_definition ::
  "semantics_lib \<Rightarrow> pg_settings \<Rightarrow> semantic_schema \<Rightarrow> collection_document option \<Rightarrow> unit result" where
  "validate_definition L s schema resource =
     and_then (sm_valid L schema) (\<lambda>_.
     and_then (resolve_layout s schema resource) (\<lambda>layout.
     and_then (ensure (ss_fingerprint schema = l_schema_fingerprint layout) ValueError) (\<lambda>_.
     and_then (ensure (ss_kind schema = l_profile layout) ValueError) (\<lambda>_.
     and_then (ensure (ss_identity schema = l_identity layout) ValueError) (\<lambda>_.
     and_then (ensure (set (keys (semantic_field_map schema)) = set (keys (field_map layout))) ValueError) (\<lambda>_.
     and_then (ensure (fields_agree schema layout) ValueError) (\<lambda>_.
     and_then (ensure (set (map logical_index (ss_indexes schema)) = set (map physical_index (l_indexes layout))) ValueError) (\<lambda>_.
     validate_relation_profile schema layout))))))))"

section \<open>Activation\<close>

record activation_plan =
  av_resource :: resource_ref
  av_current :: "schema_ref option"
  av_target :: schema_ref
  av_steps :: "(pyval \<times> pyval) list list"
  av_requirements :: "string list"
  av_metadata :: "(pyval \<times> pyval) list"

record activation_result =
  ac_plan :: activation_plan
  ac_physical :: string
  ac_revision :: string
  ac_provenance :: "string dict"

definition plan_requirements :: "string list" where
  "plan_requirements = [''platform-migration-job'', ''postgis'', ''transactional-ddl'']"

definition activation_steps :: "resource_ref \<Rightarrow> string \<Rightarrow> (pyval \<times> pyval) list list" where
  "activation_steps ref fingerprint =
     [[(PStr ''kind'', PStr ''activate-pinned-layout''), (PStr ''resourceRef'', PStr (r_canonical ref)),
       (PStr ''schemaFingerprint'', PStr fingerprint)]]"

definition activation_metadata :: "migration_plan \<Rightarrow> string \<Rightarrow> string \<Rightarrow> (pyval \<times> pyval) list" where
  "activation_metadata physical resource_fingerprint schema_fingerprint =
     [(PStr ''adapterContract'', PStr ''1.0.0''), (PStr ''migrationPlanFingerprint'', PStr (mp_plan physical)),
      (PStr ''physicalFingerprint'', PStr (mp_physical physical)), (PStr ''resourceFingerprint'', PStr resource_fingerprint),
      (PStr ''schemaFingerprint'', PStr schema_fingerprint),
      (PStr ''statementCount'', PInt (int (length (mp_statements physical))))]"

text \<open>The identity of a Schema without its version.\<close>

definition schema_id :: "schema_ref \<Rightarrow> string \<times> string \<times> string" where
  "schema_id r = (sr_catalog r, sr_namespace r, sr_name r)"

definition plan_activation ::
  "semantics_lib \<Rightarrow> schema_env \<Rightarrow> pg_settings \<Rightarrow> collection_document \<Rightarrow> semantic_schema option \<Rightarrow> semantic_schema \<Rightarrow>
   activation_plan result" where
  "plan_activation L E s resource current target =
     and_then (require_writable s) (\<lambda>_.
     and_then (validate_definition L s target (Some resource)) (\<lambda>_.
     and_then (ensure (co_active resource = ss_ref target) ValueError) (\<lambda>_.
     and_then (case current of
         None \<Rightarrow> Inr ()
       | Some c \<Rightarrow> and_then (sm_valid L c) (\<lambda>_. ensure (schema_id (ss_ref c) = schema_id (ss_ref target)) ValueError)) (\<lambda>_.
     and_then (layout_for s (co_ref resource)) (\<lambda>layout.
     and_then (compile_schema E s) (\<lambda>physical.
     Inr \<lparr>av_resource = co_ref resource, av_current = map_option ss_ref current, av_target = ss_ref target,
          av_steps = activation_steps (co_ref resource) (ss_fingerprint target), av_requirements = plan_requirements,
          av_metadata = activation_metadata physical (l_resource_fingerprint layout) (ss_fingerprint target)\<rparr>))))))"

text \<open>Equality of mappings, whose entries have distinct keys.\<close>

definition same_entries :: "('k \<times> 'v) list \<Rightarrow> ('k \<times> 'v) list \<Rightarrow> bool" where
  "same_entries d e \<longleftrightarrow> length d = length e \<and> set d = set e"

definition activation_accepted :: "schema_env \<Rightarrow> pg_settings \<Rightarrow> activation_plan \<Rightarrow> migration_plan result" where
  "activation_accepted E s plan =
     and_then (require_writable s) (\<lambda>_.
     and_then (layout_for s (av_resource plan)) (\<lambda>layout.
     and_then (compile_schema E s) (\<lambda>physical.
     and_then (ensure (
         same_entries (av_metadata plan)
           (activation_metadata physical (l_resource_fingerprint layout) (l_schema_fingerprint layout)) \<and>
         list_all2 same_entries (av_steps plan) (activation_steps (av_resource plan) (l_schema_fingerprint layout)) \<and>
         av_requirements plan = plan_requirements) ValueError) (\<lambda>_.
     Inr physical))))"

definition registry_rows_value :: "migration_db \<Rightarrow> pyval" where
  "registry_rows_value db = PSeq (map (\<lambda>(c, r). row_value c r) (sort_key fst (md_resources db)))"

definition registry_revision :: "semantics_lib \<Rightarrow> migration_db \<Rightarrow> string result" where
  "registry_revision L db =
     (if \<not> relation_exists ''__meridian_resources'' (md_tables db) then Inl (DriverError (Some ''42P01''))
      else if md_resources db = [] then Inl RuntimeError
      else Inr (sm_digest L (registry_rows_value db)))"

text \<open>The migration commits with its own transaction, before the revision is read.\<close>

definition apply_activation ::
  "semantics_lib \<Rightarrow> schema_env \<Rightarrow> pg_settings \<Rightarrow> activation_plan \<Rightarrow> migration_db \<Rightarrow> activation_result result \<times> migration_db" where
  "apply_activation L E s plan db =
     (case activation_accepted E s plan of
        Inl e \<Rightarrow> (Inl e, db)
      | Inr physical \<Rightarrow>
          (case apply_migration E s physical None db of
             (Inl e, db') \<Rightarrow> (Inl e, db')
           | (Inr evidence, db') \<Rightarrow>
               (and_then (registry_revision L db') (\<lambda>revision.
                 Inr \<lparr>ac_plan = plan, ac_physical = mo_physical evidence, ac_revision = revision,
                      ac_provenance = [(''adapter'', ''postgresql''),
                        (''migrationApplied'', flag_text (mo_applied evidence) ''true'' ''false''),
                        (''migrationAuthority'', ''platform-iac'')]\<rparr>), db')))"

section \<open>Records\<close>

definition encode_value :: "semantics_lib \<Rightarrow> pg_settings \<Rightarrow> semantic_schema \<Rightarrow> pyval \<Rightarrow> pyval result" where
  "encode_value L s schema v = and_then (validate_definition L s schema None) (\<lambda>_. sm_record L schema v)"

definition decode_value :: "semantics_lib \<Rightarrow> texts \<Rightarrow> pg_settings \<Rightarrow> semantic_schema \<Rightarrow> pyval \<Rightarrow> pyval result" where
  "decode_value L T s schema v =
     and_then (validate_definition L s schema None) (\<lambda>_.
     and_then (ensure (is_mapping v) TypeError) (\<lambda>_. sm_record L schema (jsonable T v)))"

section \<open>Logical transfer\<close>

definition export_format :: string where
  "export_format = ''meridian.postgresql.logical-export.v1''"

definition required_tenant :: "op_context \<Rightarrow> string result" where
  "required_tenant ctx = (case ctx_tenant ctx of Some t \<Rightarrow> Inr t | None \<Rightarrow> Inl ValueError)"

definition unique_layouts :: "pg_settings \<Rightarrow> resource_ref list \<Rightarrow> string list result" where
  "unique_layouts s refs =
     (let names = map r_canonical refs in
      and_then (ensure (distinct names) ValueError) (\<lambda>_.
      and_then (traverse (layout_for s) refs) (\<lambda>_. Inr names)))"

definition export_logical ::
  "semantics_lib \<Rightarrow> texts \<Rightarrow> pg_settings \<Rightarrow> (driver_value bound_statement \<Rightarrow> pyval dict list result) \<Rightarrow> op_context \<Rightarrow>
   pyval list \<Rightarrow> migration_db \<Rightarrow> pyval result" where
  "export_logical L T s fetch ctx rs db =
     and_then (required_tenant ctx) (\<lambda>tenant.
     and_then (traverse (sm_parse L) rs) (\<lambda>refs.
     and_then (unique_layouts s refs) (\<lambda>names.
     and_then (export_rows T s fetch names tenant (ctx_scope ctx)) (\<lambda>ls.
     and_then (traverse (sm_json L) ls) (\<lambda>records.
     and_then (registry_revision L db) (\<lambda>revision.
     let payload = PMap [(PStr ''formatVersion'', PStr export_format), (PStr ''registryRevision'', PStr revision),
           (PStr ''resources'', PSeq (map (sm_ref_value L) refs)), (PStr ''records'', PSeq records)] in
     and_then (sm_canonical L payload) (\<lambda>_. Inr payload)))))))"

definition sequence_value :: "pyval \<Rightarrow> pyval list result" where
  "sequence_value v = (case v of PSeq xs \<Rightarrow> Inr xs | _ \<Rightarrow> Inl TypeError)"

definition import_record :: "semantics_lib \<Rightarrow> string list \<Rightarrow> pyval \<Rightarrow> pyval result" where
  "import_record L allowed record =
     (case record of
        PMap d \<Rightarrow>
          if \<not> has_keys [''resource'', ''values''] d then Inl ValueError
          else if \<not> hashable (optional ''resource'' d) then Inl TypeError
          else if optional ''resource'' d \<in> set (map PStr allowed) then sm_json L record
          else Inl ValueError
      | _ \<Rightarrow> Inl ValueError)"

definition import_lines :: "semantics_lib \<Rightarrow> pg_settings \<Rightarrow> (pyval \<times> pyval) list \<Rightarrow> pyval list result" where
  "import_lines L s payload =
     and_then (ensure (has_keys [''formatVersion'', ''registryRevision'', ''resources'', ''records''] payload) ValueError) (\<lambda>_.
     and_then (ensure (optional ''formatVersion'' payload = PStr export_format) ValueError) (\<lambda>_.
     and_then (sequence_value (optional ''resources'' payload)) (\<lambda>rs.
     and_then (sequence_value (optional ''records'' payload)) (\<lambda>records.
     and_then (traverse (sm_parse L) rs) (\<lambda>refs.
     and_then (unique_layouts s refs) (\<lambda>allowed.
     traverse (import_record L allowed) records))))))"

definition import_logical ::
  "semantics_lib \<Rightarrow> dml_env \<Rightarrow> (driver_value bound_statement \<Rightarrow> 'd \<Rightarrow> 'd result) \<Rightarrow> op_context \<Rightarrow> (pyval \<times> pyval) list \<Rightarrow> 'd \<Rightarrow>
   unit result \<times> 'd" where
  "import_logical L E run ctx payload d =
     (case and_then (require_writable (de_settings E)) (\<lambda>_.
           and_then (import_lines L (de_settings E) payload) (\<lambda>ls.
           and_then (required_tenant ctx) (\<lambda>tenant. Inr (ls, tenant)))) of
        Inl e \<Rightarrow> (Inl e, d)
      | Inr (ls, tenant) \<Rightarrow>
          (case import_rows E run ls tenant (ctx_scope ctx) d of (r, d') \<Rightarrow> (and_then r (\<lambda>_. Inr ()), d')))"

end
