(* ===== verification/SchemaLaws.thy ===== *)
theory SchemaLaws
  imports Probe
begin

text \<open>
  The schema compiler, the migration and the probe agree: what a plan makes the server create, from an empty
  schema or on tables of an earlier layout with fewer columns and indexes, is what the read-only verification
  expects. And the plan is deterministic, parameterless DDL over the names of the settings.
\<close>

lemma traverse_source: "traverse f xs = Inr ys \<Longrightarrow> y \<in> set ys \<Longrightarrow> \<exists>x \<in> set xs. f x = Inr y"
  by (induction xs arbitrary: ys) (auto simp: and_then_success)

section \<open>Frames of the DDL\<close>

fun ddl_table :: "ddl \<Rightarrow> string option" where
  "ddl_table (InternalTable n t cs) = Some t"
| "ddl_table (ResourceTable n t cs p) = Some t"
| "ddl_table (AddColumn n t c) = Some t"
| "ddl_table (NewIndex n t i shape) = Some t"
| "ddl_table _ = None"

fun ddl_relations :: "ddl \<Rightarrow> string list" where
  "ddl_relations (InternalTable n t cs) = [t, primary_index t]"
| "ddl_relations (ResourceTable n t cs p) = [t, primary_index t]"
| "ddl_relations (NewIndex n t i shape) = [shortened i]"
| "ddl_relations _ = []"

lemma map_of_altered: "map_of (map (\<lambda>(u, i). (u, if u = t then f i else i)) ts) v =
    (if v = t then map_option f (map_of ts v) else map_of ts v)"
  by (induction ts) auto

lemma run_ddl_other:
  assumes "run_ddl d ts = Inr ts'" "ddl_table d \<noteq> Some t"
  shows "map_of ts' t = map_of ts t"
  using assms
  by (cases d) (auto simp: add_table_def alter_table_def map_of_altered map_add_def split: if_splits option.splits)

lemma relation_exists_append: "relation_exists n (ts @ us) \<longleftrightarrow> relation_exists n ts \<or> relation_exists n us"
  by (simp add: relation_exists_def)

lemma relation_exists_altered:
  assumes "\<And>i. set (ti_indexes (f i)) \<subseteq> set (ti_indexes i) \<union> N"
    and "relation_exists n (map (\<lambda>(u, i). (u, if u = t then f i else i)) ts)"
  shows "relation_exists n ts \<or> n \<in> N"
  using assms(2) assms(1) by (fastforce simp: relation_exists_def list_ex_iff split: if_splits)

lemma run_ddl_relations:
  assumes "run_ddl d ts = Inr ts'" "relation_exists n ts'"
  shows "relation_exists n ts \<or> n \<in> set (ddl_relations d)"
proof (cases d)
  case (AddColumn a t c)
  have "set (ti_indexes (with_column r i)) \<subseteq> set (ti_indexes i) \<union> {}" for r i by (simp add: with_column_def)
  from relation_exists_altered [OF this] assms AddColumn show ?thesis
    by (fastforce simp: alter_table_def split: if_splits)
next
  case (NewIndex a t m shape)
  have "set (ti_indexes (with_index (shortened m) i)) \<subseteq> set (ti_indexes i) \<union> {shortened m}" for i
    by (simp add: with_index_def)
  from relation_exists_altered [OF this] assms NewIndex show ?thesis
    by (fastforce simp: alter_table_def split: if_splits)
qed (use assms in \<open>auto simp: add_table_def relation_exists_append relation_exists_def split: if_splits\<close>)

lemma run_all_other:
  "run_all ds ts = Inr ts' \<Longrightarrow> (\<And>d. d \<in> set ds \<Longrightarrow> ddl_table d \<noteq> Some t) \<Longrightarrow> map_of ts' t = map_of ts t"
  by (induction ds arbitrary: ts) (auto simp: and_then_success run_ddl_other)

lemma run_all_relations:
  "run_all ds ts = Inr ts' \<Longrightarrow> relation_exists n ts' \<Longrightarrow>
   relation_exists n ts \<or> (\<exists>d \<in> set ds. n \<in> set (ddl_relations d))"
  by (induction ds arbitrary: ts) (auto simp: and_then_success dest: run_ddl_relations)

lemma run_all_append: "run_all (ds @ es) ts = and_then (run_all ds ts) (run_all es)"
proof (induction ds arbitrary: ts)
  case (Cons d ds)
  then show ?case by (cases "run_ddl d ts") simp_all
qed simp

section \<open>One table\<close>

definition table_ok :: "column_row list \<Rightarrow> string list \<Rightarrow> physical_tables \<Rightarrow> table_info \<Rightarrow> bool" where
  "table_ok rows names ts i \<longleftrightarrow>
     set (ti_columns i) \<subseteq> set rows \<and> distinct (map fst (ti_columns i)) \<and> set (ti_indexes i) \<subseteq> set names \<and>
     (\<forall>n \<in> set names. relation_exists n ts \<longrightarrow> n \<in> set (ti_indexes i))"

lemma altered_relations:
  assumes "\<And>i. ti_indexes (f i) = ti_indexes i"
  shows "relation_exists n (map (\<lambda>(u, i). (u, if u = t then f i else i)) ts) \<longleftrightarrow> relation_exists n ts"
  using assms by (induction ts) (auto simp: relation_exists_def split: if_splits)

lemma add_columns:
  assumes "map_of ts t = Some i" "table_ok rows names ts i" "distinct (map fst rows)"
    and "column_row_of ` set cs \<subseteq> set rows"
  shows "\<exists>ts' i'. run_all (map (AddColumn n t) cs) ts = Inr ts' \<and> map_of ts' t = Some i' \<and> table_ok rows names ts' i' \<and>
    set (ti_columns i') = set (ti_columns i) \<union> column_row_of ` set cs \<and> ti_indexes i' = ti_indexes i"
  using assms
proof (induction cs arbitrary: ts i)
  case (Cons c cs)
  let ?r = "column_row_of c"
  let ?ts = "map (\<lambda>(u, i). (u, if u = t then with_column ?r i else i)) ts"
  let ?i = "with_column ?r i"
  have key: "t \<in> set (keys ts)" using Cons.prems(1) by (force simp: keys_def dest: map_of_SomeD)
  have rel: "relation_exists m ?ts \<longleftrightarrow> relation_exists m ts" for m
    by (rule altered_relations) (simp add: with_column_def)
  have same: "?r \<in> set (ti_columns i)" if "fst ?r \<in> set (map fst (ti_columns i))"
  proof -
    from that obtain q where q: "q \<in> set (ti_columns i)" "fst q = fst ?r" by auto
    moreover have "q \<in> set rows" "?r \<in> set rows" using q(1) Cons.prems(2,4) by (auto simp: table_ok_def)
    ultimately show ?thesis using Cons.prems(3) eq_key_imp_eq_value [of rows "fst q" "snd q" "snd ?r"]
      by (metis prod.collapse)
  qed
  have cols: "set (ti_columns ?i) = insert ?r (set (ti_columns i))"
  proof (cases "fst ?r \<in> set (map fst (ti_columns i))")
    case True
    then show ?thesis using same [OF True] by (simp add: with_column_def insert_absorb)
  next
    case False
    then show ?thesis by (simp add: with_column_def)
  qed
  have idx: "ti_indexes ?i = ti_indexes i" by (simp add: with_column_def)
  have dist: "distinct (map fst (ti_columns ?i))" using Cons.prems(2) by (auto simp: with_column_def table_ok_def)
  have ok: "table_ok rows names ?ts ?i"
    using Cons.prems(2,4) cols idx dist rel unfolding table_ok_def by auto
  have "map_of ?ts t = Some ?i" using Cons.prems(1) by (simp add: map_of_altered)
  moreover have "column_row_of ` set cs \<subseteq> set rows" using Cons.prems(4) by simp
  ultimately obtain ts' i' where r: "run_all (map (AddColumn n t) cs) ?ts = Inr ts'" "map_of ts' t = Some i'"
    "table_ok rows names ts' i'" "set (ti_columns i') = set (ti_columns ?i) \<union> column_row_of ` set cs"
    "ti_indexes i' = ti_indexes ?i"
    using Cons.IH [OF _ ok Cons.prems(3)] by blast
  have "run_all (map (AddColumn n t) (c # cs)) ts = Inr ts'"
    using r(1) key by (simp add: alter_table_def)
  with r cols idx show ?case by auto
qed auto

lemma add_indexes:
  assumes "map_of ts t = Some i" "table_ok rows names ts i" "set (map fst xs) \<subseteq> set names"
    and "\<And>x. x \<in> set xs \<Longrightarrow> shortened (fst x) = fst x"
  shows "\<exists>ts' i'. run_all (map (\<lambda>(m, shape). NewIndex n t m shape) xs) ts = Inr ts' \<and> map_of ts' t = Some i' \<and>
    table_ok rows names ts' i' \<and> ti_columns i' = ti_columns i \<and> set (ti_indexes i') = set (ti_indexes i) \<union> set (map fst xs)"
  using assms
proof (induction xs arbitrary: ts i)
  case (Cons x xs)
  obtain m shape where x: "x = (m, shape)" by (cases x)
  have key: "t \<in> set (keys ts)" using Cons.prems(1) by (force simp: keys_def dest: map_of_SomeD)
  have m: "shortened m = m" "m \<in> set names" using Cons.prems(3) Cons.prems(4) [of x] x by auto
  have "\<exists>ts1 i1. run_ddl (NewIndex n t m shape) ts = Inr ts1 \<and> map_of ts1 t = Some i1 \<and> table_ok rows names ts1 i1 \<and>
      ti_columns i1 = ti_columns i \<and> set (ti_indexes i1) = insert m (set (ti_indexes i))"
  proof (cases "relation_exists m ts")
    case True
    then have "m \<in> set (ti_indexes i)" using Cons.prems(2) m(2) by (simp add: table_ok_def)
    then show ?thesis using Cons.prems(1,2) True key m by (auto simp: insert_absorb)
  next
    case False
    let ?ts = "map (\<lambda>(u, i). (u, if u = t then with_index m i else i)) ts"
    have "relation_exists k ?ts \<Longrightarrow> relation_exists k ts \<or> k \<in> {m}" for k
      by (rule relation_exists_altered [where f = "with_index m"]) (auto simp: with_index_def)
    then have ok: "table_ok rows names ?ts (with_index m i)"
      using Cons.prems(2) m(2) unfolding table_ok_def with_index_def by auto
    have "run_ddl (NewIndex n t m shape) ts = Inr ?ts" using False key m(1) by (simp add: alter_table_def)
    moreover have "map_of ?ts t = Some (with_index m i)" using Cons.prems(1) by (simp add: map_of_altered)
    ultimately show ?thesis using ok by (auto simp: with_index_def)
  qed
  then obtain ts1 i1 where s: "run_ddl (NewIndex n t m shape) ts = Inr ts1" "map_of ts1 t = Some i1"
    "table_ok rows names ts1 i1" "ti_columns i1 = ti_columns i" "set (ti_indexes i1) = insert m (set (ti_indexes i))"
    by blast
  have "set (map fst xs) \<subseteq> set names" "\<And>x. x \<in> set xs \<Longrightarrow> shortened (fst x) = fst x" using Cons.prems(3,4) by auto
  from Cons.IH [OF s(2,3) this] s(1,4,5) x show ?case by auto
qed auto

section \<open>One Resource\<close>

text \<open>What DDL and probe must agree on: short, distinct names.\<close>

definition fitting :: "pg_settings \<Rightarrow> resource_layout \<Rightarrow> bool" where
  "fitting s layout \<longleftrightarrow>
     length (l_table layout) \<le> 58 \<and> list_all (\<lambda>n. length n \<le> 63) (expected_indexes layout) \<and>
     (case resource_columns s layout of
        Inr cs \<Rightarrow> list_all (\<lambda>c. length (cd_name c) \<le> 63) cs \<and> distinct (map cd_name cs)
      | Inl _ \<Rightarrow> True)"

lemma short: "length n \<le> 63 \<Longrightarrow> shortened n = n"
  by (simp add: shortened_def)

lemma column_definition_row:
  "column_definition f = Inr c \<Longrightarrow> cd_name c = f_column f \<and> cd_not_null c = (\<not> f_nullable f) \<and> \<not> cd_generated c \<and>
     sql_type f = Inr (cd_type c)"
  by (auto simp: column_definition_def and_then_success)

lemma expected_definitions:
  assumes "traverse column_definition fs = Inr cs" "\<And>c. c \<in> set cs \<Longrightarrow> length (cd_name c) \<le> 63"
  shows "traverse (\<lambda>f. and_then (sql_type f) (\<lambda>t. Inr (f_column f, unspaced (type_text t), \<not> f_nullable f, []))) fs =
    Inr (map column_row_of cs)"
  using assms
proof (induction fs arbitrary: cs)
  case (Cons f fs)
  then obtain c cs' where c: "column_definition f = Inr c" "traverse column_definition fs = Inr cs'" "cs = c # cs'"
    by (auto simp: and_then_success)
  have "cd_name c = f_column f" "cd_not_null c = (\<not> f_nullable f)" "\<not> cd_generated c" "sql_type f = Inr (cd_type c)"
    using column_definition_row [OF c(1)] by simp_all
  moreover have "length (cd_name c) \<le> 63" using Cons.prems(2) [of c] c(3) by simp
  ultimately show ?case using Cons.IH [OF c(2)] Cons.prems(2) c(3) by (simp add: column_row_of_def short)
qed simp

lemma plain_row:
  "length n \<le> 63 \<Longrightarrow> column_row_of (plain_column n t tail) = (n, unspaced t, True, [])"
  by (simp add: column_row_of_def plain_column_def short type_text_def)

lemma fixed_types: "unspaced ''text'' = ''text''" "unspaced ''bigint'' = ''bigint''"
    "unspaced ''timestamp with time zone'' = ''timestamp with time zone''"
  by code_simp+

lemma fixed_column_names: "length ''__tenant'' \<le> 63" "length ''__record_version'' \<le> 63" "length ''__created_at'' \<le> 63"
    "length ''__updated_at'' \<le> 63" "shortened ''__source_collection'' = ''__source_collection''"
    "shortened ''__source_record_id'' = ''__source_record_id''" "shortened ''__target_collection'' = ''__target_collection''"
    "shortened ''__target_record_id'' = ''__target_record_id''"
  by code_simp+

lemma generated_row: "shortened n = n \<Longrightarrow> column_row_of (generated_column n e) = (n, ''text'', False, ''s'')"
  by (simp add: column_row_of_def generated_column_def type_text_def fixed_types)

lemma generated_rows:
  assumes "relation_generated_columns layout = Inr gs"
  shows "map column_row_of gs =
    (if l_relation layout = None then []
     else [(''__source_collection'', ''text'', False, ''s''), (''__source_record_id'', ''text'', False, ''s''),
           (''__target_collection'', ''text'', False, ''s''), (''__target_record_id'', ''text'', False, ''s'')])"
  using assms
  by (auto simp: relation_generated_columns_def and_then_success Let_def generated_row fixed_column_names split: option.splits)

lemma expected_rows:
  assumes "resource_columns s layout = Inr cs" "fitting s layout"
  shows "expected_columns s layout = Inr (map column_row_of cs)"
proof -
  from assms(1) obtain fs gs where p: "traverse column_definition (l_fields layout) = Inr fs"
    "relation_generated_columns layout = Inr gs"
    "cs = map (\<lambda>c. plain_column c ''text'' []) (scope_columns s) @ fs @
       [plain_column ''__record_version'' ''bigint'' [Raw '' DEFAULT 1''],
        plain_column ''__created_at'' ''timestamp with time zone'' [Raw '' DEFAULT clock_timestamp()''],
        plain_column ''__updated_at'' ''timestamp with time zone'' [Raw '' DEFAULT clock_timestamp()'']] @ gs"
    by (auto simp: resource_columns_def and_then_success)
  have fit: "length (cd_name c) \<le> 63" if "c \<in> set cs" for c
    using assms that by (auto simp: fitting_def list_all_iff)
  have "length (cd_name c) \<le> 63" if "c \<in> set fs" for c using fit that by (simp add: p(3))
  then have E: "traverse (\<lambda>f. and_then (sql_type f) (\<lambda>t. Inr (f_column f, unspaced (type_text t), \<not> f_nullable f, [])))
      (l_fields layout) = Inr (map column_row_of fs)"
    by (rule expected_definitions [OF p(1)])
  have scope_row: "column_row_of (plain_column (''__scope_'' @ k) ''text'' []) = (''__scope_'' @ k, ''text'', True, [])"
    if "k \<in> set (scope_keys s)" for k
  proof -
    have "plain_column (''__scope_'' @ k) ''text'' [] \<in> set cs"
      unfolding p(3) set_append set_map by (intro UnI1 imageI) (use that in \<open>simp add: scope_columns_def\<close>)
    from fit [OF this] have "length (''__scope_'' @ k) \<le> 63" by (simp add: plain_column_def)
    then show ?thesis by (simp only: plain_row fixed_types)
  qed
  have scope: "map (\<lambda>x. column_row_of (plain_column (''__scope_'' @ x) ''text'' [])) (scope_keys s) =
      map (\<lambda>k. (''__scope_'' @ k, ''text'', True, [])) (scope_keys s)"
    by (rule map_cong [OF refl scope_row])
  have "map column_row_of cs = ((''__tenant'', ''text'', True, []) #
      map (\<lambda>k. (''__scope_'' @ k, ''text'', True, [])) (scope_keys s)) @ map column_row_of fs @
      [(''__record_version'', ''bigint'', True, []), (''__created_at'', ''timestamp with time zone'', True, []),
       (''__updated_at'', ''timestamp with time zone'', True, [])] @ map column_row_of gs"
    unfolding p(3) scope_columns_def
    by (simp only: map_append list.map map_map comp_def scope plain_row [OF fixed_column_names(1)] plain_row [OF fixed_column_names(2)]
        plain_row [OF fixed_column_names(3)] plain_row [OF fixed_column_names(4)] fixed_types)
  then show ?thesis
    unfolding expected_columns_def E and_then_Inr generated_rows [OF p(2)] by simp
qed

lemma resource_ddl_parts:
  assumes "resource_ddl s layout = Inr ds"
  shows "\<exists>cs primary xs. resource_columns s layout = Inr cs \<and> map fst xs = tl (expected_indexes layout) \<and>
    ds = [ResourceTable (physical_schema s) (l_table layout) cs primary] @
         map (AddColumn (physical_schema s) (l_table layout)) cs @
         map (\<lambda>(m, shape). NewIndex (physical_schema s) (l_table layout) m shape) xs"
proof -
  let ?n = "physical_schema s" and ?t = "l_table layout"
  let ?is = "filter (\<lambda>i. i_kind i \<noteq> RelationEndpoint) (l_indexes layout)"
  from assms obtain cs primary indexes where p: "resource_columns s layout = Inr cs"
    "traverse (index_statement s layout) ?is = Inr indexes"
    "ds = [ResourceTable ?n ?t cs primary] @ map (AddColumn ?n ?t) cs @ indexes @ endpoint_indexes s layout"
    by (auto simp: resource_ddl_def and_then_success)
  have "traverse (index_statement s layout) js = Inr ds' \<Longrightarrow>
      \<exists>xs. ds' = map (\<lambda>(m, shape). NewIndex ?n ?t m shape) xs \<and> map fst xs = map (\<lambda>i. ?t @ ''_'' @ i_name i) js" for js ds'
  proof (induction js arbitrary: ds')
    case (Cons j js)
    then obtain d ds'' where d: "index_statement s layout j = Inr d" "traverse (index_statement s layout) js = Inr ds''"
      "ds' = d # ds''" by (auto simp: and_then_success)
    from Cons.IH [OF d(2)] obtain xs where xs: "ds'' = map (\<lambda>(m, shape). NewIndex ?n ?t m shape) xs"
      "map fst xs = map (\<lambda>i. ?t @ ''_'' @ i_name i) js" by blast
    from d(1) obtain shape where "d = NewIndex ?n ?t (?t @ ''_'' @ i_name j) shape"
      by (auto simp: index_statement_def and_then_success)
    with xs d(3) show ?case by (intro exI [of _ "(?t @ ''_'' @ i_name j, shape) # xs"]) simp
  qed simp
  from this [OF p(2)] obtain xs where xs: "indexes = map (\<lambda>(m, shape). NewIndex ?n ?t m shape) xs"
    "map fst xs = map (\<lambda>i. ?t @ ''_'' @ i_name i) ?is" by blast
  define es where "es = (if l_relation layout = None then []
      else [(?t @ ''__source_endpoint'', Endpoint (scope_columns s @ [''__source_collection'', ''__source_record_id''])),
            (?t @ ''__target_endpoint'', Endpoint (scope_columns s @ [''__target_collection'', ''__target_record_id'']))])"
  have "endpoint_indexes s layout = map (\<lambda>(m, shape). NewIndex ?n ?t m shape) es"
    by (simp add: endpoint_indexes_def es_def)
  moreover have "map fst (xs @ es) = tl (expected_indexes layout)"
    by (simp add: xs(2) es_def expected_indexes_def)
  ultimately show ?thesis using p xs(1) by (intro exI [of _ cs] exI [of _ primary] exI [of _ "xs @ es"]) simp
qed

definition prepared :: "column_row list \<Rightarrow> string list \<Rightarrow> string \<Rightarrow> physical_tables \<Rightarrow> bool" where
  "prepared rows names t ts \<longleftrightarrow>
     (case map_of ts t of
        None \<Rightarrow> \<forall>n \<in> insert t (set names). \<not> relation_exists n ts
      | Some i \<Rightarrow> table_ok rows names ts i \<and> t @ ''_pkey'' \<in> set (ti_indexes i))"

definition completed_table :: "column_row list \<Rightarrow> string list \<Rightarrow> string \<Rightarrow> physical_tables \<Rightarrow> bool" where
  "completed_table rows names t ts \<longleftrightarrow>
     (\<exists>i. map_of ts t = Some i \<and> table_ok rows names ts i \<and> set (ti_columns i) = set rows \<and> set (ti_indexes i) = set names)"

lemma new_table:
  assumes "prepared rows names t ts" "distinct (map fst rows)" "rows = map column_row_of cs"
    and "length t \<le> 58" "t @ ''_pkey'' \<in> set names" "t \<notin> set names"
  shows "\<exists>ts' i. run_ddl (ResourceTable n t cs primary) ts = Inr ts' \<and> map_of ts' t = Some i \<and> table_ok rows names ts' i \<and>
    t @ ''_pkey'' \<in> set (ti_indexes i)"
proof (cases "map_of ts t")
  case None
  then have free: "\<not> relation_exists m ts" if "m \<in> insert t (set names)" for m using assms(1) that by (auto simp: prepared_def)
  let ?i = "\<lparr>ti_columns = rows, ti_primary = map shortened primary, ti_indexes = [t @ ''_pkey'']\<rparr>"
  have p: "primary_index t = t @ ''_pkey''" using assms(4) by (simp add: primary_index_def)
  have "run_ddl (ResourceTable n t cs primary) ts = Inr (ts @ [(t, ?i)])"
    using free [of t] by (simp add: add_table_def p assms(3))
  moreover have "map_of (ts @ [(t, ?i)]) t = Some ?i" using None by (simp add: map_add_def)
  moreover have "table_ok rows names (ts @ [(t, ?i)]) ?i"
    using assms(2,5,6) free by (auto simp: table_ok_def relation_exists_append) (auto simp: relation_exists_def)
  ultimately show ?thesis by force
next
  case (Some i)
  then have "(t, i) \<in> set ts" by (rule map_of_SomeD)
  then have "relation_exists t ts" by (force simp: relation_exists_def list_ex_iff)
  then have "run_ddl (ResourceTable n t cs primary) ts = Inr ts" by (simp add: add_table_def)
  with Some assms(1) show ?thesis by (auto simp: prepared_def)
qed

lemma resource_run:
  assumes ds: "resource_ddl s layout = Inr ds" and cs: "resource_columns s layout = Inr cs" and fit: "fitting s layout"
    and names: "distinct (l_table layout # expected_indexes layout)"
    and ready: "prepared (map column_row_of cs) (expected_indexes layout) (l_table layout) ts"
  shows "\<exists>ts'. run_all ds ts = Inr ts' \<and> completed_table (map column_row_of cs) (expected_indexes layout) (l_table layout) ts'"
proof -
  let ?n = "physical_schema s" and ?t = "l_table layout" and ?names = "expected_indexes layout"
  let ?rows = "map column_row_of cs"
  from resource_ddl_parts [OF ds] cs obtain primary xs where p: "map fst xs = tl ?names"
    "ds = [ResourceTable ?n ?t cs primary] @ map (AddColumn ?n ?t) cs @ map (\<lambda>(m, shape). NewIndex ?n ?t m shape) xs"
    by auto
  have short_columns: "length (cd_name c) \<le> 63" if "c \<in> set cs" for c
    using fit cs that by (auto simp: fitting_def list_all_iff)
  then have row_names: "map fst ?rows = map cd_name cs" by (simp add: column_row_of_def short)
  have dist: "distinct (map fst ?rows)" unfolding row_names using fit cs by (simp add: fitting_def)
  have hd: "?names = (?t @ ''_pkey'') # map fst xs" using p(1) by (simp add: expected_indexes_def)
  have "length ?t \<le> 58" "?t @ ''_pkey'' \<in> set ?names" "?t \<notin> set ?names"
    using fit names hd by (simp_all add: fitting_def)
  from new_table [OF ready dist refl this, of ?n primary] obtain ts1 i1 where
    s1: "run_ddl (ResourceTable ?n ?t cs primary) ts = Inr ts1" "map_of ts1 ?t = Some i1" "table_ok ?rows ?names ts1 i1"
    "?t @ ''_pkey'' \<in> set (ti_indexes i1)" by blast
  have "column_row_of ` set cs \<subseteq> set ?rows" by simp
  from add_columns [OF s1(2,3) dist this, of ?n] obtain ts2 i2 where
    s2: "run_all (map (AddColumn ?n ?t) cs) ts1 = Inr ts2" "map_of ts2 ?t = Some i2" "table_ok ?rows ?names ts2 i2"
    "set (ti_columns i2) = set (ti_columns i1) \<union> column_row_of ` set cs" "ti_indexes i2 = ti_indexes i1" by blast
  have "set (map fst xs) \<subseteq> set ?names" using hd by auto
  moreover have "shortened (fst x) = fst x" if "x \<in> set xs" for x
  proof -
    have "fst x \<in> set ?names" using that hd by auto
    then show ?thesis using fit by (intro short) (auto simp: fitting_def list_all_iff)
  qed
  ultimately obtain ts3 i3 where
    s3: "run_all (map (\<lambda>(m, shape). NewIndex ?n ?t m shape) xs) ts2 = Inr ts3" "map_of ts3 ?t = Some i3"
    "table_ok ?rows ?names ts3 i3" "ti_columns i3 = ti_columns i2"
    "set (ti_indexes i3) = set (ti_indexes i2) \<union> set (map fst xs)"
    using add_indexes [OF s2(2,3), of xs ?n] by blast
  have "run_all ds ts = Inr ts3" using s1(1) s2(1) s3(1) by (simp add: p(2) run_all_append)
  moreover have "set (ti_columns i3) = set ?rows" using s1(3) s2(4) s3(4) by (auto simp: table_ok_def)
  moreover have "set (ti_indexes i3) = set ?names"
    using s1(4) s2(5) s3(3,5) hd by (auto simp: table_ok_def)
  ultimately show ?thesis using s3(2,3) by (auto simp: completed_table_def)
qed

section \<open>The plan\<close>

text \<open>The relations that the DDL of a layout may create, and the layouts that have a table of their own.\<close>

definition data_layout :: "resource_layout \<Rightarrow> bool" where
  "data_layout l \<longleftrightarrow> l_profile l \<noteq> ''metadata-registry''"

definition footprint :: "resource_layout \<Rightarrow> string list" where
  "footprint l = l_table l # expected_indexes l"

definition internal_names :: "string list" where
  "internal_names = concat (map (\<lambda>t. [t, t @ ''_pkey'']) [''__meridian_resources'', ''__meridian_migrations'', ''__meridian_evidence_replay''])"

definition plan_names :: "pg_settings \<Rightarrow> string list" where
  "plan_names s = internal_names @ concat (map footprint (filter data_layout (layouts s)))"

definition prepared_layout :: "pg_settings \<Rightarrow> physical_tables \<Rightarrow> resource_layout \<Rightarrow> bool" where
  "prepared_layout s ts l \<longleftrightarrow>
     (case resource_columns s l of
        Inr cs \<Rightarrow> prepared (map column_row_of cs) (expected_indexes l) (l_table l) ts | Inl _ \<Rightarrow> True)"

definition completed_layout :: "pg_settings \<Rightarrow> physical_tables \<Rightarrow> resource_layout \<Rightarrow> bool" where
  "completed_layout s ts l \<longleftrightarrow>
     (case resource_columns s l of
        Inr cs \<Rightarrow> completed_table (map column_row_of cs) (expected_indexes l) (l_table l) ts | Inl _ \<Rightarrow> True)"

lemma table_ok_frame:
  "table_ok rows names ts i \<Longrightarrow> (\<And>n. n \<in> set names \<Longrightarrow> relation_exists n ts' \<Longrightarrow> relation_exists n ts) \<Longrightarrow>
   table_ok rows names ts' i"
  by (auto simp: table_ok_def)

lemma run_frame:
  assumes r: "run_all ds ts = Inr ts'" and "\<And>d. d \<in> set ds \<Longrightarrow> set_option (ddl_table d) \<union> set (ddl_relations d) \<subseteq> R"
    and "R \<inter> set (footprint l) = {}"
  shows "prepared_layout s ts l \<Longrightarrow> prepared_layout s ts' l" "completed_layout s ts l \<Longrightarrow> completed_layout s ts' l"
proof -
  have t: "map_of ts' (l_table l) = map_of ts (l_table l)"
    by (rule run_all_other [OF r]) (use assms(2,3) in \<open>fastforce simp: footprint_def\<close>)
  have n: "relation_exists n ts' \<Longrightarrow> relation_exists n ts" if "n \<in> set (footprint l)" for n
    using run_all_relations [OF r, of n] assms(2,3) that by fastforce
  have names: "relation_exists n ts' \<Longrightarrow> relation_exists n ts" if "n \<in> set (expected_indexes l)" for n
    using n that by (simp add: footprint_def)
  show "prepared_layout s ts l \<Longrightarrow> prepared_layout s ts' l"
    using t n by (auto simp: prepared_layout_def prepared_def footprint_def split: sum.splits option.splits
        intro: table_ok_frame [OF _ names])
  show "completed_layout s ts l \<Longrightarrow> completed_layout s ts' l"
    using t by (auto simp: completed_layout_def completed_table_def split: sum.splits intro: table_ok_frame [OF _ names])
qed

lemma layout_footprint:
  assumes "layout_ddl E s l = Inr ds" "data_layout l \<longrightarrow> fitting s l" "d \<in> set ds"
  shows "set_option (ddl_table d) \<union> set (ddl_relations d) \<subseteq> (if data_layout l then set (footprint l) else {})"
proof (cases "data_layout l")
  case False
  then show ?thesis using assms(1,3) by (auto simp: layout_ddl_def data_layout_def and_then_success)
next
  case True
  let ?n = "physical_schema s" and ?t = "l_table l"
  from True assms(1) have "resource_ddl s l = Inr ds" by (simp add: layout_ddl_def data_layout_def)
  from resource_ddl_parts [OF this] obtain cs primary xs where p: "map fst xs = tl (expected_indexes l)"
    "ds = [ResourceTable ?n ?t cs primary] @ map (AddColumn ?n ?t) cs @ map (\<lambda>(m, shape). NewIndex ?n ?t m shape) xs"
    by blast
  have fit: "length ?t \<le> 58" "\<And>n. n \<in> set (expected_indexes l) \<Longrightarrow> length n \<le> 63"
    using assms(2) True by (auto simp: fitting_def list_all_iff)
  have hd: "expected_indexes l = (?t @ ''_pkey'') # map fst xs" using p(1) by (simp add: expected_indexes_def)
  have names: "shortened m \<in> set (expected_indexes l)" if "(m, shape) \<in> set xs" for m shape
  proof -
    have "m \<in> set (expected_indexes l)" using that hd by force
    then show ?thesis using fit(2) short by simp
  qed
  have pkey: "?t @ ''_pkey'' \<in> set (expected_indexes l)" using hd by simp
  from assms(3) [unfolded p(2)] consider "d = ResourceTable ?n ?t cs primary" | c where "d = AddColumn ?n ?t c"
    | m shape where "(m, shape) \<in> set xs" "d = NewIndex ?n ?t m shape" by auto
  then show ?thesis
    by cases (use True fit(1) names pkey in \<open>simp_all add: footprint_def primary_index_def\<close>)
qed

lemma layouts_run:
  assumes "traverse (layout_ddl E s) ls = Inr dss" "distinct (concat (map footprint (filter data_layout ls)))"
    and "\<And>l. l \<in> set ls \<Longrightarrow> data_layout l \<Longrightarrow> fitting s l \<and> prepared_layout s ts l"
  shows "\<exists>ts'. run_all (concat dss) ts = Inr ts' \<and> (\<forall>l \<in> set ls. data_layout l \<longrightarrow> completed_layout s ts' l)"
  using assms
proof (induction ls arbitrary: dss ts)
  case (Cons l ls)
  from Cons.prems(1) obtain ds dss' where d: "layout_ddl E s l = Inr ds" "traverse (layout_ddl E s) ls = Inr dss'"
    "dss = ds # dss'" by (auto simp: and_then_success)
  have fit: "data_layout l \<longrightarrow> fitting s l" using Cons.prems(3) by simp
  note F = layout_footprint [OF d(1) fit]
  have here: "\<exists>ts1. run_all ds ts = Inr ts1 \<and> (data_layout l \<longrightarrow> completed_layout s ts1 l)"
  proof (cases "data_layout l")
    case True
    then have r: "resource_ddl s l = Inr ds" using d(1) by (simp add: layout_ddl_def data_layout_def)
    from resource_ddl_parts [OF r] obtain cs where cs: "resource_columns s l = Inr cs" by blast
    have "distinct (l_table l # expected_indexes l)" using Cons.prems(2) True by (simp add: footprint_def)
    moreover have "prepared (map column_row_of cs) (expected_indexes l) (l_table l) ts"
      using Cons.prems(3) [of l] True cs by (simp add: prepared_layout_def)
    ultimately show ?thesis using resource_run [OF r cs] fit True cs by (simp add: completed_layout_def)
  next
    case False
    have "run_all (map Given es) ts = Inr ts" for es by (induction es) simp_all
    then show ?thesis using d(1) False by (auto simp: layout_ddl_def data_layout_def and_then_success)
  qed
  then obtain ts1 where t1: "run_all ds ts = Inr ts1" "data_layout l \<longrightarrow> completed_layout s ts1 l" by blast
  let ?R = "if data_layout l then set (footprint l) else {}"
  have apart: "?R \<inter> set (footprint m) = {}" if "m \<in> set ls" "data_layout m" for m
  proof (cases "data_layout l")
    case True
    then have "set (footprint l) \<inter> (\<Union>x \<in> set (filter data_layout ls). set (footprint x)) = {}"
      using Cons.prems(2) by simp
    then show ?thesis using True that by auto
  qed simp
  have "fitting s m \<and> prepared_layout s ts1 m" if "m \<in> set ls" "data_layout m" for m
    using Cons.prems(3) [of m] that run_frame(1) [OF t1(1) F apart [OF that]] by simp
  moreover have "distinct (concat (map footprint (filter data_layout ls)))" using Cons.prems(2) by (simp split: if_splits)
  ultimately obtain ts2 where t2: "run_all (concat dss') ts1 = Inr ts2"
    "\<forall>m \<in> set ls. data_layout m \<longrightarrow> completed_layout s ts2 m"
    using Cons.IH [OF d(2)] by blast
  have "completed_layout s ts2 l" if l: "data_layout l"
  proof (rule run_frame(2) [OF t2(1)])
    show "completed_layout s ts1 l" using t1(2) l by simp
    let ?S = "\<Union>m \<in> set (filter data_layout ls). set (footprint m)"
    show "set_option (ddl_table e) \<union> set (ddl_relations e) \<subseteq> ?S" if "e \<in> set (concat dss')" for e
    proof -
      from that obtain es where es: "es \<in> set dss'" "e \<in> set es" by auto
      obtain m where m: "m \<in> set ls" "layout_ddl E s m = Inr es"
        using traverse_source [OF d(2) es(1)] by blast
      have "data_layout m \<longrightarrow> fitting s m" using Cons.prems(3) m(1) by simp
      from layout_footprint [OF m(2) this es(2)] m(1) show ?thesis by (auto split: if_splits)
    qed
    show "?S \<inter> set (footprint l) = {}" using apart l by auto
  qed
  with t1(1) t2 d(3) show ?case by (auto simp: run_all_append)
qed simp

definition data_layouts :: "pg_settings \<Rightarrow> resource_layout list" where
  "data_layouts s = filter data_layout (layouts s)"

text \<open>A view of the catalog that reports what the tables are.\<close>

definition views :: "physical_view \<Rightarrow> physical_tables \<Rightarrow> bool" where
  "views view ts \<longleftrightarrow>
     (\<forall>t i. map_of ts t = Some i \<longrightarrow> pv_columns view t = ti_columns i \<and> pv_indexes view t = ti_indexes i)"

lemma distinct_of_map: "distinct (map f xs) \<Longrightarrow> distinct xs"
  by (simp add: distinct_map)

lemma completed_verified:
  assumes "completed_layout s ts l" "fitting s l" "data_layout l" "resource_columns s l = Inr cs" "views view ts"
  shows "\<exists>shape. verify_table_shape E s view l = Inr shape"
proof -
  let ?rows = "map column_row_of cs"
  from assms(1,4) obtain i where i: "map_of ts (l_table l) = Some i" "table_ok ?rows (expected_indexes l) ts i"
    "set (ti_columns i) = set ?rows" "set (ti_indexes i) = set (expected_indexes l)"
    by (auto simp: completed_layout_def completed_table_def)
  have "length (cd_name c) \<le> 63" if "c \<in> set cs" for c using assms(2,4) that by (auto simp: fitting_def list_all_iff)
  then have names: "map fst ?rows = map cd_name cs" by (simp add: column_row_of_def short)
  have "distinct (map fst ?rows)" unfolding names using assms(2,4) by (simp add: fitting_def)
  then have "distinct ?rows" by (rule distinct_of_map)
  moreover have "distinct (ti_columns i)" using i(2) distinct_of_map by (auto simp: table_ok_def)
  ultimately have "sort (ti_columns i) = sort ?rows" using i(3) by (intro sorted_distinct_set_unique) simp_all
  then show ?thesis
    using assms(3,5) i(1,4) expected_rows [OF assms(4,2)]
    by (simp add: verify_table_shape_def data_layout_def views_def Let_def)
qed

lemma completed_exists:
  assumes "completed_layout s ts l" "resource_columns s l = Inr cs"
  shows "relation_exists (l_table l) ts"
  using assms by (auto simp: completed_layout_def completed_table_def relation_exists_def list_ex_iff dest!: map_of_SomeD)

lemma prefix_run:
  assumes "\<And>d. d \<in> set ds \<Longrightarrow> (\<exists>n t cs. d = InternalTable n t cs) \<or> (\<exists>st. d = Given st) \<or> d = PostgisExtension \<or> (\<exists>n. d = NewSchema n)"
  shows "\<exists>ts'. run_all ds ts = Inr ts'"
  using assms
proof (induction ds arbitrary: ts)
  case (Cons d ds)
  have "\<exists>ts1. run_ddl d ts = Inr ts1" using Cons.prems [of d] by auto
  then obtain ts1 where t: "run_ddl d ts = Inr ts1" by blast
  have "\<exists>ts'. run_all ds ts1 = Inr ts'" by (rule Cons.IH) (use Cons.prems in auto)
  with t show ?case by simp
qed simp

definition plan_prefix :: "pg_settings \<Rightarrow> ddl list" where
  "plan_prefix s =
     (let n = physical_schema s in
      [PostgisExtension, NewSchema n, metadata_table n, plans_table n] @
      (if list_ex (\<lambda>l. r_catalog (l_ref l) = ''evidence'') (layouts s) then [evidence_replay_table n] else []) @
      (if filter is_outbox (layouts s) = [] then [] else map Given (outbox_migration_statements n)))"

lemma compile_schema_parts:
  assumes "compile_schema E s = Inr plan"
  shows "\<exists>dss. traverse (layout_ddl E s) (layouts s) = Inr dss \<and> mp_statements plan = plan_prefix s @ concat dss"
  using assms by (auto simp: compile_schema_def Let_def and_then_success plan_prefix_def)

lemma plan_prefix_run: "\<exists>ts'. run_all (plan_prefix s) ts = Inr ts'"
proof (rule prefix_run)
  fix d assume "d \<in> set (plan_prefix s)"
  then show "(\<exists>n t cs. d = InternalTable n t cs) \<or> (\<exists>st. d = Given st) \<or> d = PostgisExtension \<or> (\<exists>n. d = NewSchema n)"
    by (auto simp: plan_prefix_def Let_def metadata_table_def plans_table_def evidence_replay_table_def split: if_splits)
qed

lemma plan_prefix_footprint:
  "d \<in> set (plan_prefix s) \<Longrightarrow> set_option (ddl_table d) \<union> set (ddl_relations d) \<subseteq> set internal_names"
  by (auto simp: plan_prefix_def Let_def metadata_table_def plans_table_def evidence_replay_table_def internal_names_def
      primary_index_def split: if_splits)

text \<open>
  What a migration creates is what the verification expects: the DDL of a compiled plan runs on any
  database where each table of the plan is absent or has only columns and indexes of its layout (an empty
  schema, or that of an earlier layout which the new one extends), if the names of the plan are distinct and
  fit into PostgreSQL's 63 bytes; after it the table of every layout has exactly the columns, types,
  nullability and indexes that the read-only probe compares with.
\<close>
lemma migration_verified:
  assumes plan: "compile_schema E s = Inr plan" and names: "distinct (plan_names s)"
    and ready: "\<And>l. l \<in> set (data_layouts s) \<Longrightarrow> fitting s l \<and> prepared_layout s ts l"
  shows "\<exists>ts'. run_all (mp_statements plan) ts = Inr ts' \<and>
    (\<forall>view. \<forall>l \<in> set (data_layouts s). relation_exists (l_table l) ts' \<and>
       (views view ts' \<longrightarrow> (\<exists>shape. verify_table_shape E s view l = Inr shape)))"
proof -
  from compile_schema_parts [OF plan] obtain dss where d: "traverse (layout_ddl E s) (layouts s) = Inr dss"
    "mp_statements plan = plan_prefix s @ concat dss" by blast
  obtain ts1 where t1: "run_all (plan_prefix s) ts = Inr ts1" using plan_prefix_run by blast
  have dist: "distinct (concat (map footprint (filter data_layout (layouts s))))" using names by (simp add: plan_names_def)
  have "fitting s l \<and> prepared_layout s ts1 l" if "l \<in> set (layouts s)" "data_layout l" for l
  proof -
    have l: "l \<in> set (data_layouts s)" using that by (simp add: data_layouts_def)
    have "set internal_names \<inter> set (footprint l) = {}"
      using names that unfolding plan_names_def distinct_append by auto
    from run_frame(1) [OF t1 _ this, of s] ready [OF l] plan_prefix_footprint show ?thesis by blast
  qed
  from layouts_run [OF d(1) dist this] obtain ts2 where t2: "run_all (concat dss) ts1 = Inr ts2"
    "\<forall>l \<in> set (layouts s). data_layout l \<longrightarrow> completed_layout s ts2 l" by blast
  have "relation_exists (l_table l) ts2 \<and> (views view ts2 \<longrightarrow> (\<exists>shape. verify_table_shape E s view l = Inr shape))"
    if "l \<in> set (data_layouts s)" for view l
  proof -
    have l: "l \<in> set (layouts s)" "data_layout l" using that by (simp_all add: data_layouts_def)
    obtain ds where "layout_ddl E s l = Inr ds" using traverse_each [OF d(1) l(1)] by blast
    then have "resource_ddl s l = Inr ds" using l(2) by (simp add: layout_ddl_def data_layout_def)
    from resource_ddl_parts [OF this] obtain cs where "resource_columns s l = Inr cs" by blast
    with t2(2) l ready [OF that] completed_verified completed_exists show ?thesis by blast
  qed
  moreover have "run_all (mp_statements plan) ts = Inr ts2" by (simp add: d(2) run_all_append t1 t2(1))
  ultimately show ?thesis by blast
qed

section \<open>Examples\<close>

fun sample_digest :: "pyval \<Rightarrow> string" where
  "sample_digest (PSeq ds) = concat (map sample_digest ds)"
| "sample_digest (PMap ((_, PStr p) # _)) = p"
| "sample_digest (PStr t) = t"
| "sample_digest _ = []"

definition initials :: "sql \<Rightarrow> string" where
  "initials c = concat (map (\<lambda>x. case x of Ident n \<Rightarrow> take 1 n | _ \<Rightarrow> []) c)"

definition sample_env :: schema_env where
  "sample_env = \<lparr>se_text = initials, se_digest = sample_digest, se_registry = sample_lib\<rparr>"

lemma sample_plan: "case compile_schema sample_env sample_settings of Inr _ \<Rightarrow> True | Inl _ \<Rightarrow> False"
  by code_simp

lemma sample_fits:
  "distinct (plan_names sample_settings)"
  "list_all (\<lambda>l. fitting sample_settings l \<and> prepared_layout sample_settings [] l) (data_layouts sample_settings)"
  by code_simp+

text \<open>
  The settings bound the length of a table's name and of an index's, but not of the index name that the two
  are joined to: a longer one is cut by the server, and the verification, which expects the whole name, then
  reports drift on the schema that the migration has just created.
\<close>

definition long_index_layout :: resource_layout where
  "long_index_layout = sample_layout\<lparr>l_indexes :=
     [\<lparr>i_name = replicate 58 CHR ''i'', i_kind = Btree, i_fields = [''nick''], i_unique = False\<rparr>]\<rparr>"

lemma long_index_reported_as_drift:
  "layout_wf long_index_layout \<and>
   (case resource_ddl sample_settings long_index_layout of
      Inr ds \<Rightarrow>
        (case run_all ds [] of
           Inr [(t, i)] \<Rightarrow> set (ti_indexes i) \<noteq> set (expected_indexes long_index_layout)
         | _ \<Rightarrow> False)
    | Inl _ \<Rightarrow> False)"
  by code_simp

end
