(* ===== verification/MigrationLaws.thy ===== *)
theory MigrationLaws
  imports SchemaLaws
begin

text \<open>
  Migrations end to end: a migration that was applied is what the physical verification accepts, applying it
  again changes nothing, and a failure leaves the database as it was. Logical transfer: an imported row binds
  the caller's scope and the values that were exported.
\<close>

section \<open>Applied migrations\<close>

lemma apply_cases:
  assumes "apply_migration E s plan expected db = (res, db')"
  obtains (failed) e where "migration_body E s plan expected db = Inl e" "res = Inl e" "db' = db"
  | (answered) out where "migration_body E s plan expected db = Inr (out, db')" "res = Inr out"
  using assms by (auto simp: apply_migration_def savepoint_def split: sum.splits)

lemma body_parts:
  assumes "migration_body E s plan expected db = Inr (out, db')"
  obtains (again) "require_writable s = Inr ()" "plan_applied plan db" "verify_registry E s db = Inr ()"
      "out = outcome_of plan False" "db' = db"
  | (fresh) db1 rows where "require_writable s = Inr ()" "\<not> plan_applied plan db"
      "run_statements E s plan db = Inr db1" "verify_registry E s db1 = Inr ()"
      "traverse (pinned_row s plan) (mp_resources plan) = Inr rows" "out = outcome_of plan True"
      "db' = db1\<lparr>md_resources := fold (\<lambda>(k, v). dict_set k v) rows (md_resources db1),
                  md_plans := md_plans db1 @ [mp_plan plan]\<rparr>"
proof (cases "plan_applied plan db")
  case True
  with assms show ?thesis by (intro again) (auto simp: migration_body_def and_then_success)
next
  case False
  with assms obtain db1 rows where "require_writable s = Inr ()" "run_statements E s plan db = Inr db1"
    "verify_registry E s db1 = Inr ()" "traverse (pinned_row s plan) (mp_resources plan) = Inr rows"
    "(out, db') = (outcome_of plan True, db1\<lparr>md_resources := fold (\<lambda>(k, v). dict_set k v) rows (md_resources db1),
                  md_plans := md_plans db1 @ [mp_plan plan]\<rparr>)"
    by (auto simp: migration_body_def and_then_success)
  with False show ?thesis by (intro fresh) auto
qed

lemma run_statements_parts:
  assumes "run_statements E s plan db = Inr db1"
  shows "run_all (mp_statements plan) (md_tables db) = Inr (md_tables db1) \<and> md_plans db1 = md_plans db \<and>
    md_resources db1 = md_resources db"
  using assms by (auto simp: run_statements_def and_then_success split: if_splits)

lemma altered_keeps:
  assumes "relation_exists n ts" "\<And>i. set (ti_indexes i) \<subseteq> set (ti_indexes (f i))"
  shows "relation_exists n (map (\<lambda>(u, i). (u, if u = t then f i else i)) ts)"
  using assms(1) subsetD [OF assms(2)] by (induction ts) (auto simp: relation_exists_def split: if_splits)

lemma run_ddl_keeps: "run_ddl d ts = Inr ts' \<Longrightarrow> relation_exists n ts \<Longrightarrow> relation_exists n ts'"
  by (cases d) (auto simp: add_table_def alter_table_def relation_exists_append with_column_def with_index_def
      intro!: altered_keeps split: if_splits)

lemma run_all_keeps: "run_all ds ts = Inr ts' \<Longrightarrow> relation_exists n ts \<Longrightarrow> relation_exists n ts'"
  by (induction ds arbitrary: ts) (auto simp: and_then_success dest: run_ddl_keeps)

lemma created_exists:
  "run_all ds ts = Inr ts' \<Longrightarrow> InternalTable n t cs \<in> set ds \<Longrightarrow> relation_exists t ts'"
proof (induction ds arbitrary: ts)
  case (Cons d ds)
  then obtain ts1 where t: "run_ddl d ts = Inr ts1" "run_all ds ts1 = Inr ts'" by (auto simp: and_then_success)
  show ?case
  proof (cases "d = InternalTable n t cs")
    case True
    with t(1) have "relation_exists t ts1" by (auto simp: add_table_def relation_exists_append relation_exists_def)
    then show ?thesis by (rule run_all_keeps [OF t(2)])
  next
    case False
    with Cons t(2) show ?thesis by simp
  qed
qed simp

text \<open>
  The plan table has one row per plan, so that recording a plan never meets its primary key: an invariant of
  every migration.
\<close>

definition plans_recorded :: "migration_db \<Rightarrow> bool" where
  "plans_recorded db \<longleftrightarrow> distinct (md_plans db) \<and>
     (md_plans db \<noteq> [] \<longrightarrow> relation_exists ''__meridian_migrations'' (md_tables db))"

lemma plans_table_created:
  assumes "compile_schema E s = Inr plan" "run_statements E s plan db = Inr db1"
  shows "relation_exists ''__meridian_migrations'' (md_tables db1)"
proof -
  from compile_schema_parts [OF assms(1)] obtain dss where "mp_statements plan = plan_prefix s @ concat dss" by blast
  then have "plans_table (physical_schema s) \<in> set (mp_statements plan)" by (simp add: plan_prefix_def Let_def)
  with run_statements_parts [OF assms(2)] show ?thesis using created_exists unfolding plans_table_def by blast
qed

lemma migrations_keep_plans_recorded:
  assumes "compile_schema E s = Inr plan" "plans_recorded db"
  shows "plans_recorded (snd (apply_migration E s plan expected db))"
proof (rule migration_run.preserves [where P = plans_recorded, OF assms(2)])
  fix out db' assume "apply_migration E s plan expected db = (Inr out, db')"
  then show "plans_recorded db'"
  proof (cases rule: apply_cases)
    case (answered o')
    from answered(1) show ?thesis
    proof (cases rule: body_parts)
      case again
      with assms(2) show ?thesis by simp
    next
      case (fresh db1 rows)
      with assms(2) plans_table_created [OF assms(1) fresh(3)] run_statements_parts [OF fresh(3)]
      show ?thesis by (auto simp: plans_recorded_def plan_applied_def)
    qed
  qed simp
qed

lemma fold_dict_set_other: "k \<notin> set (map fst rows) \<Longrightarrow> map_of (fold (\<lambda>(k, v). dict_set k v) rows d) k = map_of d k"
  by (induction rows arbitrary: d) (auto simp: map_of_dict_set)

lemma fold_dict_set_row:
  "distinct (map fst rows) \<Longrightarrow> (k, v) \<in> set rows \<Longrightarrow> map_of (fold (\<lambda>(k, v). dict_set k v) rows d) k = Some v"
proof (induction rows arbitrary: d)
  case (Cons r rows)
  show ?case
  proof (cases "r = (k, v)")
    case True
    with Cons.prems(1) show ?thesis using fold_dict_set_other [of k rows] by (simp add: map_of_dict_set)
  next
    case False
    with Cons show ?thesis by (cases r) auto
  qed
qed simp


section \<open>A migrated database is what the probe expects\<close>

definition pinned :: "pg_settings \<Rightarrow> physical_resource list" where
  "pinned s = map (\<lambda>l. \<lparr>ph_ref = l_ref l, ph_resource = l_resource_fingerprint l, ph_schema = l_schema_fingerprint l,
                        ph_profile = l_profile l\<rparr>) (layouts s)"

text \<open>A view of the catalog that shows the database.\<close>

definition shows_db :: "pg_settings \<Rightarrow> physical_view \<Rightarrow> migration_db \<Rightarrow> bool" where
  "shows_db s view db \<longleftrightarrow>
     views view (md_tables db) \<and> pv_metadata view = map_of (md_resources db) \<and> pv_registry view = md_registry db \<and>
     (\<forall>t. relation_exists t (md_tables db) \<or> rc_tables (md_registry db) (physical_schema s @ ''.'' @ t) \<noteq> None \<longrightarrow>
          pv_exists view (physical_schema s @ ''.'' @ t))"

definition plan_row :: "migration_plan \<Rightarrow> resource_layout \<Rightarrow> resource_row" where
  "plan_row plan l = \<lparr>rr_resource = l_resource_fingerprint l, rr_schema = l_schema_fingerprint l,
     rr_profile = l_profile l, rr_physical = mp_physical plan\<rparr>"

lemma registry_layout_table:
  assumes "accepted_layout l" "l_profile l = ''metadata-registry''"
  shows "l_table l = registry_table"
  using assms by (simp add: accepted_layout_def check_registry_layout_def result_simps registry_table_def)

lemma keyed_layout:
  assumes "settings_wf s" "l \<in> set (layouts s)"
  shows "dict_item (layout_key l) (resources s) = Inr l"
proof -
  have "(layout_key l, l) \<in> set (resources s)" using assms by (fastforce simp: settings_wf_def layouts_def list_all_iff)
  moreover have "distinct (map fst (resources s))" using assms(1) by (simp add: settings_wf_def dict_wf_def keys_def)
  ultimately show ?thesis by (simp add: dict_item_def)
qed

lemma keys_layouts: "settings_wf s \<Longrightarrow> keys (resources s) = map layout_key (layouts s)"
  by (auto simp: settings_wf_def layouts_def list_all_iff keys_def split: prod.splits)

lemma plan_rows:
  assumes "settings_wf s" "compile_schema E s = Inr plan"
  shows "traverse (pinned_row s plan) (mp_resources plan) = Inr (map (\<lambda>l. (layout_key l, plan_row plan l)) (layouts s))"
proof -
  have "mp_resources plan = map (\<lambda>l. (layout_key l, l_resource_fingerprint l)) (layouts s)"
    using assms(2) by (auto simp: compile_schema_def Let_def and_then_success layout_key_def)
  moreover have "traverse (pinned_row s plan) (map (\<lambda>l. (layout_key l, l_resource_fingerprint l)) ls) =
      Inr (map (\<lambda>l. (layout_key l, plan_row plan l)) ls)" if "set ls \<subseteq> set (layouts s)" for ls
    using that by (induction ls) (auto simp: pinned_row_def plan_row_def keyed_layout [OF assms(1)])
  ultimately show ?thesis by simp
qed

lemma constant_remdups: "xs \<noteq> [] \<Longrightarrow> (\<And>x. x \<in> set xs \<Longrightarrow> x = c) \<Longrightarrow> remdups xs = [c]"
proof -
  assume "xs \<noteq> []" "\<And>x. x \<in> set xs \<Longrightarrow> x = c"
  then have "xs = replicate (length xs) c" "length xs \<noteq> 0" by (auto intro: replicate_eqI)
  moreover have "n \<noteq> 0 \<Longrightarrow> remdups (replicate n c) = [c]" for n
    by (induction n) (auto split: if_splits)
  ultimately show ?thesis by metis
qed

lemma verify_physical_ok:
  assumes "distinct (map (\<lambda>r. r_canonical (ph_ref r)) rs)" "set (map (\<lambda>r. r_canonical (ph_ref r)) rs) \<subseteq> set (keys (resources s))"
    and "rs \<noteq> []"
    and each: "\<And>r. r \<in> set rs \<Longrightarrow> \<exists>row rest. verify_resource E api s view r = Inr (row, rest) \<and> rr_physical row = p"
  shows "\<exists>v. verify_physical E api s view rs = Inr v \<and> pf_fingerprint v = p"
proof -
  let ?rs = "sort_key (\<lambda>r. r_canonical (ph_ref r)) rs"
  have "\<exists>found. traverse (verify_resource E api s view) xs = Inr found \<and> length found = length xs \<and>
      (\<forall>x \<in> set found. rr_physical (fst x) = p)" if "set xs \<subseteq> set rs" for xs
    using that
  proof (induction xs)
    case (Cons x xs)
    then obtain row rest found where "verify_resource E api s view x = Inr (row, rest)" "rr_physical row = p"
      "traverse (verify_resource E api s view) xs = Inr found" "length found = length xs"
      "\<forall>y \<in> set found. rr_physical (fst y) = p" using each [of x] by auto
    then show ?case by simp
  qed simp
  from this [of ?rs] obtain found where f: "traverse (verify_resource E api s view) ?rs = Inr found"
    "length found = length rs" "\<forall>x \<in> set found. rr_physical (fst x) = p" by auto
  have "map (\<lambda>(row, _). rr_physical row) found \<noteq> []" using f(2) assms(3) by auto
  then have "remdups (map (\<lambda>(row, _). rr_physical row) found) = [p]"
    by (rule constant_remdups) (use f(3) in auto)
  then show ?thesis using assms(1,2) f(1) by (simp add: verify_physical_def Let_def)
qed

text \<open>What an applied migration leaves: the tables of the plan, and a metadata row for every Resource.\<close>

lemma applied_parts:
  assumes wf: "settings_wf s" and plan: "compile_schema E s = Inr plan"
    and run: "apply_migration E s plan expected db = (Inr out, db')" and "mo_applied out"
  shows "require_writable s = Inr () \<and> out = outcome_of plan True \<and>
    run_all (mp_statements plan) (md_tables db) = Inr (md_tables db') \<and> verify_registry E s db' = Inr () \<and>
    (\<forall>l \<in> set (layouts s). map_of (md_resources db') (layout_key l) = Some (plan_row plan l))"
  using run
proof (cases rule: apply_cases)
  case (answered o')
  from answered(1) show ?thesis
  proof (cases rule: body_parts)
    case again
    with answered assms(4) show ?thesis by (simp add: outcome_of_def)
  next
    case (fresh db1 rows)
    have keys: "distinct (map layout_key (layouts s))"
      using wf keys_layouts [OF wf] by (simp add: settings_wf_def dict_wf_def)
    have rows: "rows = map (\<lambda>l. (layout_key l, plan_row plan l)) (layouts s)"
      using plan_rows [OF wf plan] fresh(5) by simp
    have "map_of (md_resources db') (layout_key l) = Some (plan_row plan l)" if "l \<in> set (layouts s)" for l
      unfolding fresh(7) rows
      by (simp, rule fold_dict_set_row) (use keys that in \<open>auto simp: comp_def\<close>)
    moreover have "verify_registry E s db' = Inr ()"
      using fresh(4) by (simp add: verify_registry_def fresh(7) split: if_splits)
    ultimately show ?thesis using fresh(1,6,7) answered(2) run_statements_parts [OF fresh(3)] by simp
  qed
qed simp

lemma registry_shape_verified:
  assumes "settings_wf s" "l \<in> set (layouts s)" "\<not> data_layout l" "verify_registry E s db = Inr ()" "shows_db s view db"
  shows "\<exists>shape. verify_table_shape E s view l = Inr shape \<and> pv_exists view (physical_schema s @ ''.'' @ l_table l)"
proof -
  have p: "l_profile l = ''metadata-registry''" using assms(3) by (simp add: data_layout_def)
  with assms(2) have "has_registry s" by (auto simp: has_registry_def layouts_def list_ex_iff)
  with assms(4,5) obtain fp where
    v: "verify_schema_repository (se_registry E) (se_text E) (physical_schema s) (pv_registry view) = Inr fp"
    by (auto simp: verify_registry_def shows_db_def and_then_success)
  have "l_table l = registry_table"
    using assms(1,2) p registry_layout_table by (fastforce simp: settings_wf_def layouts_def list_all_iff)
  then have "pv_exists view (physical_schema s @ ''.'' @ l_table l)" using v assms(5) by (simp add: verify_success shows_db_def)
  with v p show ?thesis by (auto simp: verify_table_shape_def)
qed

lemma pinned_verified:
  assumes "settings_wf s" "require_writable s = Inr ()" "l \<in> set (layouts s)"
    and "pv_metadata view (layout_key l) = Some (plan_row plan l)"
    and "verify_table_shape E s view l = Inr shape" "pv_exists view (physical_schema s @ ''.'' @ l_table l)"
    and r: "r = \<lparr>ph_ref = l_ref l, ph_resource = l_resource_fingerprint l, ph_schema = l_schema_fingerprint l,
              ph_profile = l_profile l\<rparr>"
  shows "\<exists>row rest. verify_resource E api s view r = Inr (row, rest) \<and> rr_physical row = mp_physical plan"
proof -
  have "metadata_matches api s l r (plan_row plan l)"
    using assms(2) r by (simp add: metadata_matches_def plan_row_def stored_fingerprint_def require_writable_def
        read_only_def result_simps)
  then show ?thesis
    using assms(4,5,6) keyed_layout [OF assms(1,3)] r
    by (auto simp: verify_resource_def Let_def layout_key_def plan_row_def)
qed


definition blank_db :: migration_db where
  "blank_db = \<lparr>md_tables = [], md_registry = \<lparr>rc_tables = (\<lambda>_. None), rc_marker = None\<rparr>, md_resources = [], md_plans = []\<rparr>"

definition blind_catalog :: catalog_view where
  "blind_catalog = \<lparr>cv_columns = (\<lambda>_. []), cv_primary = (\<lambda>_. None), cv_privilege = (\<lambda>_ _. False)\<rparr>"

definition view_of :: "pg_settings \<Rightarrow> catalog_view \<Rightarrow> migration_db \<Rightarrow> physical_view" where
  "view_of s cv db =
     \<lparr>pv_metadata = map_of (md_resources db), pv_exists = (\<lambda>_. True),
      pv_columns = (\<lambda>t. case map_of (md_tables db) t of Some i \<Rightarrow> ti_columns i | None \<Rightarrow> []),
      pv_indexes = (\<lambda>t. case map_of (md_tables db) t of Some i \<Rightarrow> ti_indexes i | None \<Rightarrow> []),
      pv_registry = md_registry db, pv_catalog = cv\<rparr>"

lemma view_of_shows: "shows_db s (view_of s cv db) db"
  by (simp add: shows_db_def view_of_def views_def)

lemma sample_run:
  "case compile_schema sample_env sample_settings of
     Inr plan \<Rightarrow> (case apply_migration sample_env sample_settings plan None blank_db of
                   (Inr out, _) \<Rightarrow> mo_applied out | _ \<Rightarrow> False)
   | Inl _ \<Rightarrow> False"
  by code_simp

lemma sample_wf: "settings_wf sample_settings"
  by (rule from_binding_wf [OF sample_binding_accepted])

lemma sample_run_parts: "\<exists>plan out db'. compile_schema sample_env sample_settings = Inr plan \<and>
    apply_migration sample_env sample_settings plan None blank_db = (Inr out, db') \<and> mo_applied out"
  using sample_run by (auto split: sum.splits prod.splits)



section \<open>Logical transfer\<close>

text \<open>
  A stored value that the transfer can carry: not a missing value of a field that must have one, a point whose
  coordinates the export reads as JSON numbers in range, binary data as bytes.
\<close>

definition transferable :: "texts \<Rightarrow> field_layout \<Rightarrow> pyval \<Rightarrow> bool" where
  "transferable T f v \<longleftrightarrow>
     (if v = PNone then f_nullable f
      else if json_field f then True
      else if f_type f = LWgs84Point then (case wgs84_coordinates T (jsonable T v) of Inr _ \<Rightarrow> True | Inl _ \<Rightarrow> False)
      else if f_type f = LBytes then (case v of PBytes bs \<Rightarrow> list_all (\<lambda>b. b < 256) bs | _ \<Rightarrow> False)
      else True)"

definition restored :: "texts \<Rightarrow> field_layout \<Rightarrow> pyval \<Rightarrow> driver_value list" where
  "restored T f v =
     (if v = PNone then [Plain PNone]
      else if json_field f then [Jsonb (jsonable T v)]
      else if f_type f = LWgs84Point then
        (case wgs84_coordinates T (jsonable T v) of Inr (x, y) \<Rightarrow> [Plain (PFloat x), Plain (PFloat y)] | Inl _ \<Rightarrow> [])
      else if f_type f = LBytes then [Plain v]
      else [Plain (jsonable T v)])"

definition row_transferable :: "texts \<Rightarrow> resource_layout \<Rightarrow> pyval dict \<Rightarrow> bool" where
  "row_transferable T layout row \<longleftrightarrow> set (keys row) = set (field_names layout) \<and>
     list_all (\<lambda>(n, v). case field_of layout n of Some f \<Rightarrow> transferable T f v | None \<Rightarrow> False) row"

definition row_restored :: "texts \<Rightarrow> resource_layout \<Rightarrow> pyval dict \<Rightarrow> driver_value list" where
  "row_restored T layout row = concat (map (\<lambda>(n, v). case field_of layout n of Some f \<Rightarrow> restored T f v | None \<Rightarrow> []) row)"

lemma jsonable_none: "jsonable T v = PNone \<longleftrightarrow> v = PNone"
  by (cases v) auto

lemma transfer_value:
  assumes "transferable T f v"
  shows "\<exists>st. field_value T f (jsonable T v) = Inr st \<and> params st = restored T f v"
proof (cases "v = PNone")
  case True
  with assms show ?thesis by (simp add: field_value_def transferable_def restored_def bound_def)
next
  case some: False
  then have j: "jsonable T v \<noteq> PNone" by (simp add: jsonable_none)
  show ?thesis
  proof (cases "json_field f")
    case True
    with some j show ?thesis by (simp add: field_value_def restored_def adapt_driver_value_def jsonable_idem bound_def)
  next
    case plain: False
    consider (point) "f_type f = LWgs84Point" | (binary) "f_type f = LBytes"
      | (other) "f_type f \<noteq> LWgs84Point" "f_type f \<noteq> LBytes" by blast
    then show ?thesis
    proof cases
      case point
      with assms some plain obtain x y where "wgs84_coordinates T (jsonable T v) = Inr (x, y)"
        by (auto simp: transferable_def split: sum.splits)
      with point some plain j show ?thesis by (simp add: field_value_def restored_def bound_def)
    next
      case binary
      with assms some plain obtain bs where b: "v = PBytes bs" "list_all (\<lambda>b. b < 256) bs"
        by (auto simp: transferable_def split: pyval.splits)
      with binary plain show ?thesis
        by (simp add: field_value_def restored_def adapt_driver_value_def base64url_roundtrip bound_def)
    next
      case other
      with some plain j show ?thesis by (simp add: field_value_def restored_def bound_def)
    qed
  qed
qed

lemma transfer_row:
  assumes "list_all (\<lambda>(n, v). case field_of layout n of Some f \<Rightarrow> transferable (de_texts E) f v | None \<Rightarrow> False) row"
  shows "\<exists>fvs. traverse (named_value E layout) (json_row (de_texts E) row) = Inr fvs \<and>
    concat (map (\<lambda>(_, v). params v) fvs) = row_restored (de_texts E) layout row"
  using assms
proof (induction row)
  case (Cons p row)
  obtain n v where p: "p = (n, v)" by (cases p)
  with Cons.prems obtain f where f: "field_of layout n = Some f" "transferable (de_texts E) f v"
    by (auto split: option.splits)
  from transfer_value [OF f(2)] obtain st where st: "field_value (de_texts E) f (jsonable (de_texts E) v) = Inr st"
    "params st = restored (de_texts E) f v" by blast
  have "named_value E layout (n, jsonable (de_texts E) v) = Inr (f, st)"
    using f(1) st(1) by (simp add: named_value_def dict_item_def field_of_def)
  with Cons p f(1) st(2) show ?case by (auto simp: json_row_def row_restored_def)
qed (simp add: json_row_def row_restored_def)

lemma object_keys: "str_keys (map (\<lambda>(k, v). (PStr k, v)) d) = Some d"
  by (induction d) auto


definition stored_row :: "pyval dict" where
  "stored_row = [(''id'', POther 7), (''nick'', PNone)]"


text \<open>
  A point that is NULL is exported as an object of two nulls (\<open>ST_X\<close> of NULL is NULL), and the import refuses
  that line: the transfer of a table with such a row fails.
\<close>
definition null_point :: pyval where
  "null_point = PMap [(PStr ''longitude'', PNone), (PStr ''latitude'', PNone)]"

lemma null_point_rejected:
  "f_type f = LWgs84Point \<Longrightarrow> f_cardinality f = One \<Longrightarrow> field_value T f (jsonable T null_point) = Inl TypeError"
  by (simp add: null_point_def field_value_def json_field_def wgs84_coordinates_def entry_def has_keys_def keys_def
      is_number_def dict_of_def key_string_def insert_commute)

section \<open>Histories of plans\<close>

text \<open>Three layouts of one schema: a table, the table with one more column, and another table instead.\<close>

definition grown_settings :: pg_settings where
  "grown_settings = sample_settings\<lparr>resources := [(''structured:people'', sample_layout\<lparr>l_fields := l_fields sample_layout @
     [\<lparr>f_name = ''born'', f_column = ''born'', f_type = LString, f_nullable = True, f_mutable = True,
       f_cardinality = One, f_precision = None, f_scale = None\<rparr>]\<rparr>)]\<rparr>"

definition moved_settings :: pg_settings where
  "moved_settings = sample_settings\<lparr>resources := [(''structured:archive'', sample_layout\<lparr>
     l_ref := \<lparr>r_catalog = ''structured'', r_canonical = ''structured:archive''\<rparr>, l_table := ''archive''\<rparr>)]\<rparr>"

definition migrate_with :: "pg_settings \<Rightarrow> string option \<Rightarrow> migration_db \<Rightarrow> migration_outcome result \<times> migration_db" where
  "migrate_with s expected db =
     (case compile_schema sample_env s of
        Inl e \<Rightarrow> (Inl e, db) | Inr plan \<Rightarrow> apply_migration sample_env s plan expected db)"

text \<open>
  A plan that was applied before is acknowledged with its own physical fingerprint even if a newer plan has
  replaced it since: the recorded fingerprint is the newer one.
\<close>
lemma older_plan_acknowledged:
  "(let db = snd (migrate_with grown_settings None (snd (migrate_with sample_settings None blank_db))) in
    case fst (migrate_with sample_settings None db) of
      Inr out \<Rightarrow> \<not> mo_applied out \<and> current_fingerprint db \<noteq> Inr (Some (mo_physical out))
    | Inl _ \<Rightarrow> False)"
  by code_simp

text \<open>
  The metadata rows of a Resource that is no longer configured keep their old fingerprint; every migration
  guarded by an expected fingerprint then fails, whatever it expects.
\<close>
lemma removed_resource_blocks_guarded_migrations:
  "(let db = snd (migrate_with moved_settings None (snd (migrate_with sample_settings None blank_db))) in
    current_fingerprint db = Inl RuntimeError)"
  by code_simp

end
