(* ===== verification/SemanticsLaws.thy ===== *)
theory SemanticsLaws
  imports Semantics MigrationLaws
begin

text \<open>
  Activation end to end: the plan that the facade makes for a Schema is the one it accepts, applying it records
  that Schema for the Resource, and any other plan is refused before the database is touched.
\<close>

lemma same_entries_refl [simp]: "same_entries d d"
  by (simp add: same_entries_def)

lemma layout_for_item: "layout_for s ref = Inr layout \<Longrightarrow> dict_item (r_canonical ref) (resources s) = Inr layout"
  by (auto simp: layout_for_def and_then_success split: sum.splits)

lemma plan_activation_parts:
  assumes "plan_activation L E s resource current target = Inr plan"
  shows "\<exists>layout physical. require_writable s = Inr () \<and> layout_for s (co_ref resource) = Inr layout \<and>
    compile_schema E s = Inr physical \<and> ss_fingerprint target = l_schema_fingerprint layout \<and>
    ss_kind target = l_profile layout \<and> av_resource plan = co_ref resource \<and> av_requirements plan = plan_requirements \<and>
    av_steps plan = activation_steps (co_ref resource) (l_schema_fingerprint layout) \<and>
    av_metadata plan = activation_metadata physical (l_resource_fingerprint layout) (l_schema_fingerprint layout)"
proof -
  from assms obtain layout physical where p: "require_writable s = Inr ()"
    "validate_definition L s target (Some resource) = Inr ()" "layout_for s (co_ref resource) = Inr layout"
    "compile_schema E s = Inr physical"
    "plan = \<lparr>av_resource = co_ref resource, av_current = map_option ss_ref current, av_target = ss_ref target,
          av_steps = activation_steps (co_ref resource) (ss_fingerprint target), av_requirements = plan_requirements,
          av_metadata = activation_metadata physical (l_resource_fingerprint layout) (ss_fingerprint target)\<rparr>"
    by (auto simp: plan_activation_def and_then_success)
  have "resolve_layout s target (Some resource) = Inr layout' \<Longrightarrow> layout' = layout" for layout'
    using p(3) by (auto simp: resolve_layout_def and_then_success)
  with p(2) have "ss_fingerprint target = l_schema_fingerprint layout" "ss_kind target = l_profile layout"
    by (auto simp: validate_definition_def and_then_success result_simps)
  with p show ?thesis by simp
qed

lemma activation_accepted_success:
  "activation_accepted E s plan = Inr physical \<longleftrightarrow>
     (\<exists>layout. require_writable s = Inr () \<and> layout_for s (av_resource plan) = Inr layout \<and>
        compile_schema E s = Inr physical \<and> av_requirements plan = plan_requirements \<and>
        same_entries (av_metadata plan)
          (activation_metadata physical (l_resource_fingerprint layout) (l_schema_fingerprint layout)) \<and>
        list_all2 same_entries (av_steps plan) (activation_steps (av_resource plan) (l_schema_fingerprint layout)))"
  by (auto simp: activation_accepted_def and_then_success result_simps)

lemma metadata_table_created:
  assumes "compile_schema E s = Inr plan" "run_all (mp_statements plan) ts = Inr ts'"
  shows "relation_exists ''__meridian_resources'' ts'"
proof -
  from compile_schema_parts [OF assms(1)] obtain dss where "mp_statements plan = plan_prefix s @ concat dss" by blast
  then have "metadata_table (physical_schema s) \<in> set (mp_statements plan)" by (simp add: plan_prefix_def Let_def)
  with assms(2) show ?thesis using created_exists unfolding metadata_table_def by blast
qed

text \<open>What a fresh migration leaves for the facade to read.\<close>

lemma fresh_metadata:
  assumes wf: "settings_wf s" and plan: "compile_schema E s = Inr plan" and fresh: "\<not> plan_applied plan db"
    and run: "apply_migration E s plan expected db = (Inr out, db')"
  shows "out = outcome_of plan True \<and> relation_exists ''__meridian_resources'' (md_tables db') \<and>
    (\<forall>l \<in> set (layouts s). map_of (md_resources db') (layout_key l) = Some (plan_row plan l))"
proof -
  from run have "mo_applied out"
    by (cases rule: apply_cases) (auto elim!: body_parts simp: outcome_of_def fresh)
  from applied_parts [OF wf plan run this] metadata_table_created [OF plan] show ?thesis by blast
qed

text \<open>An accepted plan on a database where the migration is new.\<close>

lemma activation_runs:
  assumes wf: "settings_wf s" and acc: "activation_accepted E s plan = Inr physical" and comp: "compile_schema E s = Inr physical"
    and fresh: "\<not> plan_applied physical db" and l: "layout \<in> set (layouts s)"
  shows "case apply_migration E s physical None db of
      (Inl e, _) \<Rightarrow> apply_activation L E s plan db = (Inl e, db)
    | (Inr out, db') \<Rightarrow>
        (\<exists>result. apply_activation L E s plan db = (Inr result, db') \<and> ac_physical result = mp_physical physical \<and>
           map_of (md_resources db') (layout_key layout) = Some (plan_row physical layout))"
proof (cases "apply_migration E s physical None db")
  case (Pair res db')
  show ?thesis
  proof (cases res)
    case (Inl e)
    with Pair have "db' = db" by (auto dest: migration_run.rolls_back)
    with Inl Pair acc show ?thesis by (simp add: apply_activation_def)
  next
    case (Inr out)
    from fresh_metadata [OF wf comp fresh, of None out db'] Pair Inr
    have m: "out = outcome_of physical True" "relation_exists ''__meridian_resources'' (md_tables db')"
      "map_of (md_resources db') (layout_key layout) = Some (plan_row physical layout)" using l by simp_all
    then have "md_resources db' \<noteq> []" by auto
    with m(2) have "registry_revision L db' = Inr (sm_digest L (registry_rows_value db'))"
      by (simp add: registry_revision_def)
    with Pair Inr acc m show ?thesis by (simp add: apply_activation_def outcome_of_def)
  qed
qed

text \<open>
  C37. A plan that the facade makes for a Schema and a Resource is accepted, and carrying it out on a database
  where it is new succeeds exactly when the migration does: the Resource's metadata row then holds the
  fingerprint and the profile of that Schema and the physical fingerprint that is reported. A plan whose
  requirements or metadata differ from the pinned migration is refused and the database is not touched.
\<close>
theorem activation_pins_schema:
  assumes wf: "settings_wf s" and plan: "plan_activation L E s resource current target = Inr plan"
  shows "\<exists>physical. compile_schema E s = Inr physical \<and>
    (\<forall>db. \<not> plan_applied physical db \<longrightarrow>
       (case apply_migration E s physical None db of
          (Inl e, _) \<Rightarrow> apply_activation L E s plan db = (Inl e, db)
        | (Inr out, db') \<Rightarrow>
            (\<exists>result row. apply_activation L E s plan db = (Inr result, db') \<and> ac_physical result = mp_physical physical \<and>
               map_of (md_resources db') (r_canonical (co_ref resource)) = Some row \<and>
               rr_schema row = ss_fingerprint target \<and> rr_profile row = ss_kind target \<and>
               rr_physical row = ac_physical result))) \<and>
    (\<forall>db other. av_resource other = av_resource plan \<and>
       (av_requirements other \<noteq> av_requirements plan \<or> \<not> same_entries (av_metadata other) (av_metadata plan)) \<longrightarrow>
       apply_activation L E s other db = (Inl ValueError, db))"
proof -
  from plan_activation_parts [OF plan] obtain layout physical where p: "require_writable s = Inr ()"
    "layout_for s (co_ref resource) = Inr layout" "compile_schema E s = Inr physical"
    "ss_fingerprint target = l_schema_fingerprint layout" "ss_kind target = l_profile layout"
    "av_resource plan = co_ref resource" "av_requirements plan = plan_requirements"
    "av_steps plan = activation_steps (co_ref resource) (l_schema_fingerprint layout)"
    "av_metadata plan = activation_metadata physical (l_resource_fingerprint layout) (l_schema_fingerprint layout)" by blast
  have acc: "activation_accepted E s plan = Inr physical"
    using p by (auto simp: activation_accepted_success activation_steps_def)
  have item: "(r_canonical (co_ref resource), layout) \<in> set (resources s)"
    using layout_for_item [OF p(2)] by (auto simp: dict_item_def dest: map_of_SomeD split: option.splits)
  then have l: "layout \<in> set (layouts s)" "r_canonical (co_ref resource) = layout_key layout"
    using wf by (force simp: layouts_def, fastforce simp: settings_wf_def list_all_iff)
  have new: "case apply_migration E s physical None db of
          (Inl e, _) \<Rightarrow> apply_activation L E s plan db = (Inl e, db)
        | (Inr out, db') \<Rightarrow>
            (\<exists>result row. apply_activation L E s plan db = (Inr result, db') \<and> ac_physical result = mp_physical physical \<and>
               map_of (md_resources db') (r_canonical (co_ref resource)) = Some row \<and>
               rr_schema row = ss_fingerprint target \<and> rr_profile row = ss_kind target \<and>
               rr_physical row = ac_physical result)"
    if "\<not> plan_applied physical db" for db
    using activation_runs [OF wf acc p(3) that l(1), of L] l(2) p(4,5)
    by (auto simp: plan_row_def split: prod.splits sum.splits)
  have "apply_activation L E s other db = (Inl ValueError, db)"
    if "av_resource other = av_resource plan"
      "av_requirements other \<noteq> av_requirements plan \<or> \<not> same_entries (av_metadata other) (av_metadata plan)" for db other
    using that p by (auto simp: apply_activation_def activation_accepted_def ensure_def)
  with new p(3) show ?thesis by blast
qed

section \<open>Example\<close>

definition people_schema :: semantic_schema where
  "people_schema =
     \<lparr>ss_ref = \<lparr>sr_catalog = ''structured'', sr_namespace = ''core'', sr_name = ''people'', sr_version = Some ''1.0.0''\<rparr>,
      ss_fingerprint = sample_fingerprint, ss_kind = ''relational'', ss_identity = [''id''],
      ss_fields =
        [\<lparr>sm_name = ''id'', sm_type = ''uuid'', sm_cardinality = ''one'', sm_nullable = False, sm_mutable = False,
          sm_precision = None, sm_scale = None\<rparr>,
         \<lparr>sm_name = ''nick'', sm_type = ''string'', sm_cardinality = ''one'', sm_nullable = True, sm_mutable = True,
          sm_precision = None, sm_scale = None\<rparr>],
      ss_indexes = [], ss_relation = None\<rparr>"

definition people_collection :: collection_document where
  "people_collection = \<lparr>co_catalog = ''structured'', co_namespace = ''core'', co_ref = l_ref sample_layout,
     co_profile = ''relational'', co_active = ss_ref people_schema\<rparr>"

definition sample_semantics :: semantics_lib where
  "sample_semantics =
     \<lparr>sm_valid = (\<lambda>_. Inr ()), sm_record = (\<lambda>_ v. Inr v), sm_parse = (\<lambda>_. Inr (l_ref sample_layout)),
      sm_ref_value = (\<lambda>r. PStr (r_canonical r)), sm_canonical = (\<lambda>_. Inr ()), sm_json = (\<lambda>v. Inr v), sm_digest = (\<lambda>_. ''d'')\<rparr>"

lemma sample_activation:
  "\<exists>plan. plan_activation sample_semantics sample_env sample_settings people_collection None people_schema = Inr plan"
proof -
  have "case plan_activation sample_semantics sample_env sample_settings people_collection None people_schema of
      Inr _ \<Rightarrow> True | Inl _ \<Rightarrow> False"
    by code_simp
  then show ?thesis by (auto split: sum.splits)
qed

lemma activation_pins_schema_witness:
  "\<exists>plan result db' row.
     plan_activation sample_semantics sample_env sample_settings people_collection None people_schema = Inr plan \<and>
     apply_activation sample_semantics sample_env sample_settings plan blank_db = (Inr result, db') \<and>
     map_of (md_resources db') ''structured:people'' = Some row \<and> rr_schema row = sample_fingerprint"
proof -
  from sample_activation obtain plan where a:
    "plan_activation sample_semantics sample_env sample_settings people_collection None people_schema = Inr plan" by blast
  from sample_run_parts obtain physical out db' where p: "compile_schema sample_env sample_settings = Inr physical"
    "apply_migration sample_env sample_settings physical None blank_db = (Inr out, db')" "mo_applied out" by blast
  have "\<not> plan_applied physical blank_db" by (simp add: plan_applied_def blank_db_def relation_exists_def)
  with activation_pins_schema [OF sample_wf a] p obtain result row where
    "apply_activation sample_semantics sample_env sample_settings plan blank_db = (Inr result, db')"
    "map_of (md_resources db') (r_canonical (co_ref people_collection)) = Some row" "rr_schema row = ss_fingerprint people_schema"
    by fastforce
  with a show ?thesis by (auto simp: people_collection_def people_schema_def sample_layout_def)
qed

end
