(* ===== verification/Deadline.thy ===== *)
theory Deadline
  imports Complex_Main Prelude
begin

text \<open>
  The inherited operation budget of \<open>_deadline.py\<close> and the bounded driver wait.

  Clock readings are real numbers of seconds; one call of an operation reads the clock once. An
  operation context belongs to the Meridian core package: it is an identity (a number) and the
  clock parameter \<open>rem\<close> gives what \<open>context.remaining_seconds()\<close> returns at a time. A
  driver generator is the script of what it does at each resumption, and the selector is the
  script of what it reports.
\<close>

type_synonym ctx_clock = "nat \<Rightarrow> real \<Rightarrow> real option"

record budget =
  expires :: real
  contexts :: "nat list"

definition budget_include :: "ctx_clock \<Rightarrow> real \<Rightarrow> nat option \<Rightarrow> budget \<Rightarrow> budget" where
  "budget_include rem now c b =
     (case c of None \<Rightarrow> b
      | Some c \<Rightarrow>
          if c \<in> set (contexts b) then b
          else (let b' = b\<lparr>contexts := contexts b @ [c]\<rparr>
                in case rem c now of
                     None \<Rightarrow> b'
                   | Some r \<Rightarrow> b'\<lparr>expires := min (expires b) (now + r)\<rparr>))"

definition new_budget :: "ctx_clock \<Rightarrow> nat option \<Rightarrow> real \<Rightarrow> real \<Rightarrow> nat option \<Rightarrow> budget" where
  "new_budget rem ambient now timeout c =
     budget_include rem now (case c of None \<Rightarrow> ambient | Some c \<Rightarrow> Some c)
       \<lparr>expires = now + timeout, contexts = []\<rparr>"

definition remaining_value :: "ctx_clock \<Rightarrow> real \<Rightarrow> budget \<Rightarrow> real" where
  "remaining_value rem now b =
     foldl (\<lambda>r c. case rem c now of None \<Rightarrow> r | Some v \<Rightarrow> min r v) (expires b - now) (contexts b)"

definition remaining :: "ctx_clock \<Rightarrow> real \<Rightarrow> budget \<Rightarrow> real result" where
  "remaining rem now b =
     (let r = remaining_value rem now b in if r \<le> 0 then Inl deadline_error else Inr r)"

lemma foldl_min_le:
  "foldl (\<lambda>r c. case f c of None \<Rightarrow> r | Some v \<Rightarrow> min r v) (a :: real) cs \<le> a"
proof (induction cs arbitrary: a)
  case (Cons c cs)
  show ?case using Cons [of "case f c of None \<Rightarrow> a | Some v \<Rightarrow> min a v"]
    by (auto split: option.splits)
qed simp

lemma foldl_min_le_ctx:
  "c \<in> set cs \<Longrightarrow> f c = Some v \<Longrightarrow>
   foldl (\<lambda>r c. case f c of None \<Rightarrow> r | Some v \<Rightarrow> min r v) (a :: real) cs \<le> v"
proof (induction cs arbitrary: a)
  case (Cons c' cs)
  show ?case
  proof (cases "c = c'")
    case True
    then show ?thesis using Cons.prems(2) foldl_min_le [where a = "min a v" and cs = cs and f = f] by simp
  next
    case False
    with Cons show ?thesis by auto
  qed
qed simp

lemma remaining_le_expires: "remaining rem now b = Inr r \<Longrightarrow> r \<le> expires b - now"
  unfolding remaining_def remaining_value_def Let_def
  by (auto split: if_splits intro: foldl_min_le)

lemma remaining_positive: "remaining rem now b = Inr r \<Longrightarrow> 0 < r"
  by (auto simp: remaining_def Let_def split: if_splits)

lemma remaining_ctx:
  "remaining rem now b = Inr r \<Longrightarrow> c \<in> set (contexts b) \<Longrightarrow> rem c now = Some v \<Longrightarrow> r \<le> v"
  unfolding remaining_def remaining_value_def Let_def
  by (auto split: if_splits intro: foldl_min_le_ctx)

lemma remaining_error: "remaining rem now b = Inl e \<Longrightarrow> e = deadline_error"
  by (auto simp: remaining_def Let_def split: if_splits)

lemma remaining_expired: "expires b \<le> now \<Longrightarrow> remaining rem now b = Inl deadline_error"
  using remaining_le_expires [of rem now b] remaining_positive [of rem now b] remaining_error
  by (cases "remaining rem now b") fastforce+

lemma include_expires: "expires (budget_include rem now c b) \<le> expires b"
  by (auto simp: budget_include_def Let_def split: option.splits)

lemma include_contexts:
  "set (contexts (budget_include rem now c b)) = set (contexts b) \<union> set_option c"
  by (auto simp: budget_include_def Let_def split: option.splits)

text \<open>
  A budget only shrinks, and every admitted wait respects all its parts: after any sequence of
  contexts is included, the remaining time that an operation may use is positive, is no more than
  the time to the first expiry, and no more than what any included context grants.
\<close>
theorem budget_bounds:
  assumes "remaining rem now (fold (\<lambda>c. budget_include rem t c) cs b) = Inr r"
  shows "0 < r \<and> r \<le> expires b - now \<and>
         (\<forall>c v. (c \<in> set (contexts b) \<or> Some c \<in> set cs) \<longrightarrow> rem c now = Some v \<longrightarrow> r \<le> v)"
proof -
  let ?b = "fold (\<lambda>c. budget_include rem t c) cs b"
  have e: "expires ?b \<le> expires b"
    by (induction cs arbitrary: b) (auto intro: order_trans include_expires)
  have "set (contexts ?b) = set (contexts b) \<union> {c. Some c \<in> set cs}"
    by (induction cs arbitrary: b) (auto simp: include_contexts)
  then show ?thesis
    using remaining_positive [OF assms] remaining_le_expires [OF assms] e remaining_ctx [OF assms]
    by auto
qed

theorem budget_bounds_witness:
  "remaining (\<lambda>c t. Some (10 - t)) 2
     (fold (\<lambda>c. budget_include (\<lambda>c t. Some (10 - t)) 1 c) [Some 7, None]
        \<lparr>expires = 30, contexts = []\<rparr>) = Inr 8 \<and> (0::real) < 8"
proof -
  have h: "remaining (\<lambda>c t. Some (10 - t)) 2
     (fold (\<lambda>c. budget_include (\<lambda>c t. Some (10 - t)) 1 c) [Some 7, None]
        \<lparr>expires = 30, contexts = []\<rparr>) = Inr 8"
    by (simp add: budget_include_def remaining_def remaining_value_def)
  show ?thesis using h budget_bounds [OF h] by simp
qed

section \<open>Driving a nonblocking driver generator\<close>

text \<open>
  What a resumption of the generator does, and one round of the loop: the clock and the readiness
  that the selector reports, the clock after it, and what the generator does with it.
\<close>

datatype 'v gen_event = Yields nat | Returns 'v | Raises py_error

record 'v io_round =
  at_select :: real
  ready_event :: "nat option"
  after_select :: real
  response :: "'v gen_event"

datatype io_action = Register nat | Select real | Send nat | Modify nat

datatype 'v io_result = Returned 'v | Raised py_error | Waiting

fun consume_loop ::
  "ctx_clock \<Rightarrow> budget \<Rightarrow> nat \<Rightarrow> 'v io_round list \<Rightarrow> io_action list \<times> 'v io_result" where
  "consume_loop rem b state [] = ([], Waiting)"
| "consume_loop rem b state (r # rs) =
     (case remaining rem (at_select r) b of
        Inl e \<Rightarrow> ([], Raised e)
      | Inr left \<Rightarrow>
          (let wait = Select (min left (1 / 20))
           in case remaining rem (after_select r) b of
                Inl e \<Rightarrow> ([wait], Raised e)
              | Inr _ \<Rightarrow>
                  (let sent = Send (case ready_event r of Some ev \<Rightarrow> ev | None \<Rightarrow> 0)
                   in case response r of
                        Returns v \<Rightarrow> ([wait, sent], Returned v)
                      | Raises e \<Rightarrow> ([wait, sent], Raised e)
                      | Yields next \<Rightarrow>
                          (let (acts, res) = consume_loop rem b next rs
                           in (wait # sent # (if next = state then [] else [Modify next]) @ acts, res)))))"

definition consume ::
  "ctx_clock \<Rightarrow> budget \<Rightarrow> real \<Rightarrow> 'v gen_event \<Rightarrow> 'v io_round list \<Rightarrow> io_action list \<times> 'v io_result"
where
  "consume rem b now first rounds =
     (case remaining rem now b of
        Inl e \<Rightarrow> ([], Raised e)
      | Inr _ \<Rightarrow>
          (case first of
             Returns v \<Rightarrow> ([], Returned v)
           | Raises e \<Rightarrow> ([], Raised e)
           | Yields state \<Rightarrow>
               (let (acts, res) = consume_loop rem b state rounds in (Register state # acts, res))))"

definition sends :: "io_action list \<Rightarrow> nat" where
  "sends acts = length (filter (\<lambda>a. case a of Send _ \<Rightarrow> True | _ \<Rightarrow> False) acts)"

lemma sends_simps [simp]:
  "sends [] = 0" "sends (Select d # as) = sends as" "sends (Send n # as) = Suc (sends as)"
  "sends (Modify n # as) = sends as" "sends (Register n # as) = sends as"
  by (simp_all add: sends_def)

lemma consume_loop_waits:
  "Select d \<in> set (fst (consume_loop rem b st rs)) \<Longrightarrow> 0 < d \<and> d \<le> 1 / 20"
proof (induction rem b st rs rule: consume_loop.induct)
  case (2 rem b state r rs)
  show ?case
  proof (cases "remaining rem (at_select r) b")
    case (Inr left)
    have "0 < left" using Inr by (rule remaining_positive)
    with Inr 2 show ?thesis
      by (auto simp: Let_def split_beta split: sum.splits gen_event.splits if_splits)
  qed (use 2 in simp)
qed simp

lemma consume_loop_stops:
  assumes "k < length rs" and "expires b \<le> at_select (rs ! k)"
  shows "snd (consume_loop rem b st rs) \<noteq> Waiting \<and> sends (fst (consume_loop rem b st rs)) \<le> k"
  using assms
proof (induction rs arbitrary: st k)
  case (Cons r rs)
  show ?case
  proof (cases k)
    case 0
    with Cons.prems show ?thesis by (simp add: remaining_expired)
  next
    case (Suc j)
    with Cons.prems have "snd (consume_loop rem b st' rs) \<noteq> Waiting \<and>
        sends (fst (consume_loop rem b st' rs)) \<le> j" for st'
      by (intro Cons.IH) simp_all
    with Suc show ?thesis
      by (auto simp: Let_def split_beta split: sum.splits gen_event.splits)
  qed
qed simp



section \<open>The connection's wait\<close>

text \<open>
  \<open>DeadlineConnection.wait\<close>. The result comes with a flag that says whether the transport was
  discarded; \<open>base\<close> is the driver's own wait, used when neither a budget nor a timeout is set;
  \<open>t_err\<close> is the clock when a failed wait looks at the budget again.
\<close>

definition limited_budget ::
  "ctx_clock \<Rightarrow> nat option \<Rightarrow> real \<Rightarrow> real \<Rightarrow> budget option \<Rightarrow> budget" where
  "limited_budget rem ambient now timeout b =
     (let limited = new_budget rem ambient now timeout None
      in case b of
           None \<Rightarrow> limited
         | Some b \<Rightarrow> fold (\<lambda>c. budget_include rem now (Some c)) (contexts b)
                       (limited\<lparr>expires := min (expires limited) (expires b)\<rparr>))"

definition wait_budget ::
  "ctx_clock \<Rightarrow> nat option \<Rightarrow> real \<Rightarrow> real option \<Rightarrow> budget option \<Rightarrow> budget option" where
  "wait_budget rem ambient now timeout b =
     (case timeout of None \<Rightarrow> b | Some t \<Rightarrow> Some (limited_budget rem ambient now t b))"

definition deadline_wait ::
  "ctx_clock \<Rightarrow> nat option \<Rightarrow> 'v io_result \<Rightarrow> budget option \<Rightarrow> real option \<Rightarrow> real \<Rightarrow> real \<Rightarrow>
   'v gen_event \<Rightarrow> 'v io_round list \<Rightarrow> 'v io_result \<times> bool" where
  "deadline_wait rem ambient base b timeout now t_err first rounds =
     (case wait_budget rem ambient now timeout b of
        None \<Rightarrow> (base, False)
      | Some budget \<Rightarrow>
          (case snd (consume rem budget now first rounds) of
             Raised e \<Rightarrow>
               (case e of
                  DriverError (Some state) \<Rightarrow>
                    (case remaining rem t_err budget of
                       Inr _ \<Rightarrow> (Raised e, False)
                     | Inl _ \<Rightarrow> (Raised e, True))
                | _ \<Rightarrow> (Raised e, True))
           | r \<Rightarrow> (r, False)))"

lemma fold_include_expires:
  "expires (fold (\<lambda>c. budget_include rem now (Some c)) cs b) \<le> expires b"
proof (induction cs arbitrary: b)
  case (Cons c cs)
  show ?case using Cons [of "budget_include rem now (Some c) b"]
    by (auto intro: order_trans include_expires)
qed simp

lemma fold_include_contexts:
  "set (contexts (fold (\<lambda>c. budget_include rem now (Some c)) cs b)) = set (contexts b) \<union> set cs"
  by (induction cs arbitrary: b) (auto simp: include_contexts)

lemma limited_expires: "expires (limited_budget rem ambient now t b) \<le> now + t"
proof -
  have n: "expires (new_budget rem ambient now t None) \<le> now + t"
    unfolding new_budget_def by (auto intro: include_expires [THEN order_trans])
  show ?thesis
  proof (cases b)
    case (Some b')
    show ?thesis unfolding limited_budget_def Let_def Some option.case
      by (rule fold_include_expires [THEN order_trans]) (use n in simp)
  qed (use n in \<open>simp add: limited_budget_def\<close>)
qed

lemma limited_inherits:
  "expires (limited_budget rem ambient now t (Some b)) \<le> expires b \<and>
   set (contexts b) \<subseteq> set (contexts (limited_budget rem ambient now t (Some b)))"
  by (auto simp: limited_budget_def Let_def fold_include_contexts
           intro!: fold_include_expires [THEN order_trans])

text \<open>
  C11. When a budgeted wait fails, the transport survives exactly when the failure is a complete SQL
  error response and the budget that governs the wait still has time left; that governing budget
  never exceeds the caller's timeout nor the inherited budget, whose contexts it keeps.
\<close>
theorem deadline_wait_transport:
  assumes gov: "wait_budget rem ambient now timeout b = Some budget"
    and wait: "deadline_wait rem ambient base b timeout now t_err first rounds = (Raised e, discarded)"
  shows "(\<not> discarded \<longleftrightarrow> (\<exists>state r. e = DriverError (Some state) \<and> remaining rem t_err budget = Inr r)) \<and>
         (\<forall>t. timeout = Some t \<longrightarrow> expires budget \<le> now + t) \<and>
         (\<forall>b'. b = Some b' \<longrightarrow> expires budget \<le> expires b' \<and> set (contexts b') \<subseteq> set (contexts budget))"
proof (intro conjI)
  show "\<not> discarded \<longleftrightarrow> (\<exists>state r. e = DriverError (Some state) \<and> remaining rem t_err budget = Inr r)"
    using wait gov unfolding deadline_wait_def
    by (auto split: io_result.splits py_error.splits option.splits sum.splits)
qed (use gov limited_inherits in
      \<open>auto simp: wait_budget_def limited_expires subset_iff split: option.splits\<close>)

theorem deadline_wait_transport_witness:
  "deadline_wait (\<lambda>c t. None) None Waiting (Some \<lparr>expires = 9, contexts = []\<rparr>) None 1 2
     (Yields 1) [\<lparr>at_select = 1, ready_event = Some 1, after_select = 2,
                  response = Raises (DriverError (Some ''23505''))\<rparr>]
   = (Raised (DriverError (Some ''23505'')) :: nat io_result, False)"
proof -
  have g: "wait_budget (\<lambda>c t. None) None 1 None (Some \<lparr>expires = 9, contexts = []\<rparr>) =
      Some \<lparr>expires = 9, contexts = []\<rparr>"
    by (simp add: wait_budget_def)
  have w: "deadline_wait (\<lambda>c t. None) None Waiting (Some \<lparr>expires = 9, contexts = []\<rparr>) None 1 2
     (Yields 1) [\<lparr>at_select = 1, ready_event = Some 1, after_select = 2,
                  response = Raises (DriverError (Some ''23505''))\<rparr>]
   = (Raised (DriverError (Some ''23505'')) :: nat io_result, False)"
    by (simp add: deadline_wait_def wait_budget_def consume_def remaining_def remaining_value_def Let_def)
  then show ?thesis using deadline_wait_transport [OF g w] by simp
qed

end
