(* ===== verification/Session.thy ===== *)
theory Session
  imports Deadline
begin

text \<open>
  The transactional session of \<open>transactions/__init__.py\<close>: one Meridian transaction on one
  pooled connection. The state is the session object with, as a history variable, the effects it
  had on the pool and on the server; what the pool, the server, the lock and the clock answer
  during one call is a record that the call takes. Statement execution itself is modelled in the
  theory \<open>Execution\<close>; here its outcome is part of the environment.
\<close>

section \<open>State, effects and environment\<close>

datatype effect =
    GotConnection nat | Began | CommitSent | CommitAcknowledged | RolledBack
  | ClosedConnection nat | ReturnedConnection nat | ConnectionLost nat

record session =
  transactional :: bool
  acquire_timeout :: real
  operation_timeout :: real
  connection :: "nat option"
  begun :: bool
  closed :: bool
  s_budget :: "budget option"
  s_commit_state :: commit_state
  effects :: "effect list"

definition new_session :: "bool \<Rightarrow> real \<Rightarrow> real \<Rightarrow> session" where
  "new_session t acquire oper =
     \<lparr>transactional = t, acquire_timeout = acquire, operation_timeout = oper, connection = None,
      begun = False, closed = False, s_budget = None, s_commit_state = KNOWN_NOT_COMMITTED,
      effects = []\<rparr>"

definition emit :: "effect \<Rightarrow> session \<Rightarrow> session" where
  "emit x s = s\<lparr>effects := effects s @ [x]\<rparr>"

text \<open>
  The environment of a call: the exception, if any, of closing and of returning the connection;
  the clock at the admission and whether the lock was acquired; the attempts to get a connection
  (time, and the connection or an exception); the answers to BEGIN, COMMIT and ROLLBACK.
\<close>

record release_env =
  close_exc :: "py_error option"
  put_exc :: "py_error option"

record guard_env =
  g_context :: "nat option"
  g_ambient :: "nat option"
  g_now :: real
  g_locked :: bool
  g_after :: real

record acquire_env =
  q_now :: real
  q_attempts :: "(real \<times> (py_error + nat)) list"
  q_began_at :: real
  q_begin_exc :: "py_error option"
  q_ready_at :: real
  q_release :: release_env

record commit_env =
  c_before :: real
  c_in_error :: bool
  c_exc :: "py_error option"
  c_after :: real
  c_release :: release_env

section \<open>Operations\<close>

text \<open>
  \<open>_release\<close>: the connection leaves the session before anything can fail. A failed close or
  return of it is an exception, and the connection is then lost to the pool.
\<close>

definition release :: "bool \<Rightarrow> release_env \<Rightarrow> session \<Rightarrow> session \<times> unit result" where
  "release discard env s =
     (let s' = s\<lparr>connection := None, begun := False\<rparr>
      in case connection s of
           None \<Rightarrow> (s', Inr ())
         | Some c \<Rightarrow>
             (case (if discard then close_exc env else None) of
                Some e \<Rightarrow> (emit (ConnectionLost c) s', Inl e)
              | None \<Rightarrow>
                  (let s'' = (if discard then emit (ClosedConnection c) s' else s')
                   in case put_exc env of
                        Some e \<Rightarrow> (emit (ConnectionLost c) s'', Inl e)
                      | None \<Rightarrow> (emit (ReturnedConnection c) s'', Inr ()))))"

text \<open>\<open>with suppress(BaseException): self._release(discard=True)\<close>.\<close>

definition discard :: "release_env \<Rightarrow> session \<Rightarrow> session" where
  "discard env s = fst (release True env s)"

definition get_budget ::
  "ctx_clock \<Rightarrow> nat option \<Rightarrow> nat option \<Rightarrow> real \<Rightarrow> session \<Rightarrow> session \<times> budget" where
  "get_budget rem ctx ambient now s =
     (let b = (case s_budget s of
                 None \<Rightarrow> new_budget rem ambient now (operation_timeout s) ctx
               | Some b \<Rightarrow> b);
          b' = budget_include rem now (case ctx of None \<Rightarrow> ambient | Some c \<Rightarrow> Some c) b
      in (s\<lparr>s_budget := Some b'\<rparr>, b'))"

definition guard :: "ctx_clock \<Rightarrow> guard_env \<Rightarrow> session \<Rightarrow> session \<times> budget result" where
  "guard rem env s =
     (let (s', b) = get_budget rem (g_context env) (g_ambient env) (g_now env) s
      in (s', and_then (remaining rem (g_now env) b) (\<lambda>_.
              and_then (ensure (g_locked env) deadline_error) (\<lambda>_.
              and_then (remaining rem (g_after env) b) (\<lambda>_. Inr b)))))"

text \<open>
  The acquisition loop: \<open>None\<close> when the script of attempts ends while the loop still waits.
\<close>

fun acquire_loop ::
  "ctx_clock \<Rightarrow> budget \<Rightarrow> real \<Rightarrow> (real \<times> (py_error + nat)) list \<Rightarrow> nat result option" where
  "acquire_loop rem b acquire_end [] = None"
| "acquire_loop rem b acquire_end ((now, answer) # rest) =
     (case remaining rem now b of
        Inl e \<Rightarrow> Some (Inl e)
      | Inr r \<Rightarrow>
          if min (acquire_end - now) r \<le> 0 then Some (Inl deadline_error)
          else (case answer of
                  Inr c \<Rightarrow> Some (Inr c)
                | Inl e \<Rightarrow> if e = PoolTimeout then acquire_loop rem b acquire_end rest
                           else Some (Inl e)))"

definition begin_on ::
  "ctx_clock \<Rightarrow> budget \<Rightarrow> acquire_env \<Rightarrow> nat \<Rightarrow> session \<Rightarrow> session \<times> unit result" where
  "begin_on rem b env c s =
     (let s1 = emit (GotConnection c) (s\<lparr>connection := Some c\<rparr>);
          started = and_then (remaining rem (q_began_at env) b) (\<lambda>_.
                    case q_begin_exc env of Some e \<Rightarrow> Inl e | None \<Rightarrow> Inr ())
      in case started of
           Inl e \<Rightarrow> (discard (q_release env) s1, Inl e)
         | Inr _ \<Rightarrow>
             (let s2 = emit Began s1
              in case remaining rem (q_ready_at env) b of
                   Inl e \<Rightarrow> (discard (q_release env) s2, Inl e)
                 | Inr _ \<Rightarrow> (s2\<lparr>begun := True\<rparr>, Inr ())))"

definition acquire_begin ::
  "ctx_clock \<Rightarrow> budget \<Rightarrow> acquire_env \<Rightarrow> session \<Rightarrow> (session \<times> unit result) option" where
  "acquire_begin rem b env s =
     (case remaining rem (q_now env) b of
        Inl e \<Rightarrow> Some (s, Inl e)
      | Inr r \<Rightarrow>
          (case acquire_loop rem b (q_now env + min (acquire_timeout s) r) (q_attempts env) of
             None \<Rightarrow> None
           | Some (Inl e) \<Rightarrow> Some (s, Inl e)
           | Some (Inr c) \<Rightarrow> Some (begin_on rem b env c s)))"

definition require_open :: "session \<Rightarrow> unit result" where
  "require_open s = ensure (\<not> closed s) (MeridianError TransactionError RUNTIME_CLOSED)"

abbreviation state_error :: py_error where
  "state_error \<equiv> MeridianError TransactionError TRANSACTION_STATE"

definition require_transaction :: "session \<Rightarrow> unit result" where
  "require_transaction s =
     and_then (require_open s) (\<lambda>_.
       ensure (transactional s \<and> begun s \<and> connection s \<noteq> None) state_error)"

definition begin_session ::
  "ctx_clock \<Rightarrow> guard_env \<Rightarrow> acquire_env \<Rightarrow> session \<Rightarrow> (session \<times> unit result) option" where
  "begin_session rem genv qenv s =
     (case guard rem genv s of
        (s1, Inl e) \<Rightarrow> Some (s1, Inl e)
      | (s1, Inr b) \<Rightarrow>
          (case require_open s1 of
             Inl e \<Rightarrow> Some (s1, Inl e)
           | Inr _ \<Rightarrow>
               if \<not> transactional s1 \<or> begun s1 then Some (s1, Inl state_error)
               else acquire_begin rem b qenv s1))"

text \<open>\<open>_commit\<close>.\<close>

definition commit_on :: "ctx_clock \<Rightarrow> budget \<Rightarrow> commit_env \<Rightarrow> session \<Rightarrow> session \<times> unit result" where
  "commit_on rem b env s =
     (case remaining rem (c_before env) b of
        Inl _ \<Rightarrow> (discard (c_release env) s, Inl (CommitOutcomeError KNOWN_NOT_COMMITTED))
      | Inr _ \<Rightarrow>
          if c_in_error env
          then (discard (c_release env) s, Inl (CommitOutcomeError KNOWN_NOT_COMMITTED))
          else
            (let s1 = emit CommitSent (s\<lparr>s_commit_state := UNKNOWN_COMMIT\<rparr>)
             in case c_exc env of
                  Some _ \<Rightarrow> (discard (c_release env) s1, Inl (CommitOutcomeError UNKNOWN_COMMIT))
                | None \<Rightarrow>
                    (let s2 = emit CommitAcknowledged (s1\<lparr>s_commit_state := KNOWN_COMMITTED\<rparr>)
                     in case remaining rem (c_after env) b of
                          Inl _ \<Rightarrow> (discard (c_release env) s2,
                                    Inl (CommitOutcomeError KNOWN_COMMITTED))
                        | Inr _ \<Rightarrow>
                            (case release False (c_release env) s2 of
                               (s3, Inl _) \<Rightarrow> (s3, Inl (CommitOutcomeError KNOWN_COMMITTED))
                             | (s3, Inr _) \<Rightarrow> (s3, Inr ())))))"

definition commit ::
  "ctx_clock \<Rightarrow> guard_env \<Rightarrow> commit_env \<Rightarrow> session \<Rightarrow> session \<times> unit result" where
  "commit rem genv env s =
     (case guard rem genv s of
        (s1, Inl _) \<Rightarrow>
          (discard (c_release env) s1, Inl (CommitOutcomeError (s_commit_state s1)))
      | (s1, Inr b) \<Rightarrow>
          (case require_transaction s1 of
             Inl e \<Rightarrow> (s1, Inl e)
           | Inr _ \<Rightarrow> commit_on rem b env s1))"

text \<open>
  \<open>execute\<close>: the outcome of the statement is \<open>outcome\<close>. A session that is not transactional
  acquires, executes, commits and releases in the one call; a transactional one executes on the
  connection that it holds.
\<close>

definition execute ::
  "ctx_clock \<Rightarrow> guard_env \<Rightarrow> acquire_env \<Rightarrow> 'r result \<Rightarrow> commit_env \<Rightarrow> release_env \<Rightarrow> session \<Rightarrow>
   (session \<times> 'r result) option" where
  "execute rem genv qenv outcome cenv renv s =
     (case guard rem genv s of
        (s1, Inl e) \<Rightarrow> Some (s1, Inl e)
      | (s1, Inr b) \<Rightarrow>
          (case require_open s1 of
             Inl e \<Rightarrow> Some (s1, Inl e)
           | Inr _ \<Rightarrow>
               if transactional s1
               then Some (s1, if begun s1 then outcome else Inl state_error)
               else (case acquire_begin rem b qenv s1 of
                       None \<Rightarrow> None
                     | Some (s2, Inl e) \<Rightarrow> Some (s2, Inl e)
                     | Some (s2, Inr _) \<Rightarrow>
                         (case outcome of
                            Inl e \<Rightarrow> Some (discard renv s2, Inl e)
                          | Inr r \<Rightarrow>
                              (case commit_on rem b cenv s2 of
                                 (s3, Inl e) \<Rightarrow> Some (discard renv s3, Inl e)
                               | (s3, Inr _) \<Rightarrow> Some (s3, Inr r))))))"

definition rollback ::
  "ctx_clock \<Rightarrow> guard_env \<Rightarrow> py_error option \<Rightarrow> release_env \<Rightarrow> release_env \<Rightarrow> session \<Rightarrow>
   session \<times> unit result" where
  "rollback rem genv exc renv denv s =
     (case guard rem genv s of
        (s1, Inl e) \<Rightarrow> (discard denv s1, Inl e)
      | (s1, Inr b) \<Rightarrow>
          (case require_transaction s1 of
             Inl e \<Rightarrow> (discard denv s1, Inl e)
           | Inr _ \<Rightarrow>
               (case exc of
                  Some e \<Rightarrow> (discard denv s1, Inl e)
                | None \<Rightarrow>
                    (case release False renv (emit RolledBack s1) of
                       (s2, Inl e) \<Rightarrow> (discard denv s2, Inl e)
                     | (s2, Inr _) \<Rightarrow> (s2, Inr ())))))"

text \<open>
  \<open>close\<close>: its two handlers both discard the connection; a timeout is swallowed, any other
  exception is raised again; the session is closed in every case. A failing discard inside a
  handler raises its own exception.
\<close>

definition close ::
  "ctx_clock \<Rightarrow> guard_env \<Rightarrow> py_error option \<Rightarrow> release_env \<Rightarrow> release_env \<Rightarrow> session \<Rightarrow>
   session \<times> unit result" where
  "close rem genv exc renv denv s =
     (if closed s then (s, Inr ())
      else
        (let is_timeout = (\<lambda>e. case e of MeridianError MeridianTimeoutError _ \<Rightarrow> True
                                       | CommitOutcomeError _ \<Rightarrow> True | _ \<Rightarrow> False);
             handle = (\<lambda>s e. case release True denv s of
                               (s', Inl e') \<Rightarrow> (s', Inl e')
                             | (s', Inr _) \<Rightarrow> (s', if is_timeout e then Inr () else Inl e));
             (s', r) =
               (if connection s = None then (s, Inr ())
                else case guard rem genv s of
                       (s1, Inl e) \<Rightarrow> handle s1 e
                     | (s1, Inr b) \<Rightarrow>
                         (case exc of
                            Some e \<Rightarrow> handle s1 e
                          | None \<Rightarrow>
                              (case release False renv (emit RolledBack s1) of
                                 (s2, Inl e) \<Rightarrow> handle s2 e
                               | (s2, Inr _) \<Rightarrow> (s2, Inr ()))))
         in (s'\<lparr>closed := True\<rparr>, r)))"

section \<open>Connection accounting\<close>

text \<open>
  The use of the pool that a sequence of effects makes, started with connection \<open>h\<close>: the
  connection held at the end, or \<open>None\<close> when the sequence misuses it (two at once, a statement
  without one, the return of another).
\<close>

fun usage :: "nat option \<Rightarrow> effect list \<Rightarrow> nat option option" where
  "usage h [] = Some h"
| "usage None (GotConnection c # xs) = usage (Some c) xs"
| "usage (Some c) (ReturnedConnection d # xs) = (if d = c then usage None xs else None)"
| "usage (Some c) (ConnectionLost d # xs) = (if d = c then usage None xs else None)"
| "usage (Some c) (ClosedConnection d # xs) = (if d = c then usage (Some c) xs else None)"
| "usage (Some c) (Began # xs) = usage (Some c) xs"
| "usage (Some c) (CommitSent # xs) = usage (Some c) xs"
| "usage (Some c) (CommitAcknowledged # xs) = usage (Some c) xs"
| "usage (Some c) (RolledBack # xs) = usage (Some c) xs"
| "usage _ _ = None"

lemma usage_append:
  "usage h (xs @ ys) = (case usage h xs of None \<Rightarrow> None | Some h' \<Rightarrow> usage h' ys)"
  by (induction h xs rule: usage.induct) auto

definition accounted :: "session \<Rightarrow> bool" where
  "accounted s \<longleftrightarrow> usage None (effects s) = Some (connection s)"

definition idle :: "session \<Rightarrow> bool" where
  "idle s \<longleftrightarrow> connection s = None \<and> \<not> begun s"

definition session_inv :: "session \<Rightarrow> bool" where
  "session_inv s \<longleftrightarrow>
     accounted s \<and> (begun s \<longleftrightarrow> connection s \<noteq> None) \<and>
     (closed s \<or> \<not> transactional s \<longrightarrow> connection s = None)"

text \<open>The fields that only \<open>new_session\<close> and \<open>close\<close> set.\<close>

definition same_kind :: "session \<Rightarrow> session \<Rightarrow> bool" where
  "same_kind s t \<longleftrightarrow> transactional t = transactional s \<and> closed t = closed s"

lemma same_kind_refl [simp]: "same_kind s s"
  by (simp add: same_kind_def)

lemma same_kind_trans [trans]: "same_kind s t \<Longrightarrow> same_kind t u \<Longrightarrow> same_kind s u"
  by (simp add: same_kind_def)

lemma emit_simps [simp]:
  "connection (emit x s) = connection s" "begun (emit x s) = begun s"
  "closed (emit x s) = closed s" "transactional (emit x s) = transactional s"
  "s_commit_state (emit x s) = s_commit_state s" "s_budget (emit x s) = s_budget s"
  "effects (emit x s) = effects s @ [x]" "same_kind s' (emit x s) = same_kind s' s"
  by (simp_all add: emit_def same_kind_def)

lemma release_result:
  assumes "release d env s = (s', r)"
  shows "idle s' \<and> same_kind s s' \<and> s_commit_state s' = s_commit_state s \<and> (accounted s \<longrightarrow> accounted s')"
  using assms unfolding release_def idle_def same_kind_def accounted_def
  by (auto simp: Let_def usage_append split: option.splits if_splits)

lemma release_accounted: "release d env s = (s', r) \<Longrightarrow> accounted s \<Longrightarrow> accounted s'"
  and release_idle: "release d env s = (s', r) \<Longrightarrow> idle s'"
  and release_kind: "release d env s = (s', r) \<Longrightarrow> same_kind s s'"
  and release_commit_state: "release d env s = (s', r) \<Longrightarrow> s_commit_state s' = s_commit_state s"
  by (blast dest: release_result)+

lemma discard_facts [simp]:
  "idle (discard env s)" "same_kind s (discard env s)"
  "s_commit_state (discard env s) = s_commit_state s"
  "accounted s \<Longrightarrow> accounted (discard env s)"
  using release_result [of True env s] by (auto simp: discard_def prod_eq_iff)

lemma guard_result:
  assumes "guard rem env s = (s', r)"
  shows "\<exists>b. s' = s\<lparr>s_budget := Some b\<rparr> \<and> (r = Inr b \<or> r = Inl deadline_error)"
  using assms unfolding guard_def get_budget_def
  by (auto simp: Let_def and_then_def ensure_def dest: remaining_error split: sum.splits if_splits)

lemma budget_update_simps [simp]:
  "accounted (s\<lparr>s_budget := b\<rparr>) = accounted s" "idle (s\<lparr>s_budget := b\<rparr>) = idle s"
  "session_inv (s\<lparr>s_budget := b\<rparr>) = session_inv s" "same_kind t (s\<lparr>s_budget := b\<rparr>) = same_kind t s"
  by (simp_all add: accounted_def idle_def session_inv_def same_kind_def)

lemma begin_on_result:
  assumes "begin_on rem b env c s = (s', r)" and "idle s" and "accounted s"
  shows "accounted s' \<and> same_kind s s' \<and>
         (case r of Inl _ \<Rightarrow> idle s' | Inr _ \<Rightarrow> connection s' = Some c \<and> begun s')"
proof -
  let ?s1 = "emit (GotConnection c) (s\<lparr>connection := Some c\<rparr>)"
  have a: "accounted ?s1" "accounted (emit Began ?s1)"
    "accounted ((emit Began ?s1)\<lparr>begun := True\<rparr>)"
    using assms(2,3) by (simp_all add: accounted_def idle_def usage_append)
  have k: "same_kind s ?s1" "same_kind s (emit Began ?s1)"
    by (simp_all add: same_kind_def)
  show ?thesis
    using assms(1) a k discard_facts unfolding begin_on_def Let_def
    by (fastforce simp: same_kind_def split: sum.splits)
qed

lemma acquire_begin_result:
  assumes "acquire_begin rem b env s = Some (s', r)" and "idle s" and "accounted s"
  shows "accounted s' \<and> same_kind s s' \<and>
         (case r of Inl _ \<Rightarrow> idle s' | Inr _ \<Rightarrow> begun s' \<and> connection s' \<noteq> None)"
proof (cases "remaining rem (q_now env) b")
  case (Inr left)
  let ?loop = "acquire_loop rem b (q_now env + min (acquire_timeout s) left) (q_attempts env)"
  show ?thesis
  proof (cases "\<exists>c. ?loop = Some (Inr c)")
    case True
    then obtain c where "begin_on rem b env c s = (s', r)"
      using assms(1) Inr by (auto simp: acquire_begin_def)
    from begin_on_result [OF this assms(2,3)] show ?thesis by (cases r) auto
  next
    case False
    then show ?thesis using assms Inr
      by (auto simp: acquire_begin_def split: option.splits sum.splits)
  qed
qed (use assms in \<open>auto simp: acquire_begin_def\<close>)

lemma commit_on_result:
  assumes "commit_on rem b env s = (s', r)" and "accounted s" and "connection s \<noteq> None"
  shows "idle s' \<and> accounted s' \<and> same_kind s s'"
proof -
  let ?s1 = "emit CommitSent (s\<lparr>s_commit_state := UNKNOWN_COMMIT\<rparr>)"
  let ?s2 = "emit CommitAcknowledged (?s1\<lparr>s_commit_state := KNOWN_COMMITTED\<rparr>)"
  have a: "accounted ?s1" "accounted ?s2"
    using assms(2,3) by (auto simp: accounted_def usage_append)
  have k: "same_kind s ?s1" "same_kind s ?s2"
    by (simp_all add: same_kind_def)
  have rel: "idle t \<and> accounted t \<and> same_kind s t"
    if "release False (c_release env) ?s2 = (t, x)" for t x
    using release_result [OF that] a(2) k(2) same_kind_trans by blast
  have dis: "idle (discard e t) \<and> accounted (discard e t) \<and> same_kind s (discard e t)"
    if "accounted t" "same_kind s t" for e t
    using that same_kind_trans [OF that(2)] by simp
  note commit_on_def [simp]
  show ?thesis
  proof (cases "remaining rem (c_before env) b")
    case (Inl e)
    then show ?thesis using assms(1) dis [OF assms(2)] by auto
  next
    case (Inr left)
    consider "c_in_error env" | e where "\<not> c_in_error env" "c_exc env = Some e"
      | "\<not> c_in_error env" "c_exc env = None" by blast
    then show ?thesis
    proof cases
      case 1
      then show ?thesis using assms(1) dis [OF assms(2)] Inr by auto
    next
      case 2
      then show ?thesis using assms(1) dis [OF a(1) k(1)] Inr by (auto simp: Let_def)
    next
      case 3
      obtain t x where t: "release False (c_release env) ?s2 = (t, x)" by fastforce
      show ?thesis using assms(1) dis [OF a(2) k(2)] Inr 3 t rel [OF t]
        by (auto simp: Let_def split: sum.splits)
    qed
  qed
qed

section \<open>Reachable sessions\<close>

inductive session_step :: "ctx_clock \<Rightarrow> session \<Rightarrow> session \<Rightarrow> bool" for rem where
  step_begin: "begin_session rem g q s = Some (s', r) \<Longrightarrow> session_step rem s s'"
| step_execute: "execute rem g q out c rl s = Some (s', (r :: nat result)) \<Longrightarrow> session_step rem s s'"
| step_commit: "commit rem g c s = (s', r) \<Longrightarrow> session_step rem s s'"
| step_rollback: "rollback rem g exc rl dl s = (s', r) \<Longrightarrow> session_step rem s s'"
| step_close: "close rem g exc rl dl s = (s', r) \<Longrightarrow> session_step rem s s'"

inductive session_reach :: "ctx_clock \<Rightarrow> session \<Rightarrow> session \<Rightarrow> bool" for rem where
  reach_start: "session_reach rem s s"
| reach_step: "session_reach rem s t \<Longrightarrow> session_step rem t u \<Longrightarrow> session_reach rem s u"

lemma idle_inv: "accounted s \<Longrightarrow> idle s \<Longrightarrow> session_inv s"
  by (auto simp: session_inv_def idle_def)

lemma inv_idle: "session_inv s \<Longrightarrow> \<not> begun s \<Longrightarrow> idle s"
  by (simp add: session_inv_def idle_def)

lemma guard_inv: "guard rem g s = (s', r) \<Longrightarrow> session_inv s \<Longrightarrow> session_inv s'"
  by (auto dest: guard_result)

lemma guard_simps:
  assumes "guard rem g s = (s', r)"
  shows "connection s' = connection s" "begun s' = begun s" "transactional s' = transactional s"
    "closed s' = closed s" "effects s' = effects s" "s_commit_state s' = s_commit_state s"
  using guard_result [OF assms] by auto

lemma require_open_success: "require_open s = Inr u \<longleftrightarrow> \<not> closed s"
  by (simp add: require_open_def result_simps)

lemma require_transaction_success:
  "require_transaction s = Inr u \<longleftrightarrow> \<not> closed s \<and> transactional s \<and> begun s \<and> connection s \<noteq> None"
  by (auto simp: require_transaction_def require_open_success result_simps)

lemma begin_session_inv:
  assumes "begin_session rem g q s = Some (s', r)" and "session_inv s"
  shows "session_inv s'"
proof -
  obtain s1 x where g: "guard rem g s = (s1, x)" by fastforce
  have i: "session_inv s1" using g assms(2) by (rule guard_inv)
  show ?thesis
  proof (cases "\<exists>b. x = Inr b \<and> \<not> closed s1 \<and> transactional s1 \<and> \<not> begun s1")
    case True
    then obtain b where b: "x = Inr b" "\<not> closed s1" "transactional s1" "\<not> begun s1" by blast
    then have "acquire_begin rem b q s1 = Some (s', r)"
      using assms(1) g by (simp add: begin_session_def require_open_def)
    from acquire_begin_result [OF this inv_idle [OF i b(4)]] i b show ?thesis
      by (cases r) (auto simp: session_inv_def idle_def same_kind_def)
  next
    case False
    then show ?thesis using assms(1) g i
      by (auto simp: begin_session_def require_open_def split: sum.splits if_splits)
  qed
qed

lemma commit_inv:
  assumes "commit rem g c s = (s', r)" and "session_inv s"
  shows "session_inv s'"
proof -
  obtain s1 x where g: "guard rem g s = (s1, x)" by fastforce
  have i: "session_inv s1" using g assms(2) by (rule guard_inv)
  then have a: "accounted s1" by (simp add: session_inv_def)
  show ?thesis
  proof (cases "\<exists>b u. x = Inr b \<and> require_transaction s1 = Inr u")
    case True
    then obtain b u where b: "x = Inr b" "require_transaction s1 = Inr u" by blast
    then have "commit_on rem b c s1 = (s', r)"
      using assms(1) g by (simp add: commit_def)
    from commit_on_result [OF this a] b show ?thesis
      by (auto simp: require_transaction_success intro: idle_inv)
  next
    case False
    then show ?thesis using assms(1) g i a
      by (auto simp: commit_def split: sum.splits intro: idle_inv)
  qed
qed

lemma emit_rolled_back: "session_inv s \<Longrightarrow> connection s \<noteq> None \<Longrightarrow> accounted (emit RolledBack s)"
  by (auto simp: session_inv_def accounted_def usage_append)

lemma rollback_inv:
  assumes "rollback rem g exc rl dl s = (s', r)" and "session_inv s"
  shows "session_inv s'"
proof -
  obtain s1 x where g: "guard rem g s = (s1, x)" by fastforce
  have i: "session_inv s1" using g assms(2) by (rule guard_inv)
  then have d: "session_inv (discard dl s1)"
    by (simp add: idle_inv session_inv_def [of s1])
  show ?thesis
  proof (cases "(\<exists>b u. x = Inr b \<and> require_transaction s1 = Inr u) \<and> exc = None")
    case True
    then have c: "connection s1 \<noteq> None" by (auto simp: require_transaction_success)
    obtain s2 y where s2: "release False rl (emit RolledBack s1) = (s2, y)" by fastforce
    have "session_inv s2" "session_inv (discard dl s2)"
      using release_result [OF s2] emit_rolled_back [OF i c] by (auto intro: idle_inv)
    then show ?thesis using assms(1) g True s2
      by (auto simp: rollback_def split: sum.splits)
  next
    case False
    then show ?thesis using assms(1) g d
      by (auto simp: rollback_def split: sum.splits option.splits)
  qed
qed

lemma execute_inv:
  assumes "execute rem g q out c rl s = Some (s', r)" and "session_inv s"
  shows "session_inv s'"
proof -
  obtain s1 x where g: "guard rem g s = (s1, x)" by fastforce
  have i: "session_inv s1" using g assms(2) by (rule guard_inv)
  show ?thesis
  proof (cases "\<exists>b. x = Inr b \<and> \<not> closed s1 \<and> \<not> transactional s1")
    case False
    then show ?thesis using assms(1) g i
      by (auto simp: execute_def require_open_def split: sum.splits if_splits)
  next
    case True
    then obtain b where b: "x = Inr b" "\<not> closed s1" "\<not> transactional s1" by blast
    have idle1: "idle s1" and acc1: "accounted s1" using i b by (auto simp: session_inv_def idle_def)
    obtain s2 y where y: "acquire_begin rem b q s1 = Some (s2, y)"
      using assms(1) g b by (auto simp: execute_def require_open_def split: option.splits)
    note A = acquire_begin_result [OF y idle1 acc1]
    obtain s3 z where z: "commit_on rem b c s2 = (s3, z)" by fastforce
    have "session_inv s2" if "y = Inl e" for e
      using A that by (auto intro: idle_inv)
    moreover have "session_inv (discard rl s2)"
      using A by (auto intro: idle_inv)
    moreover have "session_inv s3 \<and> session_inv (discard rl s3)" if "y = Inr u" for u
      using commit_on_result [OF z] A that by (auto intro: idle_inv)
    ultimately show ?thesis using assms(1) g b y z
      by (auto simp: execute_def require_open_def split: sum.splits)
  qed
qed

lemma closed_inv: "session_inv s \<Longrightarrow> idle s \<Longrightarrow> session_inv (s\<lparr>closed := True\<rparr>)"
  by (auto simp: session_inv_def idle_def accounted_def)

lemma close_inv:
  assumes "close rem g exc rl dl s = (s', r)" and "session_inv s"
  shows "session_inv s'"
proof (cases "closed s \<or> connection s = None")
  case True
  then have "idle s" using assms(2) by (auto simp: session_inv_def idle_def)
  with True show ?thesis using assms closed_inv [OF assms(2)] unfolding close_def Let_def
    by (auto split: if_splits)
next
  case False
  obtain s1 x where g: "guard rem g s = (s1, x)" by fastforce
  have i: "session_inv s1" using g assms(2) by (rule guard_inv)
  then have a: "accounted s1" by (simp add: session_inv_def)
  have c: "connection s1 \<noteq> None" using g False by (simp add: guard_simps)
  have closing: "session_inv (t'\<lparr>closed := True\<rparr>)"
    if "release d e t = (t', y)" "accounted t" for d e t t' y
    using release_result [OF that(1)] that(2) by (blast intro: closed_inv idle_inv)
  obtain s2 y where s2: "release False rl (emit RolledBack s1) = (s2, y)" by fastforce
  note r2 = release_result [OF s2] emit_rolled_back [OF i c]
  obtain s3 z where s3: "release True dl s1 = (s3, z)" by fastforce
  obtain s4 w where s4: "release True dl s2 = (s4, w)" by fastforce
  have "session_inv (s2\<lparr>closed := True\<rparr>)" "session_inv (s3\<lparr>closed := True\<rparr>)"
    "session_inv (s4\<lparr>closed := True\<rparr>)"
    using closing [OF s2] closing [OF s3 a] closing [OF s4] r2 by blast+
  then show ?thesis using assms(1) False g s2 s3 s4
    unfolding close_def Let_def
    by (auto split: sum.splits option.splits if_splits)
qed

lemma session_step_inv: "session_step rem s t \<Longrightarrow> session_inv s \<Longrightarrow> session_inv t"
  by (induction rule: session_step.induct)
    (blast dest: begin_session_inv execute_inv commit_inv rollback_inv close_inv)+

lemma session_reach_inv: "session_reach rem s t \<Longrightarrow> session_inv s \<Longrightarrow> session_inv t"
  by (induction rule: session_reach.induct) (auto dest: session_step_inv)

lemma new_session_inv: "session_inv (new_session t a o')"
  by (simp add: session_inv_def new_session_def accounted_def)

text \<open>
  C4. Connection accounting: in every session reachable from a new one, by any calls in any order
  and whatever the pool, server, lock and clock answer, the pool was used correctly (never two
  connections at once, no statement without a connection, each connection given back or lost
  exactly once), the connection accounted for is the one the session holds, it is held exactly
  while a transaction is open, and a closed or non-transactional session holds none between calls.
\<close>
theorem session_accounting:
  assumes "session_reach rem (new_session t a o') s"
  shows "usage None (effects s) = Some (connection s) \<and> (begun s \<longleftrightarrow> connection s \<noteq> None) \<and>
         (closed s \<or> \<not> transactional s \<longrightarrow> connection s = None)"
  using session_reach_inv [OF assms new_session_inv] by (simp add: session_inv_def accounted_def)

definition ok_guard :: "real \<Rightarrow> guard_env" where
  "ok_guard t = \<lparr>g_context = None, g_ambient = None, g_now = t, g_locked = True, g_after = t\<rparr>"

definition ok_release :: release_env where
  "ok_release = \<lparr>close_exc = None, put_exc = None\<rparr>"

definition ok_acquire :: "real \<Rightarrow> nat \<Rightarrow> acquire_env" where
  "ok_acquire t c = \<lparr>q_now = t, q_attempts = [(t, Inr c)], q_began_at = t, q_begin_exc = None,
                     q_ready_at = t, q_release = ok_release\<rparr>"

definition ok_commit :: "real \<Rightarrow> commit_env" where
  "ok_commit t = \<lparr>c_before = t, c_in_error = False, c_exc = None, c_after = t, c_release = ok_release\<rparr>"

lemmas session_eval =
  begin_session_def guard_def get_budget_def new_budget_def budget_include_def remaining_def
  remaining_value_def acquire_begin_def begin_on_def require_open_def require_transaction_def
  commit_def commit_on_def release_def discard_def new_session_def emit_def execute_def
  ok_guard_def ok_release_def ok_acquire_def ok_commit_def Let_def

theorem session_accounting_witness:
  "\<exists>s. session_reach (\<lambda>c t. None) (new_session True 5 30) s \<and> connection s = Some 4 \<and>
       usage None (effects s) = Some (connection s)"
proof -
  let ?r = "begin_session (\<lambda>c t. None) (ok_guard 1) (ok_acquire 1 4) (new_session True 5 30)"
  obtain s r where s: "?r = Some (s, r)" and c: "connection s = Some 4"
    by (simp add: session_eval)
  from s have reach: "session_reach (\<lambda>c t. None) (new_session True 5 30) s"
    by (blast intro: session_reach.intros session_step.intros)
  show ?thesis using reach c session_accounting [OF reach] by blast
qed

section \<open>Commit outcomes\<close>

text \<open>The commit traffic in a sequence of effects, and what a reported outcome says of it.\<close>

definition commit_view :: "effect list \<Rightarrow> effect list" where
  "commit_view xs = filter (\<lambda>x. x = CommitSent \<or> x = CommitAcknowledged) xs"

lemma commit_view_append [simp]: "commit_view (xs @ ys) = commit_view xs @ commit_view ys"
  by (simp add: commit_view_def)

lemma commit_view_simps [simp]:
  "commit_view [] = []" "commit_view (CommitSent # xs) = CommitSent # commit_view xs"
  "commit_view (CommitAcknowledged # xs) = CommitAcknowledged # commit_view xs"
  "commit_view (Began # xs) = commit_view xs" "commit_view (RolledBack # xs) = commit_view xs"
  "commit_view (GotConnection c # xs) = commit_view xs"
  "commit_view (ReturnedConnection c # xs) = commit_view xs"
  "commit_view (ClosedConnection c # xs) = commit_view xs"
  by (simp_all add: commit_view_def)

fun sent_as :: "py_error + 'a \<Rightarrow> effect list" where
  "sent_as (Inr _) = [CommitSent, CommitAcknowledged]"
| "sent_as (Inl (CommitOutcomeError KNOWN_COMMITTED)) = [CommitSent, CommitAcknowledged]"
| "sent_as (Inl (CommitOutcomeError UNKNOWN_COMMIT)) = [CommitSent]"
| "sent_as (Inl _) = []"

lemma release_commit_view:
  "release d env s = (s', r) \<Longrightarrow> commit_view (effects s') = commit_view (effects s)"
  by (auto simp: release_def Let_def commit_view_def split: option.splits if_splits)

lemma discard_commit_view [simp]:
  "commit_view (effects (discard env s)) = commit_view (effects s)"
  by (simp add: discard_def release_commit_view prod_eq_iff)

lemma commit_on_view:
  "commit_on rem b env s = (s', r) \<Longrightarrow>
   commit_view (effects s') = commit_view (effects s) @ sent_as r"
  by (auto simp: commit_on_def Let_def
       split: sum.splits if_splits option.splits prod.splits dest!: release_commit_view)

text \<open>
  C6. A commit outcome is never a lie about the wire: for a session whose transaction is its first,
  a commit that reports not committed has dispatched no COMMIT, one that reports an unknown outcome
  has dispatched a COMMIT that was not acknowledged, and one that reports committed (by returning
  or by an error) has seen the acknowledgement; any other error dispatched nothing.
\<close>
theorem commit_truthful:
  assumes "s_commit_state s = KNOWN_NOT_COMMITTED" and "commit rem g env s = (s', r)"
  shows "commit_view (effects s') = commit_view (effects s) @ sent_as r"
proof -
  obtain s1 x where g: "guard rem g s = (s1, x)" by fastforce
  have rt: "require_transaction s1 = Inl e \<Longrightarrow> sent_as (Inl e :: unit result) = []" for e
    by (auto simp: require_transaction_def require_open_def result_simps)
  show ?thesis
    using assms g rt guard_simps(5,6) [OF g]
    by (auto simp: commit_def split: sum.splits dest: commit_on_view)
qed

theorem commit_truthful_witness:
  "\<exists>s s' r. begin_session (\<lambda>c t. None) (ok_guard 1) (ok_acquire 1 4) (new_session True 5 30) = Some (s, Inr ())
     \<and> commit (\<lambda>c t. None) (ok_guard 2) (ok_commit 40) s = (s', r)
     \<and> r = Inl (CommitOutcomeError KNOWN_NOT_COMMITTED)
     \<and> commit_view (effects s') = commit_view (effects s) @ sent_as r"
proof -
  obtain s where s: "begin_session (\<lambda>c t. None) (ok_guard 1) (ok_acquire 1 4) (new_session True 5 30)
      = Some (s, Inr ())"
    by (simp add: session_eval)
  then have k: "s_commit_state s = KNOWN_NOT_COMMITTED" by (auto simp: session_eval)
  obtain s' r where c: "commit (\<lambda>c t. None) (ok_guard 2) (ok_commit 40) s = (s', r)" by fastforce
  have "r = Inl (CommitOutcomeError KNOWN_NOT_COMMITTED)"
    using s c by (auto simp: session_eval)
  with s c commit_truthful [OF k c] show ?thesis by blast
qed

definition second_begin :: session where
  "second_begin =
     (let c = (\<lambda>c t. None);
          s0 = new_session True 5 30;
          s1 = (case begin_session c (ok_guard 1) (ok_acquire 1 4) s0 of Some (s, _) \<Rightarrow> s | None \<Rightarrow> s0);
          s2 = fst (commit c (ok_guard 2) (ok_commit 2) s1)
      in (case begin_session c (ok_guard 3) (ok_acquire 3 5) s2 of Some (s, _) \<Rightarrow> s | None \<Rightarrow> s2))"

text \<open>
  A session object that begins a second transaction keeps the outcome of the first: when the
  admission of the second commit expires, the error reports KNOWN_COMMITTED although that
  transaction dispatched no COMMIT and its connection was discarded. (A session accepts a second begin
  whose first transaction has ended, and does not reset the commit state.)
\<close>
theorem commit_outcome_stale:
  "let s = second_begin; (s', r) = commit (\<lambda>c t. None) (ok_guard 40) (ok_commit 40) s
   in begun s \<and> connection s = Some 5 \<and> r = Inl (CommitOutcomeError KNOWN_COMMITTED) \<and>
      commit_view (effects s') = commit_view (effects s) \<and>
      effects s' = effects s @ [ClosedConnection 5, ReturnedConnection 5]"
  by (simp add: second_begin_def session_eval)

lemma acquire_begin_view:
  "acquire_begin rem b q s = Some (s', y) \<Longrightarrow> commit_view (effects s') = commit_view (effects s)"
  by (auto simp: acquire_begin_def begin_on_def Let_def split: sum.splits option.splits)

lemma acquire_begin_ok:
  "acquire_begin rem b q s = Some (s', Inr u) \<Longrightarrow>
   \<exists>n. effects s' = effects s @ [GotConnection n, Began] \<and> connection s' = Some n"
  by (auto simp: acquire_begin_def begin_on_def Let_def split: sum.splits option.splits)

lemma commit_on_ok:
  "commit_on rem b c s = (s', Inr u) \<Longrightarrow> connection s = Some n \<Longrightarrow>
   effects s' = effects s @ [CommitSent, CommitAcknowledged, ReturnedConnection n]"
  by (auto simp: commit_on_def release_def Let_def split: sum.splits if_splits option.splits prod.splits)

text \<open>
  C7. Single-statement sessions: outside a transaction, a call that returns a result has executed
  its statement on one connection between one BEGIN and one acknowledged COMMIT and has returned
  that connection; a call whose statement failed dispatched no COMMIT; and in every case the session
  holds no connection afterwards.
\<close>
theorem execute_autocommit:
  assumes inv: "session_inv s" and t: "\<not> transactional s"
    and ex: "execute rem g q out c rl s = Some (s', r)"
  shows "idle s' \<and>
    (\<forall>v. r = Inr v \<longrightarrow> out = Inr v \<and> (\<exists>n. effects s' = effects s @
        [GotConnection n, Began, CommitSent, CommitAcknowledged, ReturnedConnection n])) \<and>
    (\<forall>e. out = Inl e \<longrightarrow> commit_view (effects s') = commit_view (effects s))"
proof -
  obtain s1 x where g: "guard rem g s = (s1, x)" by fastforce
  note gs = guard_simps [OF g]
  have i: "session_inv s1" using g inv by (rule guard_inv)
  have t1: "\<not> transactional s1" using gs t by simp
  have idle1: "idle s1" and acc1: "accounted s1" using i t1 by (auto simp: session_inv_def idle_def)
  have com_idle: "idle s3"
    if "acquire_begin rem b q s1 = Some (s2, Inr u)" "commit_on rem b c s2 = (s3, z)" for b s2 s3 u z
    using acquire_begin_result [OF that(1) idle1 acc1] commit_on_result [OF that(2)] by simp
  have acq_idle: "idle s2" if "acquire_begin rem b q s1 = Some (s2, Inl e)" for b s2 e
    using acquire_begin_result [OF that idle1 acc1] by simp
  show ?thesis
  proof (cases "\<exists>b. x = Inr b \<and> \<not> closed s1")
    case False
    then show ?thesis using ex g gs idle1
      by (auto simp: execute_def require_open_def split: sum.splits)
  next
    case True
    then obtain b where b: "x = Inr b" "\<not> closed s1" by blast
    obtain s2 y where y: "acquire_begin rem b q s1 = Some (s2, y)"
      using ex g b t1 by (auto simp: execute_def require_open_def split: option.splits)
    obtain s3 z where z: "commit_on rem b c s2 = (s3, z)" by fastforce
    have ex': "Some (s', r) = (case y of Inl e \<Rightarrow> Some (s2, Inl e)
        | Inr _ \<Rightarrow> (case out of Inl e \<Rightarrow> Some (discard rl s2, Inl e)
          | Inr v \<Rightarrow> (case z of Inl e \<Rightarrow> Some (discard rl s3, Inl e) | Inr _ \<Rightarrow> Some (s3, Inr v))))"
      using ex g b t1 y z by (auto simp: execute_def require_open_def split: sum.splits)
    show ?thesis
    proof (cases "\<exists>u v w. y = Inr u \<and> out = Inr v \<and> z = Inr w")
      case True
      then obtain u v w where "y = Inr u" "out = Inr v" "z = Inr w" by blast
      moreover from this obtain n where "effects s2 = effects s @ [GotConnection n, Began]" "connection s2 = Some n"
        using acquire_begin_ok [of _ b q s1 s2 u] y gs by auto
      ultimately show ?thesis
        using ex' commit_on_ok [of _ b c s2 s3 w n] com_idle [of b s2 u s3 z] y z by simp
    next
      case False
      then show ?thesis
        using ex' y acq_idle [of b s2] acquire_begin_view [OF y] gs
        by (auto split: sum.splits)
    qed
  qed
qed

theorem execute_autocommit_witness:
  "\<exists>s'. execute (\<lambda>c t. None) (ok_guard 1) (ok_acquire 1 4) (Inr (7 :: nat)) (ok_commit 2) ok_release
          (new_session False 5 30) = Some (s', Inr 7) \<and> idle s' \<and>
        commit_view (effects s') = [CommitSent, CommitAcknowledged]"
proof -
  have inv: "session_inv (new_session False 5 30)" by (rule new_session_inv)
  have t: "\<not> transactional (new_session False 5 30)" by (simp add: new_session_def)
  obtain s' where ex: "execute (\<lambda>c t. None) (ok_guard 1) (ok_acquire 1 4) (Inr (7 :: nat)) (ok_commit 2)
      ok_release (new_session False 5 30) = Some (s', Inr 7)"
    by (simp add: session_eval)
  show ?thesis using ex execute_autocommit [OF inv t ex] by (auto simp: new_session_def)
qed

lemma acquire_loop_timeout_hidden:
  "acquire_loop rem b d as = Some (Inl PoolTimeout) \<Longrightarrow> False"
  by (induction rem b d as rule: acquire_loop.induct)
    (auto split: sum.splits if_splits dest: remaining_error)

lemma acquire_loop_stops:
  assumes "(now, answer) \<in> set as" and "d \<le> now \<or> expires b \<le> now"
  shows "acquire_loop rem b d as \<noteq> None"
  using assms
proof (induction as)
  case (Cons a as)
  obtain t r where a: "a = (t, r)" by fastforce
  show ?case
  proof (cases "a = (now, answer)")
    case True
    then show ?thesis using Cons.prems(2)
      by (auto simp: remaining_expired split: sum.splits)
  next
    case False
    with Cons show ?thesis by (auto simp: a split: sum.splits)
  qed
qed simp

lemma acquire_loop_connection:
  "acquire_loop rem b d as = Some (Inr c) \<Longrightarrow> \<exists>t. (t, Inr c) \<in> set as \<and> t < d \<and> t < expires b"
proof (induction rem b d as rule: acquire_loop.induct)
  case (2 rem b d now answer rest)
  then show ?case
    using remaining_le_expires [of rem now b] remaining_positive [of rem now b]
    by (auto split: sum.splits if_splits)
qed simp

text \<open>
  C13. The acquisition loop ends: if the clock of some attempt has reached the end of the acquisition
  window or the expiry of the budget, the loop has ended by that attempt; it ends with a connection
  only when an attempt before that moment was answered with it, and a pool timeout never surfaces.
\<close>
theorem acquisition_bounded:
  "((\<exists>(now, answer) \<in> set as. d \<le> now \<or> expires b \<le> now) \<longrightarrow> acquire_loop rem b d as \<noteq> None) \<and>
   (\<forall>c. acquire_loop rem b d as = Some (Inr c) \<longrightarrow>
      (\<exists>t. (t, Inr c) \<in> set as \<and> t < d \<and> t < expires b)) \<and>
   acquire_loop rem b d as \<noteq> Some (Inl PoolTimeout)"
  using acquire_loop_stops [of _ _ as d b rem] acquire_loop_connection [of rem b d as]
    acquire_loop_timeout_hidden [of rem b d as]
  by auto

theorem acquisition_bounded_witness:
  "acquire_loop (\<lambda>c t. None) \<lparr>expires = 9, contexts = []\<rparr> 3
     [(1, Inl PoolTimeout), (2, Inl PoolTimeout), (3, Inr 5)] \<noteq> None"
  using acquisition_bounded [of "[(1, Inl PoolTimeout), (2, Inl PoolTimeout), (3, Inr 5)]" 3
      "\<lparr>expires = 9, contexts = []\<rparr>" "\<lambda>c t. None"]
  by simp

end
