(* ===== verification/Runtime.thy ===== *)
theory Runtime
  imports Semantics Session
begin

text \<open>
  The adapter's runtime and factory in \<open>_runtime.py\<close>: the selection checks before a runtime is created, the
  connection options, and the life of the pool (\<open>PostgreSQLAdapterRuntime\<close>), with the admission of every
  operation under its lock.

  The pool, the clock, the lock and the file system answer through \<open>runtime_env\<close>; what the runtime does to
  them is a trace of events. Resolved secrets are texts here, with \<open>None\<close> for bytes that are not UTF-8.
\<close>

section \<open>Creation\<close>

record tls_settings =
  tls_mode :: string
  tls_server_name :: "string option"

record client_settings =
  cl_min_size :: int
  cl_max_size :: int
  cl_acquire_ms :: int
  cl_idle_ms :: int
  cl_operation_ms :: int
  cl_max_result_bytes :: int

record runtime_binding =
  rb_id :: string
  rb_adapter :: string
  rb_contract :: string
  rb_profile :: string
  rb_version :: string
  rb_capability :: string
  rb_pins :: "string dict"
  rb_endpoint :: "string option"
  rb_tls :: tls_settings
  rb_client :: client_settings
  rb_settings :: binding

record create_context =
  cc_binding :: runtime_binding
  cc_identity :: "string option"
  cc_credential :: "string option"
  cc_ca :: bool
  cc_client_certificate :: bool

datatype option_value = Text string | Number int

record runtime_lib =
  rl_settings :: "binding \<Rightarrow> pg_settings result"
  rl_endpoint :: "string \<Rightarrow> string dict result"
  rl_conninfo :: "string \<Rightarrow> option_value dict \<Rightarrow> string result"
  rl_fingerprint :: "capability_manifest \<Rightarrow> string"
  rl_query_fingerprint :: "query_capabilities \<Rightarrow> string"
  rl_installed :: "string \<Rightarrow> string option"
  rl_directory :: string

abbreviation config_invalid :: py_error where
  "config_invalid \<equiv> MeridianError ConfigurationError CONFIG_INVALID"

abbreviation config_secret :: py_error where
  "config_secret \<equiv> MeridianError ConfigurationError CONFIG_SECRET_REFERENCE"

definition credentials :: "create_context \<Rightarrow> (string \<times> string) result" where
  "credentials c =
     (case (cc_identity c, cc_credential c) of
        (Some identity, Some credential) \<Rightarrow>
          and_then (ensure (identity \<noteq> [] \<and> CHR 0x00 \<notin> set identity \<and> CHR 0x00 \<notin> set credential) config_secret) (\<lambda>_.
            Inr (identity, credential))
      | _ \<Rightarrow> Inl config_secret)"

text \<open>Seconds of the connection timeout: the ceiling of the milliseconds, at least one.\<close>

definition connect_seconds :: "int \<Rightarrow> int" where
  "connect_seconds ms = max 1 \<lceil>(of_int ms :: rat) / 1000\<rceil>"

definition base_options :: "pg_settings \<Rightarrow> client_settings \<Rightarrow> string \<Rightarrow> string \<Rightarrow> option_value dict" where
  "base_options s client identity credential =
     [(''application_name'', Text (application_name s)), (''connect_timeout'', Number (connect_seconds (cl_acquire_ms client))),
      (''password'', Text credential), (''user'', Text identity)]"

text \<open>The files of the TLS directory: the authority, and the client certificate in mutual mode.\<close>

definition tls_options :: "runtime_lib \<Rightarrow> create_context \<Rightarrow> string dict \<Rightarrow> option_value dict result" where
  "tls_options L c parsed =
     (let tls = rb_tls (cc_binding c); d = rl_directory L in
      if tls_mode tls = ''disabled'' then Inr [(''sslmode'', Text ''disable'')]
      else
        and_then (ensure (cc_ca c) config_secret) (\<lambda>_.
        and_then (ensure (tls_server_name tls = None \<or> map_of parsed ''host'' = tls_server_name tls) config_invalid) (\<lambda>_.
        and_then (ensure (tls_mode tls = ''mutual'' \<longrightarrow> cc_client_certificate c) config_secret) (\<lambda>_.
        Inr ([(''sslmode'', Text ''verify-full''), (''sslrootcert'', Text (d @ ''/ca.pem''))] @
             (if tls_mode tls = ''mutual''
              then [(''sslcert'', Text (d @ ''/client.pem'')), (''sslkey'', Text (d @ ''/client.pem''))] else []))))))"

definition build_conninfo :: "runtime_lib \<Rightarrow> pg_settings \<Rightarrow> create_context \<Rightarrow> string result" where
  "build_conninfo L s c =
     (let b = cc_binding c in
      case rb_endpoint b of
        None \<Rightarrow> Inl config_invalid
      | Some endpoint \<Rightarrow>
          and_then (rl_endpoint L endpoint) (\<lambda>parsed.
          and_then (ensure (''password'' \<notin> set (keys parsed) \<and> ''user'' \<notin> set (keys parsed)) config_invalid) (\<lambda>_.
          and_then (credentials c) (\<lambda>(identity, credential).
          and_then (tls_options L c parsed) (\<lambda>tls.
          rl_conninfo L endpoint (base_options s (rb_client b) identity credential @ tls))))))"

section \<open>Connections and the pool\<close>

definition quoted :: "string \<Rightarrow> string" where
  "quoted s = [CHR 0x27] @ s @ [CHR 0x27]"

text \<open>The statements of a new connection, committed as one transaction.\<close>

definition configure_connection :: "bool \<Rightarrow> string list" where
  "configure_connection only_reads =
     [''SET TIME ZONE '' @ quoted ''UTC'', ''SET default_transaction_isolation TO '' @ quoted ''read committed''] @
     (if only_reads then [''SET default_transaction_read_only TO on''] else [])"

record pool_options =
  po_conninfo :: string
  po_min_size :: int
  po_max_size :: int
  po_timeout :: rat
  po_max_idle :: rat
  po_configure :: "string list"
  po_name :: string

section \<open>The runtime\<close>

text \<open>Pools are numbered in the order in which the runtime creates them.\<close>

record runtime =
  rt_settings :: pg_settings
  rt_conninfo :: string
  rt_directory :: bool
  rt_pool :: "nat option"
  rt_opened :: bool
  rt_closed :: bool
  rt_made :: nat

datatype runtime_event = PoolMade nat pool_options | PoolClosed nat | DirectoryRemoved

record runtime_env =
  re_open :: "py_error option"
  re_close :: "py_error option"
  re_remaining :: "rat option option"
  re_acquired :: bool
  re_budget :: "py_error option"

definition new_runtime :: "runtime_lib \<Rightarrow> create_context \<Rightarrow> runtime result" where
  "new_runtime L c =
     and_then (rl_settings L (rb_settings (cc_binding c))) (\<lambda>s.
     and_then (build_conninfo L s c) (\<lambda>conninfo.
     Inr \<lparr>rt_settings = s, rt_conninfo = conninfo, rt_directory = (tls_mode (rb_tls (cc_binding c)) \<noteq> ''disabled''),
          rt_pool = None, rt_opened = False, rt_closed = False, rt_made = 0\<rparr>))"

abbreviation closed_error :: py_error where
  "closed_error \<equiv> MeridianError LifecycleError RUNTIME_CLOSED"

abbreviation unopened_error :: py_error where
  "unopened_error \<equiv> MeridianError LifecycleError RUNTIME_STATE"

text \<open>A pool that cannot be opened is closed again; a failure to close it replaces the first exception.\<close>

definition pool_options_of :: "create_context \<Rightarrow> runtime \<Rightarrow> pool_options" where
  "pool_options_of c r =
     (let client = rb_client (cc_binding c) in
      \<lparr>po_conninfo = rt_conninfo r, po_min_size = cl_min_size client, po_max_size = cl_max_size client,
       po_timeout = of_int (cl_acquire_ms client) / 1000, po_max_idle = of_int (cl_idle_ms client) / 1000,
       po_configure = configure_connection (read_only (rt_settings r)), po_name = ''meridian-'' @ rb_id (cc_binding c)\<rparr>)"

definition open_runtime :: "create_context \<Rightarrow> runtime_env \<Rightarrow> runtime \<Rightarrow> unit result \<times> runtime \<times> runtime_event list" where
  "open_runtime c env r =
     (if rt_closed r then (Inl closed_error, r, [])
      else if rt_opened r then (Inr (), r, [])
      else (let p = rt_made r; made = r\<lparr>rt_made := Suc p\<rparr> in
        case re_open env of
          None \<Rightarrow> (Inr (), made\<lparr>rt_pool := Some p, rt_opened := True\<rparr>, [PoolMade p (pool_options_of c r)])
        | Some e \<Rightarrow> (Inl (case re_close env of Some e' \<Rightarrow> e' | None \<Rightarrow> e), made, [PoolMade p (pool_options_of c r), PoolClosed p])))"

definition close_runtime :: "runtime_env \<Rightarrow> runtime \<Rightarrow> unit result \<times> runtime \<times> runtime_event list" where
  "close_runtime env r =
     (if rt_closed r then (Inr (), r, [])
      else
        (case (rt_pool r, re_close env) of
           (Some p, Some e) \<Rightarrow> (Inl e, r, [PoolClosed p])
         | (pool, _) \<Rightarrow>
             (Inr (), r\<lparr>rt_pool := None, rt_conninfo := [], rt_directory := False, rt_opened := False, rt_closed := True\<rparr>,
              (case pool of Some p \<Rightarrow> [PoolClosed p] | None \<Rightarrow> []) @ (if rt_directory r then [DirectoryRemoved] else []))))"

text \<open>
  The admission of an operation. The lock waits for the time the context has left: a negative time other
  than -1 is a \<open>ValueError\<close> of the lock, and -1 waits without a limit.
\<close>

definition admission :: "runtime_env \<Rightarrow> unit result" where
  "admission env =
     (case re_remaining env of
        None \<Rightarrow> Inr ()
      | Some left \<Rightarrow>
          and_then (case left of
              None \<Rightarrow> Inr ()
            | Some t \<Rightarrow> and_then (ensure (0 \<le> t \<or> t = - 1) ValueError) (\<lambda>_. ensure (re_acquired env) deadline_error)) (\<lambda>_.
          case re_budget env of Some e \<Rightarrow> Inl e | None \<Rightarrow> Inr ()))"

definition require_pool :: "runtime_env \<Rightarrow> runtime \<Rightarrow> nat result" where
  "require_pool env r =
     and_then (admission env) (\<lambda>_.
     and_then (ensure (\<not> rt_closed r) closed_error) (\<lambda>_.
     case rt_pool r of
       Some p \<Rightarrow> if rt_opened r then Inr p else Inl unopened_error
     | None \<Rightarrow> Inl unopened_error))"

definition runtime_probe ::
  "runtime_lib \<Rightarrow> schema_env \<Rightarrow> create_context \<Rightarrow> runtime_env \<Rightarrow> server_facts \<Rightarrow> physical_view \<Rightarrow> runtime \<Rightarrow> adapter_probe result" where
  "runtime_probe L E c env f view r =
     and_then (require_pool env r) (\<lambda>_.
     and_then (probe (rl_query_fingerprint L) (rt_settings r) (rb_version (cc_binding c)) f) (\<lambda>(p, _).
     and_then (validate_table_privileges E (rt_settings r) view table_privileges) (\<lambda>_. Inr p)))"

definition runtime_verify ::
  "schema_env \<Rightarrow> core_api \<Rightarrow> runtime_env \<Rightarrow> physical_view \<Rightarrow> physical_resource list \<Rightarrow> runtime \<Rightarrow> physical_verification result" where
  "runtime_verify E api env view rs r =
     and_then (require_pool env r) (\<lambda>_. verify_physical E api (rt_settings r) view rs)"

definition open_session :: "create_context \<Rightarrow> runtime_env \<Rightarrow> bool \<Rightarrow> runtime \<Rightarrow> (nat \<times> session) result" where
  "open_session c env tx r =
     (let client = rb_client (cc_binding c) in
      and_then (require_pool env r) (\<lambda>p.
      Inr (p, new_session tx (of_int (cl_acquire_ms client) / 1000) (of_int (cl_operation_ms client) / 1000))))"

section \<open>The factory\<close>

definition selected_packages :: "string list" where
  "selected_packages =
     [''meridian-storage-core'', ''meridian-storage-semantics'', ''meridian-storage-query'', ''meridian-storage-projection'',
      ''meridian-storage-postgresql'']"

abbreviation contract_error :: py_error where
  "contract_error \<equiv> MeridianError CompatibilityError ADAPTER_CONTRACT"

definition package_matches :: "runtime_lib \<Rightarrow> string dict \<Rightarrow> string \<Rightarrow> unit result" where
  "package_matches L pins package =
     (case map_of pins package of
        None \<Rightarrow> Inr ()
      | Some selected \<Rightarrow> ensure (rl_installed L package = Some selected) contract_error)"

definition create_runtime :: "runtime_lib \<Rightarrow> create_context \<Rightarrow> runtime result" where
  "create_runtime L c =
     (let b = cc_binding c in
      and_then (ensure (rb_adapter b = ''postgresql'' \<and> rb_contract b = ''1.0.0'') contract_error) (\<lambda>_.
      and_then (ensure (rb_profile b \<in> set (keys engine_versions)) contract_error) (\<lambda>_.
      and_then (ensure (rb_capability b =
          rl_fingerprint L (capability_manifest_of (rl_query_fingerprint L) (rb_profile b) (rb_version b)))
          (MeridianError CompatibilityError CAPABILITY_FINGERPRINT)) (\<lambda>_.
      and_then (traverse (package_matches L (rb_pins b)) selected_packages) (\<lambda>_.
      new_runtime L c)))))"

end
