(* ===== verification/ReadyLaws.thy ===== *)
theory ReadyLaws
  imports RuntimeLaws MigrationLaws
begin

text \<open>What a successful probe of the runtime guarantees about the server it will work on.\<close>

lemma privileges_granted:
  "check_privileges cv q ps = Inr u \<Longrightarrow> p \<in> set ps \<Longrightarrow> cv_privilege cv q p"
  by (auto simp: check_privileges_def and_then_success result_simps dest: traverse_each)

lemma probe_parts:
  assumes "probe fingerprint s engine_version f = Inr (p, h)"
  shows "\<exists>row. sf_row f = Some row \<and> sf_protocol f = 3 \<and> sf_extension f \<and> sf_unassigned f \<and>
    list_all id (probe_checks s engine_version f row (takeWhile (\<lambda>c. c \<noteq> CHR '' '') (pb_version row))) \<and>
    verify_required_features f = Inr () \<and>
    ap_evidence p = probe_evidence s engine_version f row (takeWhile (\<lambda>c. c \<noteq> CHR '' '') (pb_version row))"
  using assms
  by (auto simp: probe_def Let_def and_then_success result_simps split: option.splits)

text \<open>The privileges on the tables of the Resources, and the storage that the adapter keeps for itself.\<close>

lemma privileges_parts:
  assumes "validate_table_privileges E s view ps = Inr u"
  shows "(\<forall>l \<in> set (layouts s). layout_privileges E s view ps l = Inr ()) \<and>
    (list_ex is_outbox (layouts s) \<longrightarrow> verify_storage (pv_catalog view) (physical_schema s) = Inr ()) \<and>
    (list_ex (\<lambda>l. r_catalog (l_ref l) = ''evidence'') (layouts s) \<longrightarrow> verify_evidence_replay s (pv_catalog view) = Inr ())"
  using assms traverse_each [of "layout_privileges E s view ps"]
  by (fastforce simp: validate_table_privileges_def and_then_success split: if_splits)


section \<open>Example\<close>

definition fit_server :: server_facts where
  "fit_server =
     \<lparr>sf_protocol = 3, sf_extension = True,
      sf_row = Some \<lparr>pb_version_num = 170002, pb_version = ''17.2 (Debian)'', pb_postgis = ''3.5.0'', pb_database = ''m'',
        pb_recovery = False, pb_isolation = ''read committed'', pb_read_only = ''off''\<rparr>,
      sf_tls = False, sf_standbys = 0, sf_connect = True, sf_usage = True, sf_feature = (\<lambda>_. Some True), sf_unassigned = True\<rparr>"

definition granting_view :: physical_view where
  "granting_view = view_of sample_settings (blind_catalog\<lparr>cv_privilege := (\<lambda>_ _. True)\<rparr>) blank_db"

definition open_sample :: runtime where
  "open_sample = \<lparr>rt_settings = sample_settings, rt_conninfo = ''c'', rt_directory = False, rt_pool = Some 0, rt_opened = True,
     rt_closed = False, rt_made = 1\<rparr>"

definition pinned_create :: create_context where
  "pinned_create = sample_create\<lparr>cc_binding := (sample_binding_of ''server'')\<lparr>rb_version := ''17-postgis-3.5''\<rparr>\<rparr>"


end
