(* ===== verification/Spec2Isabelle.thy ===== *)
theory Spec2Isabelle
  imports OutboxClaims Pagination ExecutionLaws SemanticsLaws ReadyLaws
begin

text \<open>
  The PostgreSQL adapter of Meridian, as definitions translated from
  \<open>src/src/meridian_storage/adapters/postgresql\<close> and theorems about them. File names below are relative to
  that directory.

  \<^bold>\<open>The program.\<close> The adapter executes operations of the Meridian core on one PostgreSQL database with
  PostGIS. A Platform process creates a runtime from a resolved binding (\<open>_runtime.py\<close>), which parses the
  binding's settings (\<open>_settings.py\<close>: the Resources, their fields, tables and scope keys), builds the
  connection options and a pool. A session (\<open>transactions/__init__.py\<close>) takes a connection from the pool,
  inherits a deadline (\<open>_deadline.py\<close>), and runs requests: \<open>_operation.py\<close> admits an operation and
  compiles it, with \<open>query/__init__.py\<close> for queries and \<open>query/dml.py\<close> for mutations, to a statement of
  typed SQL (\<open>query/_sql.py\<close>, \<open>query/_values.py\<close>); driver errors become Meridian errors
  (\<open>_errors.py\<close>). Beside it stand the durable outbox for projections (\<open>projection/\<close>), the Schema
  registry (\<open>schema_registry.py\<close>), the compiler of the physical schema (\<open>schema/__init__.py\<close>), its
  migration and the logical transfer (\<open>migration/__init__.py\<close>), the readiness probe and the read-only
  verification (\<open>probe/__init__.py\<close>), the semantics facade that plans and applies activations
  (\<open>semantics/__init__.py\<close>) and the capability descriptor (\<open>descriptor/__init__.py\<close>).

  \<^bold>\<open>Conventions.\<close> Python values are the datatype \<open>pyval\<close>, dictionaries association lists in insertion
  order, records of the code Isabelle records with the code's field names. A function that may raise returns
  \<open>py_error + 'a\<close>, with the exception class (and the Meridian error code) on the left; messages are not
  modelled. A method that changes state returns its result and the new state. Integers are unbounded, as in
  Python; floats and decimals are exact rationals or one of the three special values, and conversions that
  round are parameters. The source has no fixed-width arithmetic apart from the bounds that it checks itself.

  \<^bold>\<open>Theories.\<close>
  \<^item> \<open>Prelude\<close>: exceptions, results and their sequencing (collection \<open>result_simps\<close>), and the interfaces
    \<open>transactional\<close> (a failure leaves the state), \<open>keyed_table\<close> (upsert of one row), \<open>cas_cell\<close>
    (compare-and-set on revisions). \<open>PyValue\<close>: Python values, equality, dictionaries.
  \<^item> \<open>Settings\<close> (\<open>_settings.py\<close>): the parsers of a binding, with what accepted settings guarantee.
    \<open>Descriptor\<close> (\<open>descriptor/__init__.py\<close>): the advertised constants and the manifest.
  \<^item> \<open>SqlText\<close> (\<open>query/_sql.py\<close>): a composed statement is the list of its leaves (adapter text, quoted
    identifiers, literals, placeholders) with its parameters. \<open>SqlShape\<close>: soundness of such lists and its
    closure under composition. \<open>Values\<close> (\<open>query/_values.py\<close>), \<open>Expressions\<close> (the expression
    compiler of \<open>query/__init__.py\<close>; the locale \<open>statement_closed\<close> lifts a property of leaves to all
    compiled expressions).
  \<^item> \<open>Keyset\<close>, \<open>Translator\<close> (\<open>query/__init__.py\<close>): cursor conditions, scans, searches,
    aggregates, joins, traversals, normalisation of results; \<open>TranslatorLaws\<close>, \<open>Queries\<close>: no injection,
    scope, bounds, what a cursor pins; \<open>Pagination\<close>: following the cursors yields every row once and ends.
  \<^item> \<open>Dml\<close>, \<open>DmlLaws\<close> (\<open>query/dml.py\<close>): get, put, patch, delete, append, atomic claim; no
    injection, scope in every statement.
  \<^item> \<open>Operation\<close>, \<open>OperationLaws\<close> (\<open>_operation.py\<close>): admission and dispatch.
  \<^item> \<open>Deadline\<close> (\<open>_deadline.py\<close>): budgets, the driving of libpq's generators. \<open>PgErrors\<close>
    (\<open>_errors.py\<close>): the SQLSTATE mapping.
  \<^item> \<open>Session\<close> (\<open>transactions/__init__.py\<close>): the session as a state machine with a trace of effects;
    \<open>Execution\<close>, \<open>ExecutionLaws\<close>: one request on the database, evidence appends with replay.
  \<^item> \<open>OutboxStore\<close>, \<open>Outbox\<close> (\<open>projection/_storage.py\<close>, \<open>projection/outbox.py\<close>): the
    tables and methods; \<open>OutboxSafety\<close>, \<open>OutboxSteps\<close>, \<open>OutboxClaims\<close>: the database as a step
    relation of any number of outboxes, its invariants, and the methods as refinements of it under
    interleaved commits.
  \<^item> \<open>Registry\<close>, \<open>RegistryLaws\<close>, \<open>RegistryStore\<close> (\<open>schema_registry.py\<close>): decisions on
    snapshots, their laws, the row and its table.
  \<^item> \<open>SchemaDdl\<close> (\<open>schema/__init__.py\<close>), \<open>Migration\<close> (\<open>migration/__init__.py\<close>), \<open>Probe\<close>
    (\<open>probe/__init__.py\<close>): plan, execution on a model of the server's catalog, verification;
    \<open>SchemaLaws\<close>, \<open>MigrationLaws\<close>: the three agree, migrations are atomic and idempotent, rows survive
    export and import.
  \<^item> \<open>Semantics\<close>, \<open>SemanticsLaws\<close> (\<open>semantics/__init__.py\<close>): activation and transfer envelopes.
  \<^item> \<open>Runtime\<close>, \<open>RuntimeLaws\<close>, \<open>ReadyLaws\<close> (\<open>_runtime.py\<close>): creation, connection options, the
    pool's life, admission, and what a successful probe guarantees.

  \<^bold>\<open>What the properties show.\<close> Isolation: every compiled query and mutation carries the caller's tenant and
  scope on each table it reads or writes, both paths bind the same values, and no input reaches the text of a
  statement. Paging: cursors continue strictly after the last row, for their plan and scope only. Sessions:
  each connection is returned exactly once, the reported commit outcome is the sent one, waits end within the
  budget. Requests: a failure changes nothing (the one exception is stated), a keyed append happens once.
  Outbox: version order, exclusive leases, exact checkpoints in every reachable database. Registry: immutable
  entries, no lost update, verified reads. Schema: what a migration creates is what the probe expects. Runtime:
  pools are the current one or closed, certificates are verified unless TLS is disabled.

  \<^bold>\<open>Bounds and fuel.\<close> All operations are total functions. Only loops that wait on the outside consume a
  script: the acquisition of a connection and the driving of a libpq generator take the list of the answers they
  get, and end with \<open>None\<close> when the list ends first; the theorems on them show that they have ended by the
  entry whose clock has reached the limit, so that no script longer than that is needed. Paging takes a number
  of pages, and the theorem gives one that is enough.

  \<^bold>\<open>Parameters.\<close> Code that is not in the repository is an argument: the core's reference parser and
  fingerprints (\<open>core_api\<close>), conversions of the Python runtime (\<open>texts\<close>), the SPI's parser of filters
  (\<open>dml_env\<close>) and constructors of the query AST (\<open>query_lib\<close>), the cursor signer (\<open>cursor_signer\<close>),
  Schema documents (\<open>schema_lib\<close>, \<open>semantics_lib\<close>), the digest and the driver's quoting
  (\<open>schema_env\<close>), conninfo functions and installed versions (\<open>runtime_lib\<close>). Laws of them that a theorem
  needs are its hypotheses, and its witness has an instance. The server is a parameter of the execution
  (\<open>ex_select\<close>, \<open>ex_mutate\<close>); where the model states what the server does (the rows of the outbox
  and of the registry, the DDL with \<open>IF NOT EXISTS\<close> and 63-byte names) it follows its documentation.

  \<^bold>\<open>Not modelled.\<close> Texts of exceptions; the byte form of JSON (a line of the transfer is its value); the
  interpretation of SQL beyond the places named above; threads: the lock of the runtime makes its operations
  atomic steps, and concurrent transactions of the outbox and registry are interleavings of commits, by the row
  locks the statements take; HMAC and key derivation of cursors; the temporary files of TLS material (their
  presence is); \<open>RecoveryHook\<close> and re-exports, which have no behaviour; scripts, examples, conformance hosts
  and tests of the repository, which are not part of the adapter.
\<close>

end
